(* ===== verification/Prelude.thy ===== *)
theory Prelude
  imports Main "HOL-Library.Word"
begin

text \<open>
  Shared vocabulary of the development.

  \<^item> the machine types of the Rust code (unsigned words of a fixed width, 32-byte arrays);
  \<^item> Rust's checked and saturating arithmetic;
  \<^item> little-endian and array byte encodings, with their injectivity;
  \<^item> the contract monad: a message runs on a state, and either returns a value and the new
    state or is rolled back (it returned \<open>Err e\<close>, or it trapped);
  \<^item> inversion rules for successful and failed runs (collection \<open>run_simps\<close>), and the
    relational reasoning principle \<open>always R m\<close> used for frame properties and invariants.
\<close>

section \<open>Machine types\<close>

type_synonym u8 = "8 word"
type_synonym u32 = "32 word"
type_synonym u64 = "64 word"
type_synonym u128 = "128 word"
type_synonym u256 = "256 word"

text \<open>
  A Rust \<open>[u8; 32]\<close> is read as the 256-bit word whose big-endian bytes are the array
  (a bijection, see \<open>array_bytes\<close> below). \<open>AccountId\<close> wraps such an array, and the
  conversions \<open>.into()\<close> and \<open>.as_ref()\<close> between the two are the identity.
\<close>

type_synonym bytes32 = "256 word"
type_synonym AccountId = "256 word"

section \<open>Rust integer operations\<close>

text \<open>
  \<open>checked_*\<close> return \<open>None\<close> exactly when the mathematical result does not fit the width;
  \<open>saturating_*\<close> clip it. The plain operators of the contracts wrap around, because their
  manifests set \<open>overflow-checks = false\<close>, as \<open>+\<close> and \<open>*\<close> on words do.
\<close>

definition checked_add :: "'a::len word \<Rightarrow> 'a word \<Rightarrow> 'a word option" where
  "checked_add a b = (if unat a + unat b < 2 ^ LENGTH('a) then Some (a + b) else None)"

definition checked_sub :: "'a::len word \<Rightarrow> 'a word \<Rightarrow> 'a word option" where
  "checked_sub a b = (if b \<le> a then Some (a - b) else None)"

definition checked_mul :: "'a::len word \<Rightarrow> 'a word \<Rightarrow> 'a word option" where
  "checked_mul a b = (if unat a * unat b < 2 ^ LENGTH('a) then Some (a * b) else None)"

definition checked_div :: "'a::len word \<Rightarrow> 'a word \<Rightarrow> 'a word option" where
  "checked_div a b = (if b = 0 then None else Some (a div b))"

definition saturating_add :: "'a::len word \<Rightarrow> 'a word \<Rightarrow> 'a word" where
  "saturating_add a b = (if unat a + unat b < 2 ^ LENGTH('a) then a + b else - 1)"

definition saturating_sub :: "'a::len word \<Rightarrow> 'a word \<Rightarrow> 'a word" where
  "saturating_sub a b = (if b \<le> a then a - b else 0)"

definition saturating_mul :: "'a::len word \<Rightarrow> 'a word \<Rightarrow> 'a word" where
  "saturating_mul a b = (if unat a * unat b < 2 ^ LENGTH('a) then a * b else - 1)"

lemma checked_add_SomeD: "checked_add a b = Some c \<Longrightarrow> unat c = unat a + unat b \<and> c = a + b"
  by (auto simp: checked_add_def unat_word_ariths split: if_splits)

lemma checked_add_NoneD:
  "checked_add (a::'a::len word) b = None \<Longrightarrow> 2 ^ LENGTH('a) \<le> unat a + unat b"
  by (auto simp: checked_add_def split: if_splits)

lemma checked_add_1_gt: "checked_add a 1 = Some c \<Longrightarrow> a < c"
  using checked_add_SomeD [of a 1 c] by (cases "LENGTH('a) = 0") (auto simp: word_less_nat_alt)

lemma checked_sub_SomeD: "checked_sub a b = Some c \<Longrightarrow> b \<le> a \<and> c = a - b \<and> unat c = unat a - unat b"
  by (auto simp: checked_sub_def unat_sub split: if_splits)

lemma checked_mul_SomeD: "checked_mul a b = Some c \<Longrightarrow> unat c = unat a * unat b \<and> c = a * b"
  by (auto simp: checked_mul_def unat_word_ariths split: if_splits)

lemma checked_div_SomeD: "checked_div a b = Some c \<Longrightarrow> b \<noteq> 0 \<and> c = a div b \<and> unat c = unat a div unat b"
  by (auto simp: checked_div_def unat_div split: if_splits)

lemma saturating_sub_unat: "unat (saturating_sub a b) = unat a - unat b"
  by (auto simp: saturating_sub_def unat_sub word_le_nat_alt)

lemma unat_word_max: "unat (- 1 :: 'a::len word) = 2 ^ LENGTH('a) - 1"
  by (simp add: unat_eq_nat_uint unsigned_minus_1_eq_mask mask_eq_exp_minus_1 nat_diff_distrib nat_power_eq)

lemma unat_of_nat_small: "n < 2 ^ LENGTH('a) \<Longrightarrow> unat (of_nat n :: 'a::len word) = n"
  by (simp add: unat_of_nat)

lemma unat_add_1: "x \<noteq> - 1 \<Longrightarrow> unat (x + 1 :: 'a::len word) = Suc (unat x)"
  by (metis add.commute add_eq_0_iff2 unatSuc)

lemma saturating_mul_unat:
  "unat (saturating_mul (a::'a::len word) b) = min (unat a * unat b) (2 ^ LENGTH('a) - 1)"
  by (auto simp: saturating_mul_def unat_word_ariths unat_word_max)

lemma saturating_add_unat:
  "unat (saturating_add (a::'a::len word) b) = min (unat a + unat b) (2 ^ LENGTH('a) - 1)"
  by (auto simp: saturating_add_def unat_word_ariths unat_word_max)

section \<open>Lists\<close>

lemma count_list_distinct: "distinct xs \<Longrightarrow> count_list xs x = (if x \<in> set xs then 1 else 0)"
  by (induction xs) auto

section \<open>Byte encodings\<close>

text \<open>The \<open>n\<close> low-order bytes of a word, least significant byte first.\<close>

definition le_bytes :: "nat \<Rightarrow> 'a::len word \<Rightarrow> u8 list" where
  "le_bytes n x = map (\<lambda>i. ucast (drop_bit (8 * i) x)) [0..<n]"

text \<open>\<open>u128::to_le_bytes\<close> and the bytes of a \<open>[u8; 32]\<close> in array order.\<close>

definition to_le_bytes :: "u128 \<Rightarrow> u8 list" where
  "to_le_bytes x = le_bytes 16 x"

definition array_bytes :: "bytes32 \<Rightarrow> u8 list" where
  "array_bytes x = rev (le_bytes 32 x)"

lemma length_le_bytes [simp]: "length (le_bytes n x) = n"
  by (simp add: le_bytes_def)

lemma length_to_le_bytes [simp]: "length (to_le_bytes x) = 16"
  by (simp add: to_le_bytes_def)

lemma length_array_bytes [simp]: "length (array_bytes x) = 32"
  by (simp add: array_bytes_def)

lemma bit_le_bytes:
  assumes "k < 8 * n"
  shows "bit (le_bytes n x ! (k div 8)) (k mod 8) \<longleftrightarrow> bit x k"
proof -
  have "k div 8 < n" using assms by (simp add: less_mult_imp_div_less mult.commute)
  moreover have "8 * (k div 8) + k mod 8 = k" by simp
  moreover have "k mod 8 < LENGTH(8)" by simp
  ultimately show ?thesis
    by (auto simp: le_bytes_def bit_ucast_iff bit_drop_bit_eq add.commute simp del: len_num1 len_bit0)
qed

lemma le_bytes_inject:
  fixes x y :: "'a::len word"
  assumes len: "LENGTH('a) \<le> 8 * n" and eq: "le_bytes n x = le_bytes n y"
  shows "x = y"
proof (rule bit_word_eqI)
  fix k assume "k < LENGTH('a)"
  with len have "k < 8 * n" by simp
  from bit_le_bytes [OF this, of x] bit_le_bytes [OF this, of y] eq
  show "bit x k \<longleftrightarrow> bit y k" by simp
qed

lemma to_le_bytes_inject [simp]: "to_le_bytes x = to_le_bytes y \<longleftrightarrow> x = y"
  by (auto simp: to_le_bytes_def intro: le_bytes_inject [of 16])

lemma array_bytes_inject [simp]: "array_bytes x = array_bytes y \<longleftrightarrow> x = y"
  by (auto simp: array_bytes_def intro: le_bytes_inject [of 32])

text \<open>The number with the given bytes, least significant byte first.\<close>

primrec le_word :: "u8 list \<Rightarrow> 'a::len word" where
  "le_word [] = 0"
| "le_word (b # bs) = or (ucast b) (push_bit 8 (le_word bs))"

lemma bit_le_word:
  "k < LENGTH('a) \<Longrightarrow> bit (le_word bs :: 'a::len word) k \<longleftrightarrow> k div 8 < length bs \<and> bit (bs ! (k div 8)) (k mod 8)"
proof (induction bs arbitrary: k)
  case (Cons b bs)
  show ?case
  proof (cases "k < 8")
    case True
    with Cons.prems show ?thesis by (simp add: bit_or_iff bit_ucast_iff bit_push_bit_iff)
  next
    case False
    then have "k div 8 = Suc ((k - 8) div 8)" "k mod 8 = (k - 8) mod 8"
      by (simp_all add: div_if [of k] mod_if [of k])
    moreover have "\<not> bit b k" using False by (auto dest: bit_imp_le_length)
    ultimately show ?thesis
      using Cons.IH [of "k - 8"] Cons.prems False by (simp add: bit_or_iff bit_ucast_iff bit_push_bit_iff)
  qed
qed simp

lemma le_word_le_bytes:
  assumes "LENGTH('b) \<le> 8 * n"
  shows "le_word (le_bytes n x) = (ucast (x::'b::len word) :: 'a::len word)"
proof (rule bit_word_eqI)
  fix k assume k: "k < LENGTH('a)"
  show "bit (le_word (le_bytes n x) :: 'a word) k \<longleftrightarrow> bit (ucast x :: 'a word) k"
  proof (cases "k < 8 * n")
    case True
    then have "k div 8 < n" by (simp add: less_mult_imp_div_less mult.commute)
    with True k show ?thesis by (simp add: bit_le_word bit_le_bytes bit_ucast_iff)
  next
    case False
    then have "\<not> k div 8 < n" by (simp add: less_mult_imp_div_less div_less_iff_less_mult mult.commute)
    moreover have "\<not> bit x k" using False assms by (auto dest: bit_imp_le_length)
    ultimately show ?thesis using k by (simp add: bit_le_word bit_ucast_iff)
  qed
qed
section \<open>The contract monad\<close>

text \<open>
  The outcome of a message that is rolled back: \<open>Err e\<close> is the \<open>Result::Err\<close> it returned
  (ink! reverts the transaction then), \<open>Trap\<close> a panic.
\<close>

datatype 'e fault = Err 'e | Trap

type_synonym ('s, 'e, 'a) contract = "'s \<Rightarrow> 'e fault + 'a \<times> 's"

definition ret :: "'a \<Rightarrow> ('s, 'e, 'a) contract" where
  "ret x s = Inr (x, s)"

definition throw :: "'e \<Rightarrow> ('s, 'e, 'a) contract" where
  "throw e s = Inl (Err e)"

definition trap :: "('s, 'e, 'a) contract" where
  "trap s = Inl Trap"

definition andThen :: "('s, 'e, 'a) contract \<Rightarrow> ('a \<Rightarrow> ('s, 'e, 'b) contract) \<Rightarrow> ('s, 'e, 'b) contract" where
  "andThen m f s = (case m s of Inl e \<Rightarrow> Inl e | Inr (x, s') \<Rightarrow> f x s')"

definition gets :: "('s \<Rightarrow> 'a) \<Rightarrow> ('s, 'e, 'a) contract" where
  "gets f s = Inr (f s, s)"

definition modify :: "('s \<Rightarrow> 's) \<Rightarrow> ('s, 'e, unit) contract" where
  "modify f s = Inr ((), f s)"

text \<open>\<open>ok_or(e)?\<close>, \<open>Result?\<close>, \<open>if !b { return Err(e) }\<close>, and \<open>?\<close> with a \<open>From\<close> conversion.\<close>

definition ok_or :: "'a option \<Rightarrow> 'e \<Rightarrow> ('s, 'e, 'a) contract" where
  "ok_or v e = (case v of None \<Rightarrow> throw e | Some x \<Rightarrow> ret x)"

definition try_res :: "'e + 'a \<Rightarrow> ('s, 'e, 'a) contract" where
  "try_res r = (case r of Inl e \<Rightarrow> throw e | Inr x \<Rightarrow> ret x)"

definition ensure :: "bool \<Rightarrow> 'e \<Rightarrow> ('s, 'e, unit) contract" where
  "ensure b e = (if b then ret () else throw e)"

definition map_err :: "('e \<Rightarrow> 'f) \<Rightarrow> ('s, 'e, 'a) contract \<Rightarrow> ('s, 'f, 'a) contract" where
  "map_err g m s = (case m s of Inl (Err e) \<Rightarrow> Inl (Err (g e)) | Inl Trap \<Rightarrow> Inl Trap | Inr r \<Rightarrow> Inr r)"

named_theorems run_simps "inversion of successful and failed runs"

lemma run_ret [run_simps]: "ret x s = Inr (y, s') \<longleftrightarrow> y = x \<and> s' = s" "ret x s \<noteq> Inl e"
  by (auto simp: ret_def)

lemma run_throw [run_simps]: "throw e s \<noteq> Inr r" "throw e s = Inl f \<longleftrightarrow> f = Err e"
  by (auto simp: throw_def)

lemma run_trap [run_simps]: "trap s \<noteq> Inr r" "trap s = Inl f \<longleftrightarrow> f = Trap"
  by (auto simp: trap_def)

lemma run_andThen [run_simps]:
  "andThen m f s = Inr (y, s'') \<longleftrightarrow> (\<exists>x s'. m s = Inr (x, s') \<and> f x s' = Inr (y, s''))"
  "andThen m f s = Inl e \<longleftrightarrow> m s = Inl e \<or> (\<exists>x s'. m s = Inr (x, s') \<and> f x s' = Inl e)"
  by (auto simp: andThen_def split: sum.splits)

lemma run_gets [run_simps]: "gets f s = Inr (y, s') \<longleftrightarrow> y = f s \<and> s' = s" "gets f s \<noteq> Inl e"
  by (auto simp: gets_def)

lemma run_modify [run_simps]: "modify f s = Inr (u, s') \<longleftrightarrow> s' = f s" "modify f s \<noteq> Inl e"
  by (auto simp: modify_def)

lemma run_ok_or [run_simps]:
  "ok_or v e s = Inr (x, s') \<longleftrightarrow> v = Some x \<and> s' = s"
  "ok_or v e s = Inl f \<longleftrightarrow> v = None \<and> f = Err e"
  by (auto simp: ok_or_def run_simps split: option.splits)

lemma run_try_res [run_simps]:
  "try_res r s = Inr (x, s') \<longleftrightarrow> r = Inr x \<and> s' = s"
  "try_res r s = Inl f \<longleftrightarrow> (\<exists>e. r = Inl e \<and> f = Err e)"
  by (auto simp: try_res_def run_simps split: sum.splits)

lemma run_ensure [run_simps]:
  "ensure b e s = Inr (x, s') \<longleftrightarrow> b \<and> s' = s"
  "ensure b e s = Inl f \<longleftrightarrow> \<not> b \<and> f = Err e"
  by (auto simp: ensure_def run_simps)

lemma run_map_err [run_simps]:
  "map_err g m s = Inr r \<longleftrightarrow> m s = Inr r"
  "map_err g m s = Inl f \<longleftrightarrow> (\<exists>e. m s = Inl (Err e) \<and> f = Err (g e)) \<or> m s = Inl Trap \<and> f = Trap"
  by (auto simp: map_err_def split: sum.splits fault.splits)

lemma run_if [run_simps]:
  "((if b then m else n) s = Inr r) \<longleftrightarrow> (if b then m s = Inr r else n s = Inr r)"
  "((if b then m else n) s = Inl e) \<longleftrightarrow> (if b then m s = Inl e else n s = Inl e)"
  by simp_all

text \<open>Evaluation rules: with them \<open>simp\<close> runs a message on a concrete state.\<close>

lemmas eval_simps = ret_def throw_def trap_def andThen_def gets_def modify_def ok_or_def
  try_res_def ensure_def map_err_def

section \<open>Relations between the states before and after a run\<close>

text \<open>
  \<open>always R m\<close>: every successful run of \<open>m\<close> relates its first and its last state by \<open>R\<close>.
  For a reflexive and transitive \<open>R\<close> (a frame condition, a monotonicity property, the
  preservation of an invariant) this follows the structure of \<open>m\<close>; the locale below collects
  the rules, and every such relation of the components is an interpretation of it.
\<close>

definition always :: "('s \<Rightarrow> 's \<Rightarrow> bool) \<Rightarrow> ('s, 'e, 'a) contract \<Rightarrow> bool" where
  "always R m \<longleftrightarrow> (\<forall>s x s'. m s = Inr (x, s') \<longrightarrow> R s s')"

lemma alwaysD: "always R m \<Longrightarrow> m s = Inr (x, s') \<Longrightarrow> R s s'"
  by (auto simp: always_def)

lemma alwaysI: "(\<And>s x s'. m s = Inr (x, s') \<Longrightarrow> R s s') \<Longrightarrow> always R m"
  by (auto simp: always_def)

locale state_relation =
  fixes R :: "'s \<Rightarrow> 's \<Rightarrow> bool"
  assumes rel_refl: "R s s"
    and rel_trans: "R s s' \<Longrightarrow> R s' s'' \<Longrightarrow> R s s''"
begin

lemma always_ret: "always R (ret x)"
  by (auto simp: always_def run_simps rel_refl)

lemma always_throw: "always R (throw e)"
  by (auto simp: always_def run_simps)

lemma always_trap: "always R trap"
  by (auto simp: always_def run_simps)

lemma always_gets: "always R (gets f)"
  by (auto simp: always_def run_simps rel_refl)

lemma always_ok_or: "always R (ok_or v e)"
  by (auto simp: always_def run_simps rel_refl)

lemma always_try_res: "always R (try_res r)"
  by (auto simp: always_def run_simps rel_refl)

lemma always_ensure: "always R (ensure b e)"
  by (auto simp: always_def run_simps rel_refl)

lemma always_same: "(\<And>s x s'. m s = Inr (x, s') \<Longrightarrow> s' = s) \<Longrightarrow> always R m"
  using rel_refl by (fastforce simp: always_def)

lemma always_modify: "(\<And>s. R s (f s)) \<Longrightarrow> always R (modify f)"
  by (auto simp: always_def run_simps)

lemma always_andThen: "always R m \<Longrightarrow> (\<And>x. always R (f x)) \<Longrightarrow> always R (andThen m f)"
  unfolding always_def run_simps by (blast intro: rel_trans)

lemma always_map_err: "always R m \<Longrightarrow> always R (map_err g m)"
  by (auto simp: always_def run_simps)

lemma always_if: "(b \<Longrightarrow> always R m) \<Longrightarrow> (\<not> b \<Longrightarrow> always R n) \<Longrightarrow> always R (if b then m else n)"
  by auto

lemma always_option: "(v = None \<Longrightarrow> always R m) \<Longrightarrow> (\<And>x. v = Some x \<Longrightarrow> always R (n x)) \<Longrightarrow>
    always R (case v of None \<Rightarrow> m | Some x \<Rightarrow> n x)"
  by (cases v) auto

lemmas always_rules = always_ret always_throw always_trap always_gets always_ok_or always_try_res
  always_ensure always_andThen always_map_err always_if always_option

end

end
