(* ===== verification/Ink_Env.thy ===== *)
theory Ink_Env
  imports Prelude
begin

text \<open>
  The environment an ink! message runs in. The contract's own storage, the rest of the chain
  (\<open>world\<close>, an abstract type: native balances and the state of every other contract) and the
  events emitted so far form the context a message transforms. Everything the contracts call
  but whose code is not in the repository (the pallet's native transfers and code upgrade, the
  PSP22 tokens and wrapped AZERO at the configured addresses, the hash function) is the record
  \<open>chain\<close> of functions on the world, an argument of the messages that call it. The pallet
  refuses reentrant calls, so an external call never changes the storage of its caller: that is
  why these functions act on the world only.
\<close>

section \<open>Errors of the PSP22 interface\<close>

text \<open>
  \<open>psp22::PSP22Error\<close>. The sources build \<open>Custom\<close> and mention \<open>InsufficientBalance\<close>; every
  other variant is only passed on, and is carried by the last constructor as its Debug text.
\<close>

datatype PSP22Error = PSP22_Custom string | InsufficientBalance | PSP22_Other string

section \<open>Calls and contexts\<close>

record call_env =
  caller :: AccountId
  transferred_value :: u128
  block_timestamp :: u64
  account_id :: AccountId

record ('st, 'ev, 'w) ctx =
  storage :: 'st
  world :: 'w
  events :: "'ev list"

text \<open>Updates of different components of a context in a fixed order: storage, world, events.\<close>

lemma ctx_update_order [simp]:
  "storage_update f (events_update g s) = events_update g (storage_update f s)"
  "storage_update f (world_update h s) = world_update h (storage_update f s)"
  "world_update h (events_update g s) = events_update g (world_update h s)"
  by simp_all

text \<open>
  The functions take the address of the calling contract first. A PSP22 call returns the new
  world, or the error the token returned, or traps (\<open>.invoke()\<close> panics when the call itself
  fails). A failed native transfer carries the Debug text of the environment error. Queries
  (\<open>minter\<close>, \<open>get_price\<close>, both \<open>&self\<close> messages) read the world; \<open>None\<close> is a failed call.
\<close>

record 'w chain =
  native_transfer :: "AccountId \<Rightarrow> AccountId \<Rightarrow> u128 \<Rightarrow> 'w \<Rightarrow> string + 'w"
  psp22_transfer :: "AccountId \<Rightarrow> AccountId \<Rightarrow> AccountId \<Rightarrow> u128 \<Rightarrow> 'w \<Rightarrow> PSP22Error fault + 'w"
  psp22_transfer_from ::
    "AccountId \<Rightarrow> AccountId \<Rightarrow> AccountId \<Rightarrow> AccountId \<Rightarrow> u128 \<Rightarrow> 'w \<Rightarrow> PSP22Error fault + 'w"
  mintable_mint :: "AccountId \<Rightarrow> AccountId \<Rightarrow> AccountId \<Rightarrow> u128 \<Rightarrow> 'w \<Rightarrow> PSP22Error fault + 'w"
  mintable_minter :: "AccountId \<Rightarrow> 'w \<Rightarrow> AccountId option"
  burnable_burn :: "AccountId \<Rightarrow> AccountId \<Rightarrow> u128 \<Rightarrow> 'w \<Rightarrow> PSP22Error fault + 'w"
  wazero_deposit :: "AccountId \<Rightarrow> AccountId \<Rightarrow> u128 \<Rightarrow> 'w \<Rightarrow> PSP22Error fault + 'w"
  wazero_withdraw :: "AccountId \<Rightarrow> AccountId \<Rightarrow> u128 \<Rightarrow> 'w \<Rightarrow> PSP22Error fault + 'w"
  oracle_get_price :: "AccountId \<Rightarrow> u64 \<Rightarrow> 'w \<Rightarrow> (u128 \<times> u64) option"
  set_code_hash :: "AccountId \<Rightarrow> bytes32 \<Rightarrow> 'w \<Rightarrow> string + 'w"
  chain_keccak256 :: "u8 list \<Rightarrow> bytes32"

definition emit_event :: "'ev \<Rightarrow> (('st, 'ev, 'w) ctx, 'e, unit) contract" where
  "emit_event e = modify (\<lambda>s. s\<lparr>events := events s @ [e]\<rparr>)"

definition put_storage :: "('st \<Rightarrow> 'st) \<Rightarrow> (('st, 'ev, 'w) ctx, 'e, unit) contract" where
  "put_storage f = modify (\<lambda>s. s\<lparr>storage := f (storage s)\<rparr>)"

definition call_world :: "('w \<Rightarrow> 'e fault + 'w) \<Rightarrow> (('st, 'ev, 'w) ctx, 'e, unit) contract" where
  "call_world f s = (case f (world s) of Inl e \<Rightarrow> Inl e | Inr w \<Rightarrow> Inr ((), s\<lparr>world := w\<rparr>))"

text \<open>Environment calls (\<open>env().transfer\<close>, \<open>set_code_hash\<close>) return an error value.\<close>

definition call_env_fn :: "('w \<Rightarrow> string + 'w) \<Rightarrow> (('st, 'ev, 'w) ctx, string, unit) contract" where
  "call_env_fn f s = (case f (world s) of Inl e \<Rightarrow> Inl (Err e) | Inr w \<Rightarrow> Inr ((), s\<lparr>world := w\<rparr>))"

definition env_transfer ::
  "'w chain \<Rightarrow> call_env \<Rightarrow> AccountId \<Rightarrow> u128 \<Rightarrow> (('st, 'ev, 'w) ctx, string, unit) contract" where
  "env_transfer ch env to amount = call_env_fn (native_transfer ch (account_id env) to amount)"

lemma run_emit_event [run_simps]:
  "emit_event e s = Inr (u, s') \<longleftrightarrow> s' = s\<lparr>events := events s @ [e]\<rparr>" "emit_event e s \<noteq> Inl f"
  by (auto simp: emit_event_def run_simps)

lemma run_put_storage [run_simps]:
  "put_storage f s = Inr (u, s') \<longleftrightarrow> s' = s\<lparr>storage := f (storage s)\<rparr>" "put_storage f s \<noteq> Inl e"
  by (auto simp: put_storage_def run_simps)

lemma run_call_world [run_simps]:
  "call_world f s = Inr (u, s') \<longleftrightarrow> (\<exists>w. f (world s) = Inr w \<and> s' = s\<lparr>world := w\<rparr>)"
  "call_world f s = Inl e \<longleftrightarrow> f (world s) = Inl e"
  by (auto simp: call_world_def split: sum.splits)

lemma run_call_env_fn [run_simps]:
  "call_env_fn f s = Inr (u, s') \<longleftrightarrow> (\<exists>w. f (world s) = Inr w \<and> s' = s\<lparr>world := w\<rparr>)"
  "call_env_fn f s = Inl g \<longleftrightarrow> (\<exists>e. f (world s) = Inl e \<and> g = Err e)"
  by (auto simp: call_env_fn_def split: sum.splits)

lemma run_env_transfer [run_simps]:
  "env_transfer ch env to a s = Inr (u, s') \<longleftrightarrow>
     (\<exists>w. native_transfer ch (account_id env) to a (world s) = Inr w \<and> s' = s\<lparr>world := w\<rparr>)"
  "env_transfer ch env to a s = Inl g \<longleftrightarrow>
     (\<exists>e. native_transfer ch (account_id env) to a (world s) = Inl e \<and> g = Err e)"
  by (auto simp: env_transfer_def run_simps)

lemmas env_eval_simps = eval_simps emit_event_def put_storage_def call_world_def call_env_fn_def
  env_transfer_def

text \<open>
  A message that is not declared \<open>payable\<close> traps when value is transferred to it
  (\<open>deny_payment\<close> in the dispatcher that ink! generates).
\<close>

definition deny_payment :: "call_env \<Rightarrow> ('s, 'e, unit) contract" where
  "deny_payment env = (if transferred_value env = 0 then ret () else trap)"

lemma run_deny_payment [run_simps]:
  "deny_payment env s = Inr (u, s') \<longleftrightarrow> transferred_value env = 0 \<and> s' = s"
  "deny_payment env s = Inl e \<longleftrightarrow> transferred_value env \<noteq> 0 \<and> e = Trap"
  by (auto simp: deny_payment_def run_simps)

end
