(* ===== verification/Ownable2Step.thy ===== *)
theory Ownable2Step
  imports Prelude
begin

text \<open>
  The crate \<open>azero/contracts/ownable2step\<close>: the two-step ownership data shared by the
  contracts, and the trait \<open>Ownable2Step\<close> that they implement. The trait is the locale
  \<open>ownable2step\<close>: its laws are what the contracts' owner-only messages rely on, its lemmas
  (a handover needs both steps, in order) are proved once, and every contract of the
  development that implements the trait interprets it.
\<close>

section \<open>Ownable2StepData\<close>

datatype Ownable2StepError =
    CallerNotOwner AccountId
  | CallerNotPendingOwner AccountId
  | NoPendingOwner
  | Custom string

record Ownable2StepData =
  owner :: AccountId
  pending_owner :: "AccountId option"

definition ownable_new :: "AccountId \<Rightarrow> Ownable2StepData" where
  "ownable_new o' = \<lparr>owner = o', pending_owner = None\<rparr>"

definition ownable_ensure_owner :: "Ownable2StepData \<Rightarrow> AccountId \<Rightarrow> Ownable2StepError + unit" where
  "ownable_ensure_owner d caller =
     (if caller \<noteq> owner d then Inl (CallerNotOwner caller) else Inr ())"

definition ownable_transfer_ownership ::
  "Ownable2StepData \<Rightarrow> AccountId \<Rightarrow> AccountId \<Rightarrow> Ownable2StepError + Ownable2StepData" where
  "ownable_transfer_ownership d caller new_owner =
     (case ownable_ensure_owner d caller of
        Inl e \<Rightarrow> Inl e
      | Inr _ \<Rightarrow> Inr (d\<lparr>pending_owner := Some new_owner\<rparr>))"

definition ownable_accept_ownership ::
  "Ownable2StepData \<Rightarrow> AccountId \<Rightarrow> Ownable2StepError + Ownable2StepData" where
  "ownable_accept_ownership d caller =
     (case pending_owner d of
        None \<Rightarrow> Inl NoPendingOwner
      | Some p \<Rightarrow>
          if caller \<noteq> p then Inl (CallerNotPendingOwner caller)
          else Inr (d\<lparr>owner := p, pending_owner := None\<rparr>))"

definition ownable_get_owner :: "Ownable2StepData \<Rightarrow> Ownable2StepError + AccountId" where
  "ownable_get_owner d = Inr (owner d)"

definition ownable_get_pending_owner :: "Ownable2StepData \<Rightarrow> Ownable2StepError + AccountId" where
  "ownable_get_pending_owner d =
     (case pending_owner d of None \<Rightarrow> Inl NoPendingOwner | Some p \<Rightarrow> Inr p)"

lemmas ownable_defs = ownable_new_def ownable_ensure_owner_def ownable_transfer_ownership_def
  ownable_accept_ownership_def ownable_get_owner_def ownable_get_pending_owner_def

lemma ownable_ensure_owner_ok [simp]:
  "ownable_ensure_owner d c = Inr u \<longleftrightarrow> c = owner d"
  "ownable_ensure_owner d c = Inl e \<longleftrightarrow> c \<noteq> owner d \<and> e = CallerNotOwner c"
  by (auto simp: ownable_defs)

lemma ownable_transfer_ownership_ok [simp]:
  "ownable_transfer_ownership d c n = Inr d' \<longleftrightarrow> c = owner d \<and> d' = d\<lparr>pending_owner := Some n\<rparr>"
  by (auto simp: ownable_defs)

lemma ownable_accept_ownership_ok [simp]:
  "ownable_accept_ownership d c = Inr d' \<longleftrightarrow>
     pending_owner d = Some c \<and> d' = d\<lparr>owner := c, pending_owner := None\<rparr>"
  by (auto simp: ownable_defs split: option.splits)

section \<open>The trait\<close>

text \<open>
  The calls of the trait that write, and their effect on the ownership data when a refused
  call leaves the data as it is.
\<close>

datatype own_call = Transfer AccountId AccountId | Accept AccountId

fun own_upd :: "own_call \<Rightarrow> Ownable2StepData \<Rightarrow> Ownable2StepData" where
  "own_upd (Transfer c n) d = (if c = owner d then d\<lparr>pending_owner := Some n\<rparr> else d)"
| "own_upd (Accept c) d =
     (if pending_owner d = Some c then d\<lparr>owner := c, pending_owner := None\<rparr> else d)"

lemma own_upd_needs_accept:
  "owner (fold own_upd cs d) \<noteq> owner d \<Longrightarrow>
     \<exists>ys zs. cs = ys @ Accept (owner (fold own_upd cs d)) # zs"
proof (induction cs arbitrary: d)
  case (Cons k cs)
  show ?case
  proof (cases "owner (fold own_upd cs (own_upd k d)) = owner (own_upd k d)")
    case True
    with Cons.prems have "k = Accept (owner (fold own_upd (k # cs) d))"
      by (cases k) (auto split: if_splits)
    then have "k # cs = [] @ Accept (owner (fold own_upd (k # cs) d)) # cs" by simp
    then show ?thesis by blast
  next
    case False
    then obtain ys zs where "cs = ys @ Accept (owner (fold own_upd cs (own_upd k d))) # zs"
      using Cons.IH by blast
    then have "k # cs = (k # ys) @ Accept (owner (fold own_upd (k # cs) d)) # zs" by simp
    then show ?thesis by blast
  qed
qed simp

lemma own_upd_needs_both:
  assumes "owner (fold own_upd cs d) = w" "w \<noteq> owner d" "pending_owner d \<noteq> Some w"
  shows "\<exists>xs c ys zs. cs = xs @ Transfer c w # ys @ Accept w # zs"
  using assms
proof (induction cs arbitrary: d)
  case (Cons k cs)
  show ?case
  proof (cases "pending_owner (own_upd k d) = Some w")
    case True
    with Cons.prems(3) have k: "k = Transfer (owner d) w" "owner (own_upd k d) = owner d"
      by (cases k; auto split: if_splits)+
    then obtain ys zs where "cs = ys @ Accept w # zs"
      using own_upd_needs_accept [of cs "own_upd k d"] Cons.prems by auto
    with k(1) have "k # cs = [] @ Transfer (owner d) w # ys @ Accept w # zs" by simp
    then show ?thesis by blast
  next
    case False
    moreover have "w \<noteq> owner (own_upd k d)"
      using Cons.prems(2,3) by (cases k) (auto split: if_splits)
    ultimately obtain xs c ys zs where "cs = xs @ Transfer c w # ys @ Accept w # zs"
      using Cons.IH [of "own_upd k d"] Cons.prems(1) by auto
    then have "k # cs = (k # xs) @ Transfer c w # ys @ Accept w # zs" by simp
    then show ?thesis by blast
  qed
qed simp

locale ownable2step =
  fixes own :: "'s \<Rightarrow> Ownable2StepData option"
    and transfer_ownership :: "AccountId \<Rightarrow> AccountId \<Rightarrow> ('s, Ownable2StepError, unit) contract"
    and accept_ownership :: "AccountId \<Rightarrow> ('s, Ownable2StepError, unit) contract"
    and ensure_owner :: "AccountId \<Rightarrow> ('s, Ownable2StepError, unit) contract"
  assumes transfer_ok:
      "own s = Some d \<Longrightarrow> owner d = c \<Longrightarrow>
        \<exists>s'. transfer_ownership c n s = Inr ((), s') \<and> own s' = Some (d\<lparr>pending_owner := Some n\<rparr>)"
    and transfer_err: "own s = Some d \<Longrightarrow> owner d \<noteq> c \<Longrightarrow>
        transfer_ownership c n s = Inl (Err (CallerNotOwner c))"
    and accept_ok:
      "own s = Some d \<Longrightarrow> pending_owner d = Some c \<Longrightarrow>
        \<exists>s'. accept_ownership c s = Inr ((), s') \<and>
          own s' = Some (d\<lparr>owner := c, pending_owner := None\<rparr>)"
    and accept_err: "own s = Some d \<Longrightarrow> pending_owner d \<noteq> Some c \<Longrightarrow> \<exists>e. accept_ownership c s = Inl e"
    and ensure_ok: "own s = Some d \<Longrightarrow> ensure_owner c s = (if owner d = c then Inr ((), s)
        else Inl (Err (CallerNotOwner c)))"
begin

fun own_exec :: "own_call \<Rightarrow> 's \<Rightarrow> 's" where
  "own_exec (Transfer c n) s = (case transfer_ownership c n s of Inl _ \<Rightarrow> s | Inr (_, s') \<Rightarrow> s')"
| "own_exec (Accept c) s = (case accept_ownership c s of Inl _ \<Rightarrow> s | Inr (_, s') \<Rightarrow> s')"

lemma own_exec_upd: "own s = Some d \<Longrightarrow> own (own_exec k s) = Some (own_upd k d)"
proof (cases k)
  case (Transfer c n)
  assume "own s = Some d"
  then show ?thesis
    using transfer_ok [of s d c n] transfer_err [of s d c n] by (auto simp: Transfer)
next
  case (Accept c)
  assume "own s = Some d"
  then show ?thesis
    using accept_ok [of s d c] accept_err [of s d c] by (auto simp: Accept)
qed

lemma own_run_upd: "own s = Some d \<Longrightarrow> own (fold own_exec cs s) = Some (fold own_upd cs d)"
  by (induction cs arbitrary: s d) (auto simp: own_exec_upd simp del: own_exec.simps own_upd.simps)

text \<open>The owner's handover: after both steps the new owner, and nobody else, is the owner.\<close>

lemma ensure_after_handover:
  assumes "own s = Some d" "owner d = a"
  shows "ensure_owner c (fold own_exec [Transfer a b, Accept b] s) =
    (if b = c then Inr ((), fold own_exec [Transfer a b, Accept b] s) else Inl (Err (CallerNotOwner c)))"
proof -
  have "own (fold own_exec [Transfer a b, Accept b] s) = Some (d\<lparr>owner := b, pending_owner := None\<rparr>)"
    using own_run_upd [OF assms(1), of "[Transfer a b, Accept b]"] assms(2) by simp
  from ensure_ok [OF this] show ?thesis by simp
qed

text \<open>
  Whoever is the owner after a run, and was neither owner nor pending owner before it, was
  appointed by a \<open>Transfer\<close> and accepted later in the run.
\<close>

lemma own_run_owner:
  assumes "own s = Some d" "own (fold own_exec cs s) = Some d'"
    and "owner d' \<noteq> owner d" "pending_owner d \<noteq> Some (owner d')"
  shows "\<exists>xs c ys zs. cs = xs @ Transfer c (owner d') # ys @ Accept (owner d') # zs"
  using own_run_upd [OF assms(1), of cs] assms(2-4) own_upd_needs_both [of cs d "owner d'"] by simp

end

text \<open>The data itself, with the field accessors as the state, is the first implementation.\<close>

definition data_transfer_ownership ::
  "AccountId \<Rightarrow> AccountId \<Rightarrow> (Ownable2StepData, Ownable2StepError, unit) contract" where
  "data_transfer_ownership c n =
     andThen (gets id) (\<lambda>d. andThen (try_res (ownable_transfer_ownership d c n)) (\<lambda>d'. modify (\<lambda>_. d')))"

definition data_accept_ownership :: "AccountId \<Rightarrow> (Ownable2StepData, Ownable2StepError, unit) contract" where
  "data_accept_ownership c =
     andThen (gets id) (\<lambda>d. andThen (try_res (ownable_accept_ownership d c)) (\<lambda>d'. modify (\<lambda>_. d')))"

definition data_ensure_owner :: "AccountId \<Rightarrow> (Ownable2StepData, Ownable2StepError, unit) contract" where
  "data_ensure_owner c = andThen (gets id) (\<lambda>d. try_res (ownable_ensure_owner d c))"

interpretation own_data: ownable2step Some data_transfer_ownership data_accept_ownership data_ensure_owner
  by unfold_locales
    (auto simp: data_transfer_ownership_def data_accept_ownership_def data_ensure_owner_def
      eval_simps ownable_defs split: option.splits)

end
