(* ===== verification/Shared_Hash.thy ===== *)
theory Shared_Hash
  imports Prelude
begin

text \<open>
  The crate \<open>azero/contracts/shared\<close>: the request hash that the contract recomputes and the
  relayer computes from the event. The hash function itself (\<open>ink::env::hash_bytes\<close>,
  \<open>ethers::utils::keccak256\<close>) is a parameter; what is proved here is that the byte string
  hashed determines the five fields of the request, so that two different requests share a
  hash only through a collision of the hash function.
\<close>

section \<open>Concatenation\<close>

text \<open>\<open>concat_u8_arrays\<close>, which occurs in \<open>shared/src/helpers.rs\<close> and in the relayer.\<close>

fun concat_u8_loop :: "u8 list \<Rightarrow> u8 list list \<Rightarrow> u8 list" where
  "concat_u8_loop result [] = result"
| "concat_u8_loop result (array # arrays) = concat_u8_loop (result @ array) arrays"

definition concat_u8_arrays :: "u8 list list \<Rightarrow> u8 list" where
  "concat_u8_arrays arrays = concat_u8_loop [] arrays"

lemma concat_u8_loop: "concat_u8_loop r xs = r @ concat xs"
  by (induction xs arbitrary: r) auto

lemma concat_u8_arrays_concat [simp]: "concat_u8_arrays xs = concat xs"
  by (simp add: concat_u8_arrays_def concat_u8_loop)

section \<open>The request hash\<close>

definition request_data :: "u128 \<Rightarrow> bytes32 \<Rightarrow> u128 \<Rightarrow> bytes32 \<Rightarrow> u128 \<Rightarrow> u8 list" where
  "request_data committee_id token_address amount receiver_address request_nonce =
     concat [to_le_bytes committee_id, array_bytes token_address, to_le_bytes amount,
       array_bytes receiver_address, to_le_bytes request_nonce]"

definition hash_request_data ::
  "(u8 list \<Rightarrow> bytes32) \<Rightarrow> u128 \<Rightarrow> bytes32 \<Rightarrow> u128 \<Rightarrow> bytes32 \<Rightarrow> u128 \<Rightarrow> bytes32" where
  "hash_request_data keccak256 committee_id token_address amount receiver_address request_nonce =
     keccak256 (request_data committee_id token_address amount receiver_address request_nonce)"

lemma length_request_data: "length (request_data c t a r n) = 112"
  by (simp add: request_data_def)

lemma request_data_inject [simp]:
  "request_data c t a r n = request_data c' t' a' r' n' \<longleftrightarrow>
     c = c' \<and> t = t' \<and> a = a' \<and> r = r' \<and> n = n'"
  by (simp add: request_data_def)

text \<open>
  C27 (the hash binds the request). Among requests on whose encodings the hash function has no
  collision, two with the same hash agree in their committee, token, amount, receiver and nonce; the encodings
  that are hashed have 112 bytes.
\<close>

theorem hash_binds_request:
  assumes "inj_on k S" "request_data c t a r n \<in> S" "request_data c' t' a' r' n' \<in> S"
  shows "(hash_request_data k c t a r n = hash_request_data k c' t' a' r' n' \<longleftrightarrow>
     (c, t, a, r, n) = (c', t', a', r', n')) \<and> length (request_data c t a r n) = 112"
  using inj_on_eq_iff [OF assms] by (simp add: hash_request_data_def length_request_data)

theorem hash_binds_request_witness:
  "let k = (\<lambda>bs. if bs = request_data 0 1 10 2 0 then 1 else 2 :: bytes32) in
   hash_request_data k 0 1 10 2 0 \<noteq> hash_request_data k 0 1 10 2 1"
  using hash_binds_request [of "\<lambda>bs. if bs = request_data 0 1 10 2 0 then 1 else 2"
      "{request_data 0 1 10 2 0, request_data 0 1 10 2 1}" 0 1 10 2 0 0 1 10 2 1]
  by simp

end
