(* ===== verification/Most_State.thy ===== *)
theory Most_State
  imports Ink_Env Ownable2Step Shared_Hash
begin

text \<open>
  The Aleph Zero bridge contract \<open>azero/contracts/most/lib.rs\<close>, first part: constants, events,
  errors, the storage, the constructor, the access checks, the read-only messages and the fee
  computation. An ink! \<open>Mapping\<close> or \<open>Lazy\<close> is a handle on a fixed storage key: reading an
  absent cell gives \<open>None\<close>, and \<open>Mapping::new()\<close> clears nothing. A \<open>Mapping<K, ()>\<close> is the
  set of its keys.
\<close>

section \<open>Constants, events, errors\<close>

type_synonym CommitteeId = u128
type_synonym HashedRequest = bytes32

definition ZERO_ADDRESS :: bytes32 where
  "ZERO_ADDRESS = 0"

definition NATIVE_MARKER_ADDRESS :: bytes32 where
  "NATIVE_MARKER_ADDRESS = 0"

definition RATIO :: u128 where
  "RATIO = 1000000"

text \<open>
  The arguments are the fields of the Rust structs, in their order; the suffix of
  \<open>RequestAlreadySigned_event\<close> separates it from the error of the same name.
\<close>

datatype most_event =
    CrosschainTransferRequest CommitteeId bytes32 u128 bytes32 u128
  | RequestProcessed HashedRequest bytes32
  | RequestSigned HashedRequest AccountId
  | HaltedStateChanged bool bool AccountId
  | SignedProcessedRequest HashedRequest AccountId
  | TransferOwnershipInitiated AccountId
  | TransferOwnershipAccepted AccountId
  | RequestAlreadySigned_event HashedRequest AccountId
  | PayoutAccountSet AccountId AccountId

record Request =
  signature_count :: u128

datatype RequestStatus = Pending u32 | Processed | RequestHashNotKnown

datatype MostError =
    Constructor
  | InvalidThreshold
  | DuplicateCommitteeMember
  | ZeroTransferAmount
  | NotInCommittee
  | NoSuchCommittee
  | HashDoesNotMatchData
  | PSP22 PSP22Error
  | Ownable Ownable2StepError
  | UnsupportedPair
  | InkEnvError string
  | RequestAlreadySigned
  | BaseFeeTooLow
  | Arithmetic
  | CorruptedStorage
  | IsHalted
  | HaltRequired
  | NoMintPermission
  | ZeroAddress
  | WrappedEthNotSet
  | WrappedAzeroNotSet
  | ValueTransferredLowerThanAmount
  | Other

section \<open>Storage\<close>

record Data =
  d_request_nonce :: u128
  d_committee_id :: CommitteeId
  d_max_pocket_money :: u128
  d_pocket_money_balance :: u128
  d_relay_gas_usage :: u128
  d_min_gas_price :: u128
  d_max_gas_price :: u128
  d_default_gas_price :: u128
  d_gas_oracle_max_age :: u64
  d_oracle_call_gas_limit :: u64
  d_base_fee_buffer_percentage :: u128
  d_gas_price_oracle :: "AccountId option"
  d_is_halted :: bool

record Most =
  m_data :: "Data option"
  m_ownable_data :: "Ownable2StepData option"
  m_pending_requests :: "HashedRequest \<Rightarrow> Request option"
  m_signatures :: "(HashedRequest \<times> AccountId) set"
  m_processed_requests :: "HashedRequest set"
  m_committees :: "(CommitteeId \<times> AccountId) set"
  m_committee_sizes :: "CommitteeId \<Rightarrow> u128 option"
  m_signature_thresholds :: "CommitteeId \<Rightarrow> u128 option"
  m_supported_pairs :: "bytes32 \<Rightarrow> bytes32 option"
  m_collected_committee_rewards :: "CommitteeId \<Rightarrow> u128 option"
  m_paid_out_member_rewards :: "AccountId \<times> CommitteeId \<Rightarrow> u128 option"
  m_payout_accounts :: "AccountId \<Rightarrow> AccountId option"
  m_weth :: "AccountId option"
  m_local_token :: "AccountId set"
  m_wazero :: "AccountId option"
  m_eth_transfer_gas_usage :: "u128 option"

type_synonym 'w most_ctx = "(Most, most_event, 'w) ctx"
type_synonym ('w, 'a) most_message = "('w most_ctx, MostError, 'a) contract"

section \<open>Committee check and constructor\<close>

text \<open>The inner loop (\<open>j\<close> from \<open>i + 1\<close>) and the outer loop (\<open>i\<close>) of the duplicate search.\<close>

fun occurs_later :: "AccountId \<Rightarrow> AccountId list \<Rightarrow> bool" where
  "occurs_later x [] = False"
| "occurs_later x (y # ys) = (if x = y then True else occurs_later x ys)"

fun has_duplicate :: "AccountId list \<Rightarrow> bool" where
  "has_duplicate [] = False"
| "has_duplicate (x # xs) = (if occurs_later x xs then True else has_duplicate xs)"

text \<open>
  \<open>threshold as usize\<close> keeps the low 32 bits: the contract runs on \<open>wasm32\<close>. A vector's
  length always fits a \<open>usize\<close>.
\<close>

definition check_committee :: "AccountId list \<Rightarrow> u128 \<Rightarrow> MostError + unit" where
  "check_committee committee threshold =
     (if threshold = 0 \<or> length committee < unat (ucast threshold :: u32) then Inl InvalidThreshold
      else if has_duplicate committee then Inl DuplicateCommitteeMember
      else Inr ())"

definition most_new ::
  "AccountId list \<Rightarrow> u128 \<Rightarrow> u128 \<Rightarrow> u128 \<Rightarrow> u128 \<Rightarrow> u128 \<Rightarrow> u128 \<Rightarrow> u64 \<Rightarrow> u64 \<Rightarrow> u128 \<Rightarrow>
   AccountId option \<Rightarrow> AccountId \<Rightarrow> u128 \<Rightarrow> MostError + Most" where
  "most_new committee signature_threshold max_pocket_money relay_gas_usage min_gas_price
     max_gas_price default_gas_price gas_oracle_max_age oracle_call_gas_limit
     base_fee_buffer_percentage gas_price_oracle owner' initial_eth_transfer_gas_usage =
     (case check_committee committee signature_threshold of
        Inl e \<Rightarrow> Inl e
      | Inr _ \<Rightarrow> Inr
          \<lparr>m_data = Some
             \<lparr>d_request_nonce = 0, d_committee_id = 0, d_max_pocket_money = max_pocket_money,
              d_pocket_money_balance = 0, d_relay_gas_usage = relay_gas_usage,
              d_min_gas_price = min_gas_price, d_max_gas_price = max_gas_price,
              d_default_gas_price = default_gas_price, d_gas_oracle_max_age = gas_oracle_max_age,
              d_oracle_call_gas_limit = oracle_call_gas_limit,
              d_base_fee_buffer_percentage = base_fee_buffer_percentage,
              d_gas_price_oracle = gas_price_oracle, d_is_halted = True\<rparr>,
           m_ownable_data = Some (ownable_new owner'),
           m_pending_requests = (\<lambda>_. None), m_signatures = {}, m_processed_requests = {},
           m_committees = (\<lambda>a. (0, a)) ` set committee,
           m_committee_sizes = [0 \<mapsto> of_nat (length committee)],
           m_signature_thresholds = [0 \<mapsto> signature_threshold],
           m_supported_pairs = (\<lambda>_. None), m_collected_committee_rewards = (\<lambda>_. None),
           m_paid_out_member_rewards = (\<lambda>_. None), m_payout_accounts = (\<lambda>_. None),
           m_weth = None, m_local_token = {}, m_wazero = None,
           m_eth_transfer_gas_usage = Some initial_eth_transfer_gas_usage\<rparr>)"

section \<open>Storage access and checks\<close>

definition get_data :: "('w, Data) most_message" where
  "get_data = andThen (gets (\<lambda>s. m_data (storage s))) (\<lambda>d. ok_or d CorruptedStorage)"

definition set_data :: "Data \<Rightarrow> ('w, unit) most_message" where
  "set_data d = put_storage (\<lambda>m. m\<lparr>m_data := Some d\<rparr>)"

definition get_ownable_data :: "('w most_ctx, Ownable2StepError, Ownable2StepData) contract" where
  "get_ownable_data =
     andThen (gets (\<lambda>s. m_ownable_data (storage s))) (\<lambda>d. ok_or d (Custom ''CorruptedStorage''))"

definition is_halted :: "('w, bool) most_message" where
  "is_halted = andThen get_data (\<lambda>d. ret (d_is_halted d))"

definition ensure_halted :: "('w, unit) most_message" where
  "ensure_halted = andThen is_halted (\<lambda>h. ensure h HaltRequired)"

definition ensure_not_halted :: "('w, unit) most_message" where
  "ensure_not_halted = andThen is_halted (\<lambda>h. ensure (\<not> h) IsHalted)"

definition ensure_owner :: "call_env \<Rightarrow> ('w most_ctx, Ownable2StepError, unit) contract" where
  "ensure_owner env = andThen get_ownable_data (\<lambda>d. try_res (ownable_ensure_owner d (caller env)))"

definition is_in_committee :: "CommitteeId \<Rightarrow> AccountId \<Rightarrow> Most \<Rightarrow> bool" where
  "is_in_committee committee_id account m \<longleftrightarrow> (committee_id, account) \<in> m_committees m"

definition only_committee_member :: "CommitteeId \<Rightarrow> AccountId \<Rightarrow> ('w, unit) most_message" where
  "only_committee_member committee_id account =
     andThen (gets (\<lambda>s. is_in_committee committee_id account (storage s))) (\<lambda>b. ensure b NotInCommittee)"

text \<open>Inversion rules: what a successful check says, and that it leaves the context as it is.\<close>

lemma run_get_data [run_simps]:
  "get_data s = Inr (d, s') \<longleftrightarrow> m_data (storage s) = Some d \<and> s' = s"
  "get_data s = Inl e \<longleftrightarrow> m_data (storage s) = None \<and> e = Err CorruptedStorage"
  by (auto simp: get_data_def run_simps)

lemma run_set_data [run_simps]:
  "set_data d s = Inr (u, s') \<longleftrightarrow> s' = s\<lparr>storage := (storage s)\<lparr>m_data := Some d\<rparr>\<rparr>"
  "set_data d s \<noteq> Inl e"
  by (auto simp: set_data_def run_simps)

lemma run_get_ownable_data [run_simps]:
  "get_ownable_data s = Inr (d, s') \<longleftrightarrow> m_ownable_data (storage s) = Some d \<and> s' = s"
  "get_ownable_data s = Inl e \<longleftrightarrow>
     m_ownable_data (storage s) = None \<and> e = Err (Custom ''CorruptedStorage'')"
  by (auto simp: get_ownable_data_def run_simps)

lemma run_is_halted [run_simps]:
  "is_halted s = Inr (b, s') \<longleftrightarrow> (\<exists>d. m_data (storage s) = Some d \<and> b = d_is_halted d) \<and> s' = s"
  "is_halted s = Inl e \<longleftrightarrow> m_data (storage s) = None \<and> e = Err CorruptedStorage"
  by (auto simp: is_halted_def run_simps)

lemma run_ensure_not_halted [run_simps]:
  "ensure_not_halted s = Inr (u, s') \<longleftrightarrow> (\<exists>d. m_data (storage s) = Some d \<and> \<not> d_is_halted d) \<and> s' = s"
  by (auto simp: ensure_not_halted_def run_simps)

lemma run_ensure_halted [run_simps]:
  "ensure_halted s = Inr (u, s') \<longleftrightarrow> (\<exists>d. m_data (storage s) = Some d \<and> d_is_halted d) \<and> s' = s"
  by (auto simp: ensure_halted_def run_simps)

lemma run_ensure_owner [run_simps]:
  "ensure_owner env s = Inr (u, s') \<longleftrightarrow>
     (\<exists>d. m_ownable_data (storage s) = Some d \<and> owner d = caller env) \<and> s' = s"
  by (auto simp: ensure_owner_def run_simps)

lemma run_only_committee_member [run_simps]:
  "only_committee_member c a s = Inr (u, s') \<longleftrightarrow> (c, a) \<in> m_committees (storage s) \<and> s' = s"
  "only_committee_member c a s = Inl e \<longleftrightarrow> (c, a) \<notin> m_committees (storage s) \<and> e = Err NotInCommittee"
  by (auto simp: only_committee_member_def is_in_committee_def run_simps)

section \<open>Read-only messages\<close>

definition has_signed_request :: "AccountId \<Rightarrow> HashedRequest \<Rightarrow> Most \<Rightarrow> bool" where
  "has_signed_request account request_hash m \<longleftrightarrow> (request_hash, account) \<in> m_signatures m"

definition needs_signature :: "HashedRequest \<Rightarrow> AccountId \<Rightarrow> CommitteeId \<Rightarrow> Most \<Rightarrow> bool" where
  "needs_signature request_hash account committee_id m \<longleftrightarrow>
     (if \<not> is_in_committee committee_id account m then False
      else if request_hash \<in> m_processed_requests m then False
      else if has_signed_request account request_hash m then False
      else True)"

definition request_status :: "HashedRequest \<Rightarrow> Most \<Rightarrow> RequestStatus" where
  "request_status hashed_request m =
     (if hashed_request \<in> m_processed_requests m then Processed
      else case m_pending_requests m hashed_request of
             Some r \<Rightarrow> Pending (ucast (signature_count r))
           | None \<Rightarrow> RequestHashNotKnown)"

definition get_current_committee_id :: "('w, u128) most_message" where
  "get_current_committee_id = andThen get_data (\<lambda>d. ret (d_committee_id d))"

definition get_relay_gas_usage :: "('w, u128) most_message" where
  "get_relay_gas_usage = andThen get_data (\<lambda>d. ret (d_relay_gas_usage d))"

definition get_min_gas_price :: "('w, u128) most_message" where
  "get_min_gas_price = andThen get_data (\<lambda>d. ret (d_min_gas_price d))"

definition get_max_gas_price :: "('w, u128) most_message" where
  "get_max_gas_price = andThen get_data (\<lambda>d. ret (d_max_gas_price d))"

definition get_default_gas_price :: "('w, u128) most_message" where
  "get_default_gas_price = andThen get_data (\<lambda>d. ret (d_default_gas_price d))"

definition get_gas_oracle_max_age :: "('w, u64) most_message" where
  "get_gas_oracle_max_age = andThen get_data (\<lambda>d. ret (d_gas_oracle_max_age d))"

definition get_oracle_call_gas_limit :: "('w, u64) most_message" where
  "get_oracle_call_gas_limit = andThen get_data (\<lambda>d. ret (d_oracle_call_gas_limit d))"

definition get_base_fee_buffer_percentage :: "('w, u128) most_message" where
  "get_base_fee_buffer_percentage = andThen get_data (\<lambda>d. ret (d_base_fee_buffer_percentage d))"

definition get_gas_price_oracle :: "('w, AccountId option) most_message" where
  "get_gas_price_oracle = andThen get_data (\<lambda>d. ret (d_gas_price_oracle d))"

definition get_request_nonce :: "('w, u128) most_message" where
  "get_request_nonce = andThen get_data (\<lambda>d. ret (d_request_nonce d))"

definition get_max_pocket_money :: "('w, u128) most_message" where
  "get_max_pocket_money = andThen get_data (\<lambda>d. ret (d_max_pocket_money d))"

definition get_pocket_money_balance :: "('w, u128) most_message" where
  "get_pocket_money_balance = andThen get_data (\<lambda>d. ret (d_pocket_money_balance d))"

definition get_supported_pair :: "bytes32 \<Rightarrow> Most \<Rightarrow> bytes32 option" where
  "get_supported_pair src_token m = m_supported_pairs m src_token"

definition get_payout_account :: "AccountId \<Rightarrow> Most \<Rightarrow> AccountId option" where
  "get_payout_account member_id m = m_payout_accounts m member_id"

definition get_wazero :: "Most \<Rightarrow> AccountId option" where
  "get_wazero m = m_wazero m"

definition get_weth :: "Most \<Rightarrow> AccountId option" where
  "get_weth m = m_weth m"

definition is_local_token :: "AccountId \<Rightarrow> Most \<Rightarrow> bool" where
  "is_local_token token_address m \<longleftrightarrow> token_address \<in> m_local_token m"

definition get_collected_committee_rewards :: "CommitteeId \<Rightarrow> Most \<Rightarrow> u128" where
  "get_collected_committee_rewards committee_id m =
     (case m_collected_committee_rewards m committee_id of None \<Rightarrow> 0 | Some v \<Rightarrow> v)"

definition get_paid_out_member_rewards :: "CommitteeId \<Rightarrow> AccountId \<Rightarrow> Most \<Rightarrow> u128" where
  "get_paid_out_member_rewards committee_id member_id m =
     (case m_paid_out_member_rewards m (member_id, committee_id) of None \<Rightarrow> 0 | Some v \<Rightarrow> v)"

definition get_outstanding_member_rewards :: "CommitteeId \<Rightarrow> AccountId \<Rightarrow> ('w, u128) most_message" where
  "get_outstanding_member_rewards committee_id member_id =
     andThen (gets storage) (\<lambda>m.
       if is_in_committee committee_id member_id m then
         andThen (ok_or (m_committee_sizes m committee_id) NoSuchCommittee) (\<lambda>size.
         andThen (ok_or (checked_div (get_collected_committee_rewards committee_id m) size) Arithmetic)
           (\<lambda>total_amount.
         ret (saturating_sub total_amount (get_paid_out_member_rewards committee_id member_id m))))
       else ret 0)"

section \<open>Gas price, base fee, pocket money\<close>

definition get_gas_price :: "'w chain \<Rightarrow> ('w, (u128 \<times> u64) option) most_message" where
  "get_gas_price ch =
     andThen get_data (\<lambda>d.
       case d_gas_price_oracle d of
         Some a \<Rightarrow> andThen get_data (\<lambda>d'.
           gets (\<lambda>s. oracle_get_price ch a (d_oracle_call_gas_limit d') (world s)))
       | None \<Rightarrow> ret None)"

definition get_gas_price_with_limits :: "'w chain \<Rightarrow> call_env \<Rightarrow> ('w, u128) most_message" where
  "get_gas_price_with_limits ch env =
     andThen (get_gas_price ch) (\<lambda>p.
     andThen get_data (\<lambda>d. ret
       (case p of
          Some (gas_price, timestamp) \<Rightarrow>
            if timestamp + d_gas_oracle_max_age d < block_timestamp env then d_default_gas_price d
            else if gas_price < d_min_gas_price d then d_min_gas_price d
            else if d_max_gas_price d < gas_price then d_max_gas_price d
            else gas_price
        | None \<Rightarrow> d_default_gas_price d)))"

definition get_base_fee :: "'w chain \<Rightarrow> call_env \<Rightarrow> ('w, u128) most_message" where
  "get_base_fee ch env =
     andThen (get_gas_price_with_limits ch env) (\<lambda>gas_price.
     andThen get_data (\<lambda>d.
     andThen (ok_or (checked_mul gas_price (d_relay_gas_usage d)) Arithmetic) (\<lambda>x.
     andThen (ok_or (checked_mul x (100 + d_base_fee_buffer_percentage d)) Arithmetic) (\<lambda>y.
     ok_or (checked_div y 100) Arithmetic))))"

definition current_pocket_money_value :: "'w chain \<Rightarrow> 'w most_ctx \<Rightarrow> u128" where
  "current_pocket_money_value ch s =
     (case get_gas_price ch s of
        Inr (Some (gas_price, _), _) \<Rightarrow>
          (case m_data (storage s) of
             Some d \<Rightarrow>
               (case m_eth_transfer_gas_usage (storage s) of
                  Some gas_usage \<Rightarrow>
                    min (min (d_max_pocket_money d) (gas_usage * gas_price * 3 div 4))
                      (d_pocket_money_balance d)
                | None \<Rightarrow> 0)
           | None \<Rightarrow> 0)
      | _ \<Rightarrow> 0)"

end
