(* ===== verification/Most_Messages.thy ===== *)
theory Most_Messages
  imports Most_State
begin

text \<open>
  The Aleph Zero bridge contract, second part: the messages that change the storage, in the
  order of the source (requests to the other chain, votes on requests from it, rewards, pocket
  money, governance setters, the ownership trait), and the dispatcher.
\<close>

section \<open>Calls to tokens\<close>

definition most_mint_to ::
  "'w chain \<Rightarrow> call_env \<Rightarrow> AccountId \<Rightarrow> AccountId \<Rightarrow> u128 \<Rightarrow> ('w most_ctx, PSP22Error, unit) contract" where
  "most_mint_to ch env token to amount = call_world (mintable_mint ch (account_id env) token to amount)"

definition most_transfer ::
  "'w chain \<Rightarrow> call_env \<Rightarrow> AccountId \<Rightarrow> AccountId \<Rightarrow> u128 \<Rightarrow> ('w most_ctx, PSP22Error, unit) contract" where
  "most_transfer ch env token to amount = call_world (psp22_transfer ch (account_id env) token to amount)"

definition most_transfer_from ::
  "'w chain \<Rightarrow> call_env \<Rightarrow> AccountId \<Rightarrow> AccountId \<Rightarrow> u128 \<Rightarrow> ('w most_ctx, PSP22Error, unit) contract" where
  "most_transfer_from ch env token from' amount =
     call_world (psp22_transfer_from ch (account_id env) token from' (account_id env) amount)"

definition most_burn_from ::
  "'w chain \<Rightarrow> call_env \<Rightarrow> AccountId \<Rightarrow> AccountId \<Rightarrow> u128 \<Rightarrow> ('w most_ctx, PSP22Error, unit) contract" where
  "most_burn_from ch env token from' amount =
     andThen (most_transfer_from ch env token from' amount) (\<lambda>_.
     call_world (burnable_burn ch (account_id env) token amount))"

definition unwrap_azero_to ::
  "'w chain \<Rightarrow> call_env \<Rightarrow> AccountId \<Rightarrow> u128 \<Rightarrow> ('w, unit) most_message" where
  "unwrap_azero_to ch env to amount =
     andThen (gets (\<lambda>s. m_wazero (storage s))) (\<lambda>a.
     andThen (ok_or a WrappedAzeroNotSet) (\<lambda>wrapped_azero_address.
     andThen (map_err PSP22
       (call_world (wazero_withdraw ch (account_id env) wrapped_azero_address amount))) (\<lambda>_.
     map_err InkEnvError (env_transfer ch env to amount))))"

section \<open>Requests to the other chain\<close>

text \<open>Take the bridged tokens from the sender: burned, locked, or already held by the contract.\<close>

definition take_tokens :: "'w chain \<Rightarrow> call_env \<Rightarrow> AccountId \<Rightarrow> u128 \<Rightarrow> bool \<Rightarrow> ('w, unit) most_message" where
  "take_tokens ch env src_token_address amount native_azero_request =
     andThen (gets (\<lambda>s. src_token_address \<in> m_local_token (storage s))) (\<lambda>is_local.
     if \<not> is_local then
       map_err PSP22 (most_burn_from ch env src_token_address (caller env) amount)
     else if \<not> native_azero_request then
       map_err PSP22 (most_transfer_from ch env src_token_address (caller env) amount)
     else ret ())"

definition return_surplus :: "'w chain \<Rightarrow> call_env \<Rightarrow> u128 \<Rightarrow> u128 \<Rightarrow> ('w, unit) most_message" where
  "return_surplus ch env transferred_fee current_base_fee =
     (case checked_sub transferred_fee current_base_fee of
        Some surplus \<Rightarrow>
          if 0 < surplus then map_err InkEnvError (env_transfer ch env (caller env) surplus)
          else ret ()
      | None \<Rightarrow> ret ())"

text \<open>\<open>_send_request\<close>\<close>

definition most_send_request_inner ::
  "'w chain \<Rightarrow> call_env \<Rightarrow> AccountId \<Rightarrow> bytes32 \<Rightarrow> u128 \<Rightarrow> bytes32 \<Rightarrow> bool \<Rightarrow> u128 \<Rightarrow>
   ('w, unit) most_message" where
  "most_send_request_inner ch env src_token_address dest_token_address amount
     dest_receiver_address native_azero_request transferred_fee =
     andThen (ensure (dest_receiver_address \<noteq> ZERO_ADDRESS) ZeroAddress) (\<lambda>_.
     andThen (ensure (amount \<noteq> 0) ZeroTransferAmount) (\<lambda>_.
     andThen (get_base_fee ch env) (\<lambda>current_base_fee.
     andThen (ensure (\<not> transferred_fee < current_base_fee) BaseFeeTooLow) (\<lambda>_.
     andThen (take_tokens ch env src_token_address amount native_azero_request) (\<lambda>_.
     andThen get_data (\<lambda>data.
     andThen (gets (\<lambda>s. get_collected_committee_rewards (d_committee_id data) (storage s)))
       (\<lambda>collected.
     andThen (ok_or (checked_add collected current_base_fee) Arithmetic) (\<lambda>base_fee_total.
     andThen (put_storage (\<lambda>m. m\<lparr>m_collected_committee_rewards :=
       (m_collected_committee_rewards m)(d_committee_id data \<mapsto> base_fee_total)\<rparr>)) (\<lambda>_.
     andThen (ok_or (checked_add (d_request_nonce data) 1) Arithmetic) (\<lambda>next_nonce.
     andThen (set_data (data\<lparr>d_request_nonce := next_nonce\<rparr>)) (\<lambda>_.
     andThen (return_surplus ch env transferred_fee current_base_fee) (\<lambda>_.
     emit_event (CrosschainTransferRequest (d_committee_id data) dest_token_address amount
       dest_receiver_address (d_request_nonce data))))))))))))))"

definition send_request ::
  "'w chain \<Rightarrow> call_env \<Rightarrow> bytes32 \<Rightarrow> u128 \<Rightarrow> bytes32 \<Rightarrow> ('w, unit) most_message" where
  "send_request ch env src_token_address amount dest_receiver_address =
     andThen ensure_not_halted (\<lambda>_.
     andThen (gets (\<lambda>s. m_wazero (storage s))) (\<lambda>a.
     andThen (ok_or a WrappedAzeroNotSet) (\<lambda>wrapped_azero_address.
     andThen (ensure (src_token_address \<noteq> wrapped_azero_address) UnsupportedPair) (\<lambda>_.
     andThen (gets (\<lambda>s. m_supported_pairs (storage s) src_token_address)) (\<lambda>p.
     andThen (ok_or p UnsupportedPair) (\<lambda>dest_token_address.
     most_send_request_inner ch env src_token_address dest_token_address amount
       dest_receiver_address False (transferred_value env)))))))"

definition send_request_native_ether ::
  "'w chain \<Rightarrow> call_env \<Rightarrow> u128 \<Rightarrow> bytes32 \<Rightarrow> ('w, unit) most_message" where
  "send_request_native_ether ch env amount dest_receiver_address =
     andThen ensure_not_halted (\<lambda>_.
     andThen (gets (\<lambda>s. m_weth (storage s))) (\<lambda>a.
     andThen (ok_or a WrappedEthNotSet) (\<lambda>src_token_address.
     most_send_request_inner ch env src_token_address NATIVE_MARKER_ADDRESS amount
       dest_receiver_address False (transferred_value env))))"

definition send_request_native_azero ::
  "'w chain \<Rightarrow> call_env \<Rightarrow> u128 \<Rightarrow> bytes32 \<Rightarrow> ('w, unit) most_message" where
  "send_request_native_azero ch env amount_to_bridge dest_receiver_address =
     andThen ensure_not_halted (\<lambda>_.
     andThen (ok_or (checked_sub (transferred_value env) amount_to_bridge)
       ValueTransferredLowerThanAmount) (\<lambda>transferred_fee.
     andThen (gets (\<lambda>s. m_wazero (storage s))) (\<lambda>a.
     andThen (ok_or a WrappedAzeroNotSet) (\<lambda>wrapped_azero_address.
     andThen (map_err PSP22
       (call_world (wazero_deposit ch (account_id env) wrapped_azero_address amount_to_bridge))) (\<lambda>_.
     andThen (gets (\<lambda>s. m_supported_pairs (storage s) wrapped_azero_address)) (\<lambda>p.
     andThen (ok_or p UnsupportedPair) (\<lambda>dest_token_address.
     most_send_request_inner ch env wrapped_azero_address dest_token_address
       (saturating_mul amount_to_bridge RATIO) dest_receiver_address True transferred_fee)))))))"

section \<open>Votes on requests from the other chain\<close>

text \<open>A failed pocket money transfer does not revert the message.\<close>

definition send_pocket_money :: "'w chain \<Rightarrow> call_env \<Rightarrow> AccountId \<Rightarrow> ('w, unit) most_message" where
  "send_pocket_money ch env dest_receiver_address =
     andThen get_data (\<lambda>data.
     andThen (gets (current_pocket_money_value ch)) (\<lambda>pocket_money_to_send.
     if pocket_money_to_send = 0 then ret ()
     else if d_pocket_money_balance data < pocket_money_to_send then ret ()
     else (\<lambda>s.
       case env_transfer ch env dest_receiver_address pocket_money_to_send s of
         Inl _ \<Rightarrow> ret () s
       | Inr (_, s') \<Rightarrow>
           andThen (ok_or (checked_sub (d_pocket_money_balance data) pocket_money_to_send) Arithmetic)
             (\<lambda>b. set_data (data\<lparr>d_pocket_money_balance := b\<rparr>)) s')))"

text \<open>\<open>pending_requests.get(h).unwrap_or_default()\<close>\<close>

definition pending_or_default :: "HashedRequest \<Rightarrow> Most \<Rightarrow> Request" where
  "pending_or_default h m =
     (case m_pending_requests m h of None \<Rightarrow> \<lparr>signature_count = 0\<rparr> | Some r \<Rightarrow> r)"

text \<open>What a request that reached its quorum does: pay out and give the pocket money.\<close>

definition pay_out_request ::
  "'w chain \<Rightarrow> call_env \<Rightarrow> bytes32 \<Rightarrow> u128 \<Rightarrow> bytes32 \<Rightarrow> ('w, unit) most_message" where
  "pay_out_request ch env dest_token_address amount dest_receiver_address =
     andThen (gets (\<lambda>s. dest_token_address \<in> m_local_token (storage s))) (\<lambda>is_local_token.
     andThen
       (if dest_token_address = NATIVE_MARKER_ADDRESS then
          unwrap_azero_to ch env dest_receiver_address (amount div RATIO)
        else if is_local_token then
          map_err PSP22 (most_transfer ch env dest_token_address dest_receiver_address amount)
        else map_err PSP22 (most_mint_to ch env dest_token_address dest_receiver_address amount)) (\<lambda>_.
     send_pocket_money ch env dest_receiver_address))"

definition receive_request ::
  "'w chain \<Rightarrow> call_env \<Rightarrow> HashedRequest \<Rightarrow> CommitteeId \<Rightarrow> bytes32 \<Rightarrow> u128 \<Rightarrow> bytes32 \<Rightarrow> u128 \<Rightarrow>
   ('w, unit) most_message" where
  "receive_request ch env request_hash committee_id dest_token_address amount
     dest_receiver_address request_nonce =
     andThen ensure_not_halted (\<lambda>_.
     andThen (only_committee_member committee_id (caller env)) (\<lambda>_.
     andThen (gets storage) (\<lambda>m.
     if request_hash \<in> m_processed_requests m then
       emit_event (SignedProcessedRequest request_hash (caller env))
     else if (request_hash, caller env) \<in> m_signatures m then
       emit_event (RequestAlreadySigned_event request_hash (caller env))
     else
       andThen (ensure (request_hash = hash_request_data (chain_keccak256 ch) committee_id
         dest_token_address amount dest_receiver_address request_nonce) HashDoesNotMatchData) (\<lambda>_.
       andThen (ok_or (checked_add (signature_count (pending_or_default request_hash m)) 1) Arithmetic)
         (\<lambda>count.
       andThen (put_storage (\<lambda>m. m\<lparr>m_signatures :=
         insert (request_hash, caller env) (m_signatures m)\<rparr>)) (\<lambda>_.
       andThen (emit_event (RequestSigned request_hash (caller env))) (\<lambda>_.
       andThen (gets (\<lambda>s. m_signature_thresholds (storage s) committee_id)) (\<lambda>t.
       andThen (ok_or t InvalidThreshold) (\<lambda>signature_threshold.
       if signature_threshold \<le> count then
         andThen (pay_out_request ch env dest_token_address amount dest_receiver_address) (\<lambda>_.
         andThen (put_storage (\<lambda>m. m\<lparr>m_processed_requests :=
           insert request_hash (m_processed_requests m)\<rparr>)) (\<lambda>_.
         andThen (put_storage (\<lambda>m. m\<lparr>m_pending_requests :=
           (m_pending_requests m)(request_hash := None)\<rparr>)) (\<lambda>_.
         emit_event (RequestProcessed request_hash dest_token_address))))
       else
         put_storage (\<lambda>m. m\<lparr>m_pending_requests :=
           (m_pending_requests m)(request_hash \<mapsto> \<lparr>signature_count = count\<rparr>)\<rparr>)))))))))) "

section \<open>Rewards and pocket money\<close>

definition payout_rewards ::
  "'w chain \<Rightarrow> call_env \<Rightarrow> CommitteeId \<Rightarrow> AccountId \<Rightarrow> ('w, unit) most_message" where
  "payout_rewards ch env committee_id member_id =
     andThen ensure_not_halted (\<lambda>_.
     andThen (only_committee_member committee_id member_id) (\<lambda>_.
     andThen (gets (\<lambda>s. get_paid_out_member_rewards committee_id member_id (storage s)))
       (\<lambda>paid_out_rewards.
     andThen (get_outstanding_member_rewards committee_id member_id) (\<lambda>outstanding_rewards.
     if 0 < outstanding_rewards then
       andThen (gets (\<lambda>s. case m_payout_accounts (storage s) member_id of
         None \<Rightarrow> member_id | Some a \<Rightarrow> a)) (\<lambda>payout_account.
       andThen (map_err InkEnvError (env_transfer ch env payout_account outstanding_rewards)) (\<lambda>_.
       andThen (ok_or (checked_add paid_out_rewards outstanding_rewards) Arithmetic) (\<lambda>total.
       put_storage (\<lambda>m. m\<lparr>m_paid_out_member_rewards :=
         (m_paid_out_member_rewards m)((member_id, committee_id) \<mapsto> total)\<rparr>))))
     else ret ()))))"

definition fund_pocket_money :: "call_env \<Rightarrow> ('w, unit) most_message" where
  "fund_pocket_money env =
     andThen get_data (\<lambda>data.
     andThen (ok_or (checked_add (d_pocket_money_balance data) (transferred_value env)) Arithmetic)
       (\<lambda>b. set_data (data\<lparr>d_pocket_money_balance := b\<rparr>)))"

section \<open>Governance\<close>

text \<open>\<open>self.ensure_owner()?\<close> in a message whose error type is \<open>MostError\<close>.\<close>

definition owner_only :: "call_env \<Rightarrow> ('w, unit) most_message" where
  "owner_only env = map_err Ownable (ensure_owner env)"

definition set_max_pocket_money :: "call_env \<Rightarrow> u128 \<Rightarrow> ('w, unit) most_message" where
  "set_max_pocket_money env new_max_pocket_money =
     andThen (owner_only env) (\<lambda>_.
     andThen get_data (\<lambda>data.
     set_data (data\<lparr>d_max_pocket_money := new_max_pocket_money\<rparr>)))"

definition set_code :: "'w chain \<Rightarrow> call_env \<Rightarrow> bytes32 \<Rightarrow> ('w, unit) most_message" where
  "set_code ch env code_hash =
     andThen (owner_only env) (\<lambda>_.
     map_err InkEnvError (call_env_fn (set_code_hash ch (account_id env) code_hash)))"

definition set_base_fee_constraints ::
  "call_env \<Rightarrow> u128 \<Rightarrow> u128 \<Rightarrow> u128 \<Rightarrow> u128 \<Rightarrow> u64 \<Rightarrow> u64 \<Rightarrow> u128 \<Rightarrow> ('w, unit) most_message" where
  "set_base_fee_constraints env relay_gas_usage min_gas_price max_gas_price default_gas_price
     gas_oracle_max_age oracle_call_gas_limit base_fee_buffer_percentage =
     andThen (owner_only env) (\<lambda>_.
     andThen get_data (\<lambda>data.
     set_data (data\<lparr>d_relay_gas_usage := relay_gas_usage, d_min_gas_price := min_gas_price,
       d_max_gas_price := max_gas_price, d_default_gas_price := default_gas_price,
       d_gas_oracle_max_age := gas_oracle_max_age,
       d_oracle_call_gas_limit := oracle_call_gas_limit,
       d_base_fee_buffer_percentage := base_fee_buffer_percentage\<rparr>)))"

definition remove_pair :: "call_env \<Rightarrow> bytes32 \<Rightarrow> ('w, unit) most_message" where
  "remove_pair env from' =
     andThen (owner_only env) (\<lambda>_.
     andThen ensure_halted (\<lambda>_.
     put_storage (\<lambda>m. m\<lparr>m_supported_pairs := (m_supported_pairs m)(from' := None)\<rparr>)))"

definition add_pair :: "'w chain \<Rightarrow> call_env \<Rightarrow> bytes32 \<Rightarrow> bytes32 \<Rightarrow> bool \<Rightarrow> ('w, unit) most_message" where
  "add_pair ch env from' to local_token =
     andThen (owner_only env) (\<lambda>_.
     andThen ensure_halted (\<lambda>_.
     andThen
       (if local_token then
          put_storage (\<lambda>m. m\<lparr>m_local_token := insert from' (m_local_token m)\<rparr>)
        else
          andThen (gets (\<lambda>s. mintable_minter ch from' (world s))) (\<lambda>minter.
          case minter of
            None \<Rightarrow> trap
          | Some a \<Rightarrow> ensure (a = account_id env) NoMintPermission)) (\<lambda>_.
     put_storage (\<lambda>m. m\<lparr>m_supported_pairs := (m_supported_pairs m)(from' \<mapsto> to)\<rparr>))))"

definition set_weth :: "call_env \<Rightarrow> AccountId \<Rightarrow> ('w, unit) most_message" where
  "set_weth env weth_address =
     andThen (owner_only env) (\<lambda>_.
     andThen ensure_halted (\<lambda>_.
     put_storage (\<lambda>m. m\<lparr>m_weth := Some weth_address\<rparr>)))"

definition set_wazero :: "call_env \<Rightarrow> AccountId \<Rightarrow> ('w, unit) most_message" where
  "set_wazero env wazero_address =
     andThen (owner_only env) (\<lambda>_.
     andThen ensure_halted (\<lambda>_.
     put_storage (\<lambda>m. m\<lparr>m_wazero := Some wazero_address\<rparr>)))"

definition set_payout_account :: "call_env \<Rightarrow> CommitteeId \<Rightarrow> AccountId \<Rightarrow> ('w, unit) most_message" where
  "set_payout_account env committee_id account =
     andThen (only_committee_member committee_id (caller env)) (\<lambda>_.
     andThen (put_storage (\<lambda>m. m\<lparr>m_payout_accounts := (m_payout_accounts m)(caller env \<mapsto> account)\<rparr>)) (\<lambda>_.
     emit_event (PayoutAccountSet (caller env) account)))"

definition set_gas_price_oracle :: "call_env \<Rightarrow> AccountId \<Rightarrow> ('w, unit) most_message" where
  "set_gas_price_oracle env gas_price_oracle =
     andThen (owner_only env) (\<lambda>_.
     andThen get_data (\<lambda>data.
     set_data (data\<lparr>d_gas_price_oracle := Some gas_price_oracle\<rparr>)))"

definition set_eth_transfer_gas_usage :: "call_env \<Rightarrow> u128 \<Rightarrow> ('w, unit) most_message" where
  "set_eth_transfer_gas_usage env new_eth_transfer_gas_usage =
     andThen (owner_only env) (\<lambda>_.
     put_storage (\<lambda>m. m\<lparr>m_eth_transfer_gas_usage := Some new_eth_transfer_gas_usage\<rparr>))"

text \<open>
  \<open>committee_set\<close> is a new handle on the same storage key as \<open>self.committees\<close>, so inserting
  into it adds the new members and leaves the entries of earlier committees in place. The
  addition \<open>data.committee_id + 1\<close> is unchecked and wraps.
\<close>

definition set_committee :: "call_env \<Rightarrow> AccountId list \<Rightarrow> u128 \<Rightarrow> ('w, unit) most_message" where
  "set_committee env committee signature_threshold =
     andThen (owner_only env) (\<lambda>_.
     andThen ensure_halted (\<lambda>_.
     andThen (try_res (check_committee committee signature_threshold)) (\<lambda>_.
     andThen get_data (\<lambda>data.
     andThen (put_storage (\<lambda>m. m\<lparr>m_committee_sizes :=
       (m_committee_sizes m)(d_committee_id data + 1 \<mapsto> of_nat (length committee))\<rparr>)) (\<lambda>_.
     andThen (put_storage (\<lambda>m. m\<lparr>m_committees :=
       m_committees m \<union> (\<lambda>a. (d_committee_id data + 1, a)) ` set committee\<rparr>)) (\<lambda>_.
     andThen (set_data (data\<lparr>d_committee_id := d_committee_id data + 1\<rparr>)) (\<lambda>_.
     put_storage (\<lambda>m. m\<lparr>m_signature_thresholds :=
       (m_signature_thresholds m)(d_committee_id data + 1 \<mapsto> signature_threshold)\<rparr>))))))))"

definition set_halted :: "call_env \<Rightarrow> bool \<Rightarrow> ('w, unit) most_message" where
  "set_halted env new_state =
     andThen (owner_only env) (\<lambda>_.
     andThen get_data (\<lambda>data.
     if new_state \<noteq> d_is_halted data then
       andThen (set_data (data\<lparr>d_is_halted := new_state\<rparr>)) (\<lambda>_.
       emit_event (HaltedStateChanged (d_is_halted data) new_state (caller env)))
     else ret ()))"

definition recover_psp22 ::
  "'w chain \<Rightarrow> call_env \<Rightarrow> AccountId \<Rightarrow> AccountId \<Rightarrow> u128 \<Rightarrow> ('w, unit) most_message" where
  "recover_psp22 ch env token receiver amount =
     andThen (owner_only env) (\<lambda>_.
     map_err PSP22 (call_world (psp22_transfer ch (account_id env) token receiver amount)))"

definition recover_azero ::
  "'w chain \<Rightarrow> call_env \<Rightarrow> AccountId \<Rightarrow> u128 \<Rightarrow> ('w, unit) most_message" where
  "recover_azero ch env receiver amount =
     andThen (owner_only env) (\<lambda>_.
     map_err InkEnvError (env_transfer ch env receiver amount))"

section \<open>The trait Ownable2Step\<close>

definition most_get_owner :: "('w most_ctx, Ownable2StepError, AccountId) contract" where
  "most_get_owner = andThen get_ownable_data (\<lambda>d. try_res (ownable_get_owner d))"

definition most_get_pending_owner :: "('w most_ctx, Ownable2StepError, AccountId) contract" where
  "most_get_pending_owner = andThen get_ownable_data (\<lambda>d. try_res (ownable_get_pending_owner d))"

definition most_transfer_ownership ::
  "call_env \<Rightarrow> AccountId \<Rightarrow> ('w most_ctx, Ownable2StepError, unit) contract" where
  "most_transfer_ownership env new_owner =
     andThen get_ownable_data (\<lambda>d.
     andThen (try_res (ownable_transfer_ownership d (caller env) new_owner)) (\<lambda>d'.
     andThen (put_storage (\<lambda>m. m\<lparr>m_ownable_data := Some d'\<rparr>)) (\<lambda>_.
     emit_event (TransferOwnershipInitiated new_owner))))"

definition most_accept_ownership :: "call_env \<Rightarrow> ('w most_ctx, Ownable2StepError, unit) contract" where
  "most_accept_ownership env =
     andThen get_ownable_data (\<lambda>d.
     andThen (try_res (ownable_accept_ownership d (caller env))) (\<lambda>d'.
     andThen (put_storage (\<lambda>m. m\<lparr>m_ownable_data := Some d'\<rparr>)) (\<lambda>_.
     emit_event (TransferOwnershipAccepted (caller env)))))"

interpretation most_own: ownable2step
  "\<lambda>s. m_ownable_data (storage (s :: 'w most_ctx))"
  "\<lambda>c. most_transfer_ownership (env\<lparr>caller := c\<rparr>)"
  "\<lambda>c. most_accept_ownership (env\<lparr>caller := c\<rparr>)"
  "\<lambda>c. ensure_owner (env\<lparr>caller := c\<rparr>)"
  for env :: call_env
  by unfold_locales
    (auto simp: most_transfer_ownership_def most_accept_ownership_def ensure_owner_def
      get_ownable_data_def env_eval_simps ownable_defs split: option.splits)

section \<open>Dispatch\<close>

text \<open>One constructor per message that can change the storage, the events or the world.\<close>

datatype most_call =
    Send_request bytes32 u128 bytes32
  | Send_request_native_ether u128 bytes32
  | Send_request_native_azero u128 bytes32
  | Receive_request HashedRequest CommitteeId bytes32 u128 bytes32 u128
  | Payout_rewards CommitteeId AccountId
  | Fund_pocket_money
  | Set_max_pocket_money u128
  | Set_code bytes32
  | Set_base_fee_constraints u128 u128 u128 u128 u64 u64 u128
  | Remove_pair bytes32
  | Add_pair bytes32 bytes32 bool
  | Set_weth AccountId
  | Set_wazero AccountId
  | Set_payout_account CommitteeId AccountId
  | Set_gas_price_oracle AccountId
  | Set_eth_transfer_gas_usage u128
  | Set_committee "AccountId list" u128
  | Set_halted bool
  | Recover_psp22 AccountId AccountId u128
  | Recover_azero AccountId u128
  | Transfer_ownership AccountId
  | Accept_ownership

fun payable :: "most_call \<Rightarrow> bool" where
  "payable (Send_request _ _ _) = True"
| "payable (Send_request_native_ether _ _) = True"
| "payable (Send_request_native_azero _ _) = True"
| "payable Fund_pocket_money = True"
| "payable _ = False"

fun most_message :: "'w chain \<Rightarrow> call_env \<Rightarrow> most_call \<Rightarrow> ('w, unit) most_message" where
  "most_message ch env (Send_request t a r) = send_request ch env t a r"
| "most_message ch env (Send_request_native_ether a r) = send_request_native_ether ch env a r"
| "most_message ch env (Send_request_native_azero a r) = send_request_native_azero ch env a r"
| "most_message ch env (Receive_request h c t a r n) = receive_request ch env h c t a r n"
| "most_message ch env (Payout_rewards c a) = payout_rewards ch env c a"
| "most_message ch env Fund_pocket_money = fund_pocket_money env"
| "most_message ch env (Set_max_pocket_money v) = set_max_pocket_money env v"
| "most_message ch env (Set_code h) = set_code ch env h"
| "most_message ch env (Set_base_fee_constraints a b c d e f g) =
     set_base_fee_constraints env a b c d e f g"
| "most_message ch env (Remove_pair f) = remove_pair env f"
| "most_message ch env (Add_pair f t l) = add_pair ch env f t l"
| "most_message ch env (Set_weth a) = set_weth env a"
| "most_message ch env (Set_wazero a) = set_wazero env a"
| "most_message ch env (Set_payout_account c a) = set_payout_account env c a"
| "most_message ch env (Set_gas_price_oracle a) = set_gas_price_oracle env a"
| "most_message ch env (Set_eth_transfer_gas_usage v) = set_eth_transfer_gas_usage env v"
| "most_message ch env (Set_committee c t) = set_committee env c t"
| "most_message ch env (Set_halted b) = set_halted env b"
| "most_message ch env (Recover_psp22 t r a) = recover_psp22 ch env t r a"
| "most_message ch env (Recover_azero r a) = recover_azero ch env r a"
| "most_message ch env (Transfer_ownership a) = map_err Ownable (most_transfer_ownership env a)"
| "most_message ch env Accept_ownership = map_err Ownable (most_accept_ownership env)"

definition dispatch :: "'w chain \<Rightarrow> call_env \<Rightarrow> most_call \<Rightarrow> ('w, unit) most_message" where
  "dispatch ch env k =
     andThen (if payable k then ret () else deny_payment env) (\<lambda>_. most_message ch env k)"

lemmas most_message_defs = send_request_def send_request_native_ether_def
  send_request_native_azero_def receive_request_def payout_rewards_def fund_pocket_money_def
  set_max_pocket_money_def set_code_def set_base_fee_constraints_def remove_pair_def add_pair_def
  set_weth_def set_wazero_def set_payout_account_def set_gas_price_oracle_def
  set_eth_transfer_gas_usage_def set_committee_def set_halted_def recover_psp22_def
  recover_azero_def most_transfer_ownership_def most_accept_ownership_def

lemmas most_token_defs = most_send_request_inner_def take_tokens_def return_surplus_def pay_out_request_def unwrap_azero_to_def
  most_burn_from_def most_transfer_from_def most_transfer_def most_mint_to_def

lemmas most_helper_defs = most_token_defs send_pocket_money_def owner_only_def

end
