(* ===== verification/Guardian_Votes.thy ===== *)
theory Guardian_Votes
  imports Prelude
begin

text \<open>
  The voting protocol that the bridge contracts of Aleph Zero and of Ethereum share. The abstract
  specification keeps, per request hash, the set of guardians that signed it, and the set of
  executed requests. The locale \<open>guardian_votes\<close> is the interface a contract offers: how one
  vote changes the processed set, the recorded signatures, the running count and the log of
  executed requests, and that no other step touches them. Its lemmas are the protocol's
  guarantees; all the contracts interpret it, with their own types of guardians and committee ids.
\<close>

section \<open>Specification\<close>

record 'a vote_state =
  vs_signers :: "bytes32 \<Rightarrow> 'a set"
  vs_done :: "bytes32 set"

definition spec_init :: "'a vote_state" where
  "spec_init = \<lparr>vs_signers = (\<lambda>_. {}), vs_done = {}\<rparr>"

text \<open>
  A vote by a guardian \<open>a\<close> for \<open>h\<close> counts once, and only until \<open>h\<close> is executed; \<open>h\<close> is
  executed when the set of its signers has reached the threshold.
\<close>

definition spec_vote :: "nat \<Rightarrow> bytes32 \<Rightarrow> 'a \<Rightarrow> 'a vote_state \<Rightarrow> 'a vote_state" where
  "spec_vote thr h a v =
     (if h \<in> vs_done v \<or> a \<in> vs_signers v h then v
      else let sg = insert a (vs_signers v h) in
        v\<lparr>vs_signers := (vs_signers v)(h := sg),
          vs_done := (if thr \<le> card sg then insert h (vs_done v) else vs_done v)\<rparr>)"

lemma spec_vote_idem: "spec_vote thr' h a (spec_vote thr h a v) = spec_vote thr h a v"
  by (simp add: spec_vote_def Let_def)

lemma spec_vote_done_mono: "vs_done v \<subseteq> vs_done (spec_vote thr h a v)"
  by (auto simp: spec_vote_def Let_def)

lemma spec_vote_quorum:
  assumes "g \<in> vs_done (spec_vote thr h a v)" "g \<notin> vs_done v"
  shows "g = h \<and> thr \<le> card (vs_signers (spec_vote thr h a v) h)"
  using assms by (auto simp: spec_vote_def Let_def split: if_splits)

section \<open>The interface\<close>

locale guardian_votes =
  fixes init :: "'s \<Rightarrow> bool"
    and vote :: "'s \<Rightarrow> 'a::finite \<Rightarrow> bytes32 \<Rightarrow> 'c \<Rightarrow> 's \<Rightarrow> bool"
    and other :: "'s \<Rightarrow> 's \<Rightarrow> bool"
    and processed :: "'s \<Rightarrow> bytes32 set"
    and signers :: "'s \<Rightarrow> bytes32 \<Rightarrow> 'a set"
    and counted :: "'s \<Rightarrow> bytes32 \<Rightarrow> nat"
    and executed :: "'s \<Rightarrow> bytes32 list"
    and threshold :: "'s \<Rightarrow> 'c \<Rightarrow> nat"
  assumes init_empty: "init s \<Longrightarrow>
      processed s = {} \<and> signers s = (\<lambda>_. {}) \<and> counted s = (\<lambda>_. 0) \<and> executed s = []"
    and vote_refused: "vote s a h c s' \<Longrightarrow> h \<in> processed s \<or> a \<in> signers s h \<Longrightarrow>
      processed s' = processed s \<and> signers s' = signers s \<and> counted s' = counted s \<and>
      executed s' = executed s"
    and vote_counted: "vote s a h c s' \<Longrightarrow> h \<notin> processed s \<Longrightarrow> a \<notin> signers s h \<Longrightarrow>
      signers s' = (signers s)(h := insert a (signers s h)) \<and>
      (if threshold s c \<le> counted s h + 1
       then processed s' = insert h (processed s) \<and> executed s' = executed s @ [h] \<and>
         (\<forall>g. g \<noteq> h \<longrightarrow> counted s' g = counted s g)
       else processed s' = processed s \<and> executed s' = executed s \<and>
         counted s' = (counted s)(h := counted s h + 1))"
    and other_frame: "other s s' \<Longrightarrow>
      processed s' = processed s \<and> signers s' = signers s \<and> counted s' = counted s \<and>
      executed s' = executed s"
begin

definition abs_votes :: "'s \<Rightarrow> 'a vote_state" where
  "abs_votes s = \<lparr>vs_signers = signers s, vs_done = processed s\<rparr>"

definition votes_inv :: "'s \<Rightarrow> bool" where
  "votes_inv s \<longleftrightarrow> (\<forall>h. h \<notin> processed s \<longrightarrow> counted s h = card (signers s h)) \<and>
     distinct (executed s) \<and> set (executed s) = processed s"

inductive reached :: "'s \<Rightarrow> bool" where
  reached_init: "init s \<Longrightarrow> reached s"
| reached_vote: "reached s \<Longrightarrow> vote s a h c s' \<Longrightarrow> reached s'"
| reached_other: "reached s \<Longrightarrow> other s s' \<Longrightarrow> reached s'"

lemma votes_inv_vote: "votes_inv s \<Longrightarrow> vote s a h c s' \<Longrightarrow> votes_inv s'"
  using vote_refused [of s a h c s'] vote_counted [of s a h c s']
  by (cases "h \<in> processed s \<or> a \<in> signers s h") (auto simp: votes_inv_def split: if_splits)

lemma votes_inv_init: "init s \<Longrightarrow> votes_inv s"
  by (auto simp: votes_inv_def dest: init_empty)

lemma votes_inv_other: "votes_inv s \<Longrightarrow> other s s' \<Longrightarrow> votes_inv s'"
  by (auto simp: votes_inv_def dest: other_frame)

lemma reached_votes_inv: "reached s \<Longrightarrow> votes_inv s"
  by (induction rule: reached.induct) (auto intro: votes_inv_init votes_inv_vote votes_inv_other)

text \<open>Every vote of the contract is a vote of the specification, at the contract's threshold.\<close>

lemma vote_refines:
  assumes "votes_inv s" "vote s a h c s'"
  shows "abs_votes s' = spec_vote (threshold s c) h a (abs_votes s)"
proof (cases "h \<in> processed s \<or> a \<in> signers s h")
  case True
  with vote_refused [OF assms(2)] show ?thesis by (auto simp: abs_votes_def spec_vote_def)
next
  case False
  with assms(1) have "card (insert a (signers s h)) = counted s h + 1" by (simp add: votes_inv_def)
  with False vote_counted [OF assms(2)] show ?thesis
    by (auto simp: abs_votes_def spec_vote_def Let_def split: if_splits)
qed

lemma other_refines: "other s s' \<Longrightarrow> abs_votes s' = abs_votes s"
  by (auto simp: abs_votes_def dest: other_frame)

lemma executed_quorum:
  assumes "votes_inv s" "vote s a h c s'" "g \<in> processed s'" "g \<notin> processed s"
  shows "g = h \<and> threshold s c \<le> card (signers s' h)"
  using spec_vote_quorum [of g "threshold s c" h a "abs_votes s"] vote_refines [OF assms(1,2)] assms(3,4)
  by (metis abs_votes_def vote_state.select_convs)

lemma reached_executed_once:
  assumes "reached s"
  shows "count_list (executed s) h = (if h \<in> processed s then 1 else 0)"
proof -
  have "distinct (executed s)" "set (executed s) = processed s"
    using reached_votes_inv [OF assms] by (auto simp: votes_inv_def)
  then show ?thesis by (simp add: count_list_distinct)
qed

end

end
