(* ===== verification/Most_Voting.thy ===== *)
theory Most_Voting
  imports Most_Messages Guardian_Votes
begin

text \<open>
  Votes on incoming requests in the Aleph Zero bridge: the inversion of \<open>receive_request\<close>, the
  frame lemma that no other message touches the voting state, the interpretation of
  \<open>guardian_votes\<close>, and the contract's reachable states.
\<close>

section \<open>What the pay-out changes\<close>

text \<open>
  Paying out a request changes the world and, of the contract's own state, at most the pocket
  money balance.
\<close>

definition with_pocket_balance :: "u128 \<Rightarrow> Most \<Rightarrow> Most" where
  "with_pocket_balance b m =
     m\<lparr>m_data := map_option (\<lambda>d. d\<lparr>d_pocket_money_balance := b\<rparr>) (m_data m)\<rparr>"

definition pocket_only :: "'w most_ctx \<Rightarrow> 'w most_ctx \<Rightarrow> bool" where
  "pocket_only s s' \<longleftrightarrow> events s' = events s \<and> (\<exists>b. storage s' = with_pocket_balance b (storage s))"

lemma with_pocket_balance_self:
  "with_pocket_balance (case m_data m of Some d \<Rightarrow> d_pocket_money_balance d | None \<Rightarrow> 0) m = m"
  by (cases "m_data m") (simp_all add: with_pocket_balance_def)

lemma with_pocket_balance_twice [simp]:
  "with_pocket_balance b (with_pocket_balance c m) = with_pocket_balance b m"
  by (cases "m_data m") (simp_all add: with_pocket_balance_def)

interpretation pocket: state_relation "pocket_only :: 'w most_ctx \<Rightarrow> 'w most_ctx \<Rightarrow> bool"
proof unfold_locales
  show "pocket_only s s" for s :: "'w most_ctx"
    unfolding pocket_only_def by (metis with_pocket_balance_self)
next
  show "pocket_only s s''" if "pocket_only s s'" "pocket_only s' s''" for s s' s'' :: "'w most_ctx"
    using that unfolding pocket_only_def by auto
qed

lemma pocket_call_world: "always pocket_only (call_world f)"
  unfolding always_def pocket_only_def run_simps by (metis ctx.select_convs(1,3) ctx.surjective
      ctx.update_convs(2) with_pocket_balance_self)

lemma pocket_env_transfer: "always pocket_only (env_transfer ch env to a)"
  unfolding always_def pocket_only_def run_simps by (metis ctx.select_convs(1,3) ctx.surjective
      ctx.update_convs(2) with_pocket_balance_self)

lemma pocket_get_data: "always pocket_only get_data"
  unfolding get_data_def by (intro pocket.always_rules)

lemma pocket_send_pocket_money: "always pocket_only (send_pocket_money ch env r)"
proof (rule alwaysI)
  fix s :: "'a most_ctx" and x s'
  assume run: "send_pocket_money ch env r s = Inr (x, s')"
  then obtain d where d: "m_data (storage s) = Some d"
    by (auto simp: send_pocket_money_def run_simps)
  have "with_pocket_balance (d_pocket_money_balance d) (storage s) = storage s"
    using with_pocket_balance_self [of "storage s"] d by simp
  moreover from run d
  have "s' = s \<or> events s' = events s \<and> storage s' = with_pocket_balance
      (d_pocket_money_balance d - current_pocket_money_value ch s) (storage s)"
    by (auto simp: send_pocket_money_def run_simps with_pocket_balance_def
        split: if_splits sum.splits dest!: checked_sub_SomeD)
  ultimately show "pocket_only s s'"
    unfolding pocket_only_def by metis
qed

lemma pocket_pay_out: "always pocket_only (pay_out_request ch env t a r)"
  unfolding pay_out_request_def unwrap_azero_to_def most_transfer_def most_mint_to_def
  by (intro pocket.always_rules pocket_call_world pocket_env_transfer pocket_send_pocket_money)

section \<open>Inversion of a vote\<close>

text \<open>
  The four ways a \<open>receive_request\<close> returns: the request was executed before, the caller had
  signed it before, the vote is recorded, or the vote completes the quorum and the request is
  executed.
\<close>

lemma receive_request_cases:
  assumes run: "receive_request ch env h c t a r n s = Inr (u, s')"
  obtains
    (replay) "h \<in> m_processed_requests (storage s)"
      "s' = s\<lparr>events := events s @ [SignedProcessedRequest h (caller env)]\<rparr>"
  | (again) "h \<notin> m_processed_requests (storage s)" "(h, caller env) \<in> m_signatures (storage s)"
      "s' = s\<lparr>events := events s @ [RequestAlreadySigned_event h (caller env)]\<rparr>"
  | (recorded) k thr where
      "h \<notin> m_processed_requests (storage s)" "(h, caller env) \<notin> m_signatures (storage s)"
      "h = hash_request_data (chain_keccak256 ch) c t a r n"
      "checked_add (signature_count (pending_or_default h (storage s))) 1 = Some k"
      "m_signature_thresholds (storage s) c = Some thr" "\<not> thr \<le> k"
      "s' = s\<lparr>storage := (storage s)\<lparr>m_signatures := insert (h, caller env) (m_signatures (storage s)),
           m_pending_requests := (m_pending_requests (storage s))(h \<mapsto> \<lparr>signature_count = k\<rparr>)\<rparr>,
         events := events s @ [RequestSigned h (caller env)]\<rparr>"
  | (executed) k thr s1 where
      "h \<notin> m_processed_requests (storage s)" "(h, caller env) \<notin> m_signatures (storage s)"
      "h = hash_request_data (chain_keccak256 ch) c t a r n"
      "checked_add (signature_count (pending_or_default h (storage s))) 1 = Some k"
      "m_signature_thresholds (storage s) c = Some thr" "thr \<le> k"
      "pay_out_request ch env t a r
         (s\<lparr>storage := (storage s)\<lparr>m_signatures := insert (h, caller env) (m_signatures (storage s))\<rparr>,
            events := events s @ [RequestSigned h (caller env)]\<rparr>) = Inr ((), s1)"
      "s' = s1\<lparr>storage := (storage s1)\<lparr>m_processed_requests := insert h (m_processed_requests (storage s1)),
           m_pending_requests := (m_pending_requests (storage s1))(h := None)\<rparr>,
         events := events s1 @ [RequestProcessed h t]\<rparr>"
proof -
  let ?m = "storage s"
  let ?signed = "?m\<lparr>m_signatures := insert (h, caller env) (m_signatures ?m)\<rparr>"
  let ?log = "events s @ [RequestSigned h (caller env)]"
  consider (P) "h \<in> m_processed_requests ?m"
    | (S) "h \<notin> m_processed_requests ?m" "(h, caller env) \<in> m_signatures ?m"
    | (V) "h \<notin> m_processed_requests ?m" "(h, caller env) \<notin> m_signatures ?m" by blast
  then show thesis
  proof cases
    case P
    with run show thesis by (intro replay) (auto simp: receive_request_def run_simps)
  next
    case S
    with run show thesis by (intro again) (auto simp: receive_request_def run_simps)
  next
    case V
    with run have A: "h = hash_request_data (chain_keccak256 ch) c t a r n"
      by (simp add: receive_request_def run_simps)
    from run V have "\<exists>k. checked_add (signature_count (pending_or_default h ?m)) 1 = Some k \<and>
      (\<exists>thr. m_signature_thresholds ?m c = Some thr \<and> (if thr \<le> k then \<exists>s1. pay_out_request ch env t a r (s\<lparr>storage := ?signed, events := ?log\<rparr>) =
            Inr ((), s1) \<and>
          s' = s1\<lparr>storage := (storage s1)\<lparr>m_processed_requests := insert h (m_processed_requests (storage s1)),
             m_pending_requests := (m_pending_requests (storage s1))(h := None)\<rparr>,
            events := events s1 @ [RequestProcessed h t]\<rparr>
        else s' = s\<lparr>storage := ?signed\<lparr>m_pending_requests :=
            (m_pending_requests ?m)(h \<mapsto> \<lparr>signature_count = k\<rparr>)\<rparr>, events := ?log\<rparr>))"
      by (simp add: receive_request_def run_simps A [symmetric] cong: if_cong)
    then show thesis using recorded executed V A by (metis (no_types, lifting))
  qed
qed

lemma receive_request_guards:
  assumes "receive_request ch env h c t a r n s = Inr (u, s')"
  shows "(c, caller env) \<in> m_committees (storage s)"
    and "\<exists>d. m_data (storage s) = Some d \<and> \<not> d_is_halted d"
  using assms by (auto simp: receive_request_def run_simps)

lemma receive_settled:
  assumes "receive_request ch env h c t a r n s = Inr (u, s')"
  shows "\<not> needs_signature h (caller env) c' (storage s')"
  using assms
proof (cases rule: receive_request_cases)
  case (executed k thr s1)
  then show ?thesis by (simp add: needs_signature_def)
qed (auto simp: needs_signature_def has_signed_request_def)

section \<open>The other messages leave the votes alone\<close>

fun executed_of :: "most_event \<Rightarrow> HashedRequest list" where
  "executed_of (RequestProcessed h _) = [h]"
| "executed_of _ = []"

definition executed_hashes :: "most_event list \<Rightarrow> HashedRequest list" where
  "executed_hashes es = concat (map executed_of es)"

lemma executed_hashes_append [simp]:
  "executed_hashes (es @ fs) = executed_hashes es @ executed_hashes fs"
  "executed_hashes [] = []" "executed_hashes (e # es) = executed_of e @ executed_hashes es"
  by (simp_all add: executed_hashes_def)

definition same_votes :: "'w most_ctx \<Rightarrow> 'w most_ctx \<Rightarrow> bool" where
  "same_votes s s' \<longleftrightarrow>
     m_pending_requests (storage s') = m_pending_requests (storage s) \<and>
     m_signatures (storage s') = m_signatures (storage s) \<and>
     m_processed_requests (storage s') = m_processed_requests (storage s) \<and>
     executed_hashes (events s') = executed_hashes (events s)"

interpretation votes_frame: state_relation "same_votes :: 'w most_ctx \<Rightarrow> 'w most_ctx \<Rightarrow> bool"
  by unfold_locales (auto simp: same_votes_def)

lemma votes_put_storage:
  assumes "\<And>m. m_pending_requests (f m) = m_pending_requests m \<and> m_signatures (f m) = m_signatures m \<and>
    m_processed_requests (f m) = m_processed_requests m"
  shows "always same_votes (put_storage f)"
  using assms by (auto simp: always_def run_simps same_votes_def)

lemma votes_emit_event: "executed_of e = [] \<Longrightarrow> always same_votes (emit_event e)"
  by (auto simp: always_def run_simps same_votes_def)

lemma votes_calls:
  "always same_votes (call_world f)" "always same_votes (call_env_fn g)"
  "always same_votes (env_transfer ch env to a)" "always same_votes get_data"
  "always same_votes get_ownable_data" "always same_votes (set_data d)"
  "always same_votes ensure_halted" "always same_votes ensure_not_halted"
  "always same_votes (only_committee_member c b)" "always same_votes (owner_only env)"
  "always same_votes (deny_payment env)"
  by (auto simp: always_def run_simps same_votes_def owner_only_def)

lemma votes_fee: "always same_votes (get_base_fee ch env)"
  unfolding get_base_fee_def get_gas_price_with_limits_def get_gas_price_def
  by (intro votes_frame.always_rules votes_calls)

lemmas votes_rules = votes_frame.always_rules votes_calls votes_fee votes_put_storage votes_emit_event

lemma votes_send_inner: "always same_votes (most_send_request_inner ch env st dt a r b f)"
  unfolding most_send_request_inner_def take_tokens_def return_surplus_def most_burn_from_def
    most_transfer_from_def
  by (intro votes_rules; simp)

lemma votes_outstanding: "always same_votes (get_outstanding_member_rewards c b)"
  unfolding get_outstanding_member_rewards_def by (intro votes_rules)

fun is_receive :: "most_call \<Rightarrow> bool" where
  "is_receive (Receive_request _ _ _ _ _ _) = True"
| "is_receive _ = False"

lemma votes_message: "\<not> is_receive k \<Longrightarrow> always same_votes (most_message ch env k)"
  by (cases k; simp only: most_message.simps most_message_defs is_receive.simps simp_thms)
    (intro votes_rules votes_send_inner votes_outstanding; simp)+

lemma votes_dispatch: "\<not> is_receive k \<Longrightarrow> always same_votes (dispatch ch env k)"
  unfolding dispatch_def by (intro votes_rules votes_message)

section \<open>Runs of the contract\<close>

text \<open>
  A run of the contract: it is deployed by its constructor, then any account calls any message
  with any environment; between two calls the rest of the chain changes in any way. A reverted
  call leaves the state, so it is no step. The number counts the calls that succeeded. A
  vector handed to the contract has a length that fits \<open>usize\<close>, 32 bits wide on \<open>wasm32\<close>.
\<close>

fun fits_usize :: "most_call \<Rightarrow> bool" where
  "fits_usize (Set_committee committee _) \<longleftrightarrow> length committee < 2 ^ 32"
| "fits_usize _ \<longleftrightarrow> True"

inductive most_run :: "'w chain \<Rightarrow> nat \<Rightarrow> 'w most_ctx \<Rightarrow> bool" for ch :: "'w chain" where
  deployed: "most_new committee threshold max_pocket relay_usage min_price max_price default_price
      max_age gas_limit buffer orc o' eth_usage = Inr m \<Longrightarrow> length committee < 2 ^ 32 \<Longrightarrow>
    most_run ch 0 \<lparr>storage = m, world = w, events = []\<rparr>"
| called: "most_run ch n s \<Longrightarrow> fits_usize k \<Longrightarrow> dispatch ch env k s = Inr ((), s') \<Longrightarrow>
    most_run ch (Suc n) s'"
| elsewhere: "most_run ch n s \<Longrightarrow> most_run ch n (s\<lparr>world := w\<rparr>)"

lemma most_new_Inr:
  assumes "most_new committee thr mp ru mi ma de ag gl bu orc o' eu = Inr m"
  shows "check_committee committee thr = Inr ()"
    and "m_pending_requests m = (\<lambda>_. None)" "m_signatures m = {}" "m_processed_requests m = {}"
    and "m_committees m = (\<lambda>a. (0, a)) ` set committee"
    and "m_committee_sizes m = [0 \<mapsto> of_nat (length committee)]"
    and "m_signature_thresholds m = [0 \<mapsto> thr]"
    and "m_collected_committee_rewards m = (\<lambda>_. None)" "m_paid_out_member_rewards m = (\<lambda>_. None)"
    and "\<exists>d. m_data m = Some d \<and> d_is_halted d \<and> d_committee_id d = 0 \<and> d_request_nonce d = 0"
    and "m_ownable_data m = Some (ownable_new o')"
  using assms by (auto simp: most_new_def split: sum.splits)

section \<open>The interface of the voting protocol\<close>

definition most_vote :: "'w chain \<Rightarrow> 'w most_ctx \<Rightarrow> AccountId \<Rightarrow> HashedRequest \<Rightarrow> CommitteeId \<Rightarrow>
    'w most_ctx \<Rightarrow> bool" where
  "most_vote ch s a h c s' \<longleftrightarrow>
     (\<exists>env t am r n. caller env = a \<and> receive_request ch env h c t am r n s = Inr ((), s'))"

definition most_other :: "'w chain \<Rightarrow> 'w most_ctx \<Rightarrow> 'w most_ctx \<Rightarrow> bool" where
  "most_other ch s s' \<longleftrightarrow>
     (\<exists>env k. \<not> is_receive k \<and> dispatch ch env k s = Inr ((), s')) \<or> (\<exists>w. s' = s\<lparr>world := w\<rparr>)"

definition most_init :: "'w most_ctx \<Rightarrow> bool" where
  "most_init s \<longleftrightarrow> events s = [] \<and> m_pending_requests (storage s) = (\<lambda>_. None) \<and>
     m_signatures (storage s) = {} \<and> m_processed_requests (storage s) = {}"

definition signers_of :: "Most \<Rightarrow> HashedRequest \<Rightarrow> AccountId set" where
  "signers_of m h = {a. (h, a) \<in> m_signatures m}"

definition counted_of :: "Most \<Rightarrow> HashedRequest \<Rightarrow> nat" where
  "counted_of m h = unat (signature_count (pending_or_default h m))"

definition threshold_of :: "Most \<Rightarrow> CommitteeId \<Rightarrow> nat" where
  "threshold_of m c = (case m_signature_thresholds m c of None \<Rightarrow> 0 | Some t \<Rightarrow> unat t)"

lemma signers_of_insert [simp]:
  "signers_of (m\<lparr>m_signatures := insert (h, a) (m_signatures m)\<rparr>) =
     (signers_of m)(h := insert a (signers_of m h))"
  by (auto simp: signers_of_def fun_eq_iff)

lemma pending_or_default_upd [simp]:
  "pending_or_default g (m\<lparr>m_pending_requests := (m_pending_requests m)(h \<mapsto> r)\<rparr>) =
     (if g = h then r else pending_or_default g m)"
  "pending_or_default g (m\<lparr>m_pending_requests := (m_pending_requests m)(h := None)\<rparr>) =
     (if g = h then \<lparr>signature_count = 0\<rparr> else pending_or_default g m)"
  by (auto simp: pending_or_default_def)

lemma with_pocket_balance_fields [simp]:
  "m_pending_requests (with_pocket_balance b m) = m_pending_requests m"
  "m_signatures (with_pocket_balance b m) = m_signatures m"
  "m_processed_requests (with_pocket_balance b m) = m_processed_requests m"
  "m_committees (with_pocket_balance b m) = m_committees m"
  "m_committee_sizes (with_pocket_balance b m) = m_committee_sizes m"
  "m_signature_thresholds (with_pocket_balance b m) = m_signature_thresholds m"
  "m_supported_pairs (with_pocket_balance b m) = m_supported_pairs m"
  "m_local_token (with_pocket_balance b m) = m_local_token m"
  "m_collected_committee_rewards (with_pocket_balance b m) = m_collected_committee_rewards m"
  "m_paid_out_member_rewards (with_pocket_balance b m) = m_paid_out_member_rewards m"
  "m_ownable_data (with_pocket_balance b m) = m_ownable_data m"
  "m_wazero (with_pocket_balance b m) = m_wazero m" "m_weth (with_pocket_balance b m) = m_weth m"
  "m_payout_accounts (with_pocket_balance b m) = m_payout_accounts m"
  "m_eth_transfer_gas_usage (with_pocket_balance b m) = m_eth_transfer_gas_usage m"
  by (simp_all add: with_pocket_balance_def)

interpretation mv: guardian_votes most_init "most_vote ch" "most_other ch"
  "\<lambda>s. m_processed_requests (storage s)" "\<lambda>s. signers_of (storage s)" "\<lambda>s. counted_of (storage s)"
  "\<lambda>s. executed_hashes (events s)" "\<lambda>s. threshold_of (storage s)"
  for ch :: "'w chain"
proof (unfold_locales, goal_cases)
  case (1 s)
  then show ?case
    by (auto simp: most_init_def signers_of_def counted_of_def pending_or_default_def)
next
  case (2 s a h c s')
  then obtain env t am r n where env: "caller env = a"
    and run: "receive_request ch env h c t am r n s = Inr ((), s')"
    by (auto simp: most_vote_def)
  from run 2(2) env show ?case
    by (cases rule: receive_request_cases) (auto simp: signers_of_def)
next
  case (3 s a h c s')
  then obtain env t am r n where env: "caller env = a"
    and run: "receive_request ch env h c t am r n s = Inr ((), s')"
    by (auto simp: most_vote_def)
  from run show ?case
  proof (cases rule: receive_request_cases)
    case (recorded k thr)
    with env checked_add_SomeD [OF recorded(4)] show ?thesis
      by (auto simp: threshold_of_def counted_of_def signers_of_def word_le_nat_alt fun_eq_iff
          pending_or_default_def)
  next
    case (executed k thr s1)
    from alwaysD [OF pocket_pay_out executed(7)] env executed checked_add_SomeD [OF executed(4)]
    show ?thesis
      by (auto simp: threshold_of_def counted_of_def signers_of_def word_le_nat_alt fun_eq_iff
          pending_or_default_def pocket_only_def)
  next
    case replay
    with 3 show ?thesis by simp
  next
    case again
    with 3 env show ?thesis by (simp add: signers_of_def)
  qed
next
  case (4 s s')
  then show ?case
    by (auto simp: most_other_def same_votes_def signers_of_def counted_of_def
        pending_or_default_def dest!: votes_dispatch [THEN alwaysD])
qed

lemma dispatch_receive:
  "dispatch ch env k s = Inr ((), s') \<Longrightarrow> is_receive k \<Longrightarrow> \<exists>h c. most_vote ch s (caller env) h c s'"
  unfolding most_vote_def by (cases k) (simp_all add: dispatch_def run_simps, blast)

lemma most_otherI:
  "\<not> is_receive k \<Longrightarrow> dispatch ch env k s = Inr ((), s') \<Longrightarrow> most_other ch s s'"
  "most_other ch s (s\<lparr>world := w\<rparr>)"
  unfolding most_other_def by blast+

lemma most_run_reached: "most_run ch n s \<Longrightarrow> mv.reached ch s"
proof (induction rule: most_run.induct)
  case deployed
  then show ?case
    by (intro mv.reached_init) (auto simp: most_init_def dest: most_new_Inr)
next
  case (called n s k env s')
  then show ?case
    by (cases "is_receive k") (blast dest: dispatch_receive intro: mv.reached_vote,
        blast intro: mv.reached_other most_otherI)
next
  case (elsewhere n s w)
  then show ?case by (blast intro: mv.reached_other most_otherI)
qed

end
