(* ===== verification/Most_Frames.thy ===== *)
theory Most_Frames
  imports Most_Voting
begin

text \<open>
  What each message of the Aleph Zero bridge changes: the exact effect of the outgoing-request
  and reward messages, and the frame rules \<open>keeps f m\<close> (the message \<open>m\<close> leaves the part \<open>f\<close>
  of the storage as it is), from which the invariants of the contract are assembled.
\<close>

section \<open>Frame rules\<close>

definition keeps :: "(Most \<Rightarrow> 'b) \<Rightarrow> 'w most_ctx \<Rightarrow> 'w most_ctx \<Rightarrow> bool" where
  "keeps f s s' \<longleftrightarrow> f (storage s') = f (storage s)"

interpretation field_frame: state_relation "keeps f :: 'w most_ctx \<Rightarrow> 'w most_ctx \<Rightarrow> bool"
  for f :: "Most \<Rightarrow> 'b"
  by unfold_locales (auto simp: keeps_def)

lemma keeps_put_storage: "(\<And>m. f (g m) = f m) \<Longrightarrow> always (keeps f) (put_storage g)"
  by (auto simp: always_def run_simps keeps_def)

lemma keeps_set_data: "(\<And>m d. f (m\<lparr>m_data := Some d\<rparr>) = f m) \<Longrightarrow> always (keeps f) (set_data d)"
  by (auto simp: always_def run_simps keeps_def)

lemma keeps_send_pocket_money:
  "(\<And>m b. f (with_pocket_balance b m) = f m) \<Longrightarrow> always (keeps f) (send_pocket_money ch env r)"
  using pocket_send_pocket_money by (fastforce simp: always_def keeps_def pocket_only_def)

lemma keeps_calls:
  "always (keeps f) (call_world g)" "always (keeps f) (call_env_fn g')"
  "always (keeps f) (env_transfer ch env to a)" "always (keeps f) get_data"
  "always (keeps f) get_ownable_data" "always (keeps f) (emit_event e)"
  "always (keeps f) ensure_halted" "always (keeps f) ensure_not_halted"
  "always (keeps f) (only_committee_member c b)" "always (keeps f) (owner_only env)"
  "always (keeps f) (deny_payment env)"
  by (auto simp: always_def run_simps keeps_def owner_only_def)

lemma keeps_queries:
  "always (keeps f) (get_base_fee ch env)" "always (keeps f) (get_outstanding_member_rewards c b)"
  unfolding get_base_fee_def get_gas_price_with_limits_def get_gas_price_def
    get_outstanding_member_rewards_def
  by (intro field_frame.always_rules keeps_calls)+

lemmas keeps_rules = field_frame.always_rules keeps_calls keeps_queries keeps_put_storage
  keeps_set_data keeps_send_pocket_money

section \<open>Fields that only some messages write\<close>

fun sets_committee :: "most_call \<Rightarrow> bool" where
  "sets_committee (Set_committee _ _) = True"
| "sets_committee _ = False"

definition committee_part :: "Most \<Rightarrow> (CommitteeId \<times> AccountId) set \<times> (CommitteeId \<Rightarrow> u128 option) \<times>
    (CommitteeId \<Rightarrow> u128 option)" where
  "committee_part m = (m_committees m, m_committee_sizes m, m_signature_thresholds m)"

lemma committee_part_message: "\<not> sets_committee k \<Longrightarrow> always (keeps committee_part) (most_message ch env k)"
  by (cases k; simp only: most_message.simps most_message_defs most_token_defs sets_committee.simps
      simp_thms) (intro keeps_rules; simp add: committee_part_def)+

section \<open>Outgoing requests\<close>

text \<open>Moving tokens and native currency touches neither the storage nor the event log.\<close>

definition world_only :: "'w most_ctx \<Rightarrow> 'w most_ctx \<Rightarrow> bool" where
  "world_only s s' \<longleftrightarrow> storage s' = storage s \<and> events s' = events s"

interpretation world_frame: state_relation "world_only :: 'w most_ctx \<Rightarrow> 'w most_ctx \<Rightarrow> bool"
  by unfold_locales (auto simp: world_only_def)

lemma world_calls: "always world_only (call_world g)" "always world_only (env_transfer ch env to a)"
  by (auto simp: always_def run_simps world_only_def)

lemma world_take_tokens: "always world_only (take_tokens ch env st a b)"
  unfolding take_tokens_def most_burn_from_def most_transfer_from_def
  by (intro world_frame.always_rules world_calls)

lemma world_return_surplus: "always world_only (return_surplus ch env f fee)"
  unfolding return_surplus_def by (intro world_frame.always_rules world_calls)

lemma get_base_fee_pure: "get_base_fee ch env s = Inr (fee, s') \<Longrightarrow> s' = s"
  by (auto simp: get_base_fee_def get_gas_price_with_limits_def get_gas_price_def run_simps
      split: option.splits)

text \<open>
  An outgoing request that is accepted charges the base fee to the current committee, uses the
  current nonce and moves it on, and emits exactly the event with that nonce.
\<close>

lemma send_inner_effect:
  assumes "most_send_request_inner ch env st dt a r b f s = Inr (u, s')"
  shows "\<exists>d fee n'. m_data (storage s) = Some d \<and>
    get_base_fee ch env s = Inr (fee, s) \<and> fee \<le> f \<and> a \<noteq> 0 \<and> r \<noteq> ZERO_ADDRESS \<and>
    checked_add (d_request_nonce d) 1 = Some n' \<and>
    checked_add (get_collected_committee_rewards (d_committee_id d) (storage s)) fee \<noteq> None \<and>
    storage s' = (storage s)\<lparr>m_data := Some (d\<lparr>d_request_nonce := n'\<rparr>),
      m_collected_committee_rewards := (m_collected_committee_rewards (storage s))(d_committee_id d \<mapsto>
        get_collected_committee_rewards (d_committee_id d) (storage s) + fee)\<rparr> \<and>
    events s' = events s @ [CrosschainTransferRequest (d_committee_id d) dt a r (d_request_nonce d)]"
proof -
  from assms obtain fee s1 s2 s3 d n' tot where
    fee: "get_base_fee ch env s = Inr (fee, s1)" "\<not> f < fee" "a \<noteq> 0" "r \<noteq> ZERO_ADDRESS"
    and tok: "take_tokens ch env st a b s1 = Inr ((), s2)"
    and d: "m_data (storage s2) = Some d"
    and tot: "checked_add (get_collected_committee_rewards (d_committee_id d) (storage s2)) fee = Some tot"
    and n': "checked_add (d_request_nonce d) 1 = Some n'"
    and sur: "return_surplus ch env f fee (s2\<lparr>storage := (storage s2)\<lparr>
        m_collected_committee_rewards := (m_collected_committee_rewards (storage s2))(d_committee_id d \<mapsto> tot),
        m_data := Some (d\<lparr>d_request_nonce := n'\<rparr>)\<rparr>\<rparr>) = Inr ((), s3)"
    and s': "s' = s3\<lparr>events := events s3 @
        [CrosschainTransferRequest (d_committee_id d) dt a r (d_request_nonce d)]\<rparr>"
    by (simp add: most_send_request_inner_def run_simps) blast
  have "s1 = s" using get_base_fee_pure fee(1) by blast
  with alwaysD [OF world_take_tokens tok] alwaysD [OF world_return_surplus sur] fee d tot n' s'
    checked_add_SomeD [OF tot]
  show ?thesis by (simp add: world_only_def not_less)
qed

fun is_send :: "most_call \<Rightarrow> bool" where
  "is_send (Send_request _ _ _) = True"
| "is_send (Send_request_native_ether _ _) = True"
| "is_send (Send_request_native_azero _ _) = True"
| "is_send _ = False"

text \<open>Every send message succeeds through \<open>_send_request\<close>, from the same storage and log.\<close>

lemma send_message_inner:
  assumes "is_send k" "most_message ch env k s = Inr (u, s')"
  shows "\<exists>st dt a r b f s1. world_only s s1 \<and> most_send_request_inner ch env st dt a r b f s1 = Inr (u, s')"
proof (cases k)
  case (Send_request t a r)
  with assms(2) show ?thesis
    by (simp add: send_request_def run_simps world_only_def) blast
next
  case (Send_request_native_ether a r)
  with assms(2) show ?thesis
    by (simp add: send_request_native_ether_def run_simps world_only_def) blast
next
  case (Send_request_native_azero a r)
  with assms(2) obtain w f z dt where
    "most_send_request_inner ch env z dt (saturating_mul a RATIO) r True f (s\<lparr>world := w\<rparr>) = Inr (u, s')"
    by (simp add: send_request_native_azero_def run_simps) blast
  moreover have "world_only s (s\<lparr>world := w\<rparr>)" by (simp add: world_only_def)
  ultimately show ?thesis by blast
qed (use assms(1) in simp_all)

section \<open>Payouts\<close>

lemma payout_effect:
  assumes "payout_rewards ch env c a s = Inr (u, s')"
  shows "events s' = events s \<and> (storage s' = storage s \<or>
    (\<exists>sz. m_committee_sizes (storage s) c = Some sz \<and> sz \<noteq> 0 \<and> (c, a) \<in> m_committees (storage s) \<and>
      get_paid_out_member_rewards c a (storage s) \<le> get_collected_committee_rewards c (storage s) div sz \<and>
      storage s' = (storage s)\<lparr>m_paid_out_member_rewards :=
        (m_paid_out_member_rewards (storage s))((a, c) \<mapsto>
           get_collected_committee_rewards c (storage s) div sz)\<rparr>))"
  using assms
  by (auto simp: payout_rewards_def get_outstanding_member_rewards_def is_in_committee_def run_simps
      saturating_sub_def split: if_splits dest!: checked_div_SomeD checked_add_SomeD)

section \<open>Nonces and the committee number\<close>

definition nonce_of :: "Most \<Rightarrow> u128" where
  "nonce_of m = (case m_data m of None \<Rightarrow> 0 | Some d \<Rightarrow> d_request_nonce d)"

definition committee_of :: "Most \<Rightarrow> u128" where
  "committee_of m = (case m_data m of None \<Rightarrow> 0 | Some d \<Rightarrow> d_committee_id d)"

fun nonces_of :: "most_event \<Rightarrow> u128 list" where
  "nonces_of (CrosschainTransferRequest _ _ _ _ n) = [n]"
| "nonces_of _ = []"

definition request_nonces :: "most_event list \<Rightarrow> u128 list" where
  "request_nonces es = concat (map nonces_of es)"

lemma request_nonces_append [simp]:
  "request_nonces (es @ fs) = request_nonces es @ request_nonces fs"
  "request_nonces [] = []" "request_nonces (e # es) = nonces_of e @ request_nonces es"
  by (simp_all add: request_nonces_def)

lemma with_pocket_balance_nonce [simp]:
  "nonce_of (with_pocket_balance b m) = nonce_of m"
  "committee_of (with_pocket_balance b m) = committee_of m"
  by (auto simp: with_pocket_balance_def nonce_of_def committee_of_def split: option.splits)

lemma receive_keeps:
  assumes "receive_request ch env h c t a r n s = Inr (u, s')"
    and "\<And>m b. f (with_pocket_balance b m) = f m"
    and "\<And>m x. f (m\<lparr>m_signatures := x\<rparr>) = f m" "\<And>m x. f (m\<lparr>m_processed_requests := x\<rparr>) = f m"
    and "\<And>m x. f (m\<lparr>m_pending_requests := x\<rparr>) = f m"
  shows "f (storage s') = f (storage s)" "request_nonces (events s') = request_nonces (events s)"
proof -
  from assms(1) have "f (storage s') = f (storage s) \<and> request_nonces (events s') = request_nonces (events s)"
  proof (cases rule: receive_request_cases)
    case (executed k thr s1)
    from alwaysD [OF pocket_pay_out executed(7)] executed(8) assms(2-) show ?thesis
      by (auto simp: pocket_only_def)
  qed (simp_all add: assms(2-))
  then show "f (storage s') = f (storage s)" "request_nonces (events s') = request_nonces (events s)"
    by simp_all
qed

lemma admin_nonces:
  assumes "most_message ch env k s = Inr (u, s')" "\<not> is_send k" "\<not> is_receive k"
  shows "nonce_of (storage s') = nonce_of (storage s)"
    and "request_nonces (events s') = request_nonces (events s)"
    and "\<not> sets_committee k \<Longrightarrow> committee_of (storage s') = committee_of (storage s)"
proof -
  have "nonce_of (storage s') = nonce_of (storage s) \<and> request_nonces (events s') = request_nonces (events s) \<and>
    (\<not> sets_committee k \<longrightarrow> committee_of (storage s') = committee_of (storage s))"
  proof (cases "\<exists>c a. k = Payout_rewards c a")
    case True
    with assms(1) show ?thesis
      by (auto dest!: payout_effect simp: nonce_of_def committee_of_def)
  next
    case False
    with assms show ?thesis
      by (cases k; simp add: most_message_defs owner_only_def run_simps)
        (auto simp: nonce_of_def committee_of_def run_simps split: if_splits option.split_asm)
  qed
  then show "nonce_of (storage s') = nonce_of (storage s)"
    "request_nonces (events s') = request_nonces (events s)"
    "\<not> sets_committee k \<Longrightarrow> committee_of (storage s') = committee_of (storage s)" by simp_all
qed

end
