(* ===== verification/Most_Invariants.thy ===== *)
theory Most_Invariants
  imports Most_Frames
begin

text \<open>
  Invariants of the Aleph Zero bridge over all its messages: the numbering of outgoing
  requests, and the book-keeping of committees and their rewards.
\<close>

section \<open>Outgoing requests are numbered consecutively\<close>

definition nonce_inv :: "'w most_ctx \<Rightarrow> bool" where
  "nonce_inv s \<longleftrightarrow> map unat (request_nonces (events s)) = [0..<unat (nonce_of (storage s))]"

lemma world_only_same:
  "world_only s s1 \<Longrightarrow> storage s1 = storage s" "world_only s s1 \<Longrightarrow> events s1 = events s"
  by (simp_all add: world_only_def)

lemma nonce_of_fields:
  "nonce_of (m\<lparr>m_signatures := x\<rparr>) = nonce_of m" "nonce_of (m\<lparr>m_processed_requests := y\<rparr>) = nonce_of m"
  "nonce_of (m\<lparr>m_pending_requests := z\<rparr>) = nonce_of m"
  "committee_of (m\<lparr>m_signatures := x\<rparr>) = committee_of m"
  "committee_of (m\<lparr>m_processed_requests := y\<rparr>) = committee_of m"
  "committee_of (m\<lparr>m_pending_requests := z\<rparr>) = committee_of m"
  by (simp_all add: nonce_of_def committee_of_def)

lemma nonce_inv_message:
  assumes inv: "nonce_inv s" and run: "most_message ch env k s = Inr (u, s')"
  shows "nonce_inv s'"
proof -
  consider (send) "is_send k" | (receive) "is_receive k" | (admin) "\<not> is_send k" "\<not> is_receive k" by blast
  then show ?thesis
  proof cases
    case send
    with run obtain st dt a r b f s1 where s1: "world_only s s1"
      and inner: "most_send_request_inner ch env st dt a r b f s1 = Inr (u, s')"
      using send_message_inner by blast
    from send_inner_effect [OF inner] inv world_only_same [OF s1] show ?thesis
      by (auto simp: nonce_inv_def nonce_of_def dest!: checked_add_SomeD)
  next
    case receive
    then obtain h c t a r n where "k = Receive_request h c t a r n" by (cases k) auto
    with run have "receive_request ch env h c t a r n s = Inr (u, s')" by simp
    from receive_keeps [OF this with_pocket_balance_nonce(1)] inv show ?thesis
      by (simp add: nonce_inv_def nonce_of_fields)
  next
    case admin
    from admin_nonces [OF run admin] inv show ?thesis by (simp add: nonce_inv_def)
  qed
qed

lemma dispatch_message: "dispatch ch env k s = Inr (u, s') \<Longrightarrow> most_message ch env k s = Inr (u, s')"
  by (auto simp: dispatch_def run_simps split: if_splits)

lemma most_run_nonce_inv: "most_run ch n s \<Longrightarrow> nonce_inv s"
proof (induction rule: most_run.induct)
  case deployed
  then show ?case by (auto simp: nonce_inv_def nonce_of_def dest!: most_new_Inr(10))
next
  case (called n s k env s')
  then show ?case by (blast intro: nonce_inv_message dispatch_message)
next
  case (elsewhere n s w)
  then show ?case by (simp add: nonce_inv_def)
qed

section \<open>Committees and rewards\<close>

lemma occurs_later_set [simp]: "occurs_later x xs \<longleftrightarrow> x \<in> set xs"
  by (induction xs) auto

lemma has_duplicate_distinct [simp]: "has_duplicate xs \<longleftrightarrow> \<not> distinct xs"
  by (induction xs) auto

lemma check_committee_ok:
  "check_committee committee t = Inr u \<longleftrightarrow>
     t \<noteq> 0 \<and> unat (ucast t :: u32) \<le> length committee \<and> distinct committee"
  by (auto simp: check_committee_def)

definition members_of :: "Most \<Rightarrow> CommitteeId \<Rightarrow> AccountId set" where
  "members_of m c = {a. (c, a) \<in> m_committees m}"

definition committee_ok :: "Most \<Rightarrow> CommitteeId \<Rightarrow> bool" where
  "committee_ok m c \<longleftrightarrow>
     (case m_committee_sizes m c of
        None \<Rightarrow> m_signature_thresholds m c = None \<and> members_of m c = {} \<and>
          (\<forall>a. get_paid_out_member_rewards c a m = 0)
      | Some size' \<Rightarrow> card (members_of m c) = unat size' \<and>
          (\<exists>t. m_signature_thresholds m c = Some t \<and> t \<noteq> 0 \<and> unat (ucast t :: u32) \<le> unat size') \<and>
          (\<forall>a. unat (get_paid_out_member_rewards c a m) \<le>
             unat (get_collected_committee_rewards c m) div unat size'))"

definition committees_inv :: "Most \<Rightarrow> bool" where
  "committees_inv m \<longleftrightarrow> (\<forall>c. committee_ok m c) \<and>
     (\<forall>c. committee_of m < c \<longrightarrow> m_committee_sizes m c = None) \<and>
     m_committee_sizes m (committee_of m) \<noteq> None"

definition ledger_part :: "Most \<Rightarrow> ((CommitteeId \<times> AccountId) set \<times> (CommitteeId \<Rightarrow> u128 option) \<times>
    (CommitteeId \<Rightarrow> u128 option)) \<times> (CommitteeId \<Rightarrow> u128 option) \<times> (AccountId \<times> CommitteeId \<Rightarrow> u128 option)" where
  "ledger_part m = (committee_part m, m_collected_committee_rewards m, m_paid_out_member_rewards m)"

lemmas ledger_defs = ledger_part_def committee_part_def

fun touches_ledger :: "most_call \<Rightarrow> bool" where
  "touches_ledger (Set_committee _ _) = True"
| "touches_ledger (Payout_rewards _ _) = True"
| "touches_ledger (Send_request _ _ _) = True"
| "touches_ledger (Send_request_native_ether _ _) = True"
| "touches_ledger (Send_request_native_azero _ _) = True"
| "touches_ledger _ = False"

lemma ledger_part_message: "\<not> touches_ledger k \<Longrightarrow> always (keeps ledger_part) (most_message ch env k)"
  by (cases k; simp only: most_message.simps most_message_defs most_token_defs touches_ledger.simps
      simp_thms) (intro keeps_rules; simp add: ledger_defs)+

lemma committees_inv_D: "committees_inv m \<Longrightarrow> committee_ok m c"
  by (simp add: committees_inv_def)

lemma committees_inv_cong:
  assumes "ledger_part m' = ledger_part m" "committee_of m' = committee_of m"
  shows "committees_inv m' \<longleftrightarrow> committees_inv m"
proof -
  have "members_of m' = members_of m" "m_committee_sizes m' = m_committee_sizes m"
    "m_signature_thresholds m' = m_signature_thresholds m"
    "(\<lambda>c a. get_paid_out_member_rewards c a m') = (\<lambda>c a. get_paid_out_member_rewards c a m)"
    "(\<lambda>c. get_collected_committee_rewards c m') = (\<lambda>c. get_collected_committee_rewards c m)"
    using assms(1) by (simp_all add: ledger_defs fun_eq_iff members_of_def
        get_paid_out_member_rewards_def get_collected_committee_rewards_def)
  then have "committee_ok m' c = committee_ok m c" for c
    by (auto simp: committee_ok_def fun_eq_iff split: option.splits)
  with assms show ?thesis by (simp add: committees_inv_def ledger_defs)
qed

lemma committees_inv_send:
  assumes inv: "committees_inv (storage s)"
    and run: "most_send_request_inner ch env st dt a r b f s = Inr (u, s')"
  shows "committees_inv (storage s')"
proof -
  from send_inner_effect [OF run] obtain d fee n' where d: "m_data (storage s) = Some d"
    and add: "checked_add (get_collected_committee_rewards (d_committee_id d) (storage s)) fee \<noteq> None"
    and s': "storage s' = (storage s)\<lparr>m_data := Some (d\<lparr>d_request_nonce := n'\<rparr>),
      m_collected_committee_rewards := (m_collected_committee_rewards (storage s))(d_committee_id d \<mapsto>
        get_collected_committee_rewards (d_committee_id d) (storage s) + fee)\<rparr>" by blast
  let ?m = "storage s" and ?m' = "storage s'"
  have mono: "unat (get_collected_committee_rewards c ?m) \<le> unat (get_collected_committee_rewards c ?m')" for c
    using add s' by (auto simp: get_collected_committee_rewards_def dest: checked_add_SomeD)
  have same: "m_committee_sizes ?m' = m_committee_sizes ?m" "members_of ?m' = members_of ?m"
    "m_signature_thresholds ?m' = m_signature_thresholds ?m" "committee_of ?m' = committee_of ?m"
    "get_paid_out_member_rewards c a ?m' = get_paid_out_member_rewards c a ?m" for c a
    using d s' by (simp_all add: members_of_def fun_eq_iff committee_of_def get_paid_out_member_rewards_def)
  have "committee_ok ?m' c" for c
    using committees_inv_D [OF inv, of c] same order_trans [OF _ div_le_mono [OF mono]]
    by (auto simp: committee_ok_def split: option.splits)
  with inv same show ?thesis by (simp add: committees_inv_def)
qed

lemma committees_inv_payout:
  assumes inv: "committees_inv (storage s)" and run: "payout_rewards ch env c a s = Inr (u, s')"
  shows "committees_inv (storage s')"
proof -
  from payout_effect [OF run] consider "storage s' = storage s"
    | sz where "m_committee_sizes (storage s) c = Some sz"
      "storage s' = (storage s)\<lparr>m_paid_out_member_rewards := (m_paid_out_member_rewards (storage s))
         ((a, c) \<mapsto> get_collected_committee_rewards c (storage s) div sz)\<rparr>" by blast
  then show ?thesis
  proof cases
    case 2
    let ?m' = "storage s'"
    have same: "m_committee_sizes ?m' = m_committee_sizes (storage s)"
      "members_of ?m' = members_of (storage s)" "committee_of ?m' = committee_of (storage s)"
      "m_signature_thresholds ?m' = m_signature_thresholds (storage s)"
      "get_collected_committee_rewards g ?m' = get_collected_committee_rewards g (storage s)" for g
      using 2(2) by (simp_all add: members_of_def fun_eq_iff committee_of_def get_collected_committee_rewards_def)
    have paid: "get_paid_out_member_rewards g b ?m' = (if g = c \<and> b = a
        then get_collected_committee_rewards c (storage s) div sz
        else get_paid_out_member_rewards g b (storage s))" for g b
      using 2(2) by (simp add: get_paid_out_member_rewards_def)
    have "committee_ok ?m' g" for g
      using committees_inv_D [OF inv, of g] 2(1) same paid
      by (auto simp: committee_ok_def unat_div split: option.splits)
    with inv same show ?thesis by (simp add: committees_inv_def)
  qed (use inv in simp)
qed

lemma committees_inv_set_committee:
  assumes inv: "committees_inv (storage s)" and run: "set_committee env committee t s = Inr (u, s')"
    and len: "length committee < 2 ^ 32" and nowrap: "committee_of (storage s) \<noteq> - 1"
  shows "committees_inv (storage s')" "unat (committee_of (storage s')) = Suc (unat (committee_of (storage s)))"
proof -
  let ?m = "storage s" and ?m' = "storage s'"
  from run obtain d where d: "m_data ?m = Some d" and ok: "check_committee committee t = Inr ()"
    and s': "?m' = ?m\<lparr>m_data := Some (d\<lparr>d_committee_id := d_committee_id d + 1\<rparr>),
      m_committee_sizes := (m_committee_sizes ?m)(d_committee_id d + 1 \<mapsto> of_nat (length committee)),
      m_committees := m_committees ?m \<union> (\<lambda>a. (d_committee_id d + 1, a)) ` set committee,
      m_signature_thresholds := (m_signature_thresholds ?m)(d_committee_id d + 1 \<mapsto> t)\<rparr>"
    by (auto simp: set_committee_def owner_only_def run_simps)
  let ?c = "d_committee_id d + 1"
  have cid: "committee_of ?m = d_committee_id d" "committee_of ?m' = ?c"
    using d s' by (simp_all add: committee_of_def)
  have suc: "unat ?c = Suc (unat (d_committee_id d))"
    using nowrap cid(1) by (simp add: unat_add_1)
  then show "unat (committee_of ?m') = Suc (unat (committee_of ?m))" using cid by simp
  from suc have gt: "d_committee_id d < ?c" by (simp add: word_less_nat_alt)
  with inv cid have fresh: "m_committee_sizes ?m ?c = None" by (simp add: committees_inv_def)
  with committees_inv_D [OF inv, of ?c]
  have none: "members_of ?m ?c = {}" "\<And>a. get_paid_out_member_rewards ?c a ?m = 0"
    by (auto simp: committee_ok_def)
  have len': "unat (of_nat (length committee) :: u128) = length committee"
    using len by (intro unat_of_nat_small) simp
  have mem: "members_of ?m' g = (if g = ?c then set committee else members_of ?m g)" for g
    using s' none(1) by (auto simp: members_of_def)
  have rew: "get_paid_out_member_rewards g a ?m' = get_paid_out_member_rewards g a ?m"
    "get_collected_committee_rewards g ?m' = get_collected_committee_rewards g ?m" for g a
    using s' by (simp_all add: get_paid_out_member_rewards_def get_collected_committee_rewards_def)
  have siz: "m_committee_sizes ?m' g = (if g = ?c then Some (of_nat (length committee)) else m_committee_sizes ?m g)"
    "m_signature_thresholds ?m' g = (if g = ?c then Some t else m_signature_thresholds ?m g)" for g
    using s' by simp_all
  have ok': "committee_ok ?m' g" for g
  proof (cases "g = ?c")
    case True
    with siz mem rew none ok len' show ?thesis
      by (simp add: committee_ok_def check_committee_ok distinct_card)
  next
    case False
    with committees_inv_D [OF inv, of g] siz mem rew show ?thesis
      by (auto simp: committee_ok_def split: option.splits)
  qed
  have "m_committee_sizes ?m' g = None" if "?c < g" for g
    using that gt inv s' cid by (simp add: committees_inv_def)
  with ok' show "committees_inv ?m'" using cid s' by (auto simp: committees_inv_def)
qed

lemma committees_inv_new:
  assumes "most_new committee t mp ru mi ma de ag gl bu orc o' eu = Inr m" "length committee < 2 ^ 32"
  shows "committees_inv m" "committee_of m = 0"
proof -
  note new = most_new_Inr [OF assms(1)]
  show c0: "committee_of m = 0" using new(10) by (auto simp: committee_of_def)
  have "unat (of_nat (length committee) :: u128) = length committee"
    using assms(2) by (intro unat_of_nat_small) simp
  moreover have "members_of m c = (if c = 0 then set committee else {})" for c
    using new(5) by (auto simp: members_of_def)
  ultimately have "committee_ok m c" for c
    using new by (auto simp: committee_ok_def get_paid_out_member_rewards_def check_committee_ok
        distinct_card)
  then show "committees_inv m" using c0 new(6) by (simp add: committees_inv_def)
qed

lemma committees_inv_message:
  assumes inv: "committees_inv (storage s)" and run: "most_message ch env k s = Inr (u, s')"
    and k: "fits_usize k" "sets_committee k \<Longrightarrow> committee_of (storage s) \<noteq> - 1"
  shows "committees_inv (storage s') \<and> unat (committee_of (storage s')) \<le> Suc (unat (committee_of (storage s)))"
proof -
  consider (send) "is_send k" | (pay) c a where "k = Payout_rewards c a"
    | (set) c t where "k = Set_committee c t" | (rec) h c t a r n where "k = Receive_request h c t a r n"
    | (rest) "\<not> touches_ledger k" "\<not> is_send k" "\<not> is_receive k" "\<not> sets_committee k"
    by (cases k) auto
  then show ?thesis
  proof cases
    case send
    with run obtain st dt a r b f s1 where s1: "world_only s s1"
      and inner: "most_send_request_inner ch env st dt a r b f s1 = Inr (u, s')"
      using send_message_inner by blast
    have "committee_of (storage s') = committee_of (storage s)"
      using send_inner_effect [OF inner] world_only_same [OF s1] by (auto simp: committee_of_def)
    with committees_inv_send [OF _ inner] inv world_only_same [OF s1] show ?thesis by simp
  next
    case pay
    with run have "payout_rewards ch env c a s = Inr (u, s')" by simp
    with payout_effect [OF this] committees_inv_payout [OF inv this] show ?thesis
      by (auto simp: committee_of_def)
  next
    case set
    with run have "set_committee env c t s = Inr (u, s')" by simp
    from committees_inv_set_committee [OF inv this] k set show ?thesis by simp
  next
    case rec
    with run have rcv: "receive_request ch env h c t a r n s = Inr (u, s')" by simp
    have "ledger_part (storage s') = ledger_part (storage s)"
      by (rule receive_keeps(1) [OF rcv]) (simp_all add: ledger_defs)
    moreover have "committee_of (storage s') = committee_of (storage s)"
      by (rule receive_keeps(1) [OF rcv]) (simp_all add: nonce_of_fields)
    ultimately show ?thesis using inv committees_inv_cong [of "storage s'" "storage s"] by simp
  next
    case rest
    from alwaysD [OF ledger_part_message [OF rest(1)] run]
    have "ledger_part (storage s') = ledger_part (storage s)" by (simp add: keeps_def)
    moreover from admin_nonces(3) [OF run] rest
    have "committee_of (storage s') = committee_of (storage s)" by blast
    ultimately show ?thesis using inv committees_inv_cong [of "storage s'" "storage s"] by simp
  qed
qed

lemma most_run_committees_inv:
  "most_run ch n s \<Longrightarrow> n < 2 ^ 128 \<Longrightarrow> committees_inv (storage s) \<and> unat (committee_of (storage s)) \<le> n"
proof (induction rule: most_run.induct)
  case deployed
  then show ?case using committees_inv_new by simp
next
  case (called n s k env s')
  then have IH: "committees_inv (storage s)" "unat (committee_of (storage s)) \<le> n" by auto
  with called.prems unat_word_max [where ?'a = 128] have "committee_of (storage s) \<noteq> - 1" by auto
  with committees_inv_message [OF IH(1) dispatch_message [OF called(3)] called(2)] IH(2) show ?case
    by auto
next
  case (elsewhere n s w)
  then show ?case by simp
qed

end
