(* ===== verification/Demo_Chain.thy ===== *)
theory Demo_Chain
  imports Ink_Env Shared_Hash
begin

text \<open>
  A concrete chain for the witnesses. The world is the log of the payments made so far (token,
  receiver, amount; token 0 is the native currency); every call succeeds.
\<close>

type_synonym demo_world = "(AccountId \<times> AccountId \<times> u128) list"

definition demo_keccak :: "u8 list \<Rightarrow> bytes32" where
  "demo_keccak bs = (if bs = request_data 0 5 10 6 0 then 77 else 0)"

definition demo_chain :: "demo_world chain" where
  "demo_chain =
     \<lparr>native_transfer = (\<lambda>_ to v w. Inr (w @ [(0, to, v)])),
      psp22_transfer = (\<lambda>_ t to v w. Inr (w @ [(t, to, v)])),
      psp22_transfer_from = (\<lambda>_ t _ to v w. Inr (w @ [(t, to, v)])),
      mintable_mint = (\<lambda>_ t to v w. Inr (w @ [(t, to, v)])),
      mintable_minter = (\<lambda>_ _. Some 100),
      burnable_burn = (\<lambda>c t v w. Inr w),
      wazero_deposit = (\<lambda>c t v w. Inr w),
      wazero_withdraw = (\<lambda>c t v w. Inr w),
      oracle_get_price = (\<lambda>_ _ _. Some (40, 1000)),
      set_code_hash = (\<lambda>_ _ w. Inr w),
      chain_keccak256 = demo_keccak\<rparr>"

definition demo_env :: "AccountId \<Rightarrow> u128 \<Rightarrow> call_env" where
  "demo_env a v = \<lparr>caller = a, transferred_value = v, block_timestamp = 1500, account_id = 100\<rparr>"

end
