(* ===== verification/Most_Demo.thy ===== *)
theory Most_Demo
  imports Most_Voting Demo_Chain
begin

text \<open>
  A concrete run of the Aleph Zero bridge contract on the chain of \<open>Demo_Chain\<close>, on which the
  witnesses evaluate the properties. The committee is the accounts 1, 2, 3 with threshold 2, the
  owner is the account 9, and the request in the run mints 10 units of token 5 for account 6.
\<close>

definition demo_most :: Most where
  "demo_most =
     \<lparr>m_data = Some
        \<lparr>d_request_nonce = 0, d_committee_id = 0, d_max_pocket_money = 50,
         d_pocket_money_balance = 0, d_relay_gas_usage = 10, d_min_gas_price = 20,
         d_max_gas_price = 60, d_default_gas_price = 30, d_gas_oracle_max_age = 1000,
         d_oracle_call_gas_limit = 5, d_base_fee_buffer_percentage = 20,
         d_gas_price_oracle = Some 8, d_is_halted = True\<rparr>,
      m_ownable_data = Some (ownable_new 9),
      m_pending_requests = (\<lambda>_. None), m_signatures = {}, m_processed_requests = {},
      m_committees = {(0, 1), (0, 2), (0, 3)}, m_committee_sizes = [0 \<mapsto> 3],
      m_signature_thresholds = [0 \<mapsto> 2],
      m_supported_pairs = (\<lambda>_. None), m_collected_committee_rewards = (\<lambda>_. None),
      m_paid_out_member_rewards = (\<lambda>_. None), m_payout_accounts = (\<lambda>_. None),
      m_weth = None, m_local_token = {}, m_wazero = None, m_eth_transfer_gas_usage = Some 1\<rparr>"

lemma demo_most_new: "most_new [1, 2, 3] 2 50 10 20 60 30 1000 5 20 (Some 8) 9 1 = Inr demo_most"
  by (simp add: most_new_def check_committee_def demo_most_def insert_commute)

definition demo_start :: "demo_world most_ctx" where
  "demo_start = \<lparr>storage = demo_most, world = [], events = []\<rparr>"

text \<open>The owner starts the bridge; guardians 1 and 2 vote for the request 77.\<close>

definition demo_open :: "demo_world most_ctx" where
  "demo_open = demo_start\<lparr>
     storage := demo_most\<lparr>m_data := Some ((the (m_data demo_most))\<lparr>d_is_halted := False\<rparr>)\<rparr>,
     events := [HaltedStateChanged True False 9]\<rparr>"

definition demo_voted :: "demo_world most_ctx" where
  "demo_voted = demo_open\<lparr>
     storage := (storage demo_open)\<lparr>m_signatures := {(77, 1)},
       m_pending_requests := [77 \<mapsto> \<lparr>signature_count = 1\<rparr>]\<rparr>,
     events := [HaltedStateChanged True False 9, RequestSigned 77 1]\<rparr>"

definition demo_done :: "demo_world most_ctx" where
  "demo_done = demo_voted\<lparr>
     storage := (storage demo_voted)\<lparr>m_signatures := {(77, 1), (77, 2)},
       m_pending_requests := (\<lambda>_. None), m_processed_requests := {77}\<rparr>,
     world := [(5, 6, 10)],
     events := [HaltedStateChanged True False 9, RequestSigned 77 1, RequestSigned 77 2,
       RequestProcessed 77 5]\<rparr>"

lemmas demo_state_defs = demo_start_def demo_open_def demo_voted_def demo_done_def demo_most_def

lemmas demo_eval = env_eval_simps deny_payment_def dispatch_def get_data_def set_data_def
  get_ownable_data_def is_halted_def ensure_not_halted_def ensure_halted_def ensure_owner_def
  only_committee_member_def is_in_committee_def ownable_defs most_message_defs most_helper_defs
  get_base_fee_def get_gas_price_with_limits_def get_gas_price_def current_pocket_money_value_def
  get_collected_committee_rewards_def get_paid_out_member_rewards_def
  get_outstanding_member_rewards_def pending_or_default_def hash_request_data_def
  ZERO_ADDRESS_def NATIVE_MARKER_ADDRESS_def RATIO_def checked_add_def checked_sub_def
  checked_mul_def checked_div_def saturating_sub_def saturating_mul_def demo_chain_def demo_env_def
  demo_keccak_def word_le_nat_alt word_less_nat_alt

lemma demo_step_open: "dispatch demo_chain (demo_env 9 0) (Set_halted False) demo_start = Inr ((), demo_open)"
  by (simp add: demo_eval demo_state_defs)

lemma demo_step_voted:
  "receive_request demo_chain (demo_env 1 0) 77 0 5 10 6 0 demo_open = Inr ((), demo_voted)"
  by (simp add: demo_eval demo_state_defs)

lemma demo_step_done:
  "receive_request demo_chain (demo_env 2 0) 77 0 5 10 6 0 demo_voted = Inr ((), demo_done)"
  by (simp add: demo_eval demo_state_defs insert_commute)

lemma dispatch_receiveI:
  "transferred_value env = 0 \<Longrightarrow> receive_request ch env h c t a r n s = Inr ((), s') \<Longrightarrow>
     dispatch ch env (Receive_request h c t a r n) s = Inr ((), s')"
  by (simp add: dispatch_def deny_payment_def andThen_def ret_def)

lemma demo_start_run: "most_run demo_chain 0 demo_start"
  unfolding demo_start_def by (rule most_run.deployed [OF demo_most_new]) simp

lemma demo_open_run: "most_run demo_chain 1 demo_open"
  using most_run.called [OF demo_start_run _ demo_step_open] by simp

lemma demo_voted_run: "most_run demo_chain 2 demo_voted"
  using most_run.called [OF demo_open_run _ dispatch_receiveI [OF _ demo_step_voted]]
  by (simp add: demo_env_def numeral_2_eq_2)

lemma demo_done_run: "most_run demo_chain 3 demo_done"
  using most_run.called [OF demo_voted_run _ dispatch_receiveI [OF _ demo_step_done]]
  by (simp add: demo_env_def numeral_3_eq_3 numeral_2_eq_2)

end
