(* ===== verification/Most_Properties.thy ===== *)
theory Most_Properties
  imports Most_Invariants Most_Demo
begin

text \<open>
  The properties of the Aleph Zero bridge contract, each with the run of \<open>Most_Demo\<close> or a
  variant of it as its witness where it has hypotheses.
\<close>

section \<open>Votes\<close>

definition votes_of :: "Most \<Rightarrow> AccountId vote_state" where
  "votes_of m = \<lparr>vs_signers = signers_of m, vs_done = m_processed_requests m\<rparr>"

lemma votes_of_abs: "mv.abs_votes s = votes_of (storage s)"
  by (simp add: mv.abs_votes_def votes_of_def)

text \<open>Recorded signatures stem from committee members who presented data with that hash.\<close>

definition signatures_genuine :: "'w chain \<Rightarrow> Most \<Rightarrow> bool" where
  "signatures_genuine ch m \<longleftrightarrow> (\<forall>h a. (h, a) \<in> m_signatures m \<longrightarrow>
     (\<exists>c t am r n. h = hash_request_data (chain_keccak256 ch) c t am r n \<and> (c, a) \<in> m_committees m))"

lemma committees_grow:
  assumes "most_message ch env k s = Inr (u, s')"
  shows "m_committees (storage s) \<subseteq> m_committees (storage s')"
proof (cases "sets_committee k")
  case True
  then obtain c t where "k = Set_committee c t" by (cases k) auto
  with assms show ?thesis by (auto simp: set_committee_def owner_only_def run_simps)
next
  case False
  from alwaysD [OF committee_part_message [OF False] assms] show ?thesis
    by (simp add: keeps_def committee_part_def)
qed

lemma signatures_genuine_message:
  assumes inv: "signatures_genuine ch (storage s)" and run: "most_message ch env k s = Inr (u, s')"
  shows "signatures_genuine ch (storage s')"
proof (cases "is_receive k")
  case True
  then obtain h c t a r n where "k = Receive_request h c t a r n" by (cases k) auto
  with run have rcv: "receive_request ch env h c t a r n s = Inr (u, s')" by simp
  from rcv have sig: "m_signatures (storage s') = m_signatures (storage s) \<or>
    m_signatures (storage s') = insert (h, caller env) (m_signatures (storage s)) \<and>
    h = hash_request_data (chain_keccak256 ch) c t a r n"
  proof (cases rule: receive_request_cases)
    case (executed k thr s1)
    from alwaysD [OF pocket_pay_out executed(7)] executed show ?thesis by (auto simp: pocket_only_def)
  qed simp_all
  moreover have "m_committees (storage s') = m_committees (storage s)"
    by (rule receive_keeps(1) [OF rcv]) simp_all
  moreover have "(c, caller env) \<in> m_committees (storage s)" by (rule receive_request_guards [OF rcv])
  ultimately show ?thesis using inv unfolding signatures_genuine_def by (metis insert_iff prod.inject)
next
  case False
  from alwaysD [OF votes_message [OF False] run] inv committees_grow [OF run] show ?thesis
    unfolding signatures_genuine_def same_votes_def by blast
qed

lemma most_run_genuine: "most_run ch n s \<Longrightarrow> signatures_genuine ch (storage s)"
proof (induction rule: most_run.induct)
  case deployed
  then show ?case by (auto simp: signatures_genuine_def dest: most_new_Inr)
next
  case (called n s k env s')
  then show ?case by (blast intro: signatures_genuine_message dispatch_message)
qed simp

text \<open>
  C1 (replay protection). In every run of the bridge, a cross-chain request is executed at most
  once: the number of \<open>RequestProcessed\<close> events of a request hash is 1 if the hash is in
  \<open>processed_requests\<close> and 0 otherwise, whatever messages were called in whatever order.
\<close>

theorem request_executed_once:
  assumes "most_run ch n s"
  shows "count_list (executed_hashes (events s)) h = (if h \<in> m_processed_requests (storage s) then 1 else 0)"
  using mv.reached_executed_once [OF most_run_reached [OF assms]] .

theorem request_executed_once_witness:
  "count_list (executed_hashes (events demo_done)) 77 = 1"
  using request_executed_once [OF demo_done_run, of 77] by (simp add: demo_state_defs)

text \<open>
  C2 (quorum). When a vote makes a request executed, the request is the one voted for, its hash
  is the hash of the data presented, and at least as many distinct accounts have signed it as
  the threshold of the committee demands. Every one of them was a member of a committee for
  which he presented data with this hash; if no data of another committee has the same hash,
  all of them are members of the committee of the request.
\<close>

theorem executed_needs_quorum:
  assumes run: "most_run ch n s"
    and vote: "receive_request ch env h c t a r nonce s = Inr ((), s')"
    and new: "g \<in> m_processed_requests (storage s')" "g \<notin> m_processed_requests (storage s)"
  shows "g = h \<and> h = hash_request_data (chain_keccak256 ch) c t a r nonce \<and>
    (\<exists>thr. m_signature_thresholds (storage s) c = Some thr \<and>
       unat thr \<le> card (signers_of (storage s') h)) \<and>
    (\<forall>b \<in> signers_of (storage s') h. \<exists>c' t' a' r' n'.
       h = hash_request_data (chain_keccak256 ch) c' t' a' r' n' \<and> (c', b) \<in> m_committees (storage s')) \<and>
    ((\<forall>c' t' a' r' n'. h = hash_request_data (chain_keccak256 ch) c' t' a' r' n' \<longrightarrow> c' = c) \<longrightarrow>
       signers_of (storage s') h \<subseteq> members_of (storage s') c)"
proof -
  have inv: "mv.votes_inv s" by (rule mv.reached_votes_inv [OF most_run_reached [OF run]])
  have v: "most_vote ch s (caller env) h c s'" using vote unfolding most_vote_def by blast
  from mv.executed_quorum [OF inv v new] have q: "g = h"
    "threshold_of (storage s) c \<le> card (signers_of (storage s') h)" by auto
  from vote new q(1) have core: "h = hash_request_data (chain_keccak256 ch) c t a r nonce"
    "\<exists>thr. m_signature_thresholds (storage s) c = Some thr"
    by (cases rule: receive_request_cases; simp)+
  have "most_message ch env (Receive_request h c t a r nonce) s = Inr ((), s')" using vote by simp
  from signatures_genuine_message [OF most_run_genuine [OF run] this]
  have gen: "\<exists>c' t' a' r' n'. h = hash_request_data (chain_keccak256 ch) c' t' a' r' n' \<and>
      (c', b) \<in> m_committees (storage s')" if "b \<in> signers_of (storage s') h" for b
    using that by (auto simp: signatures_genuine_def signers_of_def)
  show ?thesis
    using q core gen by (fastforce simp: threshold_of_def members_of_def)
qed

theorem executed_needs_quorum_witness:
  "receive_request demo_chain (demo_env 2 0) 77 0 5 10 6 0 demo_voted = Inr ((), demo_done) \<and>
   77 \<in> m_processed_requests (storage demo_done) \<and> card (signers_of (storage demo_done) 77) \<ge> 2 \<and>
   signers_of (storage demo_done) 77 \<subseteq> members_of (storage demo_done) 0"
proof -
  have uniq: "\<forall>c' t' a' r' n'. (77::bytes32) = hash_request_data (chain_keccak256 demo_chain) c' t' a' r' n' \<longrightarrow> c' = 0"
    by (simp add: demo_chain_def demo_keccak_def hash_request_data_def)
  have new: "77 \<in> m_processed_requests (storage demo_done)" "77 \<notin> m_processed_requests (storage demo_voted)"
    by (simp_all add: demo_state_defs)
  have thr: "m_signature_thresholds (storage demo_voted) 0 = Some 2" by (simp add: demo_state_defs)
  from executed_needs_quorum [OF demo_voted_run demo_step_done new] uniq thr new(1) demo_step_done
  show ?thesis by auto
qed

text \<open>
  C6 (refinement). Every successful \<open>receive_request\<close> acts on the recorded votes exactly as the
  specification \<open>spec_vote\<close> does with the committee's threshold: sets of signers instead of the
  contract's counter, so counting never drifts from the signatures recorded.
\<close>

theorem receive_request_refines:
  assumes "most_run ch n s" "receive_request ch env h c t a r nonce s = Inr ((), s')"
  shows "votes_of (storage s') = spec_vote (threshold_of (storage s) c) h (caller env) (votes_of (storage s))"
proof -
  have "most_vote ch s (caller env) h c s'" using assms(2) unfolding most_vote_def by blast
  from mv.vote_refines [OF mv.reached_votes_inv [OF most_run_reached [OF assms(1)]] this]
  show ?thesis by (simp add: votes_of_abs)
qed

theorem receive_request_refines_witness:
  "votes_of (storage demo_done) = spec_vote 2 77 2 (votes_of (storage demo_voted))"
  using receive_request_refines [OF demo_voted_run demo_step_done]
  by (simp add: threshold_of_def demo_state_defs demo_env_def)

text \<open>
  Repeated votes. On a running bridge, a vote of a committee member for an executed request,
  or a second vote of the same member, succeeds and does nothing but emit the corresponding
  event: storage and the rest of the chain stay as they are, whatever data is presented.
\<close>

lemma repeated_vote_harmless:
  assumes "m_data (storage s) = Some d" "\<not> d_is_halted d" "(c, caller env) \<in> m_committees (storage s)"
    and "h \<in> m_processed_requests (storage s) \<or> (h, caller env) \<in> m_signatures (storage s)"
  shows "receive_request ch env h c t a r nonce s = Inr ((), s\<lparr>events := events s @
    [if h \<in> m_processed_requests (storage s) then SignedProcessedRequest h (caller env)
     else RequestAlreadySigned_event h (caller env)]\<rparr>)"
  using assms by (auto simp: receive_request_def run_simps)

lemma repeated_vote_harmless_witness:
  "receive_request demo_chain (demo_env 3 0) 77 0 99 98 97 96 demo_done =
     Inr ((), demo_done\<lparr>events := events demo_done @ [SignedProcessedRequest 77 3]\<rparr>)"
  using repeated_vote_harmless [of demo_done _ 0 "demo_env 3 0" 77 demo_chain 99 98 97 96]
  by (simp add: demo_state_defs demo_env_def)

definition demo_three :: "demo_world most_ctx" where
  "demo_three = demo_open\<lparr>storage := (storage demo_open)\<lparr>m_signature_thresholds := [0 \<mapsto> 3]\<rparr>\<rparr>"

text \<open>
  C15 (a needed vote is accepted). On a running bridge, when the contract says that it needs the
  caller's signature, the data matches the hash and the quorum is not yet complete, the vote
  succeeds, is recorded, and the status reports one more signature.
\<close>

theorem needed_vote_recorded:
  assumes "m_data (storage s) = Some d" "\<not> d_is_halted d"
    and "needs_signature h (caller env) c (storage s)"
    and "h = hash_request_data (chain_keccak256 ch) c t a r nonce"
    and "m_signature_thresholds (storage s) c = Some thr" "Suc (counted_of (storage s) h) < unat thr"
  shows "\<exists>s'. receive_request ch env h c t a r nonce s = Inr ((), s') \<and> world s' = world s \<and>
    signers_of (storage s') h = insert (caller env) (signers_of (storage s) h) \<and>
    request_status h (storage s') = Pending (of_nat (Suc (counted_of (storage s) h)))"
proof -
  let ?k = "signature_count (pending_or_default h (storage s))"
  have lt: "Suc (unat ?k) < unat thr" using assms(6) by (simp add: counted_of_def)
  have "unat ?k + unat (1::u128) < 2 ^ 128" using lt unsigned_less [of thr, where 'a = nat] by simp
  then have add: "checked_add ?k 1 = Some (?k + 1)" by (simp add: checked_add_def)
  have small: "\<not> thr \<le> ?k + 1"
    using lt checked_add_SomeD [OF add] by (simp add: word_le_nat_alt)
  have cast: "ucast (?k + 1) = (of_nat (Suc (counted_of (storage s) h)) :: u32)"
  proof -
    have "Suc (counted_of (storage s) h) = unat (?k + 1)"
      using checked_add_SomeD [OF add] by (simp add: counted_of_def)
    then show ?thesis by (simp only: of_nat_unat)
  qed
  have guards: "(c, caller env) \<in> m_committees (storage s)" "h \<notin> m_processed_requests (storage s)"
    "(h, caller env) \<notin> m_signatures (storage s)"
    using assms(3) by (auto simp: needs_signature_def is_in_committee_def has_signed_request_def split: if_splits)
  have "receive_request ch env h c t a r nonce s = Inr ((), s\<lparr>storage := (storage s)\<lparr>
      m_signatures := insert (h, caller env) (m_signatures (storage s)),
      m_pending_requests := (m_pending_requests (storage s))(h \<mapsto> \<lparr>signature_count = ?k + 1\<rparr>)\<rparr>,
      events := events s @ [RequestSigned h (caller env)]\<rparr>)"
    using assms(1,2,4,5) guards add small by (simp add: receive_request_def run_simps)
  with guards cast show ?thesis by (auto simp: signers_of_def request_status_def)
qed

theorem needed_vote_recorded_witness:
  "\<exists>s'. receive_request demo_chain (demo_env 1 0) 77 0 5 10 6 0 demo_three = Inr ((), s') \<and>
    request_status 77 (storage s') = Pending 1"
proof -
  have data: "m_data (storage demo_three) = Some (the (m_data (storage demo_three)))"
    "\<not> d_is_halted (the (m_data (storage demo_three)))"
    "m_signature_thresholds (storage demo_three) 0 = Some 3"
    by (simp_all add: demo_three_def demo_state_defs)
  have need: "needs_signature 77 (caller (demo_env 1 0)) 0 (storage demo_three)"
    by (simp add: demo_three_def demo_state_defs demo_env_def needs_signature_def
        is_in_committee_def has_signed_request_def)
  have hash: "(77::bytes32) = hash_request_data (chain_keccak256 demo_chain) 0 5 10 6 0"
    by (simp add: demo_chain_def demo_keccak_def hash_request_data_def)
  have cnt: "counted_of (storage demo_three) 77 = 0"
    by (simp add: demo_three_def demo_state_defs counted_of_def pending_or_default_def)
  from needed_vote_recorded [OF data(1,2) need hash data(3)] cnt show ?thesis by auto
qed

end
