(* ===== verification/Most_Economy.thy ===== *)
theory Most_Economy
  imports Most_Invariants Most_Demo
begin

text \<open>
  Properties of the Aleph Zero bridge about amounts: rewards, committee sizes, request numbers,
  fees, pocket money, and the conversion between AZERO and its 18-decimals representation.
  The witnesses continue the run of \<open>Most_Demo\<close> with an outgoing request and a reward payout.
\<close>

section \<open>A run with an outgoing request\<close>

definition demo_listed :: "demo_world most_ctx" where
  "demo_listed = demo_start\<lparr>
     storage := demo_most\<lparr>m_wazero := Some 50, m_supported_pairs := [5 \<mapsto> 55]\<rparr>\<rparr>"

definition demo_ready :: "demo_world most_ctx" where
  "demo_ready = demo_listed\<lparr>
     storage := (storage demo_listed)\<lparr>
       m_data := Some ((the (m_data demo_most))\<lparr>d_is_halted := False\<rparr>)\<rparr>,
     events := [HaltedStateChanged True False 9]\<rparr>"

text \<open>Account 4 sends 10 units of token 5 and 500 for the fee, of which 480 is kept.\<close>

definition demo_sent :: "demo_world most_ctx" where
  "demo_sent = demo_ready\<lparr>
     storage := (storage demo_ready)\<lparr>
       m_data := Some ((the (m_data demo_most))\<lparr>d_is_halted := False, d_request_nonce := 1\<rparr>),
       m_collected_committee_rewards := [0 \<mapsto> 480]\<rparr>,
     world := [(5, 100, 10), (0, 4, 20)],
     events := [HaltedStateChanged True False 9, CrosschainTransferRequest 0 55 10 6 0]\<rparr>"

definition demo_paid :: "demo_world most_ctx" where
  "demo_paid = demo_sent\<lparr>
     storage := (storage demo_sent)\<lparr>m_paid_out_member_rewards := [(1, 0) \<mapsto> 160]\<rparr>,
     world := [(5, 100, 10), (0, 4, 20), (0, 1, 160)]\<rparr>"

lemmas demo_send_defs = demo_paid_def demo_sent_def demo_ready_def demo_listed_def demo_start_def
  demo_most_def

lemma demo_step_wazero:
  "dispatch demo_chain (demo_env 9 0) (Set_wazero 50) demo_start =
     Inr ((), demo_start\<lparr>storage := demo_most\<lparr>m_wazero := Some 50\<rparr>\<rparr>)"
  by (simp add: demo_eval demo_state_defs)

lemma demo_step_pair:
  "dispatch demo_chain (demo_env 9 0) (Add_pair 5 55 False)
     (demo_start\<lparr>storage := demo_most\<lparr>m_wazero := Some 50\<rparr>\<rparr>) = Inr ((), demo_listed)"
  by (simp add: demo_eval demo_send_defs)

lemma demo_step_ready:
  "dispatch demo_chain (demo_env 9 0) (Set_halted False) demo_listed = Inr ((), demo_ready)"
  by (simp add: demo_eval demo_send_defs)

lemma demo_fee: "get_base_fee demo_chain (demo_env 4 500) demo_ready = Inr (480, demo_ready)"
  by (simp add: demo_eval demo_send_defs)

lemma demo_step_sent: "send_request demo_chain (demo_env 4 500) 5 10 6 demo_ready = Inr ((), demo_sent)"
  by (simp add: demo_eval demo_send_defs)

lemma demo_step_paid: "payout_rewards demo_chain (demo_env 1 0) 0 1 demo_sent = Inr ((), demo_paid)"
  by (simp add: demo_eval demo_send_defs)

lemma dispatch_payable: "payable k \<Longrightarrow> dispatch ch env k s = most_message ch env k s"
  by (simp add: dispatch_def eval_simps)

lemma dispatch_unpaid: "transferred_value env = 0 \<Longrightarrow> dispatch ch env k s = most_message ch env k s"
  by (simp add: dispatch_def deny_payment_def eval_simps)

lemma demo_ready_run: "most_run demo_chain 3 demo_ready"
  using most_run.called [OF most_run.called [OF most_run.called [OF demo_start_run
        _ demo_step_wazero] _ demo_step_pair] _ demo_step_ready]
  by (simp add: numeral_3_eq_3)

lemma demo_sent_run: "most_run demo_chain 4 demo_sent"
  using most_run.called [OF demo_ready_run, of "Send_request 5 10 6" "demo_env 4 500"] demo_step_sent
  by (simp add: dispatch_payable)

lemma demo_paid_run: "most_run demo_chain 5 demo_paid"
  using most_run.called [OF demo_sent_run, of "Payout_rewards 0 1" "demo_env 1 0"] demo_step_paid
  by (simp add: dispatch_unpaid demo_env_def)

section \<open>Rewards and committees\<close>

lemma committee_size_card:
  "committee_ok m c \<Longrightarrow> m_committee_sizes m c = Some sz \<Longrightarrow> card (members_of m c) = unat sz"
  by (simp add: committee_ok_def)

text \<open>A payout transfers exactly the amount by which the record of the member grows.\<close>

lemma payout_transfers:
  assumes "payout_rewards ch env c a s = Inr ((), s')"
  shows "s' = s \<or> (\<exists>v. 0 < v \<and>
    native_transfer ch (account_id env)
      (case get_payout_account a (storage s) of None \<Rightarrow> a | Some p \<Rightarrow> p) v (world s) = Inr (world s') \<and>
    unat (get_paid_out_member_rewards c a (storage s')) =
      unat (get_paid_out_member_rewards c a (storage s)) + unat v)"
  using assms
  by (auto simp: payout_rewards_def get_outstanding_member_rewards_def is_in_committee_def
      get_payout_account_def run_simps get_paid_out_member_rewards_def split: if_splits
      dest!: checked_add_SomeD)

lemma paid_sum_le:
  assumes ok: "committee_ok m c"
  shows "(\<Sum>a\<in>members_of m c. unat (get_paid_out_member_rewards c a m)) \<le>
    unat (get_collected_committee_rewards c m)"
proof (cases "m_committee_sizes m c")
  case None
  with ok show ?thesis by (simp add: committee_ok_def)
next
  case (Some sz)
  let ?share = "unat (get_collected_committee_rewards c m) div unat sz"
  have "(\<Sum>a\<in>members_of m c. unat (get_paid_out_member_rewards c a m)) \<le>
      card (members_of m c) * ?share"
    using ok Some by (intro sum_bounded_above [of _ _ ?share, simplified]) (simp add: committee_ok_def)
  also have "\<dots> = unat sz * ?share" using committee_size_card [OF ok Some] by simp
  finally show ?thesis using times_div_less_eq_dividend by (rule order_trans)
qed

text \<open>
  C12 (rewards are covered). In every run of fewer than 2^128 calls, what the members of a
  committee were paid out never exceeds, together, the fees collected for that committee; and
  each further payout sends the member's payout account exactly the amount by which the
  member's record grows.
\<close>

theorem rewards_covered:
  assumes "most_run ch n s" "n < 2 ^ 128"
  shows "(\<Sum>a\<in>members_of (storage s) c. unat (get_paid_out_member_rewards c a (storage s))) \<le>
      unat (get_collected_committee_rewards c (storage s)) \<and>
    (\<forall>env a s'. payout_rewards ch env c a s = Inr ((), s') \<longrightarrow> s' = s \<or> (\<exists>v. 0 < v \<and>
      native_transfer ch (account_id env)
        (case get_payout_account a (storage s) of None \<Rightarrow> a | Some p \<Rightarrow> p) v (world s) = Inr (world s') \<and>
      unat (get_paid_out_member_rewards c a (storage s')) =
        unat (get_paid_out_member_rewards c a (storage s)) + unat v))"
proof
  show "(\<Sum>a\<in>members_of (storage s) c. unat (get_paid_out_member_rewards c a (storage s))) \<le>
      unat (get_collected_committee_rewards c (storage s))"
    using paid_sum_le most_run_committees_inv [OF assms] committees_inv_D by blast
qed (intro allI impI, rule payout_transfers)

theorem rewards_covered_witness:
  "(\<Sum>a\<in>members_of (storage demo_paid) 0. unat (get_paid_out_member_rewards 0 a (storage demo_paid))) \<le> 480 \<and>
   get_paid_out_member_rewards 0 1 (storage demo_paid) = 160"
  using rewards_covered [OF demo_paid_run, of 0]
  by (simp add: demo_send_defs get_paid_out_member_rewards_def get_collected_committee_rewards_def)

text \<open>
  C13 (the quorum can be reached). In every run of fewer than 2^128 calls, a threshold on record
  that fits 32 bits is at least 1 and at most the number of members of its committee.
\<close>

theorem quorum_attainable:
  assumes "most_run ch n s" "n < 2 ^ 128"
    and "m_signature_thresholds (storage s) c = Some t" "unat t < 2 ^ 32"
  shows "1 \<le> unat t \<and> unat t \<le> card (members_of (storage s) c)"
proof -
  have ok: "committee_ok (storage s) c" using most_run_committees_inv [OF assms(1,2)] committees_inv_D by blast
  with assms(3) obtain sz where "m_committee_sizes (storage s) c = Some sz"
    by (auto simp: committee_ok_def split: option.splits)
  with ok assms(3,4) show ?thesis
    by (auto simp: committee_ok_def unsigned_ucast_eq take_bit_nat_eq_self Suc_le_eq unat_gt_0)
qed

theorem quorum_attainable_witness: "unat (2::u128) \<le> card (members_of (storage demo_done) 0)"
proof -
  have "m_signature_thresholds (storage demo_done) 0 = Some 2" by (simp add: demo_state_defs)
  from quorum_attainable [OF demo_done_run _ this] show ?thesis by simp
qed


section \<open>Outgoing requests\<close>

text \<open>
  C18 (request numbers). In every run, the nonces of the \<open>CrosschainTransferRequest\<close> events are
  0, 1, 2, ... in the order of emission, up to but excluding the nonce on record: no outgoing
  request shares its number with another one, and none is skipped.
\<close>

theorem nonces_consecutive:
  assumes "most_run ch n s"
  shows "map unat (request_nonces (events s)) = [0..<unat (nonce_of (storage s))]"
  using most_run_nonce_inv [OF assms] by (simp add: nonce_inv_def)

theorem nonces_consecutive_witness:
  "request_nonces (events demo_sent) = [0] \<and> nonce_of (storage demo_sent) = 1 \<and>
   map unat (request_nonces (events demo_sent)) = [0..<1]"
  using nonces_consecutive [OF demo_sent_run] by (simp add: demo_send_defs nonce_of_def)

text \<open>What taking the tokens and returning the surplus do to the rest of the chain.\<close>

definition tokens_taken ::
  "'w chain \<Rightarrow> call_env \<Rightarrow> AccountId \<Rightarrow> u128 \<Rightarrow> bool \<Rightarrow> 'w \<Rightarrow> PSP22Error fault + 'w" where
  "tokens_taken ch env token amount is_local w =
     (case psp22_transfer_from ch (account_id env) token (caller env) (account_id env) amount w of
        Inl e \<Rightarrow> Inl e
      | Inr w1 \<Rightarrow> if is_local then Inr w1 else burnable_burn ch (account_id env) token amount w1)"

definition refunded :: "'w chain \<Rightarrow> call_env \<Rightarrow> u128 \<Rightarrow> 'w \<Rightarrow> string + 'w" where
  "refunded ch env surplus w =
     (if surplus = 0 then Inr w else native_transfer ch (account_id env) (caller env) surplus w)"

lemma take_tokens_run:
  assumes "tokens_taken ch env t a (t \<in> m_local_token (storage s)) (world s) = Inr w"
  shows "take_tokens ch env t a False s = Inr ((), s\<lparr>world := w\<rparr>)"
  using assms by (auto simp: take_tokens_def most_burn_from_def most_transfer_from_def tokens_taken_def
      env_eval_simps split: sum.splits if_splits)

lemma return_surplus_run:
  assumes "fee \<le> f" "refunded ch env (f - fee) (world s) = Inr w"
  shows "return_surplus ch env f fee s = Inr ((), s\<lparr>world := w\<rparr>)"
  using assms by (auto simp: return_surplus_def refunded_def checked_sub_def env_eval_simps
      word_gt_0 split: sum.splits if_splits)

lemma send_inner_run:
  assumes "m_data (storage s) = Some d" "r \<noteq> ZERO_ADDRESS" "a \<noteq> 0"
    and "get_base_fee ch env s = Inr (fee, s)" "fee \<le> f"
    and "tokens_taken ch env t a (t \<in> m_local_token (storage s)) (world s) = Inr w1"
    and "refunded ch env (f - fee) w1 = Inr w2"
    and "unat (get_collected_committee_rewards (d_committee_id d) (storage s)) + unat fee < 2 ^ 128"
    and "d_request_nonce d \<noteq> - 1"
  shows "most_send_request_inner ch env t dt a r False f s = Inr ((), s\<lparr>
    storage := (storage s)\<lparr>m_data := Some (d\<lparr>d_request_nonce := d_request_nonce d + 1\<rparr>),
      m_collected_committee_rewards := (m_collected_committee_rewards (storage s))(d_committee_id d \<mapsto>
        get_collected_committee_rewards (d_committee_id d) (storage s) + fee)\<rparr>,
    world := w2,
    events := events s @ [CrosschainTransferRequest (d_committee_id d) dt a r (d_request_nonce d)]\<rparr>)"
proof -
  have "unat (d_request_nonce d) + unat (1::u128) < 2 ^ 128"
    using unat_add_1 [OF assms(9)] unsigned_less [of "d_request_nonce d + 1", where 'a = nat] by simp
  then have n: "checked_add (d_request_nonce d) 1 = Some (d_request_nonce d + 1)"
    by (simp add: checked_add_def)
  have c: "checked_add (get_collected_committee_rewards (d_committee_id d) (storage s)) fee =
      Some (get_collected_committee_rewards (d_committee_id d) (storage s) + fee)"
    using assms(8) by (simp add: checked_add_def)
  from assms(1-5) n c show ?thesis
    by (simp add: most_send_request_inner_def run_simps take_tokens_run [OF assms(6)] not_less
        return_surplus_run [OF assms(5)] assms(7))
qed

text \<open>
  C19 (an outgoing request, accepted). On a running bridge, for a supported token other than
  wrapped AZERO, a non-zero amount and receiver, and a fee that covers the base fee,
  \<open>send_request\<close> succeeds when the token and the refund do: the tokens are taken from the
  sender (locked if local, burned otherwise), exactly the base fee is credited to the current
  committee, the surplus goes back, the nonce moves on by one, and exactly one event carries
  the request with the old nonce.
\<close>

theorem send_request_effect:
  assumes "m_data (storage s) = Some d" "\<not> d_is_halted d"
    and "m_wazero (storage s) = Some z" "t \<noteq> z" "m_supported_pairs (storage s) t = Some dt"
    and "r \<noteq> ZERO_ADDRESS" "a \<noteq> 0"
    and "get_base_fee ch env s = Inr (fee, s)" "fee \<le> transferred_value env"
    and "tokens_taken ch env t a (t \<in> m_local_token (storage s)) (world s) = Inr w1"
    and "refunded ch env (transferred_value env - fee) w1 = Inr w2"
    and "unat (get_collected_committee_rewards (d_committee_id d) (storage s)) + unat fee < 2 ^ 128"
    and "d_request_nonce d \<noteq> - 1"
  shows "send_request ch env t a r s = Inr ((), s\<lparr>
    storage := (storage s)\<lparr>m_data := Some (d\<lparr>d_request_nonce := d_request_nonce d + 1\<rparr>),
      m_collected_committee_rewards := (m_collected_committee_rewards (storage s))(d_committee_id d \<mapsto>
        get_collected_committee_rewards (d_committee_id d) (storage s) + fee)\<rparr>,
    world := w2,
    events := events s @ [CrosschainTransferRequest (d_committee_id d) dt a r (d_request_nonce d)]\<rparr>)"
  using assms(1-5) send_inner_run [OF assms(1,6-13), of dt]
  by (simp add: send_request_def run_simps)

theorem send_request_effect_witness:
  "events (snd (projr (send_request demo_chain (demo_env 4 500) 5 10 6 demo_ready))) =
     [HaltedStateChanged True False 9, CrosschainTransferRequest 0 55 10 6 0]"
proof -
  have tok: "tokens_taken demo_chain (demo_env 4 500) 5 10 (5 \<in> m_local_token (storage demo_ready))
      (world demo_ready) = Inr [(5, 100, 10)]"
    by (simp add: tokens_taken_def demo_send_defs demo_chain_def demo_env_def)
  have ref: "refunded demo_chain (demo_env 4 500) (transferred_value (demo_env 4 500) - 480) [(5, 100, 10)] =
      Inr [(5, 100, 10), (0, 4, 20)]"
    by (simp add: refunded_def demo_chain_def demo_env_def)
  have d: "m_data (storage demo_ready) = Some ((the (m_data demo_most))\<lparr>d_is_halted := False\<rparr>)"
    by (simp add: demo_ready_def)
  from send_request_effect [OF d _ _ _ _ _ _ demo_fee _ tok ref, of 50 55 6]
  show ?thesis
    by (simp add: demo_send_defs demo_env_def ZERO_ADDRESS_def get_collected_committee_rewards_def)
qed

text \<open>
  An outgoing request, refused. On a running bridge and for a supported pair, a zero
  receiver, a zero amount or a fee below the base fee is refused with the matching error before
  any token moves, in this order; an unsupported token is refused with \<open>UnsupportedPair\<close>.
\<close>

lemma send_request_refused:
  assumes "m_data (storage s) = Some d" "\<not> d_is_halted d" "m_wazero (storage s) = Some z" "t \<noteq> z"
  shows "(m_supported_pairs (storage s) t = None \<longrightarrow>
      send_request ch env t a r s = Inl (Err UnsupportedPair)) \<and>
    (\<forall>dt. m_supported_pairs (storage s) t = Some dt \<longrightarrow>
      (r = ZERO_ADDRESS \<longrightarrow> send_request ch env t a r s = Inl (Err ZeroAddress)) \<and>
      (r \<noteq> ZERO_ADDRESS \<and> a = 0 \<longrightarrow> send_request ch env t a r s = Inl (Err ZeroTransferAmount)) \<and>
      (\<forall>fee. r \<noteq> ZERO_ADDRESS \<and> a \<noteq> 0 \<and> get_base_fee ch env s = Inr (fee, s) \<and>
         transferred_value env < fee \<longrightarrow> send_request ch env t a r s = Inl (Err BaseFeeTooLow)))"
  using assms by (auto simp: send_request_def most_send_request_inner_def run_simps)

lemma send_request_refused_witness:
  "send_request demo_chain (demo_env 4 500) 5 10 0 demo_ready = Inl (Err ZeroAddress) \<and>
   send_request demo_chain (demo_env 4 500) 5 0 6 demo_ready = Inl (Err ZeroTransferAmount) \<and>
   send_request demo_chain (demo_env 4 500) 7 10 6 demo_ready = Inl (Err UnsupportedPair)"
proof -
  have d: "m_data (storage demo_ready) = Some ((the (m_data demo_most))\<lparr>d_is_halted := False\<rparr>)"
    "m_wazero (storage demo_ready) = Some 50" "m_supported_pairs (storage demo_ready) = [5 \<mapsto> 55]"
    by (simp_all add: demo_ready_def demo_listed_def)
  from send_request_refused [OF d(1) _ d(2), of 5 demo_chain "demo_env 4 500"]
    send_request_refused [OF d(1) _ d(2), of 7 demo_chain "demo_env 4 500"] d(3)
  show ?thesis by (simp add: ZERO_ADDRESS_def)
qed

section \<open>Fees and pocket money\<close>

text \<open>The gas price the fee is computed from.\<close>

definition effective_gas_price :: "'w chain \<Rightarrow> call_env \<Rightarrow> Data \<Rightarrow> 'w \<Rightarrow> u128" where
  "effective_gas_price ch env d w =
     (case Option.bind (d_gas_price_oracle d) (\<lambda>a. oracle_get_price ch a (d_oracle_call_gas_limit d) w) of
        None \<Rightarrow> d_default_gas_price d
      | Some (p, t) \<Rightarrow>
          if t + d_gas_oracle_max_age d < block_timestamp env then d_default_gas_price d
          else max (d_min_gas_price d) (min (d_max_gas_price d) p))"

lemma gas_price_run:
  assumes "m_data (storage s) = Some d" "d_min_gas_price d \<le> d_max_gas_price d"
  shows "get_gas_price_with_limits ch env s = Inr (effective_gas_price ch env d (world s), s)"
  using assms by (auto simp: get_gas_price_with_limits_def get_gas_price_def effective_gas_price_def
      run_simps max_def min_def split: option.splits)



text \<open>
  C21 (pocket money). Once the storage is initialised, sending pocket money never fails the
  request it belongs to: either nothing happens, or the receiver gets exactly the current
  pocket money value, which is positive and neither exceeds the configured maximum nor the
  balance set aside, and that balance decreases by it.
\<close>

theorem pocket_money_bounded:
  assumes "m_data (storage s) = Some d"
  shows "let v = current_pocket_money_value ch s in
    send_pocket_money ch env r s = Inr ((), s) \<or>
    (\<exists>w. native_transfer ch (account_id env) r v (world s) = Inr w \<and>
       0 < v \<and> v \<le> d_max_pocket_money d \<and> v \<le> d_pocket_money_balance d \<and>
       send_pocket_money ch env r s = Inr ((), s\<lparr>
         storage := (storage s)\<lparr>m_data := Some (d\<lparr>d_pocket_money_balance := d_pocket_money_balance d - v\<rparr>)\<rparr>,
         world := w\<rparr>))"
proof -
  let ?v = "current_pocket_money_value ch s"
  have le: "?v \<le> d_max_pocket_money d" "?v \<le> d_pocket_money_balance d"
    using assms by (auto simp: current_pocket_money_value_def min_le_iff_disj
        split: sum.split prod.split option.split)
  then have sub: "checked_sub (d_pocket_money_balance d) ?v = Some (d_pocket_money_balance d - ?v)"
    by (simp add: checked_sub_def)
  show ?thesis
  proof (cases "?v = 0")
    case True
    with assms show ?thesis by (simp add: send_pocket_money_def run_simps Let_def)
  next
    case False
    then have "0 < ?v" by (simp add: word_gt_0)
    with False assms le sub show ?thesis
      by (cases "native_transfer ch (account_id env) r ?v (world s)")
        (simp_all add: send_pocket_money_def get_data_def env_eval_simps Let_def set_data_def)
  qed
qed

definition demo_funded :: "demo_world most_ctx" where
  "demo_funded = demo_ready\<lparr>storage := (storage demo_ready)\<lparr>m_data :=
     Some ((the (m_data demo_most))\<lparr>d_is_halted := False, d_pocket_money_balance := 1000\<rparr>)\<rparr>\<rparr>"

theorem pocket_money_bounded_witness:
  "current_pocket_money_value demo_chain demo_funded = 30 \<and>
   send_pocket_money demo_chain (demo_env 1 0) 6 demo_funded \<noteq> Inl Trap"
proof -
  have d: "m_data (storage demo_funded) =
      Some ((the (m_data demo_most))\<lparr>d_is_halted := False, d_pocket_money_balance := 1000\<rparr>)"
    by (simp add: demo_funded_def)
  have "current_pocket_money_value demo_chain demo_funded = 30"
    by (simp add: demo_funded_def demo_send_defs demo_eval min_def)
  with pocket_money_bounded [OF d, of demo_chain "demo_env 1 0" 6] show ?thesis
    by (auto simp: Let_def)
qed

section \<open>AZERO and its 18-decimals representation\<close>

lemma azero_ratio:
  "unat a * 1000000 < 2 ^ 128 \<Longrightarrow> saturating_mul a RATIO div RATIO = a"
  "saturating_mul a RATIO div RATIO \<le> a"
proof -
  have R: "unat RATIO = 1000000" by (simp add: RATIO_def)
  have q: "unat (saturating_mul a RATIO div RATIO) = min (unat a * 1000000) (2 ^ 128 - 1) div 1000000"
    by (simp add: unat_div saturating_mul_unat R)
  have "unat (saturating_mul a RATIO div RATIO) \<le> unat a * 1000000 div 1000000"
    unfolding q by (intro div_le_mono) simp
  then show "saturating_mul a RATIO div RATIO \<le> a" by (simp add: word_le_nat_alt)
  show "saturating_mul a RATIO div RATIO = a" if "unat a * 1000000 < 2 ^ 128"
    using that q by (simp add: min_def word_eq_iff_unsigned [where 'a = nat])
qed

lemma pay_out_native:
  "pay_out_request ch env NATIVE_MARKER_ADDRESS x r =
     andThen (unwrap_azero_to ch env r (x div RATIO)) (\<lambda>_. send_pocket_money ch env r)"
  by (simp add: pay_out_request_def fun_eq_iff andThen_def gets_def)

text \<open>
  C22 (AZERO survives the round trip). A successful \<open>send_request_native_azero\<close> of an amount
  announces it, times \<open>RATIO\<close>, in its event. When the announced amount comes back as a request
  for native AZERO, what is unwrapped for the receiver is at most the amount sent, and exactly
  that amount if its 18-decimals representation fits 128 bits.
\<close>

theorem azero_roundtrip:
  assumes "send_request_native_azero ch env a r s = Inr ((), s')"
  shows "\<exists>c dt x n. events s' = events s @ [CrosschainTransferRequest c dt x r n] \<and>
    (\<exists>b \<le> a. (unat a * 1000000 < 2 ^ 128 \<longrightarrow> b = a) \<and>
      (\<forall>ch' env' r'. pay_out_request ch' env' NATIVE_MARKER_ADDRESS x r' =
         andThen (unwrap_azero_to ch' env' r' b) (\<lambda>_. send_pocket_money ch' env' r')))"
proof -
  from assms obtain w f z dt where
    inner: "most_send_request_inner ch env z dt (saturating_mul a RATIO) r True f (s\<lparr>world := w\<rparr>) = Inr ((), s')"
    by (simp add: send_request_native_azero_def run_simps) blast
  from send_inner_effect [OF inner] obtain c n where
    "events s' = events s @ [CrosschainTransferRequest c dt (saturating_mul a RATIO) r n]" by auto
  moreover have "saturating_mul a RATIO div RATIO \<le> a"
    "unat a * 1000000 < 2 ^ 128 \<longrightarrow> saturating_mul a RATIO div RATIO = a"
    using azero_ratio by auto
  ultimately show ?thesis using pay_out_native by blast
qed

definition demo_azero :: "demo_world most_ctx" where
  "demo_azero = demo_ready\<lparr>storage := (storage demo_ready)\<lparr>m_supported_pairs := [50 \<mapsto> 66],
     m_local_token := {50}\<rparr>\<rparr>"

lemma demo_azero_send:
  "\<exists>s'. send_request_native_azero demo_chain (demo_env 4 487) 7 6 demo_azero = Inr ((), s') \<and>
     events s' = events demo_azero @ [CrosschainTransferRequest 0 66 7000000 6 0]"
  by (simp add: demo_eval demo_azero_def demo_send_defs)

theorem azero_roundtrip_witness:
  "\<exists>x. x = (7000000::u128) \<and> (\<forall>ch' env' r'. pay_out_request (ch' :: demo_world chain) env' NATIVE_MARKER_ADDRESS x r' =
     andThen (unwrap_azero_to ch' env' r' 7) (\<lambda>_. send_pocket_money ch' env' r'))"
proof -
  from demo_azero_send obtain s' where
    run: "send_request_native_azero demo_chain (demo_env 4 487) 7 6 demo_azero = Inr ((), s')"
    and ev: "events s' = events demo_azero @ [CrosschainTransferRequest 0 66 7000000 6 0]" by blast
  from azero_roundtrip [OF run] ev show ?thesis by auto
qed

end
