(* ===== verification/Most_Governance.thy ===== *)
theory Most_Governance
  imports Most_Invariants Most_Demo
begin

text \<open>
  Properties of the Aleph Zero bridge about who may change what and when: the halted state, the
  owner's privileges, the hand-over of ownership, and the registry of token pairs.
\<close>

section \<open>The parts of the storage that governance controls\<close>

definition data_config :: "Data \<Rightarrow> Data" where
  "data_config d = d\<lparr>d_request_nonce := 0, d_pocket_money_balance := 0\<rparr>"

definition registry_part :: "Most \<Rightarrow> (bytes32 \<Rightarrow> bytes32 option) \<times>
    ((CommitteeId \<times> AccountId) set \<times> (CommitteeId \<Rightarrow> u128 option) \<times> (CommitteeId \<Rightarrow> u128 option)) \<times>
    AccountId option \<times> AccountId option \<times> AccountId set" where
  "registry_part m = (m_supported_pairs m, committee_part m, m_weth m, m_wazero m, m_local_token m)"

definition config_part :: "Most \<Rightarrow> Data option \<times> u128 option" where
  "config_part m = (map_option data_config (m_data m), m_eth_transfer_gas_usage m)"

definition owner_of :: "Most \<Rightarrow> AccountId option" where
  "owner_of m = map_option owner (m_ownable_data m)"

definition pending_of :: "Most \<Rightarrow> AccountId option" where
  "pending_of m = Option.bind (m_ownable_data m) pending_owner"

lemmas governance_defs = registry_part_def config_part_def committee_part_def owner_of_def pending_of_def

fun owner_call :: "most_call \<Rightarrow> bool" where
  "owner_call (Send_request _ _ _) = False"
| "owner_call (Send_request_native_ether _ _) = False"
| "owner_call (Send_request_native_azero _ _) = False"
| "owner_call (Receive_request _ _ _ _ _ _) = False"
| "owner_call (Payout_rewards _ _) = False"
| "owner_call Fund_pocket_money = False"
| "owner_call (Set_payout_account _ _) = False"
| "owner_call Accept_ownership = False"
| "owner_call _ = True"

fun registry_call :: "most_call \<Rightarrow> bool" where
  "registry_call (Remove_pair _) = True"
| "registry_call (Add_pair _ _ _) = True"
| "registry_call (Set_weth _) = True"
| "registry_call (Set_wazero _) = True"
| "registry_call (Set_committee _ _) = True"
| "registry_call _ = False"

text \<open>Messages that stop when the bridge is halted.\<close>

fun needs_running :: "most_call \<Rightarrow> bool" where
  "needs_running (Send_request _ _ _) = True"
| "needs_running (Send_request_native_ether _ _) = True"
| "needs_running (Send_request_native_azero _ _) = True"
| "needs_running (Receive_request _ _ _ _ _ _) = True"
| "needs_running (Payout_rewards _ _) = True"
| "needs_running _ = False"

fun ownership_call :: "most_call \<Rightarrow> bool" where
  "ownership_call (Transfer_ownership _) = True"
| "ownership_call Accept_ownership = True"
| "ownership_call _ = False"

section \<open>Frames of governance\<close>

lemma owner_call_owner:
  "owner_call k \<Longrightarrow> most_message ch env k s = Inr (u, s') \<Longrightarrow> owner_of (storage s) = Some (caller env)"
  by (cases k) (auto simp: most_message_defs owner_only_def run_simps owner_of_def)

lemma registry_call_halted:
  "registry_call k \<Longrightarrow> most_message ch env k s = Inr (u, s') \<Longrightarrow>
     \<exists>d. m_data (storage s) = Some d \<and> d_is_halted d"
  by (cases k) (auto simp: most_message_defs owner_only_def run_simps)

lemma registry_frame: "\<not> registry_call k \<Longrightarrow> always (keeps registry_part) (most_message ch env k)"
  by (cases k; simp only: most_message.simps most_message_defs most_token_defs registry_call.simps
      simp_thms) (intro keeps_rules; simp add: governance_defs with_pocket_balance_def)+

lemma data_config_fields:
  "data_config (d\<lparr>d_request_nonce := n\<rparr>) = data_config d"
  "data_config (d\<lparr>d_pocket_money_balance := n\<rparr>) = data_config d"
  by (simp_all add: data_config_def)

lemma config_part_fields:
  "config_part (with_pocket_balance b m) = config_part m"
  "config_part (m\<lparr>m_signatures := x\<rparr>) = config_part m"
  "config_part (m\<lparr>m_processed_requests := y\<rparr>) = config_part m"
  "config_part (m\<lparr>m_pending_requests := z\<rparr>) = config_part m"
  by (cases "m_data m") (simp_all add: config_part_def with_pocket_balance_def data_config_fields)

lemma config_frame:
  assumes "\<not> owner_call k" "most_message ch env k s = Inr (u, s')"
  shows "config_part (storage s') = config_part (storage s)"
proof -
  consider (send) "is_send k" | (pay) c a where "k = Payout_rewards c a"
    | (rec) h c t a r n where "k = Receive_request h c t a r n" | (fund) "k = Fund_pocket_money"
    | (acc) c a where "k = Set_payout_account c a" | (own) "k = Accept_ownership"
    using assms(1) by (cases k) auto
  then show ?thesis
  proof cases
    case send
    with assms(2) obtain st dt a r b f s1 where s1: "world_only s s1"
      and inner: "most_send_request_inner ch env st dt a r b f s1 = Inr (u, s')"
      using send_message_inner by blast
    from send_inner_effect [OF inner] world_only_same [OF s1] show ?thesis
      by (auto simp: config_part_def data_config_fields)
  next
    case pay
    with assms(2) have "payout_rewards ch env c a s = Inr (u, s')" by simp
    from payout_effect [OF this] show ?thesis by (auto simp: config_part_def)
  next
    case rec
    with assms(2) have "receive_request ch env h c t a r n s = Inr (u, s')" by simp
    then show ?thesis by (rule receive_keeps(1)) (simp_all add: config_part_fields)
  next
    case fund
    with assms(2) show ?thesis
      by (auto simp: fund_pocket_money_def run_simps config_part_def data_config_fields)
  next
    case acc
    with assms(2) show ?thesis by (auto simp: set_payout_account_def run_simps config_part_def)
  next
    case own
    with assms(2) show ?thesis by (auto simp: most_accept_ownership_def run_simps config_part_def)
  qed
qed

lemma ownership_frame:
  "\<not> ownership_call k \<Longrightarrow> always (keeps m_ownable_data) (most_message ch env k)"
  by (cases k; simp only: most_message.simps most_message_defs most_token_defs ownership_call.simps
      simp_thms) (intro keeps_rules; simp add: with_pocket_balance_def)+

section \<open>Properties\<close>

text \<open>
  C23 (a halted bridge stands still). While the bridge is halted, no call sends a request,
  counts a vote or pays rewards: each is refused with \<open>IsHalted\<close>, or traps because value was
  transferred to a message that does not take any.
\<close>

theorem halted_refuses:
  assumes "m_data (storage s) = Some d" "d_is_halted d" "needs_running k"
  shows "dispatch ch env k s =
    (if payable k \<or> transferred_value env = 0 then Inl (Err IsHalted) else Inl Trap)"
  using assms by (cases k)
    (simp_all add: dispatch_def deny_payment_def most_message_defs ensure_not_halted_def
      is_halted_def get_data_def env_eval_simps)

theorem halted_refuses_witness:
  "dispatch demo_chain (demo_env 1 0) (Receive_request 77 0 5 10 6 0) demo_start = Inl (Err IsHalted)"
proof -
  have "m_data (storage demo_start) = Some (the (m_data demo_most))" "d_is_halted (the (m_data demo_most))"
    by (simp_all add: demo_state_defs)
  from halted_refuses [OF this, of "Receive_request 77 0 5 10 6 0" demo_chain "demo_env 1 0"]
  show ?thesis by (simp add: demo_env_def)
qed

text \<open>
  C24 (only the owner governs). A successful call by anyone but the owner leaves the whole
  configuration as it is: fee parameters, limits, oracle, halted flag, token pairs, committees
  and thresholds, wrapped token addresses and local tokens. The owner changes only when the
  pending owner accepts, and a pending owner is named by the owner only.
\<close>

theorem only_owner_governs:
  assumes "dispatch ch env k s = Inr ((), s')"
  shows "(owner_of (storage s) \<noteq> Some (caller env) \<longrightarrow>
      config_part (storage s') = config_part (storage s) \<and>
      registry_part (storage s') = registry_part (storage s)) \<and>
    (owner_of (storage s') \<noteq> owner_of (storage s) \<longrightarrow>
      k = Accept_ownership \<and> pending_of (storage s) = Some (caller env) \<and>
      owner_of (storage s') = Some (caller env)) \<and>
    (pending_of (storage s') \<noteq> pending_of (storage s) \<and> pending_of (storage s') \<noteq> None \<longrightarrow>
      owner_of (storage s) = Some (caller env))"
proof -
  note run = dispatch_message [OF assms]
  have "config_part (storage s') = config_part (storage s)"
    "registry_part (storage s') = registry_part (storage s)" if "owner_of (storage s) \<noteq> Some (caller env)"
  proof -
    from owner_call_owner [OF _ run] that have no: "\<not> owner_call k" by blast
    then show "config_part (storage s') = config_part (storage s)" using config_frame run by blast
    from no have "\<not> registry_call k" by (cases k) auto
    from alwaysD [OF registry_frame [OF this] run]
    show "registry_part (storage s') = registry_part (storage s)" by (simp add: keeps_def)
  qed
  moreover have "k = Accept_ownership \<and> pending_of (storage s) = Some (caller env) \<and>
      owner_of (storage s') = Some (caller env) \<and> pending_of (storage s') = None \<or>
    owner_of (storage s') = owner_of (storage s) \<and>
      (pending_of (storage s') = pending_of (storage s) \<or> owner_of (storage s) = Some (caller env))"
  proof (cases "ownership_call k")
    case True
    with run show ?thesis
      by (cases k) (auto simp: most_accept_ownership_def most_transfer_ownership_def run_simps governance_defs)
  next
    case False
    from alwaysD [OF ownership_frame [OF False] run] show ?thesis by (simp add: keeps_def governance_defs)
  qed
  ultimately show ?thesis by auto
qed

theorem only_owner_governs_witness:
  "registry_part (storage demo_voted) = registry_part (storage demo_open) \<and>
   config_part (storage demo_voted) = config_part (storage demo_open)"
proof -
  have "dispatch demo_chain (demo_env 1 0) (Receive_request 77 0 5 10 6 0) demo_open = Inr ((), demo_voted)"
    by (rule dispatch_receiveI [OF _ demo_step_voted]) (simp add: demo_env_def)
  from only_owner_governs [OF this] show ?thesis
    by (simp add: owner_of_def demo_state_defs demo_env_def ownable_new_def)
qed

text \<open>
  C25 (the registry changes at a standstill only). A successful call made while the bridge is
  running leaves the token pairs, the committees and thresholds, the wrapped token addresses
  and the local tokens as they are, whoever makes it.
\<close>

theorem registry_frozen_while_running:
  assumes "dispatch ch env k s = Inr ((), s')" "m_data (storage s) = Some d" "\<not> d_is_halted d"
  shows "registry_part (storage s') = registry_part (storage s)"
proof -
  note run = dispatch_message [OF assms(1)]
  from registry_call_halted [OF _ run] assms(2,3) have "\<not> registry_call k" by auto
  from alwaysD [OF registry_frame [OF this] run] show ?thesis by (simp add: keeps_def)
qed

theorem registry_frozen_while_running_witness:
  "registry_part (storage demo_done) = registry_part (storage demo_voted)"
proof -
  have "dispatch demo_chain (demo_env 2 0) (Receive_request 77 0 5 10 6 0) demo_voted = Inr ((), demo_done)"
    by (rule dispatch_receiveI [OF _ demo_step_done]) (simp add: demo_env_def)
  moreover have "m_data (storage demo_voted) = Some ((the (m_data demo_most))\<lparr>d_is_halted := False\<rparr>)"
    by (simp add: demo_state_defs)
  ultimately show ?thesis by (rule registry_frozen_while_running) (simp add: data_config_def)
qed


definition demo_local :: "demo_world most_ctx" where
  "demo_local = demo_start\<lparr>storage := demo_most\<lparr>m_supported_pairs := [5 \<mapsto> 55], m_local_token := {5}\<rparr>\<rparr>"

lemma demo_relisted:
  "dispatch demo_chain (demo_env 9 0) (Add_pair 5 55 False) demo_local = Inr ((), demo_local)"
  by (simp add: demo_eval demo_state_defs demo_local_def)


text \<open>
  Handing over the ownership. When the owner names a successor and the successor accepts,
  both calls succeed, and from then on exactly the successor passes the owner check.
\<close>

lemma ownership_handover:
  assumes "m_ownable_data (storage s) = Some d" "owner d = a"
  shows "\<exists>s1 s2. most_transfer_ownership (env\<lparr>caller := a\<rparr>) b s = Inr ((), s1) \<and>
    most_accept_ownership (env\<lparr>caller := b\<rparr>) s1 = Inr ((), s2) \<and>
    (\<forall>c. ensure_owner (env\<lparr>caller := c\<rparr>) s2 =
      (if b = c then Inr ((), s2) else Inl (Err (CallerNotOwner c))))"
proof -
  from most_own.transfer_ok [OF assms] obtain s1 where
    s1: "most_transfer_ownership (env\<lparr>caller := a\<rparr>) b s = Inr ((), s1)"
      "m_ownable_data (storage s1) = Some (d\<lparr>pending_owner := Some b\<rparr>)" by blast
  from most_own.accept_ok [OF s1(2), of b] obtain s2 where
    s2: "most_accept_ownership (env\<lparr>caller := b\<rparr>) s1 = Inr ((), s2)" by auto
  have "fold (most_own.own_exec env) [Transfer a b, Accept b] s = s2"
    using s1(1) s2 by (simp add: most_own.own_exec.simps)
  with most_own.ensure_after_handover [OF assms, where b = b and env = env] s1(1) s2 show ?thesis by auto
qed

lemma ownership_handover_witness:
  "\<exists>s1 s2. most_transfer_ownership ((demo_env 0 0)\<lparr>caller := 9\<rparr>) 4 demo_start = Inr ((), s1) \<and>
    most_accept_ownership ((demo_env 0 0)\<lparr>caller := 4\<rparr>) s1 = Inr ((), s2) \<and>
    ensure_owner ((demo_env 0 0)\<lparr>caller := 9\<rparr>) s2 = Inl (Err (CallerNotOwner 9))"
proof -
  have "m_ownable_data (storage demo_start) = Some (ownable_new 9)" "owner (ownable_new 9) = 9"
    by (simp_all add: demo_state_defs ownable_new_def)
  from ownership_handover [OF this, of "demo_env 0 0" 4] show ?thesis by fastforce
qed

end
