(* ===== verification/Most_L2.thy ===== *)
theory Most_L2
  imports Ink_Env Ownable2Step Shared_Hash
begin

text \<open>
  The second bridge contract, \<open>azero/contracts/most-l2/lib.rs\<close>: storage, constructor, checks,
  read-only messages, the messages that change the storage, and the dispatcher. It locks tokens
  instead of burning them and takes a flat fee that goes to its owner. Names carry the prefix
  \<open>l2_\<close> where the first bridge contract has the same name.
\<close>

section \<open>Constants, events, errors\<close>

definition L2_ZERO_ADDRESS :: bytes32 where
  "L2_ZERO_ADDRESS = 0"

definition L2_NATIVE_MARKER_ADDRESS :: bytes32 where
  "L2_NATIVE_MARKER_ADDRESS = 0"

definition DEFAULT_FLAT_FEE :: u128 where
  "DEFAULT_FLAT_FEE = 1000000000000 div 2"

datatype l2_event =
    L2_CrosschainTransferRequest u128 bytes32 u128 bytes32 u128
  | L2_RequestProcessed bytes32 bytes32
  | L2_RequestSigned bytes32 AccountId
  | L2_HaltedStateChanged bool bool AccountId
  | L2_SignedProcessedRequest bytes32 AccountId
  | L2_TransferOwnershipInitiated AccountId
  | L2_TransferOwnershipAccepted AccountId
  | L2_RequestAlreadySigned_event bytes32 AccountId

record l2_Request =
  l2_signature_count :: u128

datatype l2_RequestStatus = L2_Pending u32 | L2_Processed | L2_RequestHashNotKnown

datatype L2Error =
    L2_Constructor
  | L2_InvalidThreshold
  | L2_DuplicateCommitteeMember
  | L2_ZeroTransferAmount
  | L2_NotInCommittee
  | L2_NoSuchCommittee
  | L2_HashDoesNotMatchData
  | L2_PSP22 PSP22Error
  | L2_Ownable Ownable2StepError
  | L2_UnsupportedPair
  | L2_InkEnvError string
  | L2_RequestAlreadySigned
  | L2_BaseFeeTooLow
  | L2_Arithmetic
  | L2_CorruptedStorage
  | L2_IsHalted
  | L2_HaltRequired
  | L2_NoMintPermission
  | L2_ZeroAddress
  | L2_WrappedEthNotSet
  | L2_WrappedAzeroNotSet
  | L2_ValueTransferredLowerThanAmount
  | FlatFeeNotSet

section \<open>Storage\<close>

record l2_Data =
  l2_request_nonce :: u128
  l2_committee_id :: u128
  l2_halted :: bool

record MostL2 =
  l2_data :: "l2_Data option"
  l2_ownable_data :: "Ownable2StepData option"
  l2_pending_requests :: "bytes32 \<Rightarrow> l2_Request option"
  l2_signatures :: "(bytes32 \<times> AccountId) set"
  l2_processed_requests :: "bytes32 set"
  l2_committees :: "(u128 \<times> AccountId) set"
  l2_committee_sizes :: "u128 \<Rightarrow> u128 option"
  l2_signature_thresholds :: "u128 \<Rightarrow> u128 option"
  l2_supported_pairs :: "bytes32 \<Rightarrow> bytes32 option"
  l2_wazero :: "AccountId option"
  l2_flat_fee :: "u128 option"

type_synonym 'w l2_ctx = "(MostL2, l2_event, 'w) ctx"
type_synonym ('w, 'a) l2_message = "('w l2_ctx, L2Error, 'a) contract"

section \<open>Committee check and constructor\<close>

fun l2_occurs_later :: "AccountId \<Rightarrow> AccountId list \<Rightarrow> bool" where
  "l2_occurs_later x [] = False"
| "l2_occurs_later x (y # ys) = (if x = y then True else l2_occurs_later x ys)"

fun l2_has_duplicate :: "AccountId list \<Rightarrow> bool" where
  "l2_has_duplicate [] = False"
| "l2_has_duplicate (x # xs) = (if l2_occurs_later x xs then True else l2_has_duplicate xs)"

definition l2_check_committee :: "AccountId list \<Rightarrow> u128 \<Rightarrow> L2Error + unit" where
  "l2_check_committee committee threshold =
     (if threshold = 0 \<or> length committee < unat (ucast threshold :: u32) then Inl L2_InvalidThreshold
      else if l2_has_duplicate committee then Inl L2_DuplicateCommitteeMember
      else Inr ())"

definition l2_new :: "AccountId list \<Rightarrow> u128 \<Rightarrow> AccountId \<Rightarrow> L2Error + MostL2" where
  "l2_new committee signature_threshold owner' =
     (case l2_check_committee committee signature_threshold of
        Inl e \<Rightarrow> Inl e
      | Inr _ \<Rightarrow> Inr
          \<lparr>l2_data = Some \<lparr>l2_request_nonce = 0, l2_committee_id = 0, l2_halted = True\<rparr>,
           l2_ownable_data = Some (ownable_new owner'),
           l2_pending_requests = (\<lambda>_. None), l2_signatures = {}, l2_processed_requests = {},
           l2_committees = (\<lambda>a. (0, a)) ` set committee,
           l2_committee_sizes = [0 \<mapsto> of_nat (length committee)],
           l2_signature_thresholds = [0 \<mapsto> signature_threshold],
           l2_supported_pairs = (\<lambda>_. None), l2_wazero = None,
           l2_flat_fee = Some DEFAULT_FLAT_FEE\<rparr>)"

section \<open>Storage access and checks\<close>

definition l2_get_data :: "('w, l2_Data) l2_message" where
  "l2_get_data = andThen (gets (\<lambda>s. l2_data (storage s))) (\<lambda>d. ok_or d L2_CorruptedStorage)"

definition l2_set_data :: "l2_Data \<Rightarrow> ('w, unit) l2_message" where
  "l2_set_data d = put_storage (\<lambda>m. m\<lparr>l2_data := Some d\<rparr>)"

definition l2_get_ownable_data :: "('w l2_ctx, Ownable2StepError, Ownable2StepData) contract" where
  "l2_get_ownable_data =
     andThen (gets (\<lambda>s. l2_ownable_data (storage s))) (\<lambda>d. ok_or d (Custom ''CorruptedStorage''))"

definition l2_is_halted :: "('w, bool) l2_message" where
  "l2_is_halted = andThen l2_get_data (\<lambda>d. ret (l2_halted d))"

definition l2_ensure_halted :: "('w, unit) l2_message" where
  "l2_ensure_halted = andThen l2_is_halted (\<lambda>h. ensure h L2_HaltRequired)"

definition l2_ensure_not_halted :: "('w, unit) l2_message" where
  "l2_ensure_not_halted = andThen l2_is_halted (\<lambda>h. ensure (\<not> h) L2_IsHalted)"

definition l2_ensure_owner :: "call_env \<Rightarrow> ('w l2_ctx, Ownable2StepError, unit) contract" where
  "l2_ensure_owner env = andThen l2_get_ownable_data (\<lambda>d. try_res (ownable_ensure_owner d (caller env)))"

definition l2_owner_only :: "call_env \<Rightarrow> ('w, unit) l2_message" where
  "l2_owner_only env = map_err L2_Ownable (l2_ensure_owner env)"

definition l2_is_in_committee :: "u128 \<Rightarrow> AccountId \<Rightarrow> MostL2 \<Rightarrow> bool" where
  "l2_is_in_committee committee_id account m \<longleftrightarrow> (committee_id, account) \<in> l2_committees m"

definition l2_only_committee_member :: "u128 \<Rightarrow> AccountId \<Rightarrow> ('w, unit) l2_message" where
  "l2_only_committee_member committee_id account =
     andThen (gets (\<lambda>s. l2_is_in_committee committee_id account (storage s)))
       (\<lambda>b. ensure b L2_NotInCommittee)"

section \<open>Read-only messages\<close>

definition l2_has_signed_request :: "AccountId \<Rightarrow> bytes32 \<Rightarrow> MostL2 \<Rightarrow> bool" where
  "l2_has_signed_request account request_hash m \<longleftrightarrow> (request_hash, account) \<in> l2_signatures m"

definition l2_needs_signature :: "bytes32 \<Rightarrow> AccountId \<Rightarrow> u128 \<Rightarrow> MostL2 \<Rightarrow> bool" where
  "l2_needs_signature request_hash account committee_id m \<longleftrightarrow>
     (if \<not> l2_is_in_committee committee_id account m then False
      else if request_hash \<in> l2_processed_requests m then False
      else if l2_has_signed_request account request_hash m then False
      else True)"

definition l2_request_status :: "bytes32 \<Rightarrow> MostL2 \<Rightarrow> l2_RequestStatus" where
  "l2_request_status hashed_request m =
     (if hashed_request \<in> l2_processed_requests m then L2_Processed
      else case l2_pending_requests m hashed_request of
             Some r \<Rightarrow> L2_Pending (ucast (l2_signature_count r))
           | None \<Rightarrow> L2_RequestHashNotKnown)"

definition l2_get_flat_fee :: "('w, u128) l2_message" where
  "l2_get_flat_fee = andThen (gets (\<lambda>s. l2_flat_fee (storage s))) (\<lambda>f. ok_or f FlatFeeNotSet)"

definition l2_get_supported_pair :: "bytes32 \<Rightarrow> MostL2 \<Rightarrow> bytes32 option" where
  "l2_get_supported_pair src_token m = l2_supported_pairs m src_token"

definition l2_get_request_nonce :: "('w, u128) l2_message" where
  "l2_get_request_nonce = andThen l2_get_data (\<lambda>d. ret (l2_request_nonce d))"

definition l2_get_current_committee_id :: "('w, u128) l2_message" where
  "l2_get_current_committee_id = andThen l2_get_data (\<lambda>d. ret (l2_committee_id d))"

definition l2_get_owner :: "('w l2_ctx, Ownable2StepError, AccountId) contract" where
  "l2_get_owner = andThen l2_get_ownable_data (\<lambda>d. try_res (ownable_get_owner d))"

definition l2_get_pending_owner :: "('w l2_ctx, Ownable2StepError, AccountId) contract" where
  "l2_get_pending_owner = andThen l2_get_ownable_data (\<lambda>d. try_res (ownable_get_pending_owner d))"

section \<open>Requests to the other chain\<close>

definition l2_transfer ::
  "'w chain \<Rightarrow> call_env \<Rightarrow> AccountId \<Rightarrow> AccountId \<Rightarrow> u128 \<Rightarrow> ('w l2_ctx, PSP22Error, unit) contract" where
  "l2_transfer ch env token to amount = call_world (psp22_transfer ch (account_id env) token to amount)"

definition l2_transfer_from ::
  "'w chain \<Rightarrow> call_env \<Rightarrow> AccountId \<Rightarrow> AccountId \<Rightarrow> u128 \<Rightarrow> ('w l2_ctx, PSP22Error, unit) contract" where
  "l2_transfer_from ch env token from' amount =
     call_world (psp22_transfer_from ch (account_id env) token from' (account_id env) amount)"

definition l2_unwrap_azero_to ::
  "'w chain \<Rightarrow> call_env \<Rightarrow> AccountId \<Rightarrow> u128 \<Rightarrow> ('w, unit) l2_message" where
  "l2_unwrap_azero_to ch env to amount =
     andThen (gets (\<lambda>s. l2_wazero (storage s))) (\<lambda>a.
     andThen (ok_or a L2_WrappedAzeroNotSet) (\<lambda>wrapped_azero_address.
     andThen (map_err L2_PSP22
       (call_world (wazero_withdraw ch (account_id env) wrapped_azero_address amount))) (\<lambda>_.
     map_err L2_InkEnvError (env_transfer ch env to amount))))"

text \<open>\<open>_send_request\<close>\<close>

definition l2_send_request_inner ::
  "'w chain \<Rightarrow> call_env \<Rightarrow> AccountId \<Rightarrow> bytes32 \<Rightarrow> u128 \<Rightarrow> bytes32 \<Rightarrow> bool \<Rightarrow> ('w, unit) l2_message" where
  "l2_send_request_inner ch env src_token_address dest_token_address amount
     dest_receiver_address native_azero_request =
     andThen (ensure (dest_receiver_address \<noteq> L2_ZERO_ADDRESS) L2_ZeroAddress) (\<lambda>_.
     andThen (ensure (amount \<noteq> 0) L2_ZeroTransferAmount) (\<lambda>_.
     andThen (if \<not> native_azero_request
       then map_err L2_PSP22 (l2_transfer_from ch env src_token_address (caller env) amount)
       else ret ()) (\<lambda>_.
     andThen l2_get_data (\<lambda>data.
     andThen (ok_or (checked_add (l2_request_nonce data) 1) L2_Arithmetic) (\<lambda>next_nonce.
     andThen (l2_set_data (data\<lparr>l2_request_nonce := next_nonce\<rparr>)) (\<lambda>_.
     emit_event (L2_CrosschainTransferRequest (l2_committee_id data) dest_token_address amount
       dest_receiver_address (l2_request_nonce data))))))))"

definition handle_flat_fee :: "'w chain \<Rightarrow> call_env \<Rightarrow> u128 \<Rightarrow> ('w, unit) l2_message" where
  "handle_flat_fee ch env native_to_bridge =
     andThen (gets (\<lambda>s. l2_flat_fee (storage s))) (\<lambda>f.
     andThen (ok_or f FlatFeeNotSet) (\<lambda>flat_fee.
     andThen (ok_or (checked_sub (transferred_value env) (saturating_add native_to_bridge flat_fee))
       L2_ValueTransferredLowerThanAmount) (\<lambda>surplus.
     andThen (map_err L2_Ownable l2_get_owner) (\<lambda>owner'.
     andThen (map_err L2_InkEnvError (env_transfer ch env owner' flat_fee)) (\<lambda>_.
     if 0 < surplus then map_err L2_InkEnvError (env_transfer ch env (caller env) surplus)
     else ret ())))))"

definition l2_send_request ::
  "'w chain \<Rightarrow> call_env \<Rightarrow> bytes32 \<Rightarrow> u128 \<Rightarrow> bytes32 \<Rightarrow> ('w, unit) l2_message" where
  "l2_send_request ch env src_token_address amount dest_receiver_address =
     andThen l2_ensure_not_halted (\<lambda>_.
     andThen (handle_flat_fee ch env 0) (\<lambda>_.
     andThen (gets (\<lambda>s. l2_supported_pairs (storage s) src_token_address)) (\<lambda>p.
     andThen (ok_or p L2_UnsupportedPair) (\<lambda>dest_token_address.
     l2_send_request_inner ch env src_token_address dest_token_address amount
       dest_receiver_address False))))"

definition l2_send_request_native_azero ::
  "'w chain \<Rightarrow> call_env \<Rightarrow> u128 \<Rightarrow> bytes32 \<Rightarrow> ('w, unit) l2_message" where
  "l2_send_request_native_azero ch env amount_to_bridge dest_receiver_address =
     andThen l2_ensure_not_halted (\<lambda>_.
     andThen (handle_flat_fee ch env amount_to_bridge) (\<lambda>_.
     andThen (gets (\<lambda>s. l2_wazero (storage s))) (\<lambda>a.
     andThen (ok_or a L2_WrappedAzeroNotSet) (\<lambda>wrapped_azero_address.
     andThen (map_err L2_PSP22
       (call_world (wazero_deposit ch (account_id env) wrapped_azero_address amount_to_bridge))) (\<lambda>_.
     l2_send_request_inner ch env wrapped_azero_address L2_NATIVE_MARKER_ADDRESS amount_to_bridge
       dest_receiver_address True)))))"

section \<open>Votes on requests from the other chain\<close>

definition l2_pending_or_default :: "bytes32 \<Rightarrow> MostL2 \<Rightarrow> l2_Request" where
  "l2_pending_or_default h m =
     (case l2_pending_requests m h of None \<Rightarrow> \<lparr>l2_signature_count = 0\<rparr> | Some r \<Rightarrow> r)"

definition l2_pay_out_request ::
  "'w chain \<Rightarrow> call_env \<Rightarrow> bytes32 \<Rightarrow> u128 \<Rightarrow> bytes32 \<Rightarrow> ('w, unit) l2_message" where
  "l2_pay_out_request ch env dest_token_address amount dest_receiver_address =
     (if dest_token_address = L2_NATIVE_MARKER_ADDRESS then
        l2_unwrap_azero_to ch env dest_receiver_address amount
      else map_err L2_PSP22 (l2_transfer ch env dest_token_address dest_receiver_address amount))"

definition l2_receive_request ::
  "'w chain \<Rightarrow> call_env \<Rightarrow> bytes32 \<Rightarrow> u128 \<Rightarrow> bytes32 \<Rightarrow> u128 \<Rightarrow> bytes32 \<Rightarrow> u128 \<Rightarrow> ('w, unit) l2_message" where
  "l2_receive_request ch env request_hash committee_id dest_token_address amount
     dest_receiver_address request_nonce =
     andThen l2_ensure_not_halted (\<lambda>_.
     andThen (l2_only_committee_member committee_id (caller env)) (\<lambda>_.
     andThen (gets storage) (\<lambda>m.
     if request_hash \<in> l2_processed_requests m then
       emit_event (L2_SignedProcessedRequest request_hash (caller env))
     else if (request_hash, caller env) \<in> l2_signatures m then
       emit_event (L2_RequestAlreadySigned_event request_hash (caller env))
     else
       andThen (ensure (request_hash = hash_request_data (chain_keccak256 ch) committee_id
         dest_token_address amount dest_receiver_address request_nonce) L2_HashDoesNotMatchData) (\<lambda>_.
       andThen (ok_or (checked_add (l2_signature_count (l2_pending_or_default request_hash m)) 1)
         L2_Arithmetic) (\<lambda>count.
       andThen (put_storage (\<lambda>m. m\<lparr>l2_signatures :=
         insert (request_hash, caller env) (l2_signatures m)\<rparr>)) (\<lambda>_.
       andThen (emit_event (L2_RequestSigned request_hash (caller env))) (\<lambda>_.
       andThen (gets (\<lambda>s. l2_signature_thresholds (storage s) committee_id)) (\<lambda>t.
       andThen (ok_or t L2_InvalidThreshold) (\<lambda>signature_threshold.
       if signature_threshold \<le> count then
         andThen (l2_pay_out_request ch env dest_token_address amount dest_receiver_address) (\<lambda>_.
         andThen (put_storage (\<lambda>m. m\<lparr>l2_processed_requests :=
           insert request_hash (l2_processed_requests m)\<rparr>)) (\<lambda>_.
         andThen (put_storage (\<lambda>m. m\<lparr>l2_pending_requests :=
           (l2_pending_requests m)(request_hash := None)\<rparr>)) (\<lambda>_.
         emit_event (L2_RequestProcessed request_hash dest_token_address))))
       else
         put_storage (\<lambda>m. m\<lparr>l2_pending_requests :=
           (l2_pending_requests m)(request_hash \<mapsto> \<lparr>l2_signature_count = count\<rparr>)\<rparr>)))))))))) "

section \<open>Governance\<close>

definition l2_set_code :: "'w chain \<Rightarrow> call_env \<Rightarrow> bytes32 \<Rightarrow> ('w, unit) l2_message" where
  "l2_set_code ch env code_hash =
     andThen (l2_owner_only env) (\<lambda>_.
     map_err L2_InkEnvError (call_env_fn (set_code_hash ch (account_id env) code_hash)))"

definition set_flat_fee :: "call_env \<Rightarrow> u128 \<Rightarrow> ('w, unit) l2_message" where
  "set_flat_fee env new_flat_fee =
     andThen (l2_owner_only env) (\<lambda>_.
     put_storage (\<lambda>m. m\<lparr>l2_flat_fee := Some new_flat_fee\<rparr>))"

definition l2_remove_pair :: "call_env \<Rightarrow> bytes32 \<Rightarrow> ('w, unit) l2_message" where
  "l2_remove_pair env from' =
     andThen (l2_owner_only env) (\<lambda>_.
     andThen l2_ensure_halted (\<lambda>_.
     put_storage (\<lambda>m. m\<lparr>l2_supported_pairs := (l2_supported_pairs m)(from' := None)\<rparr>)))"

definition l2_add_pair :: "call_env \<Rightarrow> bytes32 \<Rightarrow> bytes32 \<Rightarrow> ('w, unit) l2_message" where
  "l2_add_pair env from' to =
     andThen (l2_owner_only env) (\<lambda>_.
     andThen l2_ensure_halted (\<lambda>_.
     put_storage (\<lambda>m. m\<lparr>l2_supported_pairs := (l2_supported_pairs m)(from' \<mapsto> to)\<rparr>)))"

definition l2_set_wazero :: "call_env \<Rightarrow> AccountId \<Rightarrow> ('w, unit) l2_message" where
  "l2_set_wazero env wazero_address =
     andThen (l2_owner_only env) (\<lambda>_.
     andThen l2_ensure_halted (\<lambda>_.
     put_storage (\<lambda>m. m\<lparr>l2_wazero := Some wazero_address\<rparr>)))"

definition l2_set_committee :: "call_env \<Rightarrow> AccountId list \<Rightarrow> u128 \<Rightarrow> ('w, unit) l2_message" where
  "l2_set_committee env committee signature_threshold =
     andThen (l2_owner_only env) (\<lambda>_.
     andThen l2_ensure_halted (\<lambda>_.
     andThen (try_res (l2_check_committee committee signature_threshold)) (\<lambda>_.
     andThen l2_get_data (\<lambda>data.
     andThen (put_storage (\<lambda>m. m\<lparr>l2_committee_sizes :=
       (l2_committee_sizes m)(l2_committee_id data + 1 \<mapsto> of_nat (length committee))\<rparr>)) (\<lambda>_.
     andThen (put_storage (\<lambda>m. m\<lparr>l2_committees :=
       l2_committees m \<union> (\<lambda>a. (l2_committee_id data + 1, a)) ` set committee\<rparr>)) (\<lambda>_.
     andThen (l2_set_data (data\<lparr>l2_committee_id := l2_committee_id data + 1\<rparr>)) (\<lambda>_.
     put_storage (\<lambda>m. m\<lparr>l2_signature_thresholds :=
       (l2_signature_thresholds m)(l2_committee_id data + 1 \<mapsto> signature_threshold)\<rparr>))))))))"

definition l2_set_halted :: "call_env \<Rightarrow> bool \<Rightarrow> ('w, unit) l2_message" where
  "l2_set_halted env new_state =
     andThen (l2_owner_only env) (\<lambda>_.
     andThen l2_get_data (\<lambda>data.
     if new_state \<noteq> l2_halted data then
       andThen (l2_set_data (data\<lparr>l2_halted := new_state\<rparr>)) (\<lambda>_.
       emit_event (L2_HaltedStateChanged (l2_halted data) new_state (caller env)))
     else ret ()))"

definition l2_recover_psp22 ::
  "'w chain \<Rightarrow> call_env \<Rightarrow> AccountId \<Rightarrow> AccountId \<Rightarrow> u128 \<Rightarrow> ('w, unit) l2_message" where
  "l2_recover_psp22 ch env token receiver amount =
     andThen (l2_owner_only env) (\<lambda>_.
     map_err L2_PSP22 (call_world (psp22_transfer ch (account_id env) token receiver amount)))"

definition l2_recover_azero ::
  "'w chain \<Rightarrow> call_env \<Rightarrow> AccountId \<Rightarrow> u128 \<Rightarrow> ('w, unit) l2_message" where
  "l2_recover_azero ch env receiver amount =
     andThen (l2_owner_only env) (\<lambda>_.
     map_err L2_InkEnvError (env_transfer ch env receiver amount))"

definition l2_transfer_ownership ::
  "call_env \<Rightarrow> AccountId \<Rightarrow> ('w l2_ctx, Ownable2StepError, unit) contract" where
  "l2_transfer_ownership env new_owner =
     andThen l2_get_ownable_data (\<lambda>d.
     andThen (try_res (ownable_transfer_ownership d (caller env) new_owner)) (\<lambda>d'.
     andThen (put_storage (\<lambda>m. m\<lparr>l2_ownable_data := Some d'\<rparr>)) (\<lambda>_.
     emit_event (L2_TransferOwnershipInitiated new_owner))))"

definition l2_accept_ownership :: "call_env \<Rightarrow> ('w l2_ctx, Ownable2StepError, unit) contract" where
  "l2_accept_ownership env =
     andThen l2_get_ownable_data (\<lambda>d.
     andThen (try_res (ownable_accept_ownership d (caller env))) (\<lambda>d'.
     andThen (put_storage (\<lambda>m. m\<lparr>l2_ownable_data := Some d'\<rparr>)) (\<lambda>_.
     emit_event (L2_TransferOwnershipAccepted (caller env)))))"

interpretation l2_own: ownable2step
  "\<lambda>s. l2_ownable_data (storage (s :: 'w l2_ctx))"
  "\<lambda>c. l2_transfer_ownership (env\<lparr>caller := c\<rparr>)"
  "\<lambda>c. l2_accept_ownership (env\<lparr>caller := c\<rparr>)"
  "\<lambda>c. l2_ensure_owner (env\<lparr>caller := c\<rparr>)"
  for env :: call_env
  by unfold_locales
    (auto simp: l2_transfer_ownership_def l2_accept_ownership_def l2_ensure_owner_def
      l2_get_ownable_data_def env_eval_simps ownable_defs split: option.splits)

section \<open>Dispatch\<close>

datatype l2_call =
    L2_Send_request bytes32 u128 bytes32
  | L2_Send_request_native_azero u128 bytes32
  | L2_Receive_request bytes32 u128 bytes32 u128 bytes32 u128
  | L2_Set_code bytes32
  | L2_Set_flat_fee u128
  | L2_Remove_pair bytes32
  | L2_Add_pair bytes32 bytes32
  | L2_Set_wazero AccountId
  | L2_Set_committee "AccountId list" u128
  | L2_Set_halted bool
  | L2_Recover_psp22 AccountId AccountId u128
  | L2_Recover_azero AccountId u128
  | L2_Transfer_ownership AccountId
  | L2_Accept_ownership

fun l2_payable :: "l2_call \<Rightarrow> bool" where
  "l2_payable (L2_Send_request _ _ _) = True"
| "l2_payable (L2_Send_request_native_azero _ _) = True"
| "l2_payable _ = False"

fun l2_message :: "'w chain \<Rightarrow> call_env \<Rightarrow> l2_call \<Rightarrow> ('w, unit) l2_message" where
  "l2_message ch env (L2_Send_request t a r) = l2_send_request ch env t a r"
| "l2_message ch env (L2_Send_request_native_azero a r) = l2_send_request_native_azero ch env a r"
| "l2_message ch env (L2_Receive_request h c t a r n) = l2_receive_request ch env h c t a r n"
| "l2_message ch env (L2_Set_code h) = l2_set_code ch env h"
| "l2_message ch env (L2_Set_flat_fee v) = set_flat_fee env v"
| "l2_message ch env (L2_Remove_pair f) = l2_remove_pair env f"
| "l2_message ch env (L2_Add_pair f t) = l2_add_pair env f t"
| "l2_message ch env (L2_Set_wazero a) = l2_set_wazero env a"
| "l2_message ch env (L2_Set_committee c t) = l2_set_committee env c t"
| "l2_message ch env (L2_Set_halted b) = l2_set_halted env b"
| "l2_message ch env (L2_Recover_psp22 t r a) = l2_recover_psp22 ch env t r a"
| "l2_message ch env (L2_Recover_azero r a) = l2_recover_azero ch env r a"
| "l2_message ch env (L2_Transfer_ownership a) = map_err L2_Ownable (l2_transfer_ownership env a)"
| "l2_message ch env L2_Accept_ownership = map_err L2_Ownable (l2_accept_ownership env)"

definition l2_dispatch :: "'w chain \<Rightarrow> call_env \<Rightarrow> l2_call \<Rightarrow> ('w, unit) l2_message" where
  "l2_dispatch ch env k =
     andThen (if l2_payable k then ret () else deny_payment env) (\<lambda>_. l2_message ch env k)"

lemmas l2_message_defs = l2_send_request_def l2_send_request_native_azero_def
  l2_receive_request_def l2_set_code_def set_flat_fee_def l2_remove_pair_def l2_add_pair_def
  l2_set_wazero_def l2_set_committee_def l2_set_halted_def l2_recover_psp22_def
  l2_recover_azero_def l2_transfer_ownership_def l2_accept_ownership_def

lemmas l2_helper_defs = l2_send_request_inner_def handle_flat_fee_def l2_pay_out_request_def
  l2_unwrap_azero_to_def l2_transfer_def l2_transfer_from_def l2_owner_only_def

lemmas l2_access_defs = l2_get_data_def l2_set_data_def l2_get_ownable_data_def l2_is_halted_def
  l2_ensure_halted_def l2_ensure_not_halted_def l2_ensure_owner_def l2_is_in_committee_def
  l2_only_committee_member_def l2_get_owner_def

section \<open>Inversion rules\<close>

lemma l2_run_get_data [run_simps]:
  "l2_get_data s = Inr (d, s') \<longleftrightarrow> l2_data (storage s) = Some d \<and> s' = s"
  by (auto simp: l2_get_data_def run_simps)

lemma l2_run_set_data [run_simps]:
  "l2_set_data d s = Inr (u, s') \<longleftrightarrow> s' = s\<lparr>storage := (storage s)\<lparr>l2_data := Some d\<rparr>\<rparr>"
  by (auto simp: l2_set_data_def run_simps)

lemma l2_run_get_ownable_data [run_simps]:
  "l2_get_ownable_data s = Inr (d, s') \<longleftrightarrow> l2_ownable_data (storage s) = Some d \<and> s' = s"
  by (auto simp: l2_get_ownable_data_def run_simps)

lemma l2_run_halted [run_simps]:
  "l2_ensure_not_halted s = Inr (u, s') \<longleftrightarrow> (\<exists>d. l2_data (storage s) = Some d \<and> \<not> l2_halted d) \<and> s' = s"
  "l2_ensure_halted s = Inr (u, s') \<longleftrightarrow> (\<exists>d. l2_data (storage s) = Some d \<and> l2_halted d) \<and> s' = s"
  by (auto simp: l2_ensure_not_halted_def l2_ensure_halted_def l2_is_halted_def run_simps)

lemma l2_run_owner_only [run_simps]:
  "l2_owner_only env s = Inr (u, s') \<longleftrightarrow>
     (\<exists>d. l2_ownable_data (storage s) = Some d \<and> owner d = caller env) \<and> s' = s"
  by (auto simp: l2_owner_only_def l2_ensure_owner_def run_simps)

lemma l2_run_only_committee_member [run_simps]:
  "l2_only_committee_member c a s = Inr (u, s') \<longleftrightarrow> (c, a) \<in> l2_committees (storage s) \<and> s' = s"
  by (auto simp: l2_only_committee_member_def l2_is_in_committee_def run_simps)

lemma l2_run_get_owner [run_simps]:
  "l2_get_owner s = Inr (x, s') \<longleftrightarrow> (\<exists>d. l2_ownable_data (storage s) = Some d \<and> x = owner d) \<and> s' = s"
  by (auto simp: l2_get_owner_def ownable_get_owner_def run_simps)

end
