(* ===== verification/Most_L2_Properties.thy ===== *)
theory Most_L2_Properties
  imports Most_L2 Guardian_Votes Demo_Chain
begin

text \<open>
  The second bridge contract: inversion of a vote, the frame of the other messages, runs, the
  interpretation of \<open>guardian_votes\<close>, and the properties with their witnesses.
\<close>

section \<open>Frames\<close>

definition l2_keeps :: "(MostL2 \<Rightarrow> l2_event list \<Rightarrow> 'b) \<Rightarrow> 'w l2_ctx \<Rightarrow> 'w l2_ctx \<Rightarrow> bool" where
  "l2_keeps f s s' \<longleftrightarrow> f (storage s') (events s') = f (storage s) (events s)"

interpretation l2_frame: state_relation "l2_keeps f :: 'w l2_ctx \<Rightarrow> 'w l2_ctx \<Rightarrow> bool"
  for f :: "MostL2 \<Rightarrow> l2_event list \<Rightarrow> 'b"
  by unfold_locales (auto simp: l2_keeps_def)

lemma l2_keeps_calls:
  "always (l2_keeps f) (call_world g)" "always (l2_keeps f) (call_env_fn g')"
  "always (l2_keeps f) (env_transfer ch env to a)" "always (l2_keeps f) l2_get_data"
  "always (l2_keeps f) l2_get_ownable_data" "always (l2_keeps f) l2_ensure_halted"
  "always (l2_keeps f) l2_ensure_not_halted" "always (l2_keeps f) (l2_only_committee_member c b)"
  "always (l2_keeps f) (l2_owner_only env)" "always (l2_keeps f) (deny_payment env)"
  "always (l2_keeps f) l2_get_owner"
  by (auto simp: always_def run_simps l2_keeps_def)

lemma l2_keeps_put_storage:
  "(\<And>m es. f (g m) es = f m es) \<Longrightarrow> always (l2_keeps f) (put_storage g)"
  "(\<And>m es. f (m\<lparr>l2_data := Some d\<rparr>) es = f m es) \<Longrightarrow> always (l2_keeps f) (l2_set_data d)"
  by (auto simp: always_def run_simps l2_keeps_def)

lemma l2_keeps_emit:
  "(\<And>m es. f m (es @ [e]) = f m es) \<Longrightarrow> always (l2_keeps f) (emit_event e)"
  by (auto simp: always_def run_simps l2_keeps_def)

lemmas l2_keeps_rules = l2_frame.always_rules l2_keeps_calls l2_keeps_put_storage l2_keeps_emit

lemma l2_keeps_money:
  "always (l2_keeps f) (handle_flat_fee ch env a)" "always (l2_keeps f) (l2_pay_out_request ch env t b r)"
  unfolding handle_flat_fee_def l2_pay_out_request_def l2_unwrap_azero_to_def l2_transfer_def
  by (intro l2_keeps_rules)+

lemma l2_pay_out_same:
  assumes "l2_pay_out_request ch env t a r s = Inr (u, s')"
  shows "storage s' = storage s" "events s' = events s"
  using alwaysD [OF l2_keeps_money(2) assms, of "\<lambda>m es. m"]
    alwaysD [OF l2_keeps_money(2) assms, of "\<lambda>m es. es"] by (simp_all add: l2_keeps_def)

lemma l2_fee_same:
  assumes "handle_flat_fee ch env a s = Inr (u, s')"
  shows "storage s' = storage s" "events s' = events s"
  using alwaysD [OF l2_keeps_money(1) assms, of "\<lambda>m es. m"]
    alwaysD [OF l2_keeps_money(1) assms, of "\<lambda>m es. es"] by (simp_all add: l2_keeps_def)

lemma handle_flat_fee_Inr:
  assumes "handle_flat_fee ch env a s = Inr (u, s')"
  shows "\<exists>fee surplus own w1 w2. l2_flat_fee (storage s) = Some fee \<and>
    checked_sub (transferred_value env) (saturating_add a fee) = Some surplus \<and>
    l2_ownable_data (storage s) = Some own \<and>
    native_transfer ch (account_id env) (owner own) fee (world s) = Inr w1 \<and>
    (if 0 < surplus then native_transfer ch (account_id env) (caller env) surplus w1 else Inr w1) = Inr w2 \<and>
    s' = s\<lparr>world := w2\<rparr>"
proof -
  from assms obtain fee surplus own w1 where
    A: "l2_flat_fee (storage s) = Some fee" "l2_ownable_data (storage s) = Some own"
      "checked_sub (transferred_value env) (saturating_add a fee) = Some surplus"
      "native_transfer ch (account_id env) (owner own) fee (world s) = Inr w1"
    and rest: "(if 0 < surplus then map_err L2_InkEnvError (env_transfer ch env (caller env) surplus)
      else ret ()) (s\<lparr>world := w1\<rparr>) = Inr (u, s')"
    by (simp only: handle_flat_fee_def run_andThen run_gets run_ok_or run_map_err l2_run_get_owner
        run_env_transfer) blast
  from rest have "\<exists>w2. (if 0 < surplus then native_transfer ch (account_id env) (caller env) surplus w1
      else Inr w1) = Inr w2 \<and> s' = s\<lparr>world := w2\<rparr>"
    by (simp add: run_simps split: if_splits)
  with A show ?thesis by blast
qed

section \<open>Inversion of a vote\<close>

lemma l2_receive_request_cases:
  assumes run: "l2_receive_request ch env h c t a r n s = Inr (u, s')"
  obtains
    (replay) "h \<in> l2_processed_requests (storage s)"
      "s' = s\<lparr>events := events s @ [L2_SignedProcessedRequest h (caller env)]\<rparr>"
  | (again) "h \<notin> l2_processed_requests (storage s)" "(h, caller env) \<in> l2_signatures (storage s)"
      "s' = s\<lparr>events := events s @ [L2_RequestAlreadySigned_event h (caller env)]\<rparr>"
  | (recorded) k thr where
      "h \<notin> l2_processed_requests (storage s)" "(h, caller env) \<notin> l2_signatures (storage s)"
      "h = hash_request_data (chain_keccak256 ch) c t a r n"
      "checked_add (l2_signature_count (l2_pending_or_default h (storage s))) 1 = Some k"
      "l2_signature_thresholds (storage s) c = Some thr" "\<not> thr \<le> k"
      "s' = s\<lparr>storage := (storage s)\<lparr>l2_signatures := insert (h, caller env) (l2_signatures (storage s)),
           l2_pending_requests := (l2_pending_requests (storage s))(h \<mapsto> \<lparr>l2_signature_count = k\<rparr>)\<rparr>,
         events := events s @ [L2_RequestSigned h (caller env)]\<rparr>"
  | (executed) k thr w where
      "h \<notin> l2_processed_requests (storage s)" "(h, caller env) \<notin> l2_signatures (storage s)"
      "h = hash_request_data (chain_keccak256 ch) c t a r n"
      "checked_add (l2_signature_count (l2_pending_or_default h (storage s))) 1 = Some k"
      "l2_signature_thresholds (storage s) c = Some thr" "thr \<le> k"
      "s' = s\<lparr>storage := (storage s)\<lparr>l2_signatures := insert (h, caller env) (l2_signatures (storage s)),
           l2_processed_requests := insert h (l2_processed_requests (storage s)),
           l2_pending_requests := (l2_pending_requests (storage s))(h := None)\<rparr>,
         world := w,
         events := events s @ [L2_RequestSigned h (caller env), L2_RequestProcessed h t]\<rparr>"
proof -
  let ?m = "storage s"
  let ?signed = "?m\<lparr>l2_signatures := insert (h, caller env) (l2_signatures ?m)\<rparr>"
  let ?log = "events s @ [L2_RequestSigned h (caller env)]"
  consider (P) "h \<in> l2_processed_requests ?m"
    | (S) "h \<notin> l2_processed_requests ?m" "(h, caller env) \<in> l2_signatures ?m"
    | (V) "h \<notin> l2_processed_requests ?m" "(h, caller env) \<notin> l2_signatures ?m" by blast
  then show thesis
  proof cases
    case P
    with run show thesis by (intro replay) (auto simp: l2_receive_request_def run_simps)
  next
    case S
    with run show thesis by (intro again) (auto simp: l2_receive_request_def run_simps)
  next
    case V
    with run have A: "h = hash_request_data (chain_keccak256 ch) c t a r n"
      by (simp add: l2_receive_request_def run_simps)
    from run V obtain k thr where
      k: "checked_add (l2_signature_count (l2_pending_or_default h ?m)) 1 = Some k"
      "l2_signature_thresholds ?m c = Some thr"
      and res: "if thr \<le> k then \<exists>s1. l2_pay_out_request ch env t a r (s\<lparr>storage := ?signed, events := ?log\<rparr>) =
            Inr ((), s1) \<and>
          s' = s1\<lparr>storage := (storage s1)\<lparr>l2_processed_requests := insert h (l2_processed_requests (storage s1)),
             l2_pending_requests := (l2_pending_requests (storage s1))(h := None)\<rparr>,
            events := events s1 @ [L2_RequestProcessed h t]\<rparr>
        else s' = s\<lparr>storage := ?signed\<lparr>l2_pending_requests :=
            (l2_pending_requests ?m)(h \<mapsto> \<lparr>l2_signature_count = k\<rparr>)\<rparr>, events := ?log\<rparr>"
      by (simp add: l2_receive_request_def run_simps A [symmetric] cong: if_cong) metis
    show thesis
    proof (cases "thr \<le> k")
      case True
      with res obtain s1 where pay: "l2_pay_out_request ch env t a r (s\<lparr>storage := ?signed, events := ?log\<rparr>) = Inr ((), s1)"
        and s': "s' = s1\<lparr>storage := (storage s1)\<lparr>l2_processed_requests := insert h (l2_processed_requests (storage s1)),
             l2_pending_requests := (l2_pending_requests (storage s1))(h := None)\<rparr>,
            events := events s1 @ [L2_RequestProcessed h t]\<rparr>" by auto
      from l2_pay_out_same [OF pay] have s1: "s1 = s\<lparr>storage := ?signed, world := world s1, events := ?log\<rparr>"
        by simp
      show thesis
        by (rule executed [OF V A k True, of "world s1"], subst s', subst (1 2 3 4 5) s1) simp
    next
      case False
      with res recorded [OF V A k] show thesis by simp
    qed
  qed
qed

lemma l2_receive_guards:
  "l2_receive_request ch env h c t a r n s = Inr (u, s') \<Longrightarrow> (c, caller env) \<in> l2_committees (storage s)"
  "l2_receive_request ch env h c t a r n s = Inr (u, s') \<Longrightarrow>
     \<exists>d. l2_data (storage s) = Some d \<and> \<not> l2_halted d"
  by (auto simp: l2_receive_request_def run_simps)

section \<open>Voting state and its frame\<close>

fun l2_executed_of :: "l2_event \<Rightarrow> bytes32 list" where
  "l2_executed_of (L2_RequestProcessed h _) = [h]"
| "l2_executed_of _ = []"

definition l2_executed_hashes :: "l2_event list \<Rightarrow> bytes32 list" where
  "l2_executed_hashes es = concat (map l2_executed_of es)"

lemma l2_executed_hashes_append [simp]:
  "l2_executed_hashes (es @ fs) = l2_executed_hashes es @ l2_executed_hashes fs"
  "l2_executed_hashes [] = []" "l2_executed_hashes (e # es) = l2_executed_of e @ l2_executed_hashes es"
  by (simp_all add: l2_executed_hashes_def)

definition l2_votes_part :: "MostL2 \<Rightarrow> l2_event list \<Rightarrow> (bytes32 \<Rightarrow> l2_Request option) \<times>
    (bytes32 \<times> AccountId) set \<times> bytes32 set \<times> bytes32 list" where
  "l2_votes_part m es =
     (l2_pending_requests m, l2_signatures m, l2_processed_requests m, l2_executed_hashes es)"

definition l2_registry_part :: "MostL2 \<Rightarrow> l2_event list \<Rightarrow> (bytes32 \<Rightarrow> bytes32 option) \<times>
    (u128 \<times> AccountId) set \<times> (u128 \<Rightarrow> u128 option) \<times> (u128 \<Rightarrow> u128 option) \<times> AccountId option" where
  "l2_registry_part m es = (l2_supported_pairs m, l2_committees m, l2_committee_sizes m,
     l2_signature_thresholds m, l2_wazero m)"

lemmas l2_part_defs = l2_votes_part_def l2_registry_part_def

fun l2_is_receive :: "l2_call \<Rightarrow> bool" where
  "l2_is_receive (L2_Receive_request _ _ _ _ _ _) = True"
| "l2_is_receive _ = False"

fun l2_registry_call :: "l2_call \<Rightarrow> bool" where
  "l2_registry_call (L2_Remove_pair _) = True"
| "l2_registry_call (L2_Add_pair _ _) = True"
| "l2_registry_call (L2_Set_wazero _) = True"
| "l2_registry_call (L2_Set_committee _ _) = True"
| "l2_registry_call _ = False"

lemma l2_votes_message: "\<not> l2_is_receive k \<Longrightarrow> always (l2_keeps l2_votes_part) (l2_message ch env k)"
  by (cases k; simp only: l2_message.simps l2_message_defs l2_send_request_inner_def
      l2_transfer_from_def l2_is_receive.simps simp_thms)
    (intro l2_keeps_rules l2_keeps_money; simp add: l2_part_defs)+

lemma l2_registry_message:
  "\<not> l2_registry_call k \<Longrightarrow> always (l2_keeps l2_registry_part) (l2_message ch env k)"
  by (cases k; simp only: l2_message.simps l2_message_defs l2_send_request_inner_def
      l2_transfer_from_def l2_registry_call.simps simp_thms)
    (intro l2_keeps_rules l2_keeps_money; simp add: l2_part_defs)+

lemma l2_dispatch_message: "l2_dispatch ch env k s = Inr (u, s') \<Longrightarrow> l2_message ch env k s = Inr (u, s')"
  by (auto simp: l2_dispatch_def run_simps split: if_splits)

section \<open>Runs and the interface of the voting protocol\<close>

fun l2_fits_usize :: "l2_call \<Rightarrow> bool" where
  "l2_fits_usize (L2_Set_committee committee _) \<longleftrightarrow> length committee < 2 ^ 32"
| "l2_fits_usize _ \<longleftrightarrow> True"

inductive l2_run :: "'w chain \<Rightarrow> 'w l2_ctx \<Rightarrow> bool" for ch :: "'w chain" where
  l2_deployed: "l2_new committee threshold o' = Inr m \<Longrightarrow> length committee < 2 ^ 32 \<Longrightarrow>
    l2_run ch \<lparr>storage = m, world = w, events = []\<rparr>"
| l2_called: "l2_run ch s \<Longrightarrow> l2_fits_usize k \<Longrightarrow> l2_dispatch ch env k s = Inr ((), s') \<Longrightarrow> l2_run ch s'"
| l2_elsewhere: "l2_run ch s \<Longrightarrow> l2_run ch (s\<lparr>world := w\<rparr>)"

definition l2_vote :: "'w chain \<Rightarrow> 'w l2_ctx \<Rightarrow> AccountId \<Rightarrow> bytes32 \<Rightarrow> u128 \<Rightarrow> 'w l2_ctx \<Rightarrow> bool" where
  "l2_vote ch s a h c s' \<longleftrightarrow>
     (\<exists>env t am r n. caller env = a \<and> l2_receive_request ch env h c t am r n s = Inr ((), s'))"

definition l2_other :: "'w l2_ctx \<Rightarrow> 'w l2_ctx \<Rightarrow> bool" where
  "l2_other s s' \<longleftrightarrow> l2_keeps l2_votes_part s s'"

definition l2_init :: "'w l2_ctx \<Rightarrow> bool" where
  "l2_init s \<longleftrightarrow> l2_votes_part (storage s) (events s) = ((\<lambda>_. None), {}, {}, [])"

definition l2_signers_of :: "MostL2 \<Rightarrow> bytes32 \<Rightarrow> AccountId set" where
  "l2_signers_of m h = {a. (h, a) \<in> l2_signatures m}"

definition l2_counted_of :: "MostL2 \<Rightarrow> bytes32 \<Rightarrow> nat" where
  "l2_counted_of m h = unat (l2_signature_count (l2_pending_or_default h m))"

definition l2_threshold_of :: "MostL2 \<Rightarrow> u128 \<Rightarrow> nat" where
  "l2_threshold_of m c = (case l2_signature_thresholds m c of None \<Rightarrow> 0 | Some t \<Rightarrow> unat t)"

interpretation l2v: guardian_votes l2_init "l2_vote ch" l2_other
  "\<lambda>s. l2_processed_requests (storage s)" "\<lambda>s. l2_signers_of (storage s)" "\<lambda>s. l2_counted_of (storage s)"
  "\<lambda>s. l2_executed_hashes (events s)" "\<lambda>s. l2_threshold_of (storage s)"
  for ch :: "'w chain"
proof (unfold_locales, goal_cases)
  case (1 s)
  then show ?case
    by (auto simp: l2_init_def l2_part_defs l2_signers_of_def l2_counted_of_def l2_pending_or_default_def)
next
  case (2 s a h c s')
  then obtain env t am r n where env: "caller env = a"
    and run: "l2_receive_request ch env h c t am r n s = Inr ((), s')"
    by (auto simp: l2_vote_def)
  from run 2(2) env show ?case
    by (cases rule: l2_receive_request_cases) (auto simp: l2_signers_of_def)
next
  case (3 s a h c s')
  then obtain env t am r n where env: "caller env = a"
    and run: "l2_receive_request ch env h c t am r n s = Inr ((), s')"
    by (auto simp: l2_vote_def)
  from run show ?case
  proof (cases rule: l2_receive_request_cases)
    case (recorded k thr)
    with env checked_add_SomeD [OF recorded(4)] show ?thesis
      by (auto simp: l2_threshold_of_def l2_counted_of_def l2_signers_of_def word_le_nat_alt fun_eq_iff
          l2_pending_or_default_def)
  next
    case (executed k thr w)
    with env checked_add_SomeD [OF executed(4)] show ?thesis
      by (auto simp: l2_threshold_of_def l2_counted_of_def l2_signers_of_def word_le_nat_alt fun_eq_iff
          l2_pending_or_default_def)
  qed (use 3 env in \<open>auto simp: l2_signers_of_def\<close>)
next
  case (4 s s')
  then show ?case
    by (auto simp: l2_other_def l2_keeps_def l2_part_defs l2_signers_of_def l2_counted_of_def
        l2_pending_or_default_def)
qed

lemma l2_run_reached: "l2_run ch s \<Longrightarrow> l2v.reached ch s"
proof (induction rule: l2_run.induct)
  case l2_deployed
  then show ?case
    by (intro l2v.reached_init) (auto simp: l2_init_def l2_part_defs l2_new_def split: sum.splits)
next
  case (l2_called s k env s')
  show ?case
  proof (cases "l2_is_receive k")
    case True
    then obtain h c t a r n where "k = L2_Receive_request h c t a r n" by (cases k) auto
    with l2_dispatch_message [OF l2_called(3)]
    have "l2_receive_request ch env h c t a r n s = Inr ((), s')" by simp
    then have "l2_vote ch s (caller env) h c s'" unfolding l2_vote_def by blast
    with l2_called.IH show ?thesis by (rule l2v.reached_vote)
  next
    case False
    from alwaysD [OF l2_votes_message [OF False] l2_dispatch_message [OF l2_called(3)]]
    have "l2_other s s'" by (simp add: l2_other_def)
    with l2_called.IH show ?thesis by (rule l2v.reached_other)
  qed
next
  case (l2_elsewhere s w)
  then show ?case
    by (elim l2v.reached_other) (simp add: l2_other_def l2_keeps_def)
qed

section \<open>A concrete run\<close>

definition l2_demo :: MostL2 where
  "l2_demo =
     \<lparr>l2_data = Some \<lparr>l2_request_nonce = 0, l2_committee_id = 0, l2_halted = True\<rparr>,
      l2_ownable_data = Some (ownable_new 9),
      l2_pending_requests = (\<lambda>_. None), l2_signatures = {}, l2_processed_requests = {},
      l2_committees = {(0, 1), (0, 2), (0, 3)}, l2_committee_sizes = [0 \<mapsto> 3],
      l2_signature_thresholds = [0 \<mapsto> 2], l2_supported_pairs = (\<lambda>_. None), l2_wazero = None,
      l2_flat_fee = Some 500000000000\<rparr>"

lemma l2_demo_new: "l2_new [1, 2, 3] 2 9 = Inr l2_demo"
  by (simp add: l2_new_def l2_check_committee_def l2_demo_def insert_commute DEFAULT_FLAT_FEE_def)

definition l2_demo_start :: "demo_world l2_ctx" where
  "l2_demo_start = \<lparr>storage = l2_demo, world = [], events = []\<rparr>"

definition l2_demo_open :: "demo_world l2_ctx" where
  "l2_demo_open = l2_demo_start\<lparr>
     storage := l2_demo\<lparr>l2_wazero := Some 50, l2_data :=
       Some \<lparr>l2_request_nonce = 0, l2_committee_id = 0, l2_halted = False\<rparr>\<rparr>,
     events := [L2_HaltedStateChanged True False 9]\<rparr>"

definition l2_demo_voted :: "demo_world l2_ctx" where
  "l2_demo_voted = l2_demo_open\<lparr>
     storage := (storage l2_demo_open)\<lparr>l2_signatures := {(77, 1)},
       l2_pending_requests := [77 \<mapsto> \<lparr>l2_signature_count = 1\<rparr>]\<rparr>,
     events := [L2_HaltedStateChanged True False 9, L2_RequestSigned 77 1]\<rparr>"

definition l2_demo_done :: "demo_world l2_ctx" where
  "l2_demo_done = l2_demo_voted\<lparr>
     storage := (storage l2_demo_voted)\<lparr>l2_signatures := {(77, 1), (77, 2)},
       l2_pending_requests := (\<lambda>_. None), l2_processed_requests := {77}\<rparr>,
     world := [(5, 6, 10)],
     events := [L2_HaltedStateChanged True False 9, L2_RequestSigned 77 1, L2_RequestSigned 77 2,
       L2_RequestProcessed 77 5]\<rparr>"

lemmas l2_demo_defs = l2_demo_start_def l2_demo_open_def l2_demo_voted_def l2_demo_done_def l2_demo_def

lemmas l2_demo_eval = env_eval_simps deny_payment_def l2_dispatch_def l2_access_defs l2_message_defs
  l2_helper_defs ownable_defs l2_pending_or_default_def hash_request_data_def checked_add_def
  checked_sub_def saturating_add_def L2_ZERO_ADDRESS_def L2_NATIVE_MARKER_ADDRESS_def
  demo_chain_def demo_env_def demo_keccak_def word_le_nat_alt word_less_nat_alt

lemma l2_demo_step_wazero:
  "l2_dispatch demo_chain (demo_env 9 0) (L2_Set_wazero 50) l2_demo_start =
     Inr ((), l2_demo_start\<lparr>storage := l2_demo\<lparr>l2_wazero := Some 50\<rparr>\<rparr>)"
  by (simp add: l2_demo_eval l2_demo_defs)

lemma l2_demo_step_open:
  "l2_dispatch demo_chain (demo_env 9 0) (L2_Set_halted False)
     (l2_demo_start\<lparr>storage := l2_demo\<lparr>l2_wazero := Some 50\<rparr>\<rparr>) = Inr ((), l2_demo_open)"
  by (simp add: l2_demo_eval l2_demo_defs)

lemma l2_demo_step_voted:
  "l2_receive_request demo_chain (demo_env 1 0) 77 0 5 10 6 0 l2_demo_open = Inr ((), l2_demo_voted)"
  by (simp add: l2_demo_eval l2_demo_defs)

lemma l2_demo_step_done:
  "l2_receive_request demo_chain (demo_env 2 0) 77 0 5 10 6 0 l2_demo_voted = Inr ((), l2_demo_done)"
  by (simp add: l2_demo_eval l2_demo_defs insert_commute)

lemma l2_dispatch_unpaid: "transferred_value env = 0 \<Longrightarrow> l2_dispatch ch env k s = l2_message ch env k s"
  by (simp add: l2_dispatch_def deny_payment_def eval_simps)

lemma l2_demo_open_run: "l2_run demo_chain l2_demo_open"
proof -
  have "l2_run demo_chain l2_demo_start"
    unfolding l2_demo_start_def by (rule l2_deployed [OF l2_demo_new]) simp
  from l2_called [OF l2_called [OF this _ l2_demo_step_wazero] _ l2_demo_step_open] show ?thesis by simp
qed

lemma l2_demo_voted_run: "l2_run demo_chain l2_demo_voted"
  using l2_called [OF l2_demo_open_run, of "L2_Receive_request 77 0 5 10 6 0" "demo_env 1 0"]
    l2_demo_step_voted by (simp add: l2_dispatch_unpaid demo_env_def)

lemma l2_demo_done_run: "l2_run demo_chain l2_demo_done"
  using l2_called [OF l2_demo_voted_run, of "L2_Receive_request 77 0 5 10 6 0" "demo_env 2 0"]
    l2_demo_step_done by (simp add: l2_dispatch_unpaid demo_env_def)

section \<open>Properties\<close>

text \<open>
  C28 (replay protection, second bridge). In every run of the second bridge contract, the number
  of \<open>RequestProcessed\<close> events of a request hash is 1 if the hash is in
  \<open>processed_requests\<close> and 0 otherwise.
\<close>

theorem l2_request_executed_once:
  assumes "l2_run ch s"
  shows "count_list (l2_executed_hashes (events s)) h =
    (if h \<in> l2_processed_requests (storage s) then 1 else 0)"
  using l2v.reached_executed_once [OF l2_run_reached [OF assms]] .

theorem l2_request_executed_once_witness:
  "count_list (l2_executed_hashes (events l2_demo_done)) 77 = 1"
  using l2_request_executed_once [OF l2_demo_done_run, of 77] by (simp add: l2_demo_defs)

text \<open>
  Votes of the second bridge refine the specification. In every run, a successful
  \<open>receive_request\<close> on a running bridge comes from a member of the committee named and acts on
  the recorded votes as the specification does; a request it executes has the hash of the data
  presented and the signatures of at least as many distinct accounts as the threshold demands.
\<close>

lemma l2_receive_request_refines:
  assumes "l2_run ch s" "l2_receive_request ch env h c t a r n s = Inr ((), s')"
  shows "(c, caller env) \<in> l2_committees (storage s) \<and>
    (\<exists>d. l2_data (storage s) = Some d \<and> \<not> l2_halted d) \<and>
    \<lparr>vs_signers = l2_signers_of (storage s'), vs_done = l2_processed_requests (storage s')\<rparr> =
      spec_vote (l2_threshold_of (storage s) c) h (caller env)
        \<lparr>vs_signers = l2_signers_of (storage s), vs_done = l2_processed_requests (storage s)\<rparr> \<and>
    (\<forall>g. g \<in> l2_processed_requests (storage s') - l2_processed_requests (storage s) \<longrightarrow>
      g = h \<and> h = hash_request_data (chain_keccak256 ch) c t a r n \<and>
      l2_threshold_of (storage s) c \<le> card (l2_signers_of (storage s') h))"
proof -
  have v: "l2_vote ch s (caller env) h c s'" using assms(2) unfolding l2_vote_def by blast
  note inv = l2v.reached_votes_inv [OF l2_run_reached [OF assms(1)]]
  have "h = hash_request_data (chain_keccak256 ch) c t a r n"
    if "g \<in> l2_processed_requests (storage s') - l2_processed_requests (storage s)" for g
    using assms(2) that by (cases rule: l2_receive_request_cases) simp_all
  with l2v.executed_quorum [OF inv v] l2v.vote_refines [OF inv v] l2_receive_guards [OF assms(2)]
  show ?thesis by (auto simp: l2v.abs_votes_def)
qed

lemma l2_receive_request_refines_witness:
  "spec_vote 2 77 2 \<lparr>vs_signers = l2_signers_of (storage l2_demo_voted),
       vs_done = l2_processed_requests (storage l2_demo_voted)\<rparr> =
     \<lparr>vs_signers = l2_signers_of (storage l2_demo_done), vs_done = {77}\<rparr>"
  using l2_receive_request_refines [OF l2_demo_voted_run l2_demo_step_done]
  by (simp add: l2_threshold_of_def l2_demo_defs demo_env_def)

text \<open>
  C29 (the flat fee). When \<open>send_request_native_azero\<close> of the second bridge succeeds, the value
  sent with the call is split into the amount to bridge, the flat fee and a surplus (the sum of
  the first two saturating at the 128-bit maximum): the fee goes to the owner, a positive surplus
  back to the caller, the amount is wrapped, and the event announces exactly that amount under
  the current nonce, which moves on by one.
\<close>

theorem l2_native_value_split:
  assumes "l2_send_request_native_azero ch env a r s = Inr ((), s')"
  shows "\<exists>fee surplus own d z w1 w2. l2_flat_fee (storage s) = Some fee \<and>
    unat (transferred_value env) = min (unat a + unat fee) (2 ^ 128 - 1) + unat surplus \<and>
    l2_ownable_data (storage s) = Some own \<and> l2_wazero (storage s) = Some z \<and>
    native_transfer ch (account_id env) (owner own) fee (world s) = Inr w1 \<and>
    (if 0 < surplus then native_transfer ch (account_id env) (caller env) surplus w1 else Inr w1) = Inr w2 \<and>
    wazero_deposit ch (account_id env) z a w2 = Inr (world s') \<and>
    l2_data (storage s) = Some d \<and> unat (l2_request_nonce d) + 1 < 2 ^ 128 \<and>
    storage s' = (storage s)\<lparr>l2_data := Some (d\<lparr>l2_request_nonce := l2_request_nonce d + 1\<rparr>)\<rparr> \<and>
    events s' = events s @ [L2_CrosschainTransferRequest (l2_committee_id d) 0 a r (l2_request_nonce d)]"
proof -
  from assms obtain s1 z d w3 n' where fee: "handle_flat_fee ch env a s = Inr ((), s1)"
    and base: "l2_wazero (storage s1) = Some z" "l2_data (storage s1) = Some d"
    and dep: "wazero_deposit ch (account_id env) z a (world s1) = Inr w3"
    and n': "checked_add (l2_request_nonce d) 1 = Some n'"
    and s': "s' = s1\<lparr>storage := (storage s1)\<lparr>l2_data := Some (d\<lparr>l2_request_nonce := n'\<rparr>)\<rparr>, world := w3,
        events := events s1 @ [L2_CrosschainTransferRequest (l2_committee_id d) 0 a r (l2_request_nonce d)]\<rparr>"
    by (auto simp: l2_send_request_native_azero_def l2_send_request_inner_def run_simps
        L2_NATIVE_MARKER_ADDRESS_def)
  from handle_flat_fee_Inr [OF fee] obtain fl surplus own w1 w2 where
    money: "l2_flat_fee (storage s) = Some fl" "l2_ownable_data (storage s) = Some own"
      "native_transfer ch (account_id env) (owner own) fl (world s) = Inr w1"
      "(if 0 < surplus then native_transfer ch (account_id env) (caller env) surplus w1 else Inr w1) = Inr w2"
    and sub: "checked_sub (transferred_value env) (saturating_add a fl) = Some surplus"
    and s1: "s1 = s\<lparr>world := w2\<rparr>" by blast
  have "unat (transferred_value env) = min (unat a + unat fl) (2 ^ 128 - 1) + unat surplus"
    using checked_sub_SomeD [OF sub] by (auto simp: saturating_add_unat word_le_nat_alt)
  moreover have "unat (l2_request_nonce d) + 1 < 2 ^ 128" "n' = l2_request_nonce d + 1"
    using checked_add_SomeD [OF n'] unsigned_less [of n', where 'a = nat] by auto
  ultimately show ?thesis using base money dep s' s1 by auto
qed

lemma l2_demo_native:
  "\<exists>s'. l2_send_request_native_azero demo_chain (demo_env 4 500000000027) 7 6 l2_demo_open = Inr ((), s') \<and>
     world s' = [(0, 9, 500000000000), (0, 4, 20)] \<and>
     events s' = events l2_demo_open @ [L2_CrosschainTransferRequest 0 0 7 6 0]"
  by (simp add: l2_demo_eval l2_demo_defs)

theorem l2_native_value_split_witness:
  "\<exists>s'. l2_send_request_native_azero demo_chain (demo_env 4 500000000027) 7 6 l2_demo_open = Inr ((), s') \<and>
     l2_data (storage s') = Some \<lparr>l2_request_nonce = 1, l2_committee_id = 0, l2_halted = False\<rparr>"
proof -
  from l2_demo_native obtain s' where
    run: "l2_send_request_native_azero demo_chain (demo_env 4 500000000027) 7 6 l2_demo_open = Inr ((), s')"
    by blast
  from l2_native_value_split [OF run] run show ?thesis by (auto simp: l2_demo_defs)
qed

text \<open>
  Governance of the second bridge. Token pairs, committees, thresholds and the address of
  wrapped AZERO change only by a call of the owner made while the bridge is halted.
\<close>

lemma l2_registry_governed:
  assumes "l2_dispatch ch env k s = Inr ((), s')"
    and "l2_registry_part (storage s') (events s') \<noteq> l2_registry_part (storage s) (events s)"
  shows "(\<exists>d. l2_data (storage s) = Some d \<and> l2_halted d) \<and>
    (\<exists>d. l2_ownable_data (storage s) = Some d \<and> owner d = caller env)"
proof -
  note run = l2_dispatch_message [OF assms(1)]
  have "l2_registry_call k"
    using alwaysD [OF l2_registry_message run] assms(2) by (auto simp: l2_keeps_def)
  with run show ?thesis by (cases k) (auto simp: l2_message_defs run_simps)
qed

lemma l2_registry_governed_witness:
  "owner (the (l2_ownable_data (storage l2_demo_start))) = 9 \<and>
   l2_registry_part (l2_demo\<lparr>l2_wazero := Some 50\<rparr>) [] \<noteq> l2_registry_part l2_demo []"
  using l2_registry_governed [OF l2_demo_step_wazero]
  by (simp add: l2_registry_part_def l2_demo_defs demo_env_def ownable_new_def)

end
