(* ===== verification/Gas_Oracle.thy ===== *)
theory Gas_Oracle
  imports Ink_Env Ownable2Step Demo_Chain
begin

text \<open>
  The gas price oracle, \<open>azero/contracts/gas-price-oracle/contract/lib.rs\<close>: its storage, its
  messages, and that the price it reports is always the one its owner set last.
\<close>

section \<open>Storage, events, errors\<close>

record Oracle =
  o_ownable_data :: Ownable2StepData
  o_last_update :: u64
  o_last_price :: u128
  o_reserved :: "unit option"

datatype OracleError = OracleOwnable Ownable2StepError | OracleInkEnvError string

datatype oracle_event =
    PriceUpdated u128 u64
  | OracleOwnershipInitiated AccountId
  | OracleOwnershipAccepted AccountId
  | ContractUpgraded bytes32

type_synonym 'w oracle_ctx = "(Oracle, oracle_event, 'w) ctx"

section \<open>Messages\<close>

definition oracle_new :: "call_env \<Rightarrow> AccountId \<Rightarrow> u128 \<Rightarrow> Oracle" where
  "oracle_new env owner' init_price =
     \<lparr>o_ownable_data = ownable_new owner', o_last_update = block_timestamp env,
      o_last_price = init_price, o_reserved = None\<rparr>"

definition oracle_ensure_owner :: "call_env \<Rightarrow> ('w oracle_ctx, Ownable2StepError, unit) contract" where
  "oracle_ensure_owner env =
     andThen (gets (\<lambda>s. o_ownable_data (storage s))) (\<lambda>d. try_res (ownable_ensure_owner d (caller env)))"

definition update_price :: "call_env \<Rightarrow> u128 \<Rightarrow> ('w oracle_ctx, OracleError, unit) contract" where
  "update_price env new_price =
     andThen (map_err OracleOwnable (oracle_ensure_owner env)) (\<lambda>_.
     andThen (put_storage (\<lambda>m. m\<lparr>o_last_update := block_timestamp env\<rparr>)) (\<lambda>_.
     andThen (put_storage (\<lambda>m. m\<lparr>o_last_price := new_price\<rparr>)) (\<lambda>_.
     andThen (gets (\<lambda>s. o_last_update (storage s))) (\<lambda>t.
     emit_event (PriceUpdated new_price t)))))"

definition upgrade_contract ::
  "'w chain \<Rightarrow> call_env \<Rightarrow> bytes32 \<Rightarrow> ('w oracle_ctx, OracleError, unit) contract" where
  "upgrade_contract ch env code_hash =
     andThen (map_err OracleOwnable (oracle_ensure_owner env)) (\<lambda>_.
     andThen (map_err OracleInkEnvError (call_env_fn (set_code_hash ch (account_id env) code_hash))) (\<lambda>_.
     emit_event (ContractUpgraded code_hash)))"

definition get_price :: "Oracle \<Rightarrow> u128 \<times> u64" where
  "get_price m = (o_last_price m, o_last_update m)"

definition oracle_get_owner :: "Oracle \<Rightarrow> Ownable2StepError + AccountId" where
  "oracle_get_owner m = ownable_get_owner (o_ownable_data m)"

definition oracle_get_pending_owner :: "Oracle \<Rightarrow> Ownable2StepError + AccountId" where
  "oracle_get_pending_owner m = ownable_get_pending_owner (o_ownable_data m)"

definition oracle_transfer_ownership ::
  "call_env \<Rightarrow> AccountId \<Rightarrow> ('w oracle_ctx, Ownable2StepError, unit) contract" where
  "oracle_transfer_ownership env new_owner =
     andThen (gets (\<lambda>s. o_ownable_data (storage s))) (\<lambda>d.
     andThen (try_res (ownable_transfer_ownership d (caller env) new_owner)) (\<lambda>d'.
     andThen (put_storage (\<lambda>m. m\<lparr>o_ownable_data := d'\<rparr>)) (\<lambda>_.
     emit_event (OracleOwnershipInitiated new_owner))))"

definition oracle_accept_ownership :: "call_env \<Rightarrow> ('w oracle_ctx, Ownable2StepError, unit) contract" where
  "oracle_accept_ownership env =
     andThen (gets (\<lambda>s. o_ownable_data (storage s))) (\<lambda>d.
     andThen (try_res (ownable_accept_ownership d (caller env))) (\<lambda>d'.
     andThen (put_storage (\<lambda>m. m\<lparr>o_ownable_data := d'\<rparr>)) (\<lambda>_.
     emit_event (OracleOwnershipAccepted (caller env)))))"

interpretation oracle_own: ownable2step
  "\<lambda>s. Some (o_ownable_data (storage (s :: 'w oracle_ctx)))"
  "\<lambda>c. oracle_transfer_ownership (env\<lparr>caller := c\<rparr>)"
  "\<lambda>c. oracle_accept_ownership (env\<lparr>caller := c\<rparr>)"
  "\<lambda>c. oracle_ensure_owner (env\<lparr>caller := c\<rparr>)"
  for env :: call_env
  by unfold_locales
    (auto simp: oracle_transfer_ownership_def oracle_accept_ownership_def oracle_ensure_owner_def
      env_eval_simps ownable_defs split: option.splits)

datatype oracle_call =
    Update_price u128
  | Upgrade_contract bytes32
  | Oracle_transfer_ownership AccountId
  | Oracle_accept_ownership

fun oracle_message :: "'w chain \<Rightarrow> call_env \<Rightarrow> oracle_call \<Rightarrow> ('w oracle_ctx, OracleError, unit) contract" where
  "oracle_message ch env (Update_price p) = update_price env p"
| "oracle_message ch env (Upgrade_contract h) = upgrade_contract ch env h"
| "oracle_message ch env (Oracle_transfer_ownership a) = map_err OracleOwnable (oracle_transfer_ownership env a)"
| "oracle_message ch env Oracle_accept_ownership = map_err OracleOwnable (oracle_accept_ownership env)"

definition oracle_dispatch ::
  "'w chain \<Rightarrow> call_env \<Rightarrow> oracle_call \<Rightarrow> ('w oracle_ctx, OracleError, unit) contract" where
  "oracle_dispatch ch env k = andThen (deny_payment env) (\<lambda>_. oracle_message ch env k)"

lemmas oracle_defs = update_price_def upgrade_contract_def oracle_transfer_ownership_def
  oracle_accept_ownership_def

lemma run_oracle_ensure_owner [run_simps]:
  "oracle_ensure_owner env s = Inr (u, s') \<longleftrightarrow> owner (o_ownable_data (storage s)) = caller env \<and> s' = s"
  by (auto simp: oracle_ensure_owner_def run_simps)

section \<open>Runs\<close>

inductive oracle_run :: "'w chain \<Rightarrow> u128 \<times> u64 \<Rightarrow> 'w oracle_ctx \<Rightarrow> bool" for ch :: "'w chain" where
  oracle_deployed: "oracle_run ch (p, block_timestamp env)
      \<lparr>storage = oracle_new env o' p, world = w, events = []\<rparr>"
| oracle_called: "oracle_run ch q s \<Longrightarrow> oracle_dispatch ch env k s = Inr ((), s') \<Longrightarrow> oracle_run ch q s'"
| oracle_elsewhere: "oracle_run ch q s \<Longrightarrow> oracle_run ch q (s\<lparr>world := w\<rparr>)"

fun price_of :: "oracle_event \<Rightarrow> (u128 \<times> u64) list" where
  "price_of (PriceUpdated p t) = [(p, t)]"
| "price_of _ = []"

definition prices :: "oracle_event list \<Rightarrow> (u128 \<times> u64) list" where
  "prices es = concat (map price_of es)"

lemma prices_append [simp]: "prices (es @ [e]) = prices es @ price_of e" "prices [] = []"
  by (simp_all add: prices_def)

text \<open>
  The oracle reports the last update. In every run of the oracle, \<open>get_price\<close> returns the
  price and timestamp of the last \<open>PriceUpdated\<close> event, or those of the deployment if there is
  none; and a call that emits a \<open>PriceUpdated\<close> event is the owner's, with the block's timestamp.
\<close>

lemma oracle_reports_last_update:
  assumes "oracle_run ch q s"
  shows "get_price (storage s) = last (q # prices (events s)) \<and>
    (\<forall>env k s'. oracle_dispatch ch env k s = Inr ((), s') \<and> prices (events s') \<noteq> prices (events s) \<longrightarrow>
      caller env = owner (o_ownable_data (storage s)) \<and>
      (\<exists>p. k = Update_price p \<and> get_price (storage s') = (p, block_timestamp env)))"
proof
  show "get_price (storage s) = last (q # prices (events s))"
    using assms
  proof (induction rule: oracle_run.induct)
    case (oracle_called q s env k s')
    then show ?case
      by (cases k) (auto simp: oracle_dispatch_def oracle_defs run_simps get_price_def)
  qed (simp_all add: get_price_def oracle_new_def)
  show "\<forall>env k s'. oracle_dispatch ch env k s = Inr ((), s') \<and> prices (events s') \<noteq> prices (events s) \<longrightarrow>
      caller env = owner (o_ownable_data (storage s)) \<and>
      (\<exists>p. k = Update_price p \<and> get_price (storage s') = (p, block_timestamp env))"
  proof (intro allI impI, elim conjE)
    fix env k s'
    assume "oracle_dispatch ch env k s = Inr ((), s')" "prices (events s') \<noteq> prices (events s)"
    then show "caller env = owner (o_ownable_data (storage s)) \<and>
        (\<exists>p. k = Update_price p \<and> get_price (storage s') = (p, block_timestamp env))"
      by (cases k) (auto simp: oracle_dispatch_def oracle_defs run_simps get_price_def)
  qed
qed

definition oracle_demo :: "demo_world oracle_ctx" where
  "oracle_demo = \<lparr>storage = \<lparr>o_ownable_data = ownable_new 9, o_last_update = 1500, o_last_price = 42,
     o_reserved = None\<rparr>, world = [], events = [PriceUpdated 42 1500]\<rparr>"

lemma oracle_demo_run: "oracle_run demo_chain (7, 1500) oracle_demo"
proof -
  have start: "oracle_run demo_chain (7, 1500) \<lparr>storage = oracle_new (demo_env 9 0) 9 7, world = [], events = []\<rparr>"
    using oracle_deployed [of demo_chain 7 "demo_env 9 0" 9 "[]"] by (simp add: demo_env_def)
  show ?thesis
    by (rule oracle_called [OF start, of "demo_env 9 0" "Update_price 42"])
      (simp add: oracle_dispatch_def deny_payment_def update_price_def oracle_ensure_owner_def
        env_eval_simps demo_env_def oracle_new_def oracle_demo_def ownable_defs)
qed

lemma oracle_reports_last_update_witness: "get_price (storage oracle_demo) = (42, 1500)"
  using oracle_reports_last_update [OF oracle_demo_run] by (simp add: oracle_demo_def prices_def)

end
