(* ===== verification/Advisory.thy ===== *)
theory Advisory
  imports Ink_Env Demo_Chain
begin

text \<open>
  The advisory contract, \<open>azero/contracts/advisory/lib.rs\<close>, whose emergency flag stops the
  relayers: its storage, its messages, and that the flag always agrees with the last event.
\<close>

section \<open>Storage, events, errors\<close>

datatype AdvisoryError = AdvisoryInkEnvError string | NotOwner AccountId

datatype advisory_event =
    EmergencyChanged bool bool AccountId
  | OwnershipTransferred AccountId AccountId

record Advisory =
  a_owner :: AccountId
  a_emergency :: bool

type_synonym 'w advisory_ctx = "(Advisory, advisory_event, 'w) ctx"
type_synonym 'w advisory_message = "('w advisory_ctx, AdvisoryError, unit) contract"

section \<open>Messages\<close>

definition advisory_new :: "AccountId \<Rightarrow> Advisory" where
  "advisory_new owner' = \<lparr>a_owner = owner', a_emergency = False\<rparr>"

definition advisory_ensure_owner :: "call_env \<Rightarrow> 'w advisory_message" where
  "advisory_ensure_owner env =
     andThen (gets (\<lambda>s. a_owner (storage s))) (\<lambda>o'. ensure (caller env = o') (NotOwner (caller env)))"

definition set_emergency :: "call_env \<Rightarrow> bool \<Rightarrow> 'w advisory_message" where
  "set_emergency env new_state =
     andThen (advisory_ensure_owner env) (\<lambda>_.
     andThen (gets (\<lambda>s. a_emergency (storage s))) (\<lambda>old.
     if new_state \<noteq> old then
       andThen (emit_event (EmergencyChanged old new_state (caller env))) (\<lambda>_.
       put_storage (\<lambda>m. m\<lparr>a_emergency := new_state\<rparr>))
     else ret ()))"

definition is_emergency :: "Advisory \<Rightarrow> bool" where
  "is_emergency m = a_emergency m"

definition advisory_transfer_ownership :: "call_env \<Rightarrow> AccountId \<Rightarrow> 'w advisory_message" where
  "advisory_transfer_ownership env new_owner =
     andThen (advisory_ensure_owner env) (\<lambda>_.
     andThen (gets (\<lambda>s. a_owner (storage s))) (\<lambda>old.
     andThen (emit_event (OwnershipTransferred old new_owner)) (\<lambda>_.
     put_storage (\<lambda>m. m\<lparr>a_owner := new_owner\<rparr>))))"

definition advisory_owner :: "Advisory \<Rightarrow> AccountId" where
  "advisory_owner m = a_owner m"

datatype advisory_call = Set_emergency bool | Advisory_transfer_ownership AccountId

fun advisory_message_of :: "call_env \<Rightarrow> advisory_call \<Rightarrow> 'w advisory_message" where
  "advisory_message_of env (Set_emergency b) = set_emergency env b"
| "advisory_message_of env (Advisory_transfer_ownership a) = advisory_transfer_ownership env a"

definition advisory_dispatch :: "call_env \<Rightarrow> advisory_call \<Rightarrow> 'w advisory_message" where
  "advisory_dispatch env k = andThen (deny_payment env) (\<lambda>_. advisory_message_of env k)"

lemma run_advisory_ensure_owner [run_simps]:
  "advisory_ensure_owner env s = Inr (u, s') \<longleftrightarrow> caller env = a_owner (storage s) \<and> s' = s"
  "advisory_ensure_owner env s = Inl e \<longleftrightarrow> caller env \<noteq> a_owner (storage s) \<and> e = Err (NotOwner (caller env))"
  by (auto simp: advisory_ensure_owner_def run_simps)

section \<open>Runs\<close>

inductive advisory_run :: "'w advisory_ctx \<Rightarrow> bool" where
  advisory_deployed: "advisory_run \<lparr>storage = advisory_new o', world = w, events = []\<rparr>"
| advisory_called: "advisory_run s \<Longrightarrow> advisory_dispatch env k s = Inr ((), s') \<Longrightarrow> advisory_run s'"

fun emergency_of :: "advisory_event \<Rightarrow> bool list" where
  "emergency_of (EmergencyChanged _ b _) = [b]"
| "emergency_of _ = []"

definition emergencies :: "advisory_event list \<Rightarrow> bool list" where
  "emergencies es = concat (map emergency_of es)"

lemma emergencies_append [simp]: "emergencies (es @ [e]) = emergencies es @ emergency_of e" "emergencies [] = []"
  by (simp_all add: emergencies_def)

text \<open>The flag starts down, and each event toggles it: up, down, up, ...\<close>

definition alternating :: "bool list \<Rightarrow> bool" where
  "alternating bs \<longleftrightarrow> (\<forall>i < length bs. bs ! i \<longleftrightarrow> even i)"

lemma alternating_append [simp]: "alternating [] " "alternating (bs @ [b]) \<longleftrightarrow> alternating bs \<and> (b \<longleftrightarrow> even (length bs))"
  by (auto simp: alternating_def nth_append less_Suc_eq)

text \<open>
  The emergency flag follows its events. In every run of the advisory contract the
  \<open>EmergencyChanged\<close> events alternate between raising and lowering the flag, and
  \<open>is_emergency\<close> answers yes exactly if the last of them raised it. A call of anyone but the
  owner fails with \<open>NotOwner\<close>.
\<close>

lemma advisory_flag_follows_events:
  assumes "advisory_run s"
  shows "alternating (emergencies (events s)) \<and>
    (is_emergency (storage s) \<longleftrightarrow> odd (length (emergencies (events s)))) \<and>
    (\<forall>env k. transferred_value env = 0 \<and> caller env \<noteq> advisory_owner (storage s) \<longrightarrow>
      advisory_dispatch env k s = Inl (Err (NotOwner (caller env))))"
proof (intro conjI allI impI)
  have "alternating (emergencies (events s)) \<and> (a_emergency (storage s) \<longleftrightarrow> odd (length (emergencies (events s))))"
    using assms
  proof (induction rule: advisory_run.induct)
    case (advisory_called s env k s')
    then show ?case
      by (cases k) (auto simp: advisory_dispatch_def set_emergency_def advisory_transfer_ownership_def
          run_simps split: if_splits)
  qed (simp_all add: advisory_new_def)
  then show "alternating (emergencies (events s))"
    "is_emergency (storage s) \<longleftrightarrow> odd (length (emergencies (events s)))" by (simp_all add: is_emergency_def)
  fix env :: call_env and k
  assume "transferred_value env = 0 \<and> caller env \<noteq> advisory_owner (storage s)"
  then show "advisory_dispatch env k s = Inl (Err (NotOwner (caller env)))"
    by (cases k) (auto simp: advisory_dispatch_def deny_payment_def set_emergency_def
        advisory_transfer_ownership_def advisory_owner_def run_simps)
qed

definition advisory_demo :: "demo_world advisory_ctx" where
  "advisory_demo = \<lparr>storage = \<lparr>a_owner = 9, a_emergency = True\<rparr>, world = [],
     events = [EmergencyChanged False True 9]\<rparr>"

lemma advisory_demo_run: "advisory_run advisory_demo"
  by (rule advisory_called [OF advisory_deployed [of 9 "[]"], of "demo_env 9 0" "Set_emergency True"])
    (simp add: advisory_dispatch_def deny_payment_def set_emergency_def advisory_ensure_owner_def
      env_eval_simps demo_env_def advisory_new_def advisory_demo_def)

lemma advisory_flag_follows_events_witness:
  "is_emergency (storage advisory_demo) \<and>
   advisory_dispatch (demo_env 3 0) (Set_emergency False) advisory_demo = Inl (Err (NotOwner 3))"
  using advisory_flag_follows_events [OF advisory_demo_run]
  by (simp add: advisory_demo_def emergencies_def demo_env_def advisory_owner_def)

end
