(* ===== verification/Token.thy ===== *)
theory Token
  imports Ink_Env Ownable2Step Demo_Chain
begin

text \<open>
  The bridge's own PSP22 token, \<open>azero/contracts/token/lib.rs\<close>. Balances, allowances and the
  total supply are kept by \<open>PSP22Data\<close> of the crate \<open>psp22\<close>, which is not part of the
  repository: its functions are the record \<open>psp22_data\<close>, an argument of the messages, and what
  its documentation promises about the total supply is the predicate \<open>psp22_laws\<close>.
\<close>

section \<open>The crate psp22\<close>

datatype psp22_event =
    PSP22_Transfer "AccountId option" "AccountId option" u128
  | PSP22_Approval AccountId AccountId u128

record 'd psp22_data =
  psp22_new :: "u128 \<Rightarrow> AccountId \<Rightarrow> 'd \<times> psp22_event list"
  psp22_total_supply :: "'d \<Rightarrow> u128"
  psp22_balance_of :: "'d \<Rightarrow> AccountId \<Rightarrow> u128"
  psp22_allowance :: "'d \<Rightarrow> AccountId \<Rightarrow> AccountId \<Rightarrow> u128"
  data_transfer :: "AccountId \<Rightarrow> AccountId \<Rightarrow> u128 \<Rightarrow> 'd \<Rightarrow> PSP22Error + 'd \<times> psp22_event list"
  data_transfer_from :: "AccountId \<Rightarrow> AccountId \<Rightarrow> AccountId \<Rightarrow> u128 \<Rightarrow> 'd \<Rightarrow> PSP22Error + 'd \<times> psp22_event list"
  data_approve :: "AccountId \<Rightarrow> AccountId \<Rightarrow> u128 \<Rightarrow> 'd \<Rightarrow> PSP22Error + 'd \<times> psp22_event list"
  data_increase_allowance :: "AccountId \<Rightarrow> AccountId \<Rightarrow> u128 \<Rightarrow> 'd \<Rightarrow> PSP22Error + 'd \<times> psp22_event list"
  data_decrease_allowance :: "AccountId \<Rightarrow> AccountId \<Rightarrow> u128 \<Rightarrow> 'd \<Rightarrow> PSP22Error + 'd \<times> psp22_event list"
  data_mint :: "AccountId \<Rightarrow> u128 \<Rightarrow> 'd \<Rightarrow> PSP22Error + 'd \<times> psp22_event list"
  data_burn :: "AccountId \<Rightarrow> u128 \<Rightarrow> 'd \<Rightarrow> PSP22Error + 'd \<times> psp22_event list"

text \<open>
  Transfers and approvals keep the total supply; minting and burning change it by exactly the
  value, and fail rather than wrap.
\<close>

definition psp22_laws :: "'d psp22_data \<Rightarrow> bool" where
  "psp22_laws p \<longleftrightarrow>
     (\<forall>a b v d d' es. data_transfer p a b v d = Inr (d', es) \<longrightarrow> psp22_total_supply p d' = psp22_total_supply p d) \<and>
     (\<forall>a b c v d d' es. data_transfer_from p a b c v d = Inr (d', es) \<longrightarrow>
        psp22_total_supply p d' = psp22_total_supply p d) \<and>
     (\<forall>a b v d d' es. data_approve p a b v d = Inr (d', es) \<longrightarrow> psp22_total_supply p d' = psp22_total_supply p d) \<and>
     (\<forall>a b v d d' es. data_increase_allowance p a b v d = Inr (d', es) \<longrightarrow>
        psp22_total_supply p d' = psp22_total_supply p d) \<and>
     (\<forall>a b v d d' es. data_decrease_allowance p a b v d = Inr (d', es) \<longrightarrow>
        psp22_total_supply p d' = psp22_total_supply p d) \<and>
     (\<forall>a v d d' es. data_mint p a v d = Inr (d', es) \<longrightarrow>
        unat (psp22_total_supply p d') = unat (psp22_total_supply p d) + unat v) \<and>
     (\<forall>a v d d' es. data_burn p a v d = Inr (d', es) \<longrightarrow>
        unat (psp22_total_supply p d') + unat v = unat (psp22_total_supply p d))"

lemma psp22_lawsD:
  assumes "psp22_laws p"
  shows "data_transfer p a b v d = Inr (d', es) \<Longrightarrow> psp22_total_supply p d' = psp22_total_supply p d"
    and "data_transfer_from p a b c v d = Inr (d', es) \<Longrightarrow> psp22_total_supply p d' = psp22_total_supply p d"
    and "data_approve p a b v d = Inr (d', es) \<Longrightarrow> psp22_total_supply p d' = psp22_total_supply p d"
    and "data_increase_allowance p a b v d = Inr (d', es) \<Longrightarrow> psp22_total_supply p d' = psp22_total_supply p d"
    and "data_decrease_allowance p a b v d = Inr (d', es) \<Longrightarrow> psp22_total_supply p d' = psp22_total_supply p d"
    and "data_mint p a v d = Inr (d', es) \<Longrightarrow>
      unat (psp22_total_supply p d') = unat (psp22_total_supply p d) + unat v"
    and "data_burn p a v d = Inr (d', es) \<Longrightarrow>
      unat (psp22_total_supply p d') + unat v = unat (psp22_total_supply p d)"
  using assms unfolding psp22_laws_def by metis+

section \<open>Storage and events\<close>

datatype token_event =
    Approval AccountId AccountId u128
  | Token_Transfer "AccountId option" "AccountId option" u128
  | Token_OwnershipInitiated AccountId
  | Token_OwnershipAccepted AccountId

record 'd Token =
  t_data :: 'd
  t_ownable_data :: Ownable2StepData
  t_name :: "string option"
  t_symbol :: "string option"
  t_decimals :: u8
  t_minter_burner :: AccountId

type_synonym ('d, 'w) token_ctx = "('d Token, token_event, 'w) ctx"
type_synonym ('d, 'w) token_message = "(('d, 'w) token_ctx, PSP22Error, unit) contract"

section \<open>Messages\<close>

fun token_event_of :: "psp22_event \<Rightarrow> token_event" where
  "token_event_of (PSP22_Transfer from' to value') = Token_Transfer from' to value'"
| "token_event_of (PSP22_Approval owner' spender amount) = Approval owner' spender amount"

fun emit_events :: "psp22_event list \<Rightarrow> ('d, 'w) token_message" where
  "emit_events [] = ret ()"
| "emit_events (e # es) = andThen (emit_event (token_event_of e)) (\<lambda>_. emit_events es)"

definition token_new ::
  "'d psp22_data \<Rightarrow> call_env \<Rightarrow> u128 \<Rightarrow> string option \<Rightarrow> string option \<Rightarrow> u8 \<Rightarrow> AccountId \<Rightarrow>
   'd Token \<times> token_event list" where
  "token_new p env total_supply name symbol decimals minter_burner =
     (case psp22_new p total_supply (caller env) of (data, es) \<Rightarrow>
        (\<lparr>t_data = data, t_ownable_data = ownable_new (caller env), t_name = name,
          t_symbol = symbol, t_decimals = decimals, t_minter_burner = minter_burner\<rparr>,
         map token_event_of es))"

definition token_trait_ensure_owner :: "call_env \<Rightarrow> (('d, 'w) token_ctx, Ownable2StepError, unit) contract" where
  "token_trait_ensure_owner env =
     andThen (gets (\<lambda>s. t_ownable_data (storage s))) (\<lambda>d. try_res (ownable_ensure_owner d (caller env)))"

definition token_ensure_owner :: "call_env \<Rightarrow> ('d, 'w) token_message" where
  "token_ensure_owner env =
     map_err (\<lambda>_. PSP22_Custom ''Caller has to be the owner.'') (token_trait_ensure_owner env)"

definition minter :: "'d Token \<Rightarrow> AccountId" where
  "minter m = t_minter_burner m"

definition burner :: "'d Token \<Rightarrow> AccountId" where
  "burner m = t_minter_burner m"

definition ensure_minter :: "call_env \<Rightarrow> ('d, 'w) token_message" where
  "ensure_minter env =
     andThen (gets (\<lambda>s. minter (storage s))) (\<lambda>m.
     if caller env \<noteq> m then throw (PSP22_Custom ''Caller has to be the minter.'') else ret ())"

definition ensure_burner :: "call_env \<Rightarrow> ('d, 'w) token_message" where
  "ensure_burner env =
     andThen (gets (\<lambda>s. burner (storage s))) (\<lambda>m.
     if caller env \<noteq> m then throw (PSP22_Custom ''Caller has to be the burner.'') else ret ())"

definition set_minter_burner :: "call_env \<Rightarrow> AccountId \<Rightarrow> ('d, 'w) token_message" where
  "set_minter_burner env new_minter_burner =
     andThen (token_ensure_owner env) (\<lambda>_.
     put_storage (\<lambda>m. m\<lparr>t_minter_burner := new_minter_burner\<rparr>))"

text \<open>\<open>let events = self.data.op(..)?; self.emit_events(events)\<close>\<close>

definition on_data :: "('d \<Rightarrow> PSP22Error + 'd \<times> psp22_event list) \<Rightarrow> ('d, 'w) token_message" where
  "on_data f =
     andThen (gets (\<lambda>s. t_data (storage s))) (\<lambda>d.
     andThen (try_res (f d)) (\<lambda>r.
     andThen (put_storage (\<lambda>m. m\<lparr>t_data := fst r\<rparr>)) (\<lambda>_.
     emit_events (snd r))))"

definition token_name :: "'d Token \<Rightarrow> string option" where
  "token_name m = t_name m"

definition token_symbol :: "'d Token \<Rightarrow> string option" where
  "token_symbol m = t_symbol m"

definition token_decimals :: "'d Token \<Rightarrow> u8" where
  "token_decimals m = t_decimals m"

definition token_total_supply :: "'d psp22_data \<Rightarrow> 'd Token \<Rightarrow> u128" where
  "token_total_supply p m = psp22_total_supply p (t_data m)"

definition token_balance_of :: "'d psp22_data \<Rightarrow> 'd Token \<Rightarrow> AccountId \<Rightarrow> u128" where
  "token_balance_of p m owner' = psp22_balance_of p (t_data m) owner'"

definition token_allowance :: "'d psp22_data \<Rightarrow> 'd Token \<Rightarrow> AccountId \<Rightarrow> AccountId \<Rightarrow> u128" where
  "token_allowance p m owner' spender = psp22_allowance p (t_data m) owner' spender"

definition token_transfer :: "'d psp22_data \<Rightarrow> call_env \<Rightarrow> AccountId \<Rightarrow> u128 \<Rightarrow> ('d, 'w) token_message" where
  "token_transfer p env to value' = on_data (data_transfer p (caller env) to value')"

definition token_transfer_from ::
  "'d psp22_data \<Rightarrow> call_env \<Rightarrow> AccountId \<Rightarrow> AccountId \<Rightarrow> u128 \<Rightarrow> ('d, 'w) token_message" where
  "token_transfer_from p env from' to value' = on_data (data_transfer_from p (caller env) from' to value')"

definition token_approve :: "'d psp22_data \<Rightarrow> call_env \<Rightarrow> AccountId \<Rightarrow> u128 \<Rightarrow> ('d, 'w) token_message" where
  "token_approve p env spender value' = on_data (data_approve p (caller env) spender value')"

definition increase_allowance :: "'d psp22_data \<Rightarrow> call_env \<Rightarrow> AccountId \<Rightarrow> u128 \<Rightarrow> ('d, 'w) token_message" where
  "increase_allowance p env spender delta_value = on_data (data_increase_allowance p (caller env) spender delta_value)"

definition decrease_allowance :: "'d psp22_data \<Rightarrow> call_env \<Rightarrow> AccountId \<Rightarrow> u128 \<Rightarrow> ('d, 'w) token_message" where
  "decrease_allowance p env spender delta_value = on_data (data_decrease_allowance p (caller env) spender delta_value)"

definition token_mint :: "'d psp22_data \<Rightarrow> call_env \<Rightarrow> AccountId \<Rightarrow> u128 \<Rightarrow> ('d, 'w) token_message" where
  "token_mint p env to value' =
     andThen (ensure_minter env) (\<lambda>_. on_data (data_mint p to value'))"

definition token_burn :: "'d psp22_data \<Rightarrow> call_env \<Rightarrow> u128 \<Rightarrow> ('d, 'w) token_message" where
  "token_burn p env value' =
     andThen (ensure_burner env) (\<lambda>_. on_data (data_burn p (caller env) value'))"

definition token_get_owner :: "'d Token \<Rightarrow> Ownable2StepError + AccountId" where
  "token_get_owner m = ownable_get_owner (t_ownable_data m)"

definition token_get_pending_owner :: "'d Token \<Rightarrow> Ownable2StepError + AccountId" where
  "token_get_pending_owner m = ownable_get_pending_owner (t_ownable_data m)"

definition token_transfer_ownership ::
  "call_env \<Rightarrow> AccountId \<Rightarrow> (('d, 'w) token_ctx, Ownable2StepError, unit) contract" where
  "token_transfer_ownership env new_owner =
     andThen (gets (\<lambda>s. t_ownable_data (storage s))) (\<lambda>d.
     andThen (try_res (ownable_transfer_ownership d (caller env) new_owner)) (\<lambda>d'.
     andThen (put_storage (\<lambda>m. m\<lparr>t_ownable_data := d'\<rparr>)) (\<lambda>_.
     emit_event (Token_OwnershipInitiated new_owner))))"

definition token_accept_ownership :: "call_env \<Rightarrow> (('d, 'w) token_ctx, Ownable2StepError, unit) contract" where
  "token_accept_ownership env =
     andThen (gets (\<lambda>s. t_ownable_data (storage s))) (\<lambda>d.
     andThen (try_res (ownable_accept_ownership d (caller env))) (\<lambda>d'.
     andThen (put_storage (\<lambda>m. m\<lparr>t_ownable_data := d'\<rparr>)) (\<lambda>_.
     emit_event (Token_OwnershipAccepted (caller env)))))"

interpretation token_own: ownable2step
  "\<lambda>s. Some (t_ownable_data (storage (s :: ('d, 'w) token_ctx)))"
  "\<lambda>c. token_transfer_ownership (env\<lparr>caller := c\<rparr>)"
  "\<lambda>c. token_accept_ownership (env\<lparr>caller := c\<rparr>)"
  "\<lambda>c. token_trait_ensure_owner (env\<lparr>caller := c\<rparr>)"
  for env :: call_env
  by unfold_locales
    (auto simp: token_transfer_ownership_def token_accept_ownership_def token_trait_ensure_owner_def
      env_eval_simps ownable_defs split: option.splits)

datatype token_call =
    Token_transfer AccountId u128
  | Token_transfer_from AccountId AccountId u128
  | Token_approve AccountId u128
  | Increase_allowance AccountId u128
  | Decrease_allowance AccountId u128
  | Token_mint AccountId u128
  | Token_burn u128
  | Set_minter_burner AccountId
  | Token_transfer_ownership AccountId
  | Token_accept_ownership

text \<open>The error of a message, tagged with the \<open>Result\<close> type it is declared with.\<close>

datatype token_error = TokenPSP22 PSP22Error | TokenOwnable Ownable2StepError

fun token_message_of :: "'d psp22_data \<Rightarrow> call_env \<Rightarrow> token_call \<Rightarrow>
  (('d, 'w) token_ctx, token_error, unit) contract" where
  "token_message_of p env (Token_transfer to v) = map_err TokenPSP22 (token_transfer p env to v)"
| "token_message_of p env (Token_transfer_from f to v) = map_err TokenPSP22 (token_transfer_from p env f to v)"
| "token_message_of p env (Token_approve a v) = map_err TokenPSP22 (token_approve p env a v)"
| "token_message_of p env (Increase_allowance a v) = map_err TokenPSP22 (increase_allowance p env a v)"
| "token_message_of p env (Decrease_allowance a v) = map_err TokenPSP22 (decrease_allowance p env a v)"
| "token_message_of p env (Token_mint to v) = map_err TokenPSP22 (token_mint p env to v)"
| "token_message_of p env (Token_burn v) = map_err TokenPSP22 (token_burn p env v)"
| "token_message_of p env (Set_minter_burner a) = map_err TokenPSP22 (set_minter_burner env a)"
| "token_message_of p env (Token_transfer_ownership a) =
     map_err TokenOwnable (token_transfer_ownership env a)"
| "token_message_of p env Token_accept_ownership =
     map_err TokenOwnable (token_accept_ownership env)"

definition token_dispatch :: "'d psp22_data \<Rightarrow> call_env \<Rightarrow> token_call \<Rightarrow>
  (('d, 'w) token_ctx, token_error, unit) contract" where
  "token_dispatch p env k = andThen (deny_payment env) (\<lambda>_. token_message_of p env k)"

lemmas token_defs = token_transfer_def token_transfer_from_def token_approve_def
  increase_allowance_def decrease_allowance_def token_mint_def token_burn_def set_minter_burner_def
  token_transfer_ownership_def token_accept_ownership_def

section \<open>Inversion rules\<close>

lemma run_emit_events [run_simps]:
  "emit_events es s = Inr (u, s') \<longleftrightarrow> s' = s\<lparr>events := events s @ map token_event_of es\<rparr>"
  by (induction es arbitrary: s) (simp_all add: run_simps)

lemma run_on_data [run_simps]:
  "on_data f s = Inr (u, s') \<longleftrightarrow> (\<exists>d es. f (t_data (storage s)) = Inr (d, es) \<and>
     s' = s\<lparr>storage := (storage s)\<lparr>t_data := d\<rparr>, events := events s @ map token_event_of es\<rparr>)"
  by (simp add: on_data_def run_simps)

lemma run_token_checks [run_simps]:
  "token_ensure_owner env s = Inr (u, s') \<longleftrightarrow> owner (t_ownable_data (storage s)) = caller env \<and> s' = s"
  "ensure_minter env s = Inr (u, s') \<longleftrightarrow> caller env = t_minter_burner (storage s) \<and> s' = s"
  "ensure_burner env s = Inr (u, s') \<longleftrightarrow> caller env = t_minter_burner (storage s) \<and> s' = s"
  by (auto simp: token_ensure_owner_def token_trait_ensure_owner_def ensure_minter_def ensure_burner_def
      minter_def burner_def run_simps split: if_splits)

section \<open>Properties\<close>

text \<open>
  C30 (who controls the supply). With a \<open>PSP22Data\<close> that keeps its promises, a successful call
  changes the token's total supply only if it is a \<open>mint\<close> or \<open>burn\<close> by the account
  registered as minter and burner, and then by exactly the value; and that account changes only
  by a call of the token's owner.
\<close>

theorem token_supply_controlled:
  assumes "psp22_laws p" "token_dispatch p env k s = Inr ((), s')"
  shows "(unat (token_total_supply p (storage s')) = unat (token_total_supply p (storage s)) \<or>
      caller env = minter (storage s) \<and>
      (\<exists>to v. k = Token_mint to v \<and>
        unat (token_total_supply p (storage s')) = unat (token_total_supply p (storage s)) + unat v) \<or>
      caller env = burner (storage s) \<and>
      (\<exists>v. k = Token_burn v \<and>
        unat (token_total_supply p (storage s')) + unat v = unat (token_total_supply p (storage s)))) \<and>
    (minter (storage s') \<noteq> minter (storage s) \<longrightarrow>
      token_get_owner (storage s) = Inr (caller env) \<and> k = Set_minter_burner (minter (storage s')))"
proof -
  from assms(2) have run: "token_message_of p env k s = Inr ((), s')"
    by (auto simp: token_dispatch_def run_simps)
  from run show ?thesis
    by (cases k; simp only: token_message_of.simps token_defs)
      (auto simp: run_simps token_total_supply_def minter_def burner_def token_get_owner_def
        ownable_get_owner_def dest: psp22_lawsD [OF assms(1)])
qed

text \<open>A small \<open>PSP22Data\<close> (balances and total supply) on which the laws hold.\<close>

definition demo_psp22 :: "(u128 \<times> (AccountId \<Rightarrow> u128)) psp22_data" where
  "demo_psp22 =
     \<lparr>psp22_new = (\<lambda>v a. ((v, (\<lambda>_. 0)(a := v)), [PSP22_Transfer None (Some a) v])),
      psp22_total_supply = fst, psp22_balance_of = snd, psp22_allowance = (\<lambda>_ _ _. 0),
      data_transfer = (\<lambda>a b v (t, f).
        if v \<le> f a then Inr ((t, let g = f(a := f a - v) in g(b := g b + v)), [PSP22_Transfer (Some a) (Some b) v])
        else Inl InsufficientBalance),
      data_transfer_from = (\<lambda>_ _ _ _ _. Inl InsufficientBalance),
      data_approve = (\<lambda>a b v d. Inr (d, [])),
      data_increase_allowance = (\<lambda>a b v d. Inr (d, [])),
      data_decrease_allowance = (\<lambda>a b v d. Inr (d, [])),
      data_mint = (\<lambda>a v (t, f). case checked_add t v of
          None \<Rightarrow> Inl (PSP22_Other ''overflow'') | Some t' \<Rightarrow> Inr ((t', f(a := f a + v)), [PSP22_Transfer None (Some a) v])),
      data_burn = (\<lambda>a v (t, f). if v \<le> f a then (case checked_sub t v of
          None \<Rightarrow> Inl InsufficientBalance | Some t' \<Rightarrow> Inr ((t', f(a := f a - v)), [PSP22_Transfer (Some a) None v]))
        else Inl InsufficientBalance)\<rparr>"

lemma demo_psp22_laws: "psp22_laws demo_psp22"
  by (auto simp: psp22_laws_def demo_psp22_def word_le_nat_alt split: if_splits option.splits
      dest!: checked_add_SomeD checked_sub_SomeD)

definition token_demo :: "(u128 \<times> (AccountId \<Rightarrow> u128), demo_world) token_ctx" where
  "token_demo = \<lparr>storage = fst (token_new demo_psp22 (demo_env 9 0) 1000 None None 12 100), world = [],
     events = snd (token_new demo_psp22 (demo_env 9 0) 1000 None None 12 100)\<rparr>"

theorem token_supply_controlled_witness:
  "\<exists>s'. token_dispatch demo_psp22 (demo_env 100 0) (Token_mint 6 10) token_demo = Inr ((), s') \<and>
     token_total_supply demo_psp22 (storage s') \<noteq> token_total_supply demo_psp22 (storage token_demo) \<and>
     unat (token_total_supply demo_psp22 (storage s')) = 1010"
proof -
  have "\<exists>s'. token_dispatch demo_psp22 (demo_env 100 0) (Token_mint 6 10) token_demo = Inr ((), s') \<and>
      token_total_supply demo_psp22 (storage s') = 1010"
    by (simp add: token_dispatch_def deny_payment_def token_mint_def on_data_def ensure_minter_def
        minter_def env_eval_simps demo_psp22_def token_demo_def token_new_def demo_env_def
        checked_add_def token_total_supply_def)
  then obtain s' where
    run: "token_dispatch demo_psp22 (demo_env 100 0) (Token_mint 6 10) token_demo = Inr ((), s')"
    and tot: "token_total_supply demo_psp22 (storage s') = 1010" by blast
  have start: "token_total_supply demo_psp22 (storage token_demo) = 1000"
    by (simp add: token_demo_def token_new_def demo_psp22_def token_total_supply_def)
  from token_supply_controlled [OF demo_psp22_laws run] run tot start show ?thesis by auto
qed

end
