(* ===== verification/Azero_Values.thy ===== *)
theory Azero_Values
  imports Prelude
begin

text \<open>
  Values returned by contract calls and their conversion to Rust types,
  \<open>relayer/contracts_azero_client/src/contract/convertible_value.rs\<close>, and the translation of
  contract events, \<open>contract/events.rs\<close>. The type \<open>Value\<close> belongs to the crate
  \<open>contract_transcode\<close>; its variants that the sources match on are constructors here, and the
  others are carried by \<open>VOther\<close>.
\<close>

section \<open>Values\<close>

datatype tvalue =
    VBool bool
  | VChar u32
  | VUInt u128
  | VInt u128
  | VLiteral string
  | VTuple "string option" "tvalue list"
  | VSeq "tvalue list"
  | VMap "string option" "(string \<times> tvalue) list"
  | VOther string

text \<open>The \<open>anyhow\<close> errors, by the place that raises them.\<close>

datatype conv_error =
    Expected string
  | TryFromInt
  | InvalidAccountId
  | UnexpectedNumber string
  | ByteTooLarge u128
  | InvalidUtf8
  | WrongLength

type_synonym 'a conversion = "tvalue \<Rightarrow> conv_error + 'a"

section \<open>Flat values\<close>

definition try_bool :: "bool conversion" where
  "try_bool v = (case v of VBool b \<Rightarrow> Inr b | _ \<Rightarrow> Inl (Expected ''boolean''))"

definition try_char :: "u32 conversion" where
  "try_char v = (case v of VChar c \<Rightarrow> Inr c | _ \<Rightarrow> Inl (Expected ''char''))"

text \<open>
  \<open>try_from_flat_value!\<close> for \<open>u16\<close> to \<open>u128\<close> and for \<open>i16\<close> to \<open>i128\<close>, at any width: the
  conversion from the 128-bit number fails when the value does not fit.
\<close>

definition try_uint :: "'a::len word conversion" where
  "try_uint v =
     (case v of
        VUInt x \<Rightarrow> if unat x < 2 ^ LENGTH('a) then Inr (ucast x) else Inl TryFromInt
      | _ \<Rightarrow> Inl (Expected ''unsigned integer''))"

definition try_int :: "'a::len word conversion" where
  "try_int v =
     (case v of
        VInt x \<Rightarrow> if - (2 ^ (LENGTH('a) - 1)) \<le> sint x \<and> sint x < 2 ^ (LENGTH('a) - 1)
          then Inr (word_of_int (sint x)) else Inl TryFromInt
      | _ \<Rightarrow> Inl (Expected ''signed integer''))"

definition try_unit :: "unit conversion" where
  "try_unit v = (case v of VTuple None [] \<Rightarrow> Inr () | _ \<Rightarrow> Inl (Expected ''unit''))"

text \<open>\<open>AccountId::from_str\<close> (SS58) is the parameter \<open>from_str\<close>.\<close>

definition try_account_id :: "(string \<Rightarrow> AccountId option) \<Rightarrow> AccountId conversion" where
  "try_account_id from_str v =
     (case v of
        VLiteral s \<Rightarrow> (case from_str s of None \<Rightarrow> Inl InvalidAccountId | Some a \<Rightarrow> Inr a)
      | _ \<Rightarrow> Inl (Expected ''string''))"

section \<open>Composite values\<close>

text \<open>\<open>Result<T>\<close>: the outer sum is the conversion's own result, the inner one the value's.\<close>

definition try_result :: "'a conversion \<Rightarrow> (tvalue + 'a) conversion" where
  "try_result conv v =
     (case v of
        VTuple (Some x) vs \<Rightarrow>
          if x = ''Ok'' then
            (if length vs = 1 then (case conv (hd vs) of Inl e \<Rightarrow> Inl e | Inr item \<Rightarrow> Inr (Inr item))
             else Inl (UnexpectedNumber ''Ok''))
          else if x = ''Err'' then
            (if length vs = 1 then Inr (Inl v) else Inl (UnexpectedNumber ''Err''))
          else Inl (Expected ''Ok or Err'')
      | _ \<Rightarrow> Inl (Expected ''Ok or Err''))"

text \<open>\<open>Option<String>\<close> and \<open>Option<AccountId>\<close> have the same code.\<close>

definition try_option :: "'a conversion \<Rightarrow> 'a option conversion" where
  "try_option conv v =
     (case v of
        VTuple ident vs \<Rightarrow>
          if ident = Some ''Some'' then
            (if length vs = 1 then (case conv (hd vs) of Inl e \<Rightarrow> Inl e | Inr item \<Rightarrow> Inr (Some item))
             else Inl (UnexpectedNumber ''Some''))
          else if ident = Some ''None'' then
            (if length vs = 0 then Inr None else Inl (UnexpectedNumber ''None''))
          else Inl (Expected ''Some or None ident'')
      | _ \<Rightarrow> Inl (Expected ''Some or None tuple''))"

fun convert_all :: "'a conversion \<Rightarrow> tvalue list \<Rightarrow> conv_error + 'a list" where
  "convert_all conv [] = Inr []"
| "convert_all conv (v # vs) =
     (case conv v of
        Inl e \<Rightarrow> Inl e
      | Inr x \<Rightarrow> (case convert_all conv vs of Inl e \<Rightarrow> Inl e | Inr xs \<Rightarrow> Inr (x # xs)))"

definition try_vec :: "'a conversion \<Rightarrow> 'a list conversion" where
  "try_vec conv v = (case v of VSeq vs \<Rightarrow> convert_all conv vs | _ \<Rightarrow> Inl (Expected ''Seq''))"

definition try_array :: "nat \<Rightarrow> 'a conversion \<Rightarrow> 'a list conversion" where
  "try_array n conv v =
     (case try_vec conv v of
        Inl e \<Rightarrow> Inl e
      | Inr xs \<Rightarrow> if length xs = n then Inr xs else Inl WrongLength)"

text \<open>
  \<open>String\<close>: a sequence of unsigned integers, each at most 255, that is valid UTF-8. The check
  of \<open>String::from_utf8\<close> is the predicate \<open>utf8\<close> below, on bytes as numbers.
\<close>

definition continuation :: "u8 \<Rightarrow> bool" where
  "continuation b \<longleftrightarrow> 128 \<le> b \<and> b < 192"

fun utf8 :: "u8 list \<Rightarrow> bool" where
  "utf8 [] = True"
| "utf8 (a # bs) =
     (if a < 128 then utf8 bs
      else if 194 \<le> a \<and> a < 224 then
        (case bs of b # cs \<Rightarrow> continuation b \<and> utf8 cs | _ \<Rightarrow> False)
      else if 224 \<le> a \<and> a < 240 then
        (case bs of b # c # cs \<Rightarrow> continuation b \<and> continuation c \<and>
           (a = 224 \<longrightarrow> 160 \<le> b) \<and> (a = 237 \<longrightarrow> b < 160) \<and> utf8 cs | _ \<Rightarrow> False)
      else if 240 \<le> a \<and> a < 245 then
        (case bs of b # c # d # cs \<Rightarrow> continuation b \<and> continuation c \<and> continuation d \<and>
           (a = 240 \<longrightarrow> 144 \<le> b) \<and> (a = 244 \<longrightarrow> b < 144) \<and> utf8 cs | _ \<Rightarrow> False)
      else False)"

fun string_bytes :: "tvalue list \<Rightarrow> conv_error + u8 list" where
  "string_bytes [] = Inr []"
| "string_bytes (v # vs) =
     (case v of
        VUInt byte \<Rightarrow>
          if 255 < byte then Inl (ByteTooLarge byte)
          else (case string_bytes vs of Inl e \<Rightarrow> Inl e | Inr bs \<Rightarrow> Inr (ucast byte # bs))
      | _ \<Rightarrow> Inl (Expected ''UInt''))"

definition try_string :: "u8 list conversion" where
  "try_string v =
     (case v of
        VSeq vs \<Rightarrow> (case string_bytes vs of Inl e \<Rightarrow> Inl e
          | Inr bs \<Rightarrow> if utf8 bs then Inr bs else Inl InvalidUtf8)
      | _ \<Rightarrow> Inl (Expected ''Seq of UInt''))"

section \<open>Correctness of the conversions\<close>

lemma ucast_unat_eq:
  fixes x :: "'b::len word"
  assumes "unat x < 2 ^ LENGTH('a)"
  shows "unat (ucast x :: 'a::len word) = unat x"
  using assms by (simp add: unsigned_ucast_eq take_bit_nat_eq_self)

lemma try_uint_iff: "try_uint v = Inr (w :: 'a::len word) \<longleftrightarrow> (\<exists>x. v = VUInt x \<and> unat x = unat w)"
proof
  assume "try_uint v = Inr w"
  then show "\<exists>x. v = VUInt x \<and> unat x = unat w"
    by (auto simp: try_uint_def ucast_unat_eq split: tvalue.splits if_splits)
next
  assume "\<exists>x. v = VUInt x \<and> unat x = unat w"
  then obtain x where x: "v = VUInt x" "unat x = unat w" by blast
  then have "unat x < 2 ^ LENGTH('a)" using unsigned_less [of w, where 'a = nat] by simp
  then show "try_uint v = Inr w"
    using x by (simp add: try_uint_def word_eq_iff_unsigned [where 'a = nat] ucast_unat_eq)
qed

lemma sint_word_of_int:
  "- (2 ^ (LENGTH('a) - 1)) \<le> i \<Longrightarrow> i < 2 ^ (LENGTH('a) - 1) \<Longrightarrow> sint (word_of_int i :: 'a::len word) = i"
  by (simp add: sint_sbintrunc' signed_take_bit_int_eq_self)

lemma sint_scast_eq:
  fixes x :: "'b::len word"
  assumes "- (2 ^ (LENGTH('a) - 1)) \<le> sint x" "sint x < 2 ^ (LENGTH('a) - 1)"
  shows "sint (scast x :: 'a::len word) = sint x"
  using sint_word_of_int [OF assms] by simp

lemma try_int_iff: "try_int v = Inr (w :: 'a::len word) \<longleftrightarrow> (\<exists>x. v = VInt x \<and> sint x = sint w)"
proof
  assume "try_int v = Inr w"
  then show "\<exists>x. v = VInt x \<and> sint x = sint w"
    by (auto simp: try_int_def sint_scast_eq split: tvalue.splits if_splits)
next
  assume "\<exists>x. v = VInt x \<and> sint x = sint w"
  then obtain x where x: "v = VInt x" "sint x = sint w" by blast
  moreover have "- (2 ^ (LENGTH('a) - 1)) \<le> sint w" "sint w < 2 ^ (LENGTH('a) - 1)"
    by (auto simp: sint_greater_eq sint_less)
  ultimately show "try_int v = Inr w"
    by (simp add: try_int_def)
qed

lemma convert_all_iff: "convert_all conv vs = Inr xs \<longleftrightarrow> list_all2 (\<lambda>v x. conv v = Inr x) vs xs"
proof (induction vs arbitrary: xs)
  case (Cons v vs)
  show ?case by (cases xs) (auto simp: list_all2_Cons1 Cons.IH [symmetric] split: sum.splits)
qed auto

lemma try_vec_iff:
  "try_vec conv v = Inr xs \<longleftrightarrow> (\<exists>vs. v = VSeq vs \<and> list_all2 (\<lambda>v x. conv v = Inr x) vs xs)"
  by (auto simp: try_vec_def convert_all_iff split: tvalue.splits)

lemma try_array_iff:
  "try_array n conv v = Inr xs \<longleftrightarrow>
     (\<exists>vs. v = VSeq vs \<and> length vs = n \<and> list_all2 (\<lambda>v x. conv v = Inr x) vs xs)"
proof -
  have "try_array n conv v = Inr xs \<longleftrightarrow> try_vec conv v = Inr xs \<and> length xs = n"
    by (auto simp: try_array_def split: sum.splits)
  then show ?thesis by (auto simp: try_vec_iff dest: list_all2_lengthD)
qed

lemma try_result_iff:
  "try_result conv v = Inr r \<longleftrightarrow>
     (case r of Inr x \<Rightarrow> (\<exists>u. v = VTuple (Some ''Ok'') [u] \<and> conv u = Inr x)
      | Inl w \<Rightarrow> w = v \<and> (\<exists>u. v = VTuple (Some ''Err'') [u]))"
  by (auto simp: try_result_def length_Suc_conv split: tvalue.splits option.splits if_splits sum.splits)

lemma string_bytes_iff: "string_bytes vs = Inr bs \<longleftrightarrow> vs = map (\<lambda>b. VUInt (ucast b)) bs"
proof (induction vs arbitrary: bs)
  case (Cons v vs)
  have up: "unat (ucast (b::u8) :: u128) = unat b" "\<not> 255 < (ucast b :: u128)"
    "ucast (ucast b :: u128) = b" for b
  proof -
    have b: "unat b < 256" using unsigned_less [of b, where 'a = nat] by simp
    then show u: "unat (ucast b :: u128) = unat b" by (intro ucast_unat_eq) simp
    then show "\<not> 255 < (ucast b :: u128)" using b by (simp add: word_less_nat_alt)
    have "unat (ucast (ucast b :: u128) :: u8) = unat (ucast b :: u128)"
      by (rule ucast_unat_eq) (simp add: u b)
    then show "ucast (ucast b :: u128) = b" using u by (simp add: word_eq_iff_unsigned [where 'a = nat])
  qed
  have down: "ucast (ucast x :: u8) = x" if "\<not> 255 < x" for x :: u128
    using that by (simp add: word_eq_iff_unsigned [where 'a = nat] ucast_unat_eq word_less_nat_alt)
  show ?case
    by (cases bs; cases v) (auto simp: up down Cons.IH [symmetric] split: sum.splits if_splits)
qed (auto)

text \<open>
  C31 (conversions are exact). A value converts to an unsigned or a signed integer of a given
  width exactly if it is such a number and fits: the result has the same value, nothing is
  truncated. It converts to a vector or an array of N elements exactly if it is a sequence (of N
  elements) all of which convert, in order; to a string exactly if it is a sequence of numbers
  below 256 that form valid UTF-8; and to a \<open>Result\<close> exactly if it is an \<open>Ok\<close> tuple of one
  value that converts, or an \<open>Err\<close> tuple of one value.
\<close>

theorem conversions_exact:
  "(try_uint v = Inr (w :: 'a::len word) \<longleftrightarrow> (\<exists>x. v = VUInt x \<and> unat x = unat w)) \<and>
   (try_int v = Inr (w :: 'a word) \<longleftrightarrow> (\<exists>x. v = VInt x \<and> sint x = sint w)) \<and>
   (try_vec conv v = Inr xs \<longleftrightarrow> (\<exists>vs. v = VSeq vs \<and> list_all2 (\<lambda>u x. conv u = Inr x) vs xs)) \<and>
   (try_array n conv v = Inr xs \<longleftrightarrow>
      (\<exists>vs. v = VSeq vs \<and> length vs = n \<and> list_all2 (\<lambda>u x. conv u = Inr x) vs xs)) \<and>
   (try_string v = Inr bs \<longleftrightarrow> v = VSeq (map (\<lambda>b. VUInt (ucast b)) bs) \<and> utf8 bs) \<and>
   (try_result conv v = Inr r \<longleftrightarrow>
      (case r of Inr x \<Rightarrow> (\<exists>u. v = VTuple (Some ''Ok'') [u] \<and> conv u = Inr x)
       | Inl e \<Rightarrow> e = v \<and> (\<exists>u. v = VTuple (Some ''Err'') [u])))"
proof (intro conjI)
  show "try_string v = Inr bs \<longleftrightarrow> v = VSeq (map (\<lambda>b. VUInt (ucast b)) bs) \<and> utf8 bs"
  proof -
    have "try_string v = Inr bs \<longleftrightarrow> (\<exists>vs. v = VSeq vs \<and> string_bytes vs = Inr bs \<and> utf8 bs)"
      by (auto simp: try_string_def split: tvalue.splits sum.splits)
    then show ?thesis by (simp add: string_bytes_iff)
  qed
qed (rule try_uint_iff try_int_iff try_vec_iff try_array_iff try_result_iff)+

end
