(* ===== verification/Azero_Client.thy ===== *)
theory Azero_Client
  imports Azero_Values
begin

text \<open>
  The client crate \<open>relayer/contracts_azero_client\<close>: contract instances (\<open>contract.rs\<close>), the
  translation of events (\<open>contract/events.rs\<close>) and the client with its signer and transaction
  nonce (\<open>client.rs\<close>). The node behind the RPC connection, the crate \<open>subxt\<close>, the transcoder
  of the crate \<open>contract_transcode\<close> and the signing key are parameters.
\<close>

section \<open>Types\<close>

record Weight =
  ref_time :: u64
  proof_size :: u64

record ReadonlyCallParams =
  rp_at :: "bytes32 option"
  rp_sender :: "AccountId option"

record ExecCallParams =
  ep_value :: u128
  ep_max_gas :: "Weight option"

record ContractCallArgs =
  cca_origin :: AccountId
  cca_dest :: AccountId
  cca_value :: u128
  cca_gas_limit :: "Weight option"
  cca_storage_deposit_limit :: "u128 option"
  cca_input_data :: "u8 list"

record ContractEvent =
  ce_contract :: AccountId
  ce_name :: "string option"
  ce_data :: "string \<Rightarrow> tvalue option"

record ContractEmitted =
  emitted_contract :: AccountId
  emitted_data :: "u8 list"

datatype client_error =
    RpcError string
  | SubxtError string
  | NoBlockWithNumber u32
  | Internal
  | Transcode string
  | DryRunReverted
  | ExecFailed string
  | Conversion conv_error
  | ReturnedErr tvalue
  | ForeignEvent
  | NotAMap

text \<open>The transcoder of a contract's metadata.\<close>

record transcoder =
  tr_encode :: "string \<Rightarrow> string list \<Rightarrow> string + u8 list"
  tr_decode_return :: "string \<Rightarrow> u8 list \<Rightarrow> string + tvalue"
  tr_decode_event :: "u8 list \<Rightarrow> string + tvalue"

record ContractInstance =
  ci_address :: AccountId
  ci_transcoder :: transcoder

text \<open>The part of \<open>ContractExecResult\<close> that is read: the return value with its revert flag, or a dispatch error.\<close>

record ExecResult =
  er_result :: "string + bool \<times> u8 list"
  er_gas_required :: Weight

text \<open>
  What is asked of the node. A request may take time, in which the network \<open>'w\<close> moves on, so
  every function returns the network after it. \<open>node_contracts_call\<close> is the runtime call
  \<open>ContractsApi_call\<close>; \<open>node_submit\<close> submits a signed extrinsic and waits until it is
  finalized with success.
\<close>

datatype dyn_value =
    Dyn_bytes "u8 list"
  | Dyn_u128 u128
  | Dyn_variant string "dyn_value list"
  | Dyn_composite "(string \<times> dyn_value) list"

record 'w azero_node =
  node_finalized_head :: "'w \<Rightarrow> (string + bytes32) \<times> 'w"
  node_block_number :: "bytes32 \<Rightarrow> 'w \<Rightarrow> (string + u32 option) \<times> 'w"
  node_block_hash :: "u32 \<Rightarrow> 'w \<Rightarrow> (string + bytes32 option) \<times> 'w"
  node_events_at :: "bytes32 \<Rightarrow> 'w \<Rightarrow> (string + (string + ContractEmitted option) list) \<times> 'w"
  node_contracts_call :: "dyn_value list \<Rightarrow> bytes32 option \<Rightarrow> 'w \<Rightarrow> (client_error + ExecResult) \<times> 'w"
  node_signer_payload :: "dyn_value list \<Rightarrow> u64 \<Rightarrow> u8 list"
  node_sign :: "u8 list \<Rightarrow> 'w \<Rightarrow> (string + u8 list) \<times> 'w"
  node_submit :: "AccountId \<Rightarrow> u64 \<Rightarrow> dyn_value list \<Rightarrow> u8 list \<Rightarrow> 'w \<Rightarrow> (client_error + bytes32) \<times> 'w"

text \<open>The state a relayer task runs in: the network and the nonce of its signed connection.\<close>

record 'w net =
  net_world :: 'w
  net_nonce :: u64

type_synonym ('w, 'a) net_io = "('w net, client_error, 'a) contract"

text \<open>A failed request also lets time pass, but its task ends with the error.\<close>

definition ask :: "('w \<Rightarrow> ('e + 'a) \<times> 'w) \<Rightarrow> ('e \<Rightarrow> 'f) \<Rightarrow> ('w net, 'f, 'a) contract" where
  "ask f g s = (case f (net_world s) of
      (Inl e, _) \<Rightarrow> Inl (Err (g e))
    | (Inr x, w) \<Rightarrow> Inr (x, s\<lparr>net_world := w\<rparr>))"

lemma run_ask [run_simps]:
  "ask f g s = Inr (x, s') \<longleftrightarrow> (\<exists>w. f (net_world s) = (Inr x, w) \<and> s' = s\<lparr>net_world := w\<rparr>)"
  by (auto simp: ask_def split: prod.splits sum.splits)

section \<open>The client\<close>

definition get_args_for_runtime_call :: "ContractCallArgs \<Rightarrow> dyn_value list" where
  "get_args_for_runtime_call args =
     [Dyn_bytes (array_bytes (cca_origin args)), Dyn_bytes (array_bytes (cca_dest args)),
      Dyn_u128 (cca_value args),
      (case cca_gas_limit args of
         Some w \<Rightarrow> Dyn_variant ''Some'' [Dyn_composite [(''ref_time'', Dyn_u128 (ucast (ref_time w))),
           (''proof_size'', Dyn_u128 (ucast (proof_size w)))]]
       | None \<Rightarrow> Dyn_variant ''None'' []),
      Dyn_variant ''None'' [], Dyn_bytes (cca_input_data args)]"

definition get_args_for_rpc_call :: "Weight \<Rightarrow> AccountId \<Rightarrow> u128 \<Rightarrow> u8 list \<Rightarrow> dyn_value list" where
  "get_args_for_rpc_call weight contract_address value' call_data =
     [Dyn_variant ''Id'' [Dyn_bytes (array_bytes contract_address)],
      Dyn_u128 value',
      Dyn_composite [(''ref_time'', Dyn_u128 (ucast (ref_time weight))),
        (''proof_size'', Dyn_u128 (ucast (proof_size weight)))],
      Dyn_variant ''None'' [], Dyn_bytes call_data]"

definition get_finalized_block_hash :: "'w azero_node \<Rightarrow> ('w, bytes32) net_io" where
  "get_finalized_block_hash nd = ask (node_finalized_head nd) RpcError"

definition get_block_number :: "'w azero_node \<Rightarrow> bytes32 \<Rightarrow> ('w, u32 option) net_io" where
  "get_block_number nd block_hash = ask (node_block_number nd block_hash) RpcError"

definition contract_call_and_get ::
  "'w azero_node \<Rightarrow> ContractCallArgs \<Rightarrow> bytes32 option \<Rightarrow> ('w, ExecResult) net_io" where
  "contract_call_and_get nd args at =
     ask (node_contracts_call nd (get_args_for_runtime_call args) at) id"

section \<open>Events\<close>

text \<open>\<open>decode_contract_event\<close> discards a byte that the data does not have.\<close>

definition zero_prefixed :: "u8 list \<Rightarrow> u8 list" where
  "zero_prefixed data = [0] @ data"

definition build_event :: "AccountId \<Rightarrow> tvalue \<Rightarrow> client_error + ContractEvent" where
  "build_event address event_data =
     (case event_data of
        VMap ident kvs \<Rightarrow> Inr \<lparr>ce_contract = address, ce_name = ident, ce_data = map_of (rev kvs)\<rparr>
      | _ \<Rightarrow> Inl NotAMap)"

definition translate_event :: "ContractEmitted \<Rightarrow> ContractInstance list \<Rightarrow> client_error + ContractEvent" where
  "translate_event event contracts =
     (case find (\<lambda>c. ci_address c = emitted_contract event) contracts of
        None \<Rightarrow> Inl ForeignEvent
      | Some c \<Rightarrow>
          (case tr_decode_event (ci_transcoder c) (zero_prefixed (emitted_data event)) of
             Inl e \<Rightarrow> Inl (Transcode e)
           | Inr data \<Rightarrow> build_event (ci_address c) data))"

text \<open>The raw events of a block: undecodable, of another pallet or kind (\<open>None\<close>), or emitted by a contract.\<close>

definition translate_events ::
  "(string + ContractEmitted option) list \<Rightarrow> ContractInstance list \<Rightarrow> (client_error + ContractEvent) list" where
  "translate_events evs contracts =
     map (\<lambda>e. case e of Inl why \<Rightarrow> Inl (SubxtError why) | Inr ev \<Rightarrow> translate_event ev contracts)
       (List.map_filter (\<lambda>e. case e of Inl why \<Rightarrow> Some (Inl why) | Inr None \<Rightarrow> None
          | Inr (Some ev) \<Rightarrow> Some (Inr ev)) evs)"

definition fetch_events_from_contracts ::
  "'w azero_node \<Rightarrow> u32 \<Rightarrow> ContractInstance list \<Rightarrow> ('w, ContractEvent list) net_io" where
  "fetch_events_from_contracts nd at_block contracts =
     andThen (ask (node_block_hash nd at_block) RpcError) (\<lambda>h.
     andThen (ok_or h (NoBlockWithNumber at_block)) (\<lambda>block_hash.
     andThen (ask (node_events_at nd block_hash) SubxtError) (\<lambda>evs.
     ret (List.map_filter (\<lambda>e. case e of Inr ev \<Rightarrow> Some ev | Inl _ \<Rightarrow> None)
       (translate_events evs contracts)))))"

section \<open>The client with its signer\<close>

definition get_tx :: "dyn_value list \<Rightarrow> ('w, dyn_value list \<times> u64) net_io" where
  "get_tx call = andThen (gets net_nonce) (\<lambda>nonce. ret (call, nonce))"

definition sign_call :: "'w azero_node \<Rightarrow> dyn_value list \<Rightarrow> ('w, u8 list) net_io" where
  "sign_call nd call =
     andThen (get_tx call) (\<lambda>tx.
     ask (node_sign nd (node_signer_payload nd (fst tx) (snd tx))) (\<lambda>_. Internal))"

definition get_submittable ::
  "'w azero_node \<Rightarrow> dyn_value list \<Rightarrow> ('w, dyn_value list \<times> u64 \<times> u8 list) net_io" where
  "get_submittable nd call =
     andThen (sign_call nd call) (\<lambda>signature.
     andThen (get_tx call) (\<lambda>extr.
     ret (fst extr, snd extr, signature)))"

definition inc_nonce :: "('w, unit) net_io" where
  "inc_nonce = modify (\<lambda>s. s\<lparr>net_nonce := net_nonce s + 1\<rparr>)"

definition send_tx_with_params ::
  "'w azero_node \<Rightarrow> AccountId \<Rightarrow> dyn_value list \<Rightarrow> ('w, bytes32) net_io" where
  "send_tx_with_params nd account tx =
     andThen (get_submittable nd tx) (\<lambda>t.
     andThen inc_nonce (\<lambda>_.
     ask (node_submit nd account (fst (snd t)) (fst t) (snd (snd t))) id))"

definition contract_call ::
  "'w azero_node \<Rightarrow> AccountId \<Rightarrow> AccountId \<Rightarrow> u128 \<Rightarrow> Weight \<Rightarrow> u8 list \<Rightarrow> ('w, bytes32) net_io" where
  "contract_call nd account contract_address value' weight call_data =
     send_tx_with_params nd account (get_args_for_rpc_call weight contract_address value' call_data)"

section \<open>Contract instances\<close>

definition instance_encode :: "ContractInstance \<Rightarrow> string \<Rightarrow> string list \<Rightarrow> ('w, u8 list) net_io" where
  "instance_encode c message args = map_err Transcode (try_res (tr_encode (ci_transcoder c) message args))"

definition instance_decode :: "ContractInstance \<Rightarrow> string \<Rightarrow> u8 list \<Rightarrow> ('w, tvalue) net_io" where
  "instance_decode c message data = map_err Transcode (try_res (tr_decode_return (ci_transcoder c) message data))"

text \<open>A reverted dry run is an error of the call.\<close>

definition dry_run_any ::
  "'w azero_node \<Rightarrow> ContractInstance \<Rightarrow> string \<Rightarrow> string list \<Rightarrow> AccountId \<Rightarrow> u128 \<Rightarrow> Weight option \<Rightarrow>
   bytes32 option \<Rightarrow> ('w, ExecResult) net_io" where
  "dry_run_any nd c message args sender value' gas_limit at =
     andThen (instance_encode c message args) (\<lambda>payload.
     andThen (contract_call_and_get nd
       \<lparr>cca_origin = sender, cca_dest = ci_address c, cca_value = value', cca_gas_limit = gas_limit,
        cca_storage_deposit_limit = None, cca_input_data = payload\<rparr> at) (\<lambda>res.
     case er_result res of
       Inr (True, _) \<Rightarrow> throw DryRunReverted
     | _ \<Rightarrow> ret res))"

text \<open>The return type of a message is a \<open>Result\<close> around its own type \<open>'a\<close>; an \<open>Err\<close> is an error of the call.\<close>

definition contract_read ::
  "'w azero_node \<Rightarrow> ContractInstance \<Rightarrow> 'a conversion \<Rightarrow> string \<Rightarrow> string list \<Rightarrow> ReadonlyCallParams \<Rightarrow>
   ('w, 'a) net_io" where
  "contract_read nd c conv message args params =
     andThen (dry_run_any nd c message args
       (case rp_sender params of None \<Rightarrow> ci_address c | Some a \<Rightarrow> a) 0 None (rp_at params)) (\<lambda>res.
     andThen (map_err ExecFailed (try_res (er_result res))) (\<lambda>r.
     andThen (instance_decode c message (snd r)) (\<lambda>decoded.
     andThen (map_err Conversion (try_res (try_result conv decoded))) (\<lambda>inner.
     map_err ReturnedErr (try_res inner)))))"

definition contract_read0 ::
  "'w azero_node \<Rightarrow> ContractInstance \<Rightarrow> 'a conversion \<Rightarrow> string \<Rightarrow> ReadonlyCallParams \<Rightarrow> ('w, 'a) net_io" where
  "contract_read0 nd c conv message params = contract_read nd c conv message [] params"

definition exec_dry_run ::
  "'w azero_node \<Rightarrow> ContractInstance \<Rightarrow> AccountId \<Rightarrow> string \<Rightarrow> string list \<Rightarrow> ExecCallParams \<Rightarrow>
   ('w, ExecResult) net_io" where
  "exec_dry_run nd c sender message args params =
     dry_run_any nd c message args sender (ep_value params) (ep_max_gas params) None"

definition contract_exec ::
  "'w azero_node \<Rightarrow> ContractInstance \<Rightarrow> AccountId \<Rightarrow> string \<Rightarrow> string list \<Rightarrow> ExecCallParams \<Rightarrow>
   ('w, unit) net_io" where
  "contract_exec nd c account message args params =
     andThen (exec_dry_run nd c account message args params) (\<lambda>dry_run_result.
     andThen (instance_encode c message args) (\<lambda>data.
     andThen (contract_call nd account (ci_address c) (ep_value params)
       (case ep_max_gas params of None \<Rightarrow> er_gas_required dry_run_result | Some w \<Rightarrow> w) data) (\<lambda>_.
     ret ())))"

section \<open>Properties\<close>

lemmas client_defs = get_tx_def sign_call_def get_submittable_def inc_nonce_def
  send_tx_with_params_def contract_call_def

text \<open>A transaction is signed and sent with the same nonce, and the next one gets the next nonce.\<close>

lemma send_tx_with_params_Inr:
  assumes "send_tx_with_params nd account tx s = Inr (h, s')"
  shows "\<exists>sig w w'. node_sign nd (node_signer_payload nd tx (net_nonce s)) (net_world s) = (Inr sig, w) \<and>
    node_submit nd account (net_nonce s) tx sig w = (Inr h, w') \<and>
    s' = \<lparr>net_world = w', net_nonce = net_nonce s + 1\<rparr>"
  using assms by (auto simp: client_defs run_simps)

lemma dry_run_any_Inr:
  assumes "dry_run_any nd c message args sender v g at s = Inr (res, s')"
  shows "\<exists>data w. tr_encode (ci_transcoder c) message args = Inr data \<and>
    node_contracts_call nd (get_args_for_runtime_call
      \<lparr>cca_origin = sender, cca_dest = ci_address c, cca_value = v, cca_gas_limit = g,
       cca_storage_deposit_limit = None, cca_input_data = data\<rparr>) at (net_world s) = (Inr res, w) \<and>
    (\<forall>d. er_result res \<noteq> Inr (True, d)) \<and> s' = s\<lparr>net_world := w\<rparr>"
proof -
  from assms obtain data r w where
    enc: "tr_encode (ci_transcoder c) message args = Inr data"
    and call: "node_contracts_call nd (get_args_for_runtime_call
      \<lparr>cca_origin = sender, cca_dest = ci_address c, cca_value = v, cca_gas_limit = g,
       cca_storage_deposit_limit = None, cca_input_data = data\<rparr>) at (net_world s) = (Inr r, w)"
    and rest: "(case er_result r of Inr (True, _) \<Rightarrow> throw DryRunReverted | _ \<Rightarrow> ret r)
      (s\<lparr>net_world := w\<rparr>) = Inr (res, s')"
    by (simp only: dry_run_any_def instance_encode_def contract_call_and_get_def run_andThen
        run_map_err run_try_res run_ask) blast
  have "\<forall>d. er_result r \<noteq> Inr (True, d)" using rest by (auto simp: throw_def)
  moreover from this rest have "res = r \<and> s' = s\<lparr>net_world := w\<rparr>"
    by (cases "er_result r") (auto simp: ret_def split: prod.splits bool.splits)
  ultimately show ?thesis using enc call by blast
qed

text \<open>
  C32 (a transaction is sent only after a good dry run, once, with a fresh nonce). When \<open>exec\<close>
  succeeds, the message was encoded, its dry run by the same account did not revert, and exactly
  the encoded data was submitted to the contract's address, signed over the very nonce it was
  sent with; the connection's nonce has moved on by one.
\<close>

theorem exec_submits_checked_call:
  assumes "contract_exec nd c account message args params s = Inr ((), s')"
  shows "\<exists>data res w1 sig w2 h. tr_encode (ci_transcoder c) message args = Inr data \<and>
    node_contracts_call nd (get_args_for_runtime_call
      \<lparr>cca_origin = account, cca_dest = ci_address c, cca_value = ep_value params,
       cca_gas_limit = ep_max_gas params, cca_storage_deposit_limit = None, cca_input_data = data\<rparr>)
      None (net_world s) = (Inr res, w1) \<and> (\<forall>d. er_result res \<noteq> Inr (True, d)) \<and>
    (let tx = get_args_for_rpc_call
        (case ep_max_gas params of None \<Rightarrow> er_gas_required res | Some w \<Rightarrow> w)
        (ci_address c) (ep_value params) data
     in node_sign nd (node_signer_payload nd tx (net_nonce s)) w1 = (Inr sig, w2) \<and>
        node_submit nd account (net_nonce s) tx sig w2 = (Inr h, net_world s')) \<and>
    net_nonce s' = net_nonce s + 1"
proof -
  from assms obtain res s1 data s2 h where
    dry: "dry_run_any nd c message args account (ep_value params) (ep_max_gas params) None s = Inr (res, s1)"
    and enc: "tr_encode (ci_transcoder c) message args = Inr data"
    and send: "send_tx_with_params nd account (get_args_for_rpc_call
      (case ep_max_gas params of None \<Rightarrow> er_gas_required res | Some w \<Rightarrow> w)
      (ci_address c) (ep_value params) data) s1 = Inr (h, s')"
    by (simp only: contract_exec_def exec_dry_run_def contract_call_def instance_encode_def
        run_andThen run_map_err run_try_res run_ret) blast
  from dry_run_any_Inr [OF dry] enc obtain w1 where
    call: "node_contracts_call nd (get_args_for_runtime_call
      \<lparr>cca_origin = account, cca_dest = ci_address c, cca_value = ep_value params,
       cca_gas_limit = ep_max_gas params, cca_storage_deposit_limit = None, cca_input_data = data\<rparr>)
      None (net_world s) = (Inr res, w1)" "\<forall>d. er_result res \<noteq> Inr (True, d)" "s1 = s\<lparr>net_world := w1\<rparr>"
    by auto
  from send_tx_with_params_Inr [OF send] obtain sig w2 where
    "node_sign nd (node_signer_payload nd (get_args_for_rpc_call
        (case ep_max_gas params of None \<Rightarrow> er_gas_required res | Some w \<Rightarrow> w)
        (ci_address c) (ep_value params) data) (net_nonce s1)) (net_world s1) = (Inr sig, w2)"
    "node_submit nd account (net_nonce s1) (get_args_for_rpc_call
        (case ep_max_gas params of None \<Rightarrow> er_gas_required res | Some w \<Rightarrow> w)
        (ci_address c) (ep_value params) data) sig w2 = (Inr h, net_world s')"
    "net_nonce s' = net_nonce s1 + 1" by auto
  with call enc show ?thesis
    by (intro exI [of _ data] exI [of _ res] exI [of _ w1] exI [of _ sig] exI [of _ w2] exI [of _ h])
      (simp add: Let_def)
qed

text \<open>A node for the witness: the network is the list of submitted (nonce, call, signature).\<close>

definition demo_node :: "(u64 \<times> dyn_value list \<times> u8 list) list azero_node" where
  "demo_node =
     \<lparr>node_finalized_head = (\<lambda>w. (Inr 7, w)), node_block_number = (\<lambda>_ w. (Inr (Some 3), w)),
      node_block_hash = (\<lambda>_ w. (Inr (Some 7), w)), node_events_at = (\<lambda>_ w. (Inr [], w)),
      node_contracts_call = (\<lambda>_ _ w. (Inr \<lparr>er_result = Inr (False, []),
        er_gas_required = \<lparr>ref_time = 1, proof_size = 1\<rparr>\<rparr>, w)),
      node_signer_payload = (\<lambda>_ n. [ucast n]),
      node_sign = (\<lambda>p w. (Inr p, w)),
      node_submit = (\<lambda>a n c sig w. (Inr 1, w @ [(n, c, sig)]))\<rparr>"

definition demo_instance :: ContractInstance where
  "demo_instance = \<lparr>ci_address = 100, ci_transcoder =
     \<lparr>tr_encode = (\<lambda>_ _. Inr [1, 2]), tr_decode_return = (\<lambda>_ _. Inr (VBool True)),
      tr_decode_event = (\<lambda>_. Inl '''')\<rparr>\<rparr>"

theorem exec_submits_checked_call_witness:
  "\<exists>s'. contract_exec demo_node demo_instance 1 ''receive_request'' []
      \<lparr>ep_value = 0, ep_max_gas = None\<rparr> \<lparr>net_world = [], net_nonce = 4\<rparr> = Inr ((), s') \<and>
    net_nonce s' = 5"
proof -
  have "\<exists>s'. contract_exec demo_node demo_instance 1 ''receive_request'' []
      \<lparr>ep_value = 0, ep_max_gas = None\<rparr> \<lparr>net_world = [], net_nonce = 4\<rparr> = Inr ((), s')"
    by (simp add: contract_exec_def exec_dry_run_def dry_run_any_def instance_encode_def
        contract_call_and_get_def client_defs ask_def eval_simps demo_node_def demo_instance_def)
  then obtain s' where run: "contract_exec demo_node demo_instance 1 ''receive_request'' []
      \<lparr>ep_value = 0, ep_max_gas = None\<rparr> \<lparr>net_world = [], net_nonce = 4\<rparr> = Inr ((), s')" by blast
  from exec_submits_checked_call [OF run] run show ?thesis by auto
qed

end
