(* ===== verification/Relayer_Contracts.thy ===== *)
theory Relayer_Contracts
  imports Azero_Client
begin

text \<open>
  The relayer's view of the contracts on Aleph Zero, \<open>relayer/relayer/src/contracts/azero.rs\<close>:
  the wrappers \<open>MostInstance\<close> and \<open>AdvisoryInstance\<close>, and the decoding of request events.
  \<open>AccountId::from_str\<close> and \<open>to_string\<close> (SS58 of the crate \<open>subxt\<close>) and the loading of the
  contract metadata are parameters.
\<close>

section \<open>Text representations\<close>

definition hex_digit :: "nat \<Rightarrow> char" where
  "hex_digit n = ''0123456789abcdef'' ! n"

definition hex_encode :: "u8 list \<Rightarrow> string" where
  "hex_encode bs = concat (map (\<lambda>b. [hex_digit (unat b div 16), hex_digit (unat b mod 16)]) bs)"

definition bytes32_to_str :: "bytes32 \<Rightarrow> string" where
  "bytes32_to_str data = ''0x'' @ hex_encode (array_bytes data)"

text \<open>\<open>u128::to_string\<close>\<close>

fun decimal :: "nat \<Rightarrow> string" where
  "decimal n = (if n < 10 then [hex_digit n] else decimal (n div 10) @ [hex_digit (n mod 10)])"

declare decimal.simps [simp del]

definition u128_to_string :: "u128 \<Rightarrow> string" where
  "u128_to_string x = decimal (unat x)"

section \<open>Errors and instances\<close>

datatype AzeroContractError =
    ContractCall client_error
  | AzeroClient client_error
  | NotAccountId string
  | MissingOrInvalidField string

type_synonym ('w, 'a) relayer_io = "('w net, AzeroContractError, 'a) contract"

record accounts =
  account_from_str :: "string \<Rightarrow> AccountId option"
  account_to_string :: "AccountId \<Rightarrow> string"
  load_metadata :: "string \<Rightarrow> string + transcoder"

record AdvisoryInstance =
  adv_contract :: ContractInstance
  adv_address :: AccountId

record MostInstance =
  mi_contract :: ContractInstance
  mi_ref_time_limit :: u64
  mi_proof_size_limit :: u64

definition contract_instance_new ::
  "accounts \<Rightarrow> AccountId \<Rightarrow> string \<Rightarrow> AzeroContractError + ContractInstance" where
  "contract_instance_new acc address metadata_path =
     (case load_metadata acc metadata_path of
        Inl e \<Rightarrow> Inl (ContractCall (Transcode e))
      | Inr tr \<Rightarrow> Inr \<lparr>ci_address = address, ci_transcoder = tr\<rparr>)"

definition advisory_instance_new ::
  "accounts \<Rightarrow> string \<Rightarrow> string \<Rightarrow> AzeroContractError + AdvisoryInstance" where
  "advisory_instance_new acc address metadata_path =
     (case account_from_str acc address of
        None \<Rightarrow> Inl (NotAccountId address)
      | Some a \<Rightarrow>
          (case contract_instance_new acc a metadata_path of
             Inl e \<Rightarrow> Inl e
           | Inr c \<Rightarrow> Inr \<lparr>adv_contract = c, adv_address = a\<rparr>))"

definition most_instance_new ::
  "accounts \<Rightarrow> string \<Rightarrow> string \<Rightarrow> u64 \<Rightarrow> u64 \<Rightarrow> AzeroContractError + MostInstance" where
  "most_instance_new acc address metadata_path ref_time_limit proof_size_limit =
     (case account_from_str acc address of
        None \<Rightarrow> Inl (NotAccountId address)
      | Some a \<Rightarrow>
          (case contract_instance_new acc a metadata_path of
             Inl e \<Rightarrow> Inl e
           | Inr c \<Rightarrow> Inr \<lparr>mi_contract = c, mi_ref_time_limit = ref_time_limit,
               mi_proof_size_limit = proof_size_limit\<rparr>))"

section \<open>Calls\<close>

definition default_params :: ReadonlyCallParams where
  "default_params = \<lparr>rp_at = None, rp_sender = None\<rparr>"

definition instance_is_emergency ::
  "'w azero_node \<Rightarrow> AdvisoryInstance \<Rightarrow> ('w, bool \<times> AccountId) relayer_io" where
  "instance_is_emergency nd a =
     andThen (map_err ContractCall (contract_read0 nd (adv_contract a) try_bool ''is_emergency'' default_params))
       (\<lambda>b. ret (b, adv_address a))"

definition receive_request_args ::
  "bytes32 \<Rightarrow> u128 \<Rightarrow> bytes32 \<Rightarrow> u128 \<Rightarrow> bytes32 \<Rightarrow> u128 \<Rightarrow> string list" where
  "receive_request_args request_hash committee_id dest_token_address amount dest_receiver_address request_nonce =
     [bytes32_to_str request_hash, u128_to_string committee_id, bytes32_to_str dest_token_address,
      u128_to_string amount, bytes32_to_str dest_receiver_address, u128_to_string request_nonce]"

definition instance_receive_request ::
  "'w azero_node \<Rightarrow> AccountId \<Rightarrow> MostInstance \<Rightarrow> bytes32 \<Rightarrow> u128 \<Rightarrow> bytes32 \<Rightarrow> u128 \<Rightarrow> bytes32 \<Rightarrow> u128 \<Rightarrow>
   ('w, unit) relayer_io" where
  "instance_receive_request nd account m request_hash committee_id dest_token_address amount
     dest_receiver_address request_nonce =
     map_err ContractCall (contract_exec nd (mi_contract m) account ''receive_request''
       (receive_request_args request_hash committee_id dest_token_address amount
          dest_receiver_address request_nonce)
       \<lparr>ep_value = 0, ep_max_gas = Some
          \<lparr>ref_time = mi_ref_time_limit m, proof_size = mi_proof_size_limit m\<rparr>\<rparr>)"

definition instance_set_payout_account ::
  "accounts \<Rightarrow> 'w azero_node \<Rightarrow> AccountId \<Rightarrow> MostInstance \<Rightarrow> u128 \<Rightarrow> AccountId \<Rightarrow> ('w, unit) relayer_io" where
  "instance_set_payout_account acc nd account m committee_id payout_account =
     map_err ContractCall (contract_exec nd (mi_contract m) account ''set_payout_account''
       [u128_to_string committee_id, account_to_string acc payout_account]
       \<lparr>ep_value = 0, ep_max_gas = Some
          \<lparr>ref_time = mi_ref_time_limit m, proof_size = mi_proof_size_limit m\<rparr>\<rparr>)"

text \<open>\<open>.await??\<close>: the conversion's and the contract's own error both end the call.\<close>

definition flatten :: "('w, tvalue + 'a) relayer_io \<Rightarrow> ('w, 'a) relayer_io" where
  "flatten m = andThen m (\<lambda>r. map_err (\<lambda>v. ContractCall (ReturnedErr v)) (try_res r))"

definition instance_is_halted :: "'w azero_node \<Rightarrow> MostInstance \<Rightarrow> ('w, bool) relayer_io" where
  "instance_is_halted nd m = flatten (map_err ContractCall
     (contract_read0 nd (mi_contract m) (try_result try_bool) ''is_halted'' default_params))"

definition instance_needs_signature ::
  "accounts \<Rightarrow> 'w azero_node \<Rightarrow> MostInstance \<Rightarrow> bytes32 \<Rightarrow> AccountId \<Rightarrow> u128 \<Rightarrow> bool \<Rightarrow> ('w, bool) relayer_io" where
  "instance_needs_signature acc nd m request_hash account committee_id block_finalized =
     andThen
       (if block_finalized then
          andThen (map_err AzeroClient (get_finalized_block_hash nd))
            (\<lambda>finalized_hash. ret (default_params\<lparr>rp_at := Some finalized_hash\<rparr>))
        else ret default_params) (\<lambda>params.
     map_err ContractCall (contract_read nd (mi_contract m) try_bool ''needs_signature''
       [bytes32_to_str request_hash, account_to_string acc account, u128_to_string committee_id]
       params))"

definition instance_current_committee_id :: "'w azero_node \<Rightarrow> MostInstance \<Rightarrow> ('w, u128) relayer_io" where
  "instance_current_committee_id nd m = flatten (map_err ContractCall
     (contract_read0 nd (mi_contract m) (try_result try_uint) ''get_current_committee_id'' default_params))"

definition instance_is_in_committee ::
  "accounts \<Rightarrow> 'w azero_node \<Rightarrow> MostInstance \<Rightarrow> u128 \<Rightarrow> AccountId \<Rightarrow> ('w, bool) relayer_io" where
  "instance_is_in_committee acc nd m committee_id account =
     map_err ContractCall (contract_read nd (mi_contract m) try_bool ''is_in_committee''
       [u128_to_string committee_id, account_to_string acc account] default_params)"

section \<open>Decoding of request events\<close>

record CrosschainTransferRequestData =
  cr_committee_id :: u128
  cr_dest_token_address :: bytes32
  cr_amount :: u128
  cr_dest_receiver_address :: bytes32
  cr_request_nonce :: u128

text \<open>The bytes of a sequence of unsigned integers; \<open>as u8\<close> keeps the low byte of each.\<close>

fun seq_bytes :: "string \<Rightarrow> tvalue list \<Rightarrow> AzeroContractError + u8 list" where
  "seq_bytes field [] = Inr []"
| "seq_bytes field (v # vs) =
     (case v of
        VUInt x \<Rightarrow> (case seq_bytes field vs of Inl e \<Rightarrow> Inl e | Inr bs \<Rightarrow> Inr (ucast x # bs))
      | _ \<Rightarrow> Inl (MissingOrInvalidField field))"

text \<open>The word of 32 bytes in array order.\<close>

fun word_of_bytes :: "u8 list \<Rightarrow> bytes32" where
  "word_of_bytes [] = 0"
| "word_of_bytes (b # bs) = push_bit (8 * length bs) (ucast b) + word_of_bytes bs"

definition decode_seq_field :: "(string \<Rightarrow> tvalue option) \<Rightarrow> string \<Rightarrow> AzeroContractError + bytes32" where
  "decode_seq_field data field =
     (case data field of
        Some (VSeq vs) \<Rightarrow>
          (case seq_bytes field vs of
             Inl e \<Rightarrow> Inl e
           | Inr bs \<Rightarrow> if length bs = 32 then Inr (word_of_bytes bs) else Inl (MissingOrInvalidField field))
      | _ \<Rightarrow> Inl (MissingOrInvalidField field))"

definition decode_uint_field :: "(string \<Rightarrow> tvalue option) \<Rightarrow> string \<Rightarrow> AzeroContractError + u128" where
  "decode_uint_field data field =
     (case data field of Some (VUInt x) \<Rightarrow> Inr x | _ \<Rightarrow> Inl (MissingOrInvalidField field))"

definition get_request_event_data ::
  "(string \<Rightarrow> tvalue option) \<Rightarrow> AzeroContractError + CrosschainTransferRequestData" where
  "get_request_event_data data =
     (case decode_uint_field data ''committee_id'' of Inl e \<Rightarrow> Inl e | Inr committee_id \<Rightarrow>
      case decode_seq_field data ''dest_token_address'' of Inl e \<Rightarrow> Inl e | Inr dest_token_address \<Rightarrow>
      case decode_uint_field data ''amount'' of Inl e \<Rightarrow> Inl e | Inr amount \<Rightarrow>
      case decode_seq_field data ''dest_receiver_address'' of Inl e \<Rightarrow> Inl e | Inr dest_receiver_address \<Rightarrow>
      case decode_uint_field data ''request_nonce'' of Inl e \<Rightarrow> Inl e | Inr request_nonce \<Rightarrow>
      Inr \<lparr>cr_committee_id = committee_id, cr_dest_token_address = dest_token_address,
        cr_amount = amount, cr_dest_receiver_address = dest_receiver_address,
        cr_request_nonce = request_nonce\<rparr>)"

section \<open>Injectivity of the text representations\<close>

lemma hex_digit_inject: "a < 16 \<Longrightarrow> b < 16 \<Longrightarrow> hex_digit a = hex_digit b \<longleftrightarrow> a = b"
proof -
  have "distinct ''0123456789abcdef''" by simp
  then show "a < 16 \<Longrightarrow> b < 16 \<Longrightarrow> hex_digit a = hex_digit b \<longleftrightarrow> a = b"
    unfolding hex_digit_def by (subst nth_eq_iff_index_eq) simp_all
qed

lemma byte_digits: "unat (b::u8) div 16 < 16" "unat b mod 16 < 16"
proof -
  have "unat b < 256" using unsigned_less [of b, where 'a = nat] by simp
  then show "unat b div 16 < 16" by (simp add: less_mult_imp_div_less)
qed simp

lemma hex_encode_inject: "hex_encode as = hex_encode bs \<longleftrightarrow> as = bs"
proof (induction as arbitrary: bs)
  case Nil
  show ?case by (cases bs) (simp_all add: hex_encode_def)
next
  case (Cons a as)
  show ?case
  proof (cases bs)
    case (Cons b cs)
    have "unat a div 16 = unat b div 16 \<and> unat a mod 16 = unat b mod 16 \<longleftrightarrow> a = b"
      by (metis div_mult_mod_eq unsigned_word_eqI word_eq_iff_unsigned)
    with Cons.IH [of cs] show ?thesis
      using local.Cons by (simp add: hex_encode_def hex_digit_inject byte_digits) blast
  qed (simp add: hex_encode_def)
qed

lemma bytes32_to_str_inject [simp]: "bytes32_to_str x = bytes32_to_str y \<longleftrightarrow> x = y"
  by (simp add: bytes32_to_str_def hex_encode_inject)

lemma decimal_nonempty [simp]: "decimal n \<noteq> []"
  by (subst decimal.simps) simp

lemma decimal_inject: "decimal m = decimal n \<longleftrightarrow> m = n"
proof (induction m arbitrary: n rule: decimal.induct)
  case (1 m)
  show ?case
  proof (cases "m < 10 \<or> n < 10")
    case True
    then show ?thesis
      by (subst (1 2) decimal.simps) (auto simp: hex_digit_inject Cons_eq_append_conv append_eq_Cons_conv)
  next
    case False
    then have "decimal m = decimal n \<longleftrightarrow> decimal (m div 10) = decimal (n div 10) \<and> m mod 10 = n mod 10"
      by (subst (1 2) decimal.simps) (simp add: hex_digit_inject)
    with 1 False show ?thesis by (metis div_mult_mod_eq)
  qed
qed

lemma u128_to_string_inject [simp]: "u128_to_string x = u128_to_string y \<longleftrightarrow> x = y"
  by (simp add: u128_to_string_def decimal_inject word_eq_iff_unsigned [where 'a = nat])

section \<open>Bytes and words\<close>

lemma word_of_bytes_append: "word_of_bytes (xs @ [b]) = push_bit 8 (word_of_bytes xs) + ucast b"
  by (induction xs) (simp_all add: push_bit_add push_bit_push_bit add.assoc)

lemma le_bytes_Suc: "le_bytes (Suc n) x = ucast x # le_bytes n (drop_bit 8 x)"
  unfolding le_bytes_def upt_conv_Cons [OF zero_less_Suc] map_Suc_upt [symmetric]
  by (simp add: comp_def drop_bit_drop_bit add.commute)

lemma word_of_le_bytes: "word_of_bytes (rev (le_bytes n x)) = take_bit (8 * n) x"
proof (induction n arbitrary: x)
  case (Suc n)
  have "ucast (ucast x :: u8) = take_bit 8 x" by (simp add: bit_eq_iff bit_ucast_iff bit_take_bit_iff)
  moreover have "push_bit 8 (take_bit (8 * n) (drop_bit 8 x)) + take_bit 8 x = take_bit (8 * Suc n) x"
  proof -
    have "push_bit 8 (take_bit (8 * n) (drop_bit 8 x)) + take_bit 8 x =
        or (push_bit 8 (take_bit (8 * n) (drop_bit 8 x))) (take_bit 8 x)"
      by (rule disjunctive_add) (auto simp: bit_simps)
    also have "\<dots> = take_bit (8 * Suc n) x"
      by (rule bit_eqI) (auto simp: bit_simps)
    finally show ?thesis .
  qed
  ultimately show ?case using Suc by (simp add: le_bytes_Suc word_of_bytes_append)
qed (simp add: le_bytes_def)

lemma word_of_array_bytes [simp]: "word_of_bytes (array_bytes x) = x"
  by (simp add: array_bytes_def word_of_le_bytes take_bit_word_eq_self)

section \<open>Properties\<close>

text \<open>The data of a \<open>CrosschainTransferRequest\<close> event as the transcoder presents it.\<close>

definition request_event_data :: "u128 \<Rightarrow> bytes32 \<Rightarrow> u128 \<Rightarrow> bytes32 \<Rightarrow> u128 \<Rightarrow> string \<Rightarrow> tvalue option" where
  "request_event_data c t a r n = map_of
     [(''committee_id'', VUInt c), (''dest_token_address'', VSeq (map (\<lambda>b. VUInt (ucast b)) (array_bytes t))),
      (''amount'', VUInt a), (''dest_receiver_address'', VSeq (map (\<lambda>b. VUInt (ucast b)) (array_bytes r))),
      (''request_nonce'', VUInt n)]"

lemma ucast_up_down: "ucast (ucast (b::u8) :: u128) = b"
  by (simp add: bit_eq_iff bit_ucast_iff)

lemma seq_bytes_map: "seq_bytes f (map (\<lambda>b. VUInt (ucast b)) bs) = Inr bs"
  by (induction bs) (simp_all add: ucast_up_down)

lemma request_event_decodes:
  "get_request_event_data (request_event_data c t a r n) =
     Inr \<lparr>cr_committee_id = c, cr_dest_token_address = t, cr_amount = a,
       cr_dest_receiver_address = r, cr_request_nonce = n\<rparr>"
  by (simp add: get_request_event_data_def request_event_data_def decode_uint_field_def
      decode_seq_field_def seq_bytes_map)


end
