(* ===== verification/Relayer_Config.thy ===== *)
theory Relayer_Config
  imports Prelude
begin

text \<open>
  The relayer's configuration, \<open>relayer/relayer/src/config.rs\<close>, and the circuit breaker events
  and restart back-off of \<open>main.rs\<close>.
\<close>

section \<open>Configuration\<close>

text \<open>\<open>u32::from_str\<close>: an optional plus sign and at least one decimal digit, within range.\<close>

fun digit_value :: "char \<Rightarrow> nat option" where
  "digit_value c = (let n = of_char c in if 48 \<le> n \<and> n < 58 then Some (n - 48) else None)"

fun parse_digits :: "nat \<Rightarrow> string \<Rightarrow> nat option" where
  "parse_digits acc [] = Some acc"
| "parse_digits acc (c # cs) =
     (case digit_value c of
        None \<Rightarrow> None
      | Some v \<Rightarrow> if acc * 10 + v < 2 ^ 32 then parse_digits (acc * 10 + v) cs else None)"

definition parse_u32 :: "string \<Rightarrow> u32 option" where
  "parse_u32 s =
     (let ds = (case s of c # cs \<Rightarrow> if c = CHR ''+'' then cs else s | [] \<Rightarrow> [])
      in if ds = [] then None else map_option of_nat (parse_digits 0 ds))"

datatype SyncFromBlock = SyncFromBlock u32

definition sync_from_str :: "string \<Rightarrow> SyncFromBlock option" where
  "sync_from_str s = (case parse_u32 s of None \<Rightarrow> None | Some inner \<Rightarrow> Some (SyncFromBlock (max 1 inner)))"

fun sync_deref :: "SyncFromBlock \<Rightarrow> u32" where
  "sync_deref (SyncFromBlock n) = n"

record Config =
  cfg_name :: string
  cfg_dev :: bool
  cfg_dev_account_index :: u32
  cfg_override_azero_cache :: bool
  cfg_override_eth_cache :: bool
  cfg_blacklisted_requests :: "bytes32 list option"
  cfg_advisory_contract_addresses :: "string list option"
  cfg_advisory_contract_metadata :: string
  cfg_signer_cid :: "u32 option"
  cfg_signer_port :: u32
  cfg_azero_contract_address :: string
  cfg_azero_contract_metadata :: string
  cfg_azero_node_wss_url :: string
  cfg_azero_max_event_handler_tasks :: nat
  cfg_azero_ref_time_limit :: u64
  cfg_azero_proof_size_limit :: u64
  cfg_default_sync_from_block_azero :: SyncFromBlock
  cfg_eth_contract_address :: string
  cfg_eth_node_http_url :: string
  cfg_eth_tx_submission_retries :: nat
  cfg_eth_tx_min_confirmations :: nat
  cfg_default_sync_from_block_eth :: SyncFromBlock
  cfg_eth_gas_limit :: u32
  cfg_sync_step :: u32
  cfg_payout_address :: "string option"
  cfg_redis_node :: string
  cfg_redis_azero_block_key :: string
  cfg_redis_eth_block_key :: string
  cfg_rust_log :: string

section \<open>Circuit breaker and restarts\<close>

datatype CircuitBreakerEvent =
    EthEventHandlerFailure
  | AlephZeroEventHandlerFailure
  | BridgeHaltAlephZero
  | BridgeHaltEthereum
  | AdvisoryEmergency "AccountId list"
  | AlephClientError
  | EthConnectionError

text \<open>Durations in nanoseconds, as \<open>Duration\<close> keeps them.\<close>

definition MINIMUM_TASK_LENGHT :: nat where
  "MINIMUM_TASK_LENGHT = 600000 * 10 ^ 6"

definition DEFAULT_BACKOFF_DURATION :: nat where
  "DEFAULT_BACKOFF_DURATION = 2000 * 10 ^ 6"

definition MAX_BACKOFF_DURATION :: nat where
  "MAX_BACKOFF_DURATION = 600000 * 10 ^ 6"

text \<open>The delay before the next reboot, from the last delay and how long the relayer has run.\<close>

definition next_delay :: "nat \<Rightarrow> nat \<Rightarrow> nat" where
  "next_delay delay tock =
     (if MINIMUM_TASK_LENGHT \<le> tock then DEFAULT_BACKOFF_DURATION
      else min MAX_BACKOFF_DURATION (delay + delay div 10))"

text \<open>The reboot loop: \<open>ticks\<close> are the lengths of the successive runs.\<close>

fun delays :: "nat \<Rightarrow> nat list \<Rightarrow> nat list" where
  "delays delay [] = []"
| "delays delay (tock # ticks) = next_delay delay tock # delays (next_delay delay tock) ticks"

lemmas backoff_defs = MINIMUM_TASK_LENGHT_def DEFAULT_BACKOFF_DURATION_def MAX_BACKOFF_DURATION_def

lemma next_delay_bounds:
  assumes "DEFAULT_BACKOFF_DURATION \<le> delay" "delay \<le> MAX_BACKOFF_DURATION"
  shows "DEFAULT_BACKOFF_DURATION \<le> next_delay delay tock" "next_delay delay tock \<le> MAX_BACKOFF_DURATION"
  using assms by (auto simp: next_delay_def backoff_defs)

lemma delays_bounds:
  assumes "DEFAULT_BACKOFF_DURATION \<le> delay" "delay \<le> MAX_BACKOFF_DURATION" "d \<in> set (delays delay ticks)"
  shows "DEFAULT_BACKOFF_DURATION \<le> d \<and> d \<le> MAX_BACKOFF_DURATION"
  using assms by (induction ticks arbitrary: delay) (auto dest: next_delay_bounds)

text \<open>Short runs: the delay grows by a tenth each time until it reaches the maximum.\<close>

lemma next_delay_grows:
  assumes "tock < MINIMUM_TASK_LENGHT" "delay \<le> MAX_BACKOFF_DURATION"
  shows "delay \<le> next_delay delay tock" "min MAX_BACKOFF_DURATION (delay + delay div 10) \<le> next_delay delay tock"
  using assms by (auto simp: next_delay_def)

lemma delays_nth:
  assumes "\<forall>t\<in>set ticks. t < MINIMUM_TASK_LENGHT" "DEFAULT_BACKOFF_DURATION \<le> delay"
    "delay \<le> MAX_BACKOFF_DURATION" "i < length ticks"
  shows "min MAX_BACKOFF_DURATION (delay + (i + 1) * (DEFAULT_BACKOFF_DURATION div 10)) \<le> delays delay ticks ! i"
  using assms
proof (induction ticks arbitrary: delay i)
  case (Cons t ticks)
  let ?n = "next_delay delay t"
  have b: "DEFAULT_BACKOFF_DURATION \<le> ?n" "?n \<le> MAX_BACKOFF_DURATION"
    using next_delay_bounds Cons.prems by auto
  have step: "min MAX_BACKOFF_DURATION (delay + DEFAULT_BACKOFF_DURATION div 10) \<le> ?n"
    using Cons.prems next_delay_grows(2) [of t delay] div_le_mono [of DEFAULT_BACKOFF_DURATION delay 10]
    by (simp add: min_le_iff_disj) linarith
  show ?case
  proof (cases i)
    case 0
    with step show ?thesis by simp
  next
    case (Suc j)
    with Cons.IH [of ?n j] Cons.prems b
    have "min MAX_BACKOFF_DURATION (?n + (j + 1) * (DEFAULT_BACKOFF_DURATION div 10)) \<le> delays ?n ticks ! j" by simp
    with step Suc show ?thesis by (auto simp: min_le_iff_disj algebra_simps)
  qed
qed simp

text \<open>
  Restarts back off: starting from the default delay, every delay before a reboot lies
  between the default (2 s) and the maximum (10 min); a run of at least 10 minutes resets it;
  and after 2990 consecutive short runs the maximum is reached and kept.
\<close>

lemma backoff_bounded:
  "(\<forall>d \<in> set (delays DEFAULT_BACKOFF_DURATION ticks). DEFAULT_BACKOFF_DURATION \<le> d \<and> d \<le> MAX_BACKOFF_DURATION) \<and>
   (MINIMUM_TASK_LENGHT \<le> tock \<longrightarrow> next_delay delay tock = DEFAULT_BACKOFF_DURATION) \<and>
   ((\<forall>t \<in> set ticks. t < MINIMUM_TASK_LENGHT) \<longrightarrow>
     (\<forall>i < length ticks. 2990 \<le> i \<longrightarrow> delays DEFAULT_BACKOFF_DURATION ticks ! i = MAX_BACKOFF_DURATION))"
proof (intro conjI ballI impI allI)
  fix d assume "d \<in> set (delays DEFAULT_BACKOFF_DURATION ticks)"
  from delays_bounds [OF _ _ this]
  show "DEFAULT_BACKOFF_DURATION \<le> d" "d \<le> MAX_BACKOFF_DURATION" by (simp_all add: backoff_defs)
next
  fix i assume short: "\<forall>t\<in>set ticks. t < MINIMUM_TASK_LENGHT" and i: "i < length ticks" "2990 \<le> i"
  have len: "length (delays d ts) = length ts" for d ts by (induction ts arbitrary: d) auto
  have "delays DEFAULT_BACKOFF_DURATION ticks ! i \<le> MAX_BACKOFF_DURATION"
    using delays_bounds [of DEFAULT_BACKOFF_DURATION "delays DEFAULT_BACKOFF_DURATION ticks ! i" ticks]
      nth_mem [of i "delays DEFAULT_BACKOFF_DURATION ticks"] i len by (simp add: backoff_defs)
  moreover have "MAX_BACKOFF_DURATION \<le>
      DEFAULT_BACKOFF_DURATION + (i + 1) * (DEFAULT_BACKOFF_DURATION div 10)"
    using i by (simp add: backoff_defs)
  ultimately show "delays DEFAULT_BACKOFF_DURATION ticks ! i = MAX_BACKOFF_DURATION"
    using delays_nth [OF short _ _ i(1), of DEFAULT_BACKOFF_DURATION] by (simp add: backoff_defs)
qed (simp add: next_delay_def)

section \<open>A configuration for the witnesses\<close>

definition base_config :: Config where
  "base_config =
     \<lparr>cfg_name = ''g'', cfg_dev = False, cfg_dev_account_index = 0,
      cfg_override_azero_cache = False, cfg_override_eth_cache = False,
      cfg_blacklisted_requests = None, cfg_advisory_contract_addresses = None,
      cfg_advisory_contract_metadata = '''', cfg_signer_cid = None, cfg_signer_port = 1234,
      cfg_azero_contract_address = '''', cfg_azero_contract_metadata = '''', cfg_azero_node_wss_url = '''',
      cfg_azero_max_event_handler_tasks = 100, cfg_azero_ref_time_limit = 5, cfg_azero_proof_size_limit = 5,
      cfg_default_sync_from_block_azero = SyncFromBlock 1, cfg_eth_contract_address = '''',
      cfg_eth_node_http_url = '''', cfg_eth_tx_submission_retries = 3, cfg_eth_tx_min_confirmations = 64,
      cfg_default_sync_from_block_eth = SyncFromBlock 1, cfg_eth_gas_limit = 200000, cfg_sync_step = 2,
      cfg_payout_address = None, cfg_redis_node = '''', cfg_redis_azero_block_key = ''a'',
      cfg_redis_eth_block_key = ''e'', cfg_rust_log = ''info''\<rparr>"

end
