(* ===== verification/Eth_Handler.thy ===== *)
theory Eth_Handler
  imports Relayer_Contracts Relayer_Config Shared_Hash
begin

text \<open>
  The handler of Ethereum events, \<open>EthereumEventHandler\<close> in
  \<open>relayer/relayer/src/handlers/eth.rs\<close>: it votes on Aleph Zero for the requests made on
  Ethereum. The loop that votes and waits for finality is a function of its fuel, with result
  \<open>None\<close> while it is still running; the locale \<open>vote_target\<close> says what the loop needs of the
  chain it votes on to come to an end.
\<close>

section \<open>Events and errors\<close>

text \<open>
  \<open>MostEvents\<close> and its numbers are generated from the Ethereum contract's ABI; all events but
  the transfer request are skipped by the handler.
\<close>

datatype MostEvents =
    CrosschainTransferRequestFilter u256 bytes32 u256 bytes32 u256
  | OtherMostEvent string

datatype EthereumEventHandlerError =
    EthAzeroContract AzeroContractError
  | ReceiveRequestTxFailure bytes32 u128 bytes32 u128 bytes32 u128
  | EthCommitteeIdMismatch

text \<open>\<open>U256::as_u128\<close> panics when the number does not fit.\<close>

definition as_u128 :: "u256 \<Rightarrow> ('s, 'e, u128) contract" where
  "as_u128 x = (if unat x < 2 ^ 128 then ret (ucast x) else trap)"

section \<open>The request hash\<close>

text \<open>The relayer's own \<open>concat_u8_arrays\<close> (\<open>helpers.rs\<close>).\<close>

definition relayer_concat_u8_arrays :: "u8 list list \<Rightarrow> u8 list" where
  "relayer_concat_u8_arrays arrays = concat_u8_loop [] arrays"

definition eth_request_hash ::
  "(u8 list \<Rightarrow> bytes32) \<Rightarrow> u128 \<Rightarrow> bytes32 \<Rightarrow> u128 \<Rightarrow> bytes32 \<Rightarrow> u128 \<Rightarrow> bytes32" where
  "eth_request_hash keccak256 committee_id dest_token_address amount dest_receiver_address request_nonce =
     keccak256 (relayer_concat_u8_arrays
       [to_le_bytes committee_id, array_bytes dest_token_address, to_le_bytes amount,
        array_bytes dest_receiver_address, to_le_bytes request_nonce])"

lemma eth_request_hash_agrees: "eth_request_hash k c t a r n = hash_request_data k c t a r n"
  by (simp add: eth_request_hash_def relayer_concat_u8_arrays_def concat_u8_loop hash_request_data_def
      request_data_def)

section \<open>Preparation\<close>

definition eth_not_in_committee ::
  "accounts \<Rightarrow> 'w azero_node \<Rightarrow> AccountId \<Rightarrow> MostInstance \<Rightarrow> u128 \<Rightarrow> ('w net, EthereumEventHandlerError, bool) contract" where
  "eth_not_in_committee acc nd account most committee_id =
     andThen (map_err EthAzeroContract (instance_is_in_committee acc nd most committee_id account)) (\<lambda>b.
     if b then ret False
     else
       andThen (map_err EthAzeroContract (instance_current_committee_id nd most)) (\<lambda>current.
       if current < committee_id then throw EthCommitteeIdMismatch else ret True))"

record vote_data =
  vd_most :: MostInstance
  vd_request_hash :: bytes32
  vd_committee_id :: u128
  vd_dest_token_address :: bytes32
  vd_amount :: u128
  vd_dest_receiver_address :: bytes32
  vd_request_nonce :: u128

text \<open>
  Everything before the voting loop. The result is \<open>None\<close> when there is nothing to vote for:
  another event, a blacklisted request, or a request of a committee without this guardian.
\<close>

definition eth_prepare ::
  "(u8 list \<Rightarrow> bytes32) \<Rightarrow> accounts \<Rightarrow> 'w azero_node \<Rightarrow> AccountId \<Rightarrow> Config \<Rightarrow> MostEvents \<Rightarrow>
   ('w net, EthereumEventHandlerError, vote_data option) contract" where
  "eth_prepare keccak256 acc nd account cfg event =
     (case event of
        OtherMostEvent _ \<Rightarrow> ret None
      | CrosschainTransferRequestFilter committee_id dest_token_address amount dest_receiver_address request_nonce \<Rightarrow>
          andThen (as_u128 committee_id) (\<lambda>committee_id.
          andThen (as_u128 amount) (\<lambda>amount.
          andThen (as_u128 request_nonce) (\<lambda>request_nonce.
          let request_hash = eth_request_hash keccak256 committee_id dest_token_address amount
            dest_receiver_address request_nonce
          in
          if (case cfg_blacklisted_requests cfg of None \<Rightarrow> False | Some bl \<Rightarrow> request_hash \<in> set bl)
          then ret None
          else
            andThen (map_err EthAzeroContract (try_res (most_instance_new acc
              (cfg_azero_contract_address cfg) (cfg_azero_contract_metadata cfg)
              (cfg_azero_ref_time_limit cfg) (cfg_azero_proof_size_limit cfg)))) (\<lambda>contract.
            andThen (eth_not_in_committee acc nd account contract committee_id) (\<lambda>skip.
            ret (if skip then None else Some
              \<lparr>vd_most = contract, vd_request_hash = request_hash, vd_committee_id = committee_id,
               vd_dest_token_address = dest_token_address, vd_amount = amount,
               vd_dest_receiver_address = dest_receiver_address, vd_request_nonce = request_nonce\<rparr>)))))))"

section \<open>The voting loop\<close>

text \<open>
  \<open>q_fin\<close> asks at the finalized block whether the signature is needed, \<open>q_best\<close> at the latest
  one. Voting is repeated until the finalized block does not need the signature.
\<close>

fun eth_vote_loop ::
  "nat \<Rightarrow> ('s, 'e, bool) contract \<Rightarrow> ('s, 'e, bool) contract \<Rightarrow> ('s, 'e, unit) contract \<Rightarrow> ('s \<Rightarrow> 's) \<Rightarrow>
   's \<Rightarrow> ('e fault + unit \<times> 's) option" where
  "eth_vote_loop 0 q_fin q_best vote sleep s = None"
| "eth_vote_loop (Suc k) q_fin q_best vote sleep s =
     (case q_fin s of
        Inl e \<Rightarrow> Some (Inl e)
      | Inr (needed, s1) \<Rightarrow>
          if \<not> needed then Some (Inr ((), s1))
          else (case q_best s1 of
              Inl e \<Rightarrow> Some (Inl e)
            | Inr (needed_best, s2) \<Rightarrow>
                if \<not> needed_best then eth_vote_loop k q_fin q_best vote sleep (sleep s2)
                else (case vote s2 of
                    Inl e \<Rightarrow> Some (Inl e)
                  | Inr (_, s3) \<Rightarrow> eth_vote_loop k q_fin q_best vote sleep s3)))"

definition eth_query ::
  "accounts \<Rightarrow> 'w azero_node \<Rightarrow> AccountId \<Rightarrow> vote_data \<Rightarrow> bool \<Rightarrow>
   ('w net, EthereumEventHandlerError, bool) contract" where
  "eth_query acc nd account v finalized = map_err EthAzeroContract
     (instance_needs_signature acc nd (vd_most v) (vd_request_hash v) account (vd_committee_id v) finalized)"

definition eth_vote ::
  "'w azero_node \<Rightarrow> AccountId \<Rightarrow> vote_data \<Rightarrow> ('w net, EthereumEventHandlerError, unit) contract" where
  "eth_vote nd account v = map_err
     (\<lambda>_. ReceiveRequestTxFailure (vd_request_hash v) (vd_committee_id v) (vd_dest_token_address v)
        (vd_amount v) (vd_dest_receiver_address v) (vd_request_nonce v))
     (instance_receive_request nd account (vd_most v) (vd_request_hash v) (vd_committee_id v)
        (vd_dest_token_address v) (vd_amount v) (vd_dest_receiver_address v) (vd_request_nonce v))"

definition eth_handle_event ::
  "nat \<Rightarrow> (u8 list \<Rightarrow> bytes32) \<Rightarrow> accounts \<Rightarrow> 'w azero_node \<Rightarrow> ('w \<Rightarrow> 'w) \<Rightarrow> AccountId \<Rightarrow> Config \<Rightarrow>
   MostEvents \<Rightarrow> 'w net \<Rightarrow> (EthereumEventHandlerError fault + unit \<times> 'w net) option" where
  "eth_handle_event fuel keccak256 acc nd sleep account cfg event s =
     (case eth_prepare keccak256 acc nd account cfg event s of
        Inl e \<Rightarrow> Some (Inl e)
      | Inr (None, s1) \<Rightarrow> Some (Inr ((), s1))
      | Inr (Some v, s1) \<Rightarrow>
          eth_vote_loop fuel (eth_query acc nd account v True) (eth_query acc nd account v False)
            (eth_vote nd account v) (net_world_update sleep) s1)"

section \<open>Results of the loop\<close>

lemma eth_vote_loop_done:
  "eth_vote_loop k q_fin q_best vote sleep s = Some (Inr (u, s')) \<Longrightarrow> \<exists>s0. q_fin s0 = Inr (False, s')"
proof (induction k arbitrary: s)
  case (Suc k)
  from Suc.prems Suc.IH show ?case
    by (auto split: sum.splits prod.splits if_splits)
qed simp

lemma eth_vote_loop_mono:
  "eth_vote_loop k q_fin q_best vote sleep s = Some r \<Longrightarrow> k \<le> k' \<Longrightarrow>
     eth_vote_loop k' q_fin q_best vote sleep s = Some r"
proof (induction k arbitrary: s k')
  case (Suc k)
  then obtain l where "k' = Suc l" "k \<le> l" by (cases k') auto
  with Suc show ?case by (auto split: sum.splits prod.splits if_splits)
qed simp

section \<open>When the loop comes to an end\<close>

locale vote_target =
  fixes q_fin q_best :: "('s, 'e, bool) contract"
    and vote :: "('s, 'e, unit) contract"
    and sleep :: "'s \<Rightarrow> 's"
    and ok needed_fin needed_best :: "'s \<Rightarrow> bool"
    and lag :: "'s \<Rightarrow> nat"
    and max_lag :: nat
  assumes q_fin_answers: "ok s \<Longrightarrow> \<exists>s'. q_fin s = Inr (needed_fin s, s') \<and> ok s' \<and> lag s' \<le> lag s \<and>
      (needed_best s' \<longrightarrow> needed_best s) \<and> (needed_fin s' \<longrightarrow> needed_fin s)"
    and q_best_answers: "ok s \<Longrightarrow> \<exists>s'. q_best s = Inr (needed_best s, s') \<and> ok s' \<and> lag s' \<le> lag s \<and>
      (needed_best s' \<longleftrightarrow> needed_best s) \<and> (needed_fin s' \<longrightarrow> needed_fin s)"
    and vote_accepted: "ok s \<Longrightarrow> needed_best s \<Longrightarrow> \<exists>s'. vote s = Inr ((), s') \<and> ok s' \<and> \<not> needed_best s'"
    and sleep_settles: "ok s \<Longrightarrow> \<not> needed_best s \<Longrightarrow> ok (sleep s) \<and> \<not> needed_best (sleep s) \<and>
      (lag (sleep s) < lag s \<or> \<not> needed_fin (sleep s))"
    and lag_bound: "ok s \<Longrightarrow> lag s \<le> max_lag"
    and no_lag: "ok s \<Longrightarrow> \<not> needed_best s \<Longrightarrow> lag s = 0 \<Longrightarrow> \<not> needed_fin s"
begin

text \<open>Once the latest block has the signature, the loop only waits, one round per unit of lag.\<close>

lemma settled_loop:
  "ok s \<Longrightarrow> \<not> needed_best s \<Longrightarrow> (if needed_fin s then lag s < k else 0 < k) \<Longrightarrow>
     \<exists>s'. eth_vote_loop k q_fin q_best vote sleep s = Some (Inr ((), s')) \<and> ok s' \<and>
       \<not> needed_best s' \<and> \<not> needed_fin s'"
proof (induction k arbitrary: s)
  case (Suc k)
  from q_fin_answers [OF Suc.prems(1)] obtain s1 where
    s1: "q_fin s = Inr (needed_fin s, s1)" "ok s1" "lag s1 \<le> lag s"
      "needed_best s1 \<longrightarrow> needed_best s" "needed_fin s1 \<longrightarrow> needed_fin s" by blast
  show ?case
  proof (cases "needed_fin s")
    case False
    with s1 Suc.prems(2) show ?thesis by auto
  next
    case True
    from q_best_answers [OF s1(2)] obtain s2 where
      s2: "q_best s1 = Inr (needed_best s1, s2)" "ok s2" "lag s2 \<le> lag s1"
        "needed_best s2 \<longleftrightarrow> needed_best s1" by blast
    have nb: "\<not> needed_best s2" using s1(4) s2(4) Suc.prems(2) by blast
    have "0 < lag s" using True no_lag [OF Suc.prems(1,2)] by (cases "lag s = 0") auto
    then have "0 < k" using Suc.prems(3) True by simp
    with sleep_settles [OF s2(2) nb] Suc.prems(3) True s1(3) s2(3)
    have "if needed_fin (sleep s2) then lag (sleep s2) < k else 0 < k" by auto
    with Suc.IH [of "sleep s2"] sleep_settles [OF s2(2) nb] obtain s' where
      "eth_vote_loop k q_fin q_best vote sleep (sleep s2) = Some (Inr ((), s'))" "ok s'"
      "\<not> needed_best s'" "\<not> needed_fin s'" by blast
    with True s1(1) s2(1,4) nb show ?thesis by simp
  qed
qed (simp split: if_splits)

lemma loop_returns:
  assumes "ok s"
  shows "\<exists>s'. eth_vote_loop (max_lag + 2) q_fin q_best vote sleep s = Some (Inr ((), s')) \<and> ok s' \<and>
    \<not> needed_fin s'"
proof (cases "needed_best s")
  case False
  have "if needed_fin s then lag s < max_lag + 2 else 0 < max_lag + 2" using lag_bound [OF assms] by simp
  from settled_loop [OF assms False this] show ?thesis by blast
next
  case True
  from q_fin_answers [OF assms] obtain s1 where
    s1: "q_fin s = Inr (needed_fin s, s1)" "ok s1" "needed_fin s1 \<longrightarrow> needed_fin s" by blast
  show ?thesis
  proof (cases "needed_fin s")
    case False
    with s1 show ?thesis by (simp add: numeral_2_eq_2)
  next
    case fin: True
    from q_best_answers [OF s1(2)] obtain s2 where
      s2: "q_best s1 = Inr (needed_best s1, s2)" "ok s2" "needed_best s2 \<longleftrightarrow> needed_best s1" by blast
    obtain s3 where s3: "ok s3" "\<not> needed_best s3"
      "eth_vote_loop (Suc (max_lag + 1)) q_fin q_best vote sleep s =
         eth_vote_loop (max_lag + 1) q_fin q_best vote sleep s3"
    proof (cases "needed_best s2")
      case False
      with s1 s2 fin sleep_settles [OF s2(2) False] that [of "sleep s2"] show thesis by simp
    next
      case True
      from vote_accepted [OF s2(2) True] obtain s3 where
        "vote s2 = Inr ((), s3)" "ok s3" "\<not> needed_best s3" by blast
      with s1 s2 fin True that [of s3] show thesis by simp
    qed
    have "if needed_fin s3 then lag s3 < max_lag + 1 else 0 < max_lag + 1" using lag_bound [OF s3(1)] by simp
    from settled_loop [OF s3(1,2) this] s3(3) show ?thesis by auto
  qed
qed

end

end
