(* ===== verification/Eth_Handler_Properties.thy ===== *)
theory Eth_Handler_Properties
  imports Eth_Handler Most_Properties Most_L2_Properties
begin

text \<open>
  Properties of the handler of Ethereum events, together with the contract it votes on: the
  hash it computes is the one the contracts recompute, a successful run means that the
  signature is on the finalized chain, and against a chain that runs the bridge contract and
  finalizes its blocks the voting loop ends.
\<close>

section \<open>Preparation of a vote\<close>

lemma as_u128_Inr: "as_u128 x s = Inr (y, s') \<longleftrightarrow> unat x < 2 ^ 128 \<and> y = ucast x \<and> s' = s"
  by (auto simp: as_u128_def run_simps)

lemma ucast_u128_unat: "unat x < 2 ^ 128 \<Longrightarrow> unat (ucast (x::u256) :: u128) = unat x"
  by (rule ucast_unat_eq) simp

definition blacklisted :: "Config \<Rightarrow> bytes32 \<Rightarrow> bool" where
  "blacklisted cfg h \<longleftrightarrow> (case cfg_blacklisted_requests cfg of None \<Rightarrow> False | Some bl \<Rightarrow> h \<in> set bl)"

text \<open>How the preparation of a transfer request ends when it ends without an error.\<close>

lemma eth_prepare_Inr:
  assumes run: "eth_prepare k acc nd account cfg (CrosschainTransferRequestFilter c t a r n) s = Inr (res, s')"
  obtains c' a' n' h where
    "unat c' = unat c" "unat a' = unat a" "unat n' = unat n" "h = hash_request_data k c' t a' r n'"
    "if blacklisted cfg h then res = None \<and> s' = s
     else \<exists>m skip. most_instance_new acc (cfg_azero_contract_address cfg) (cfg_azero_contract_metadata cfg)
        (cfg_azero_ref_time_limit cfg) (cfg_azero_proof_size_limit cfg) = Inr m \<and>
      eth_not_in_committee acc nd account m c' s = Inr (skip, s') \<and>
      res = (if skip then None else Some \<lparr>vd_most = m, vd_request_hash = h, vd_committee_id = c',
        vd_dest_token_address = t, vd_amount = a', vd_dest_receiver_address = r, vd_request_nonce = n'\<rparr>)"
proof -
  let ?c = "ucast c :: u128" and ?a = "ucast a :: u128" and ?n = "ucast n :: u128"
  let ?h = "hash_request_data k ?c t ?a r ?n"
  note run' = run [unfolded eth_prepare_def MostEvents.case run_andThen as_u128_Inr Let_def
      eth_request_hash_agrees blacklisted_def [symmetric]]
  from run' have fits: "unat c < 2 ^ 128" "unat a < 2 ^ 128" "unat n < 2 ^ 128" by blast+
  from run' have "(if blacklisted cfg ?h then ret None else
      andThen (map_err EthAzeroContract (try_res (most_instance_new acc
        (cfg_azero_contract_address cfg) (cfg_azero_contract_metadata cfg)
        (cfg_azero_ref_time_limit cfg) (cfg_azero_proof_size_limit cfg)))) (\<lambda>m.
      andThen (eth_not_in_committee acc nd account m ?c) (\<lambda>skip.
      ret (if skip then None else Some \<lparr>vd_most = m, vd_request_hash = ?h, vd_committee_id = ?c,
        vd_dest_token_address = t, vd_amount = ?a, vd_dest_receiver_address = r, vd_request_nonce = ?n\<rparr>)))) s =
      Inr (res, s')" by blast
  then have rest: "if blacklisted cfg ?h then res = None \<and> s' = s
     else \<exists>m skip. most_instance_new acc (cfg_azero_contract_address cfg) (cfg_azero_contract_metadata cfg)
        (cfg_azero_ref_time_limit cfg) (cfg_azero_proof_size_limit cfg) = Inr m \<and>
      eth_not_in_committee acc nd account m ?c s = Inr (skip, s') \<and>
      res = (if skip then None else Some \<lparr>vd_most = m, vd_request_hash = ?h, vd_committee_id = ?c,
        vd_dest_token_address = t, vd_amount = ?a, vd_dest_receiver_address = r, vd_request_nonce = ?n\<rparr>)"
    unfolding run_if run_andThen run_map_err run_try_res run_ret(1) by metis
  show thesis
    by (rule that [of ?c ?a ?n ?h, OF _ _ _ refl rest]) (use fits in \<open>simp_all add: ucast_u128_unat\<close>)
qed

lemma receive_hash_error:
  "receive_request ch env (hash_request_data (chain_keccak256 ch) c t a r n) c t a r n s \<noteq>
     Inl (Err HashDoesNotMatchData)"
  by (auto simp: receive_request_def run_simps pay_out_request_def unwrap_azero_to_def
      send_pocket_money_def ensure_not_halted_def is_halted_def split: if_splits sum.splits)

lemma l2_receive_hash_error:
  "l2_receive_request ch env (hash_request_data (chain_keccak256 ch) c t a r n) c t a r n s \<noteq>
     Inl (Err L2_HashDoesNotMatchData)"
  by (auto simp: l2_receive_request_def run_simps l2_helper_defs l2_ensure_not_halted_def
      l2_is_halted_def l2_only_committee_member_def l2_get_data_def split: if_splits sum.splits)

section \<open>A chain that finalizes its blocks\<close>

text \<open>
  The chain a guardian votes on: the bridge contract at the latest and at the finalized block,
  and how many rounds finality is behind. A vote goes into the latest block, and a round of
  waiting brings finality closer.
\<close>

record 'w ledger =
  best :: "'w most_ctx"
  final :: "'w most_ctx"
  behind :: nat

definition ledger_query :: "('w ledger \<Rightarrow> 'w most_ctx) \<Rightarrow> HashedRequest \<Rightarrow> AccountId \<Rightarrow> CommitteeId \<Rightarrow>
    ('w ledger, EthereumEventHandlerError, bool) contract" where
  "ledger_query block h g c l = Inr (needs_signature h g c (storage (block l)), l)"

definition ledger_vote :: "'w chain \<Rightarrow> nat \<Rightarrow> call_env \<Rightarrow> vote_data \<Rightarrow>
    ('w ledger, EthereumEventHandlerError, unit) contract" where
  "ledger_vote ch lag env v l =
     (case receive_request ch env (vd_request_hash v) (vd_committee_id v) (vd_dest_token_address v)
        (vd_amount v) (vd_dest_receiver_address v) (vd_request_nonce v) (best l) of
        Inl _ \<Rightarrow> Inl (Err (ReceiveRequestTxFailure (vd_request_hash v) (vd_committee_id v)
          (vd_dest_token_address v) (vd_amount v) (vd_dest_receiver_address v) (vd_request_nonce v)))
      | Inr (_, s') \<Rightarrow> Inr ((), l\<lparr>best := s', behind := lag\<rparr>))"

definition ledger_sleep :: "'w ledger \<Rightarrow> 'w ledger" where
  "ledger_sleep l = (if behind l \<le> 1 then l\<lparr>final := best l, behind := 0\<rparr> else l\<lparr>behind := behind l - 1\<rparr>)"

definition vote_accepted_by :: "'w chain \<Rightarrow> call_env \<Rightarrow> vote_data \<Rightarrow> 'w most_ctx \<Rightarrow> bool" where
  "vote_accepted_by ch env v s \<longleftrightarrow>
     (case receive_request ch env (vd_request_hash v) (vd_committee_id v) (vd_dest_token_address v)
        (vd_amount v) (vd_dest_receiver_address v) (vd_request_nonce v) s of Inl _ \<Rightarrow> False | Inr _ \<Rightarrow> True)"

definition ledger_needed :: "call_env \<Rightarrow> vote_data \<Rightarrow> ('w ledger \<Rightarrow> 'w most_ctx) \<Rightarrow> 'w ledger \<Rightarrow> bool" where
  "ledger_needed env v block l \<longleftrightarrow>
     needs_signature (vd_request_hash v) (caller env) (vd_committee_id v) (storage (block l))"

definition ledger_ok :: "'w chain \<Rightarrow> nat \<Rightarrow> call_env \<Rightarrow> vote_data \<Rightarrow> 'w ledger \<Rightarrow> bool" where
  "ledger_ok ch lag env v l \<longleftrightarrow> behind l \<le> lag \<and> (behind l = 0 \<longrightarrow> final l = best l) \<and>
     (ledger_needed env v best l \<longrightarrow> vote_accepted_by ch env v (best l))"

lemmas ledger_defs = ledger_query_def ledger_vote_def ledger_sleep_def vote_accepted_by_def
  ledger_needed_def ledger_ok_def

lemma ledger_vote_settles:
  assumes "ledger_ok ch lag env v l" "ledger_needed env v best l" "0 < lag"
  shows "\<exists>l'. ledger_vote ch lag env v l = Inr ((), l') \<and> ledger_ok ch lag env v l' \<and>
    \<not> ledger_needed env v best l'"
proof -
  from assms obtain u s' where run: "receive_request ch env (vd_request_hash v) (vd_committee_id v)
      (vd_dest_token_address v) (vd_amount v) (vd_dest_receiver_address v) (vd_request_nonce v) (best l) =
      Inr (u, s')"
    by (auto simp: ledger_ok_def vote_accepted_by_def split: sum.splits)
  with receive_settled [OF run, of "vd_committee_id v"] assms(3) show ?thesis
    by (simp add: ledger_defs)
qed

interpretation guardian_loop: vote_target
  "ledger_query final (vd_request_hash v) (caller env) (vd_committee_id v)"
  "ledger_query best (vd_request_hash v) (caller env) (vd_committee_id v)"
  "ledger_vote ch (Suc lag) env v" ledger_sleep "ledger_ok ch (Suc lag) env v"
  "ledger_needed env v final" "ledger_needed env v best" behind "Suc lag"
  for ch lag env v
proof (unfold_locales, goal_cases)
  case (3 l)
  then show ?case using ledger_vote_settles [of ch "Suc lag" env v l] by simp
qed (auto simp: ledger_defs split: if_splits)

section \<open>A handled request\<close>

text \<open>
  The handler of a request event is done with it: the event's numbers fit 128 bits, and the
  request is blacklisted in the configuration, or the contract said that the guardian is not in
  the request's committee, which is not a committee of the future, or in the very last step the
  contract answered at the finalized block that the request needs no signature of the guardian.
\<close>

definition request_settled where
  "request_settled k acc nd account cfg c t a r n s s' \<longleftrightarrow> (\<exists>c' a' n'.
     unat (c' :: u128) = unat (c :: u256) \<and> unat (a' :: u128) = unat (a :: u256) \<and> unat (n' :: u128) = unat (n :: u256) \<and>
    (let h = hash_request_data k c' t a' r n' in
     blacklisted cfg h \<or>
     (\<exists>m. most_instance_new acc (cfg_azero_contract_address cfg) (cfg_azero_contract_metadata cfg)
        (cfg_azero_ref_time_limit cfg) (cfg_azero_proof_size_limit cfg) = Inr m \<and>
      ((\<exists>s1 current. instance_is_in_committee acc nd m c' account s = Inr (False, s1) \<and>
          instance_current_committee_id nd m s1 = Inr (current, s') \<and> c' \<le> current) \<or>
       (\<exists>s0. instance_needs_signature acc nd m h account c' True s0 = Inr (False, s'))))))"

lemma handled_request_settled:
  assumes "eth_handle_event fuel k acc nd sleep account cfg (CrosschainTransferRequestFilter c t a r n) s =
    Some (Inr (u, s'))"
  shows "request_settled k acc nd account cfg c t a r n s s'"
proof -
  from assms obtain res s1 where
    prep: "eth_prepare k acc nd account cfg (CrosschainTransferRequestFilter c t a r n) s = Inr (res, s1)"
    and res: "case res of None \<Rightarrow> s' = s1 | Some v \<Rightarrow>
      \<exists>s0. eth_query acc nd account v True s0 = Inr (False, s')"
    by (auto simp: eth_handle_event_def split: sum.splits prod.splits option.splits dest: eth_vote_loop_done)
  from prep show ?thesis
  proof (cases rule: eth_prepare_Inr)
    case (1 c' a' n' h)
    show ?thesis
      unfolding request_settled_def
    proof (rule exI [of _ c'], rule exI [of _ a'], rule exI [of _ n'], cases "blacklisted cfg h")
      case False
      with 1(5) obtain m skip where
        m: "most_instance_new acc (cfg_azero_contract_address cfg) (cfg_azero_contract_metadata cfg)
          (cfg_azero_ref_time_limit cfg) (cfg_azero_proof_size_limit cfg) = Inr m"
        and skip: "eth_not_in_committee acc nd account m c' s = Inr (skip, s1)"
        and "res = (if skip then None else Some \<lparr>vd_most = m, vd_request_hash = h, vd_committee_id = c',
          vd_dest_token_address = t, vd_amount = a', vd_dest_receiver_address = r, vd_request_nonce = n'\<rparr>)"
        by auto
      with res have "if skip then s' = s1
          else \<exists>s0. instance_needs_signature acc nd m h account c' True s0 = Inr (False, s')"
        by (auto simp: eth_query_def run_map_err split: if_splits)
      moreover have "skip \<Longrightarrow> \<exists>s2 current. instance_is_in_committee acc nd m c' account s = Inr (False, s2) \<and>
          instance_current_committee_id nd m s2 = Inr (current, s1) \<and> c' \<le> current"
        using skip unfolding eth_not_in_committee_def
        by (auto simp: run_simps split: if_splits)
      ultimately show "unat c' = unat c \<and> unat a' = unat a \<and> unat n' = unat n \<and>
          (let h = hash_request_data k c' t a' r n' in blacklisted cfg h \<or>
           (\<exists>m. most_instance_new acc (cfg_azero_contract_address cfg) (cfg_azero_contract_metadata cfg)
              (cfg_azero_ref_time_limit cfg) (cfg_azero_proof_size_limit cfg) = Inr m \<and>
            ((\<exists>s1 current. instance_is_in_committee acc nd m c' account s = Inr (False, s1) \<and>
              instance_current_committee_id nd m s1 = Inr (current, s') \<and> c' \<le> current) \<or>
             (\<exists>s0. instance_needs_signature acc nd m h account c' True s0 = Inr (False, s')))))"
        using 1(1-4) m by (cases skip) (auto simp: Let_def)
    qed (use 1(1-4) in \<open>simp add: Let_def\<close>)
  qed
qed

section \<open>A node for the witnesses\<close>

text \<open>
  A node that knows one vote: the network is whether the vote is in the latest block, and in how
  many rounds that block is final. The transcoder tells the messages apart by one byte.
\<close>

definition relay_transcoder :: transcoder where
  "relay_transcoder =
     \<lparr>tr_encode = (\<lambda>m _. Inr [if m = ''needs_signature'' then 2 else if m = ''receive_request'' then 3 else 1]),
      tr_decode_return = (\<lambda>_ d. Inr (VTuple (Some ''Ok'') [VBool (d = [1])])),
      tr_decode_event = (\<lambda>_. Inl '''')\<rparr>"

definition relay_node :: "(bool \<times> nat) azero_node" where
  "relay_node =
     \<lparr>node_finalized_head = (\<lambda>w. (Inr 7, w)), node_block_number = (\<lambda>_ w. (Inr (Some 3), w)),
      node_block_hash = (\<lambda>_ w. (Inr (Some 7), w)), node_events_at = (\<lambda>_ w. (Inr [], w)),
      node_contracts_call = (\<lambda>args at w. (Inr \<lparr>er_result = Inr (False,
          [if last args = Dyn_bytes [2] \<and> fst w \<and> (at = None \<or> snd w = 0) then 0 else 1]),
        er_gas_required = \<lparr>ref_time = 1, proof_size = 1\<rparr>\<rparr>, w)),
      node_signer_payload = (\<lambda>_ n. [ucast n]),
      node_sign = (\<lambda>p w. (Inr p, w)),
      node_submit = (\<lambda>a n c sig w. (Inr 1, (True, 2)))\<rparr>"

definition relay_accounts :: accounts where
  "relay_accounts = \<lparr>account_from_str = (\<lambda>_. Some 100), account_to_string = (\<lambda>a. u128_to_string (ucast a)),
     load_metadata = (\<lambda>_. Inr relay_transcoder)\<rparr>"

definition relay_config :: Config where
  relay_config_base: "relay_config = base_config\<lparr>cfg_blacklisted_requests := Some [5]\<rparr>"

lemmas relay_config_def = relay_config_base [unfolded base_config_def, simplified]

definition relay_event :: MostEvents where
  "relay_event = CrosschainTransferRequestFilter 0 5 10 6 0"

definition relay_vote :: vote_data where
  "relay_vote =
     \<lparr>vd_most = \<lparr>mi_contract = \<lparr>ci_address = 100, ci_transcoder = relay_transcoder\<rparr>,
        mi_ref_time_limit = 5, mi_proof_size_limit = 5\<rparr>,
      vd_request_hash = 77, vd_committee_id = 0, vd_dest_token_address = 5, vd_amount = 10,
      vd_dest_receiver_address = 6, vd_request_nonce = 0\<rparr>"

lemma relay_read:
  "contract_read relay_node \<lparr>ci_address = 100, ci_transcoder = relay_transcoder\<rparr> try_bool m args p s =
     Inr (\<not> (m = ''needs_signature'' \<and> fst (net_world s) \<and> (rp_at p = None \<or> snd (net_world s) = 0)), s)"
  by (auto simp: contract_read_def dry_run_any_def instance_encode_def instance_decode_def
      contract_call_and_get_def get_args_for_runtime_call_def ask_def eval_simps relay_node_def
      relay_transcoder_def try_result_def try_bool_def split: option.splits)

lemma relay_prepare:
  "eth_prepare demo_keccak relay_accounts relay_node 1 relay_config relay_event s = Inr (Some relay_vote, s)"
proof -
  have "hash_request_data demo_keccak 0 5 10 6 0 = 77" by (simp add: hash_request_data_def demo_keccak_def)
  then show ?thesis
    by (simp add: eth_prepare_def relay_event_def as_u128_def eth_request_hash_agrees relay_config_def
        most_instance_new_def contract_instance_new_def relay_accounts_def eth_not_in_committee_def
        instance_is_in_committee_def relay_read eval_simps relay_vote_def)
qed

lemma relay_queries:
  "eth_query relay_accounts relay_node 1 relay_vote fin s =
     Inr (\<not> (fst (net_world s) \<and> (\<not> fin \<or> snd (net_world s) = 0)), s)"
proof -
  have head: "get_finalized_block_hash relay_node s = Inr (7, s)"
    by (simp add: get_finalized_block_hash_def ask_def relay_node_def)
  show ?thesis
    by (auto simp: eth_query_def instance_needs_signature_def relay_vote_def relay_read eval_simps
        head default_params_def)
qed

lemma relay_vote_sent:
  "eth_vote relay_node 1 relay_vote s =
     Inr ((), \<lparr>net_world = (True, 2), net_nonce = net_nonce s + 1\<rparr>)"
  by (simp add: eth_vote_def instance_receive_request_def contract_exec_def exec_dry_run_def
      dry_run_any_def instance_encode_def contract_call_and_get_def client_defs ask_def eval_simps
      relay_node_def relay_vote_def relay_transcoder_def)

lemma relay_handled:
  "eth_handle_event 4 demo_keccak relay_accounts relay_node (\<lambda>(b, n). (b, n - 1)) 1 relay_config relay_event
     \<lparr>net_world = (False, 0), net_nonce = 4\<rparr> = Some (Inr ((), \<lparr>net_world = (True, 0), net_nonce = 5\<rparr>))"
  by (simp add: eth_handle_event_def relay_prepare relay_queries relay_vote_sent eval_nat_numeral)

section \<open>Properties\<close>

text \<open>
  C34 (both sides of a vote compute the same hash). When the handler of an Ethereum event decides
  to vote, the numbers of the event fit 128 bits and are handed over unchanged, and the request
  hash it sends is the one the contracts recompute from them: neither the Aleph Zero bridge
  nor its L2 variant ever answers such a vote with \<open>HashDoesNotMatchData\<close>.
\<close>

theorem vote_hash_matches:
  assumes "eth_prepare (chain_keccak256 ch) acc nd account cfg (CrosschainTransferRequestFilter c t a r n) s =
    Inr (Some v, s')"
  shows "unat (vd_committee_id v) = unat c \<and> vd_dest_token_address v = t \<and> unat (vd_amount v) = unat a \<and>
    vd_dest_receiver_address v = r \<and> unat (vd_request_nonce v) = unat n \<and>
    receive_request ch env (vd_request_hash v) (vd_committee_id v) t (vd_amount v) r (vd_request_nonce v) m \<noteq>
      Inl (Err HashDoesNotMatchData) \<and>
    l2_receive_request ch env (vd_request_hash v) (vd_committee_id v) t (vd_amount v) r (vd_request_nonce v) m2 \<noteq>
      Inl (Err L2_HashDoesNotMatchData)"
  using assms
proof (cases rule: eth_prepare_Inr)
  case (1 c' a' n' h)
  then have "v = \<lparr>vd_most = vd_most v, vd_request_hash = hash_request_data (chain_keccak256 ch) c' t a' r n',
      vd_committee_id = c', vd_dest_token_address = t, vd_amount = a', vd_dest_receiver_address = r,
      vd_request_nonce = n'\<rparr>"
    by (auto split: if_splits)
  with 1(1-3) show ?thesis
    by (metis receive_hash_error l2_receive_hash_error vote_data.select_convs)
qed

theorem vote_hash_matches_witness:
  "eth_prepare demo_keccak relay_accounts relay_node 1 relay_config relay_event
     \<lparr>net_world = (False, 0), net_nonce = 4\<rparr> = Inr (Some relay_vote, \<lparr>net_world = (False, 0), net_nonce = 4\<rparr>) \<and>
   receive_request demo_chain (demo_env 1 0) 77 0 5 10 6 0 demo_open \<noteq> Inl (Err HashDoesNotMatchData)"
proof -
  have k: "chain_keccak256 demo_chain = demo_keccak" by (simp add: demo_chain_def)
  note run = relay_prepare [of "\<lparr>net_world = (False, 0), net_nonce = 4\<rparr>", folded k, unfolded relay_event_def]
  from vote_hash_matches [OF run, of "demo_env 1 0" demo_open] relay_prepare show ?thesis
    by (simp add: relay_vote_def)
qed



end
