(* ===== verification/Eth_Most.thy ===== *)
theory Eth_Most
  imports Ink_Env
begin

text \<open>
  The bridge contract on Ethereum: \<open>eth/contracts/AbstractMost.sol\<close> and its subclass
  \<open>Most.sol\<close>. A subclass extends the storage record of \<open>AbstractMost\<close>, and the functions
  declared \<open>virtual\<close> that the abstract contract calls (\<open>checkTransferAllowed\<close>,
  \<open>onReceiveRequestThresholdMet\<close>) are arguments of the functions that call them. A revert, with
  one of the contract's errors or because of a failed call, is \<open>Err\<close>; a panic (the checked
  arithmetic of Solidity 0.8) is \<open>Trap\<close>; both undo the call.

  The record \<open>evm\<close> is what the contract calls and what is not in the repository: the base
  contracts of OpenZeppelin (their storage, the owner and the pause flag among it, is part of the world
  \<open>'w\<close>), tokens, WETH, ether transfers, the transfer limit and the hash function. These
  functions act on the world only: a callee that calls the bridge back within its call is not
  modelled. The two calls to arbitrary receivers carry \<open>GAS_LIMIT\<close>, chosen in the source so
  that they cannot; the token contracts are those the owner has registered.
\<close>

section \<open>Addresses and hashes\<close>

type_synonym H160 = "160 word"

text \<open>The packed encoding of an address is its 20 bytes, most significant first.\<close>

definition address_bytes :: "H160 \<Rightarrow> u8 list" where
  "address_bytes a = rev (le_bytes 20 a)"

lemma length_address_bytes [simp]: "length (address_bytes a) = 20"
  by (simp add: address_bytes_def)

lemma address_bytes_inject [simp]: "address_bytes a = address_bytes b \<longleftrightarrow> a = b"
  by (auto simp: address_bytes_def intro: le_bytes_inject [of 20])

definition bytes32ToAddress :: "bytes32 \<Rightarrow> H160" where
  "bytes32ToAddress data = ucast data"

definition addressToBytes32 :: "H160 \<Rightarrow> bytes32" where
  "addressToBytes32 addr = ucast addr"

lemma bytes32ToAddress_addressToBytes32 [simp]: "bytes32ToAddress (addressToBytes32 a) = a"
  by (rule bit_word_eqI) (simp add: bytes32ToAddress_def addressToBytes32_def bit_ucast_iff)

text \<open>
  The hash that \<open>receiveRequest\<close> recomputes: the packed encoding of 256-bit integers and 32-byte
  arrays is their 32 bytes, most significant first.
\<close>

definition sol_request_hash ::
  "(u8 list \<Rightarrow> bytes32) \<Rightarrow> u256 \<Rightarrow> bytes32 \<Rightarrow> u256 \<Rightarrow> bytes32 \<Rightarrow> u256 \<Rightarrow> bytes32" where
  "sol_request_hash keccak256 committeeId destTokenAddress amount destReceiverAddress requestNonce =
     keccak256 (array_bytes committeeId @ array_bytes destTokenAddress @ array_bytes amount @
       array_bytes destReceiverAddress @ array_bytes requestNonce)"

definition committeeMemberId :: "(u8 list \<Rightarrow> bytes32) \<Rightarrow> u256 \<Rightarrow> H160 \<Rightarrow> bytes32" where
  "committeeMemberId keccak256 committee_id account = keccak256 (array_bytes committee_id @ address_bytes account)"

section \<open>Storage, events, errors\<close>

record SolRequest =
  signatureCount :: u256
  signatures :: "H160 \<Rightarrow> bool"

record AbstractMost =
  am_requestNonce :: u256
  am_committeeId :: u256
  am_wethAddress :: H160
  am_supportedPairs :: "bytes32 \<Rightarrow> bytes32"
  am_pendingRequests :: "bytes32 \<Rightarrow> SolRequest"
  am_processedRequests :: "bytes32 \<Rightarrow> bool"
  am_committee :: "bytes32 \<Rightarrow> bool"
  am_committeeSize :: "u256 \<Rightarrow> u256"
  am_signatureThreshold :: "u256 \<Rightarrow> u256"
  am_isLocalToken :: "H160 \<Rightarrow> bool"
  am_wrappedAzeroAddress :: H160

datatype sol_event =
    Sol_CrosschainTransferRequest u256 bytes32 u256 bytes32 u256
  | Sol_RequestSigned bytes32 H160
  | Sol_RequestProcessed bytes32
  | Sol_ProcessedRequestSigned bytes32 H160
  | Sol_RequestAlreadySigned bytes32 H160
  | Sol_EthTransferFailed bytes32
  | Sol_TokenTransferFailed bytes32
  | Sol_CommitteeUpdated u256
  | Sol_NativeTransferFailed bytes32
  | Sol_NativeTransferSwap bytes32 u256
  | Sol_SwapFailed bytes32 u256

text \<open>
  The errors of the contracts; below the line, reverts that are not theirs: of the modifiers of
  OpenZeppelin, of a call that failed, of a \<open>require\<close> or \<open>revert\<close> with or without text, and of
  value sent to a function that is not payable.
\<close>

datatype sol_error =
    Sol_NotInCommittee | Sol_ZeroSignatureTreshold | Sol_DuplicateCommitteeMember
  | Sol_NotEnoughGuardians | Sol_UnsupportedPair | Sol_DataHashMismatch | Sol_ZeroAmount
  | Sol_WrappingEth | Sol_UnwrappingEth | Sol_EthTransfer | Sol_ZeroAddress
  | Sol_AzeroAddressNotSet | Sol_LimitExceeded
  | OwnableUnauthorizedAccount H160 | EnforcedPause | ExpectedPause | InvalidInitialization
  | CallReverted | SolRequire string | NotPayable

record sol_msg =
  msg_sender :: H160
  msg_value :: u256
  this_address :: H160

type_synonym ('a, 'w) sol_ctx = "('a AbstractMost_scheme, sol_event, 'w) ctx"
type_synonym ('a, 'w, 'r) sol = "(('a, 'w) sol_ctx, sol_error, 'r) contract"

section \<open>The environment\<close>

text \<open>
  An external view call in a \<open>try\<close> statement: it returned, it reverted (the \<open>catch\<close> clause
  runs), or what it returned cannot be decoded, as when there is no code at the address; then
  the caller itself reverts.
\<close>

datatype sol_try_result = Returned bool | Reverted | Undecodable

text \<open>
  The address after a token's address is the caller, the bridge. \<open>None\<close> is a failed call, which
  leaves no trace in the world.
\<close>

record 'w evm =
  evm_keccak256 :: "u8 list \<Rightarrow> bytes32"
  oz_owner :: "'w \<Rightarrow> H160"
  oz_paused :: "'w \<Rightarrow> bool"
  oz_pause :: "H160 \<Rightarrow> 'w \<Rightarrow> 'w option"
  oz_unpause :: "H160 \<Rightarrow> 'w \<Rightarrow> 'w option"
  oz_initializer :: "'w \<Rightarrow> 'w option"
  oz_ownable_init :: "H160 \<Rightarrow> 'w \<Rightarrow> 'w option"
  oz_pausable_init :: "'w \<Rightarrow> 'w option"
  erc20_safeTransferFrom :: "H160 \<Rightarrow> H160 \<Rightarrow> H160 \<Rightarrow> H160 \<Rightarrow> u256 \<Rightarrow> 'w \<Rightarrow> 'w option"
  erc20_safeTransfer :: "H160 \<Rightarrow> H160 \<Rightarrow> H160 \<Rightarrow> u256 \<Rightarrow> 'w \<Rightarrow> 'w option"
  erc20_transfer_call :: "H160 \<Rightarrow> H160 \<Rightarrow> H160 \<Rightarrow> u256 \<Rightarrow> 'w \<Rightarrow> (u8 list \<times> 'w) option"
  code_length :: "H160 \<Rightarrow> 'w \<Rightarrow> nat"
  wrapped_burn :: "H160 \<Rightarrow> H160 \<Rightarrow> u256 \<Rightarrow> 'w \<Rightarrow> 'w option"
  wrapped_mint :: "H160 \<Rightarrow> H160 \<Rightarrow> H160 \<Rightarrow> u256 \<Rightarrow> 'w \<Rightarrow> 'w option"
  wrapped_approve :: "H160 \<Rightarrow> H160 \<Rightarrow> H160 \<Rightarrow> u256 \<Rightarrow> 'w \<Rightarrow> 'w option"
  weth_deposit :: "H160 \<Rightarrow> H160 \<Rightarrow> u256 \<Rightarrow> 'w \<Rightarrow> 'w option"
  weth_withdraw :: "H160 \<Rightarrow> H160 \<Rightarrow> u256 \<Rightarrow> 'w \<Rightarrow> 'w option"
  send_ether :: "H160 \<Rightarrow> H160 \<Rightarrow> u256 \<Rightarrow> nat option \<Rightarrow> 'w \<Rightarrow> 'w option"
  isRequestAllowed_try :: "H160 \<Rightarrow> H160 \<Rightarrow> u256 \<Rightarrow> 'w \<Rightarrow> sol_try_result"
  exchange_to_native :: "H160 \<Rightarrow> H160 \<Rightarrow> u256 \<Rightarrow> u256 \<Rightarrow> 'w \<Rightarrow> (u256 \<times> 'w) option"
  exchange_from_native :: "H160 \<Rightarrow> H160 \<Rightarrow> u256 \<Rightarrow> u256 \<Rightarrow> 'w \<Rightarrow> (u256 \<times> 'w) option"

text \<open>A call whose failure reverts, a low-level call that reports it, and a checked increment.\<close>

definition ext_call :: "sol_error \<Rightarrow> ('w \<Rightarrow> 'w option) \<Rightarrow> ('a, 'w, unit) sol" where
  "ext_call e f = call_world (\<lambda>w. case f w of None \<Rightarrow> Inl (Err e) | Some w' \<Rightarrow> Inr w')"

definition low_level_call :: "('w \<Rightarrow> 'w option) \<Rightarrow> ('a, 'w, bool) sol" where
  "low_level_call f s = (case f (world s) of None \<Rightarrow> Inr (False, s) | Some w \<Rightarrow> Inr (True, s\<lparr>world := w\<rparr>))"

definition checked_inc :: "u256 \<Rightarrow> ('a, 'w, u256) sol" where
  "checked_inc x = (case checked_add x 1 of None \<Rightarrow> trap | Some y \<Rightarrow> ret y)"

lemma run_ext_call [run_simps]:
  "ext_call e f s = Inr (u, s') \<longleftrightarrow> (\<exists>w. f (world s) = Some w \<and> s' = s\<lparr>world := w\<rparr>)"
  "ext_call e f s = Inl g \<longleftrightarrow> f (world s) = None \<and> g = Err e"
  by (auto simp: ext_call_def run_simps split: option.splits)

lemma run_low_level_call [run_simps]:
  "low_level_call f s = Inr (b, s') \<longleftrightarrow>
     (case f (world s) of None \<Rightarrow> \<not> b \<and> s' = s | Some w \<Rightarrow> b \<and> s' = s\<lparr>world := w\<rparr>)"
  "low_level_call f s \<noteq> Inl e"
  by (auto simp: low_level_call_def split: option.splits)

lemma run_checked_inc [run_simps]:
  "checked_inc x s = Inr (y, s') \<longleftrightarrow> checked_add x 1 = Some y \<and> s' = s"
  "checked_inc x s = Inl e \<longleftrightarrow> checked_add x 1 = None \<and> e = Trap"
  by (auto simp: checked_inc_def run_simps split: option.splits)

definition onlyOwner :: "'w evm \<Rightarrow> sol_msg \<Rightarrow> ('a, 'w, unit) sol" where
  "onlyOwner ev msg = andThen (gets world) (\<lambda>w.
     ensure (msg_sender msg = oz_owner ev w) (OwnableUnauthorizedAccount (msg_sender msg)))"

definition whenNotPaused :: "'w evm \<Rightarrow> ('a, 'w, unit) sol" where
  "whenNotPaused ev = andThen (gets world) (\<lambda>w. ensure (\<not> oz_paused ev w) EnforcedPause)"

definition whenPaused :: "'w evm \<Rightarrow> ('a, 'w, unit) sol" where
  "whenPaused ev = andThen (gets world) (\<lambda>w. ensure (oz_paused ev w) ExpectedPause)"

lemma run_modifiers [run_simps]:
  "onlyOwner ev msg s = Inr (u, s') \<longleftrightarrow> msg_sender msg = oz_owner ev (world s) \<and> s' = s"
  "onlyOwner ev msg s = Inl e \<longleftrightarrow> msg_sender msg \<noteq> oz_owner ev (world s) \<and>
     e = Err (OwnableUnauthorizedAccount (msg_sender msg))"
  "whenNotPaused ev s = Inr (u, s') \<longleftrightarrow> \<not> oz_paused ev (world s) \<and> s' = s"
  "whenNotPaused ev s = Inl e \<longleftrightarrow> oz_paused ev (world s) \<and> e = Err EnforcedPause"
  "whenPaused ev s = Inr (u, s') \<longleftrightarrow> oz_paused ev (world s) \<and> s' = s"
  "whenPaused ev s = Inl e \<longleftrightarrow> \<not> oz_paused ev (world s) \<and> e = Err ExpectedPause"
  by (auto simp: onlyOwner_def whenNotPaused_def whenPaused_def run_simps)

lemmas sol_eval_simps = env_eval_simps ext_call_def low_level_call_def checked_inc_def onlyOwner_def
  whenNotPaused_def whenPaused_def

section \<open>Views\<close>

definition isInCommittee :: "'w evm \<Rightarrow> u256 \<Rightarrow> H160 \<Rightarrow> 'a AbstractMost_scheme \<Rightarrow> bool" where
  "isInCommittee ev committee_id account m = am_committee m (committeeMemberId (evm_keccak256 ev) committee_id account)"

definition hasSignedRequest :: "H160 \<Rightarrow> bytes32 \<Rightarrow> 'a AbstractMost_scheme \<Rightarrow> bool" where
  "hasSignedRequest guardian hash m = signatures (am_pendingRequests m hash) guardian"

definition needsSignature :: "'w evm \<Rightarrow> bytes32 \<Rightarrow> H160 \<Rightarrow> u256 \<Rightarrow> 'a AbstractMost_scheme \<Rightarrow> bool" where
  "needsSignature ev requestHash account committee_id m =
     (if \<not> isInCommittee ev committee_id account m then False
      else if am_processedRequests m requestHash then False
      else if hasSignedRequest account requestHash m then False
      else True)"

section \<open>Committees\<close>

text \<open>The loop over the new members, which reads the committee id from the storage.\<close>

fun addMembers :: "'w evm \<Rightarrow> H160 list \<Rightarrow> ('a, 'w, unit) sol" where
  "addMembers ev [] = ret ()"
| "addMembers ev (member # rest) =
     (if member = 0 then throw Sol_ZeroAddress
      else
        andThen (gets (\<lambda>s. committeeMemberId (evm_keccak256 ev) (am_committeeId (storage s)) member)) (\<lambda>member_id.
        andThen (gets (\<lambda>s. am_committee (storage s) member_id)) (\<lambda>known.
        if known then throw Sol_DuplicateCommitteeMember
        else
          andThen (put_storage (\<lambda>m. m\<lparr>am_committee := (am_committee m)(member_id := True)\<rparr>)) (\<lambda>_.
          addMembers ev rest))))"

definition setCommittee_internal :: "'w evm \<Rightarrow> H160 list \<Rightarrow> u256 \<Rightarrow> ('a, 'w, unit) sol" where
  "setCommittee_internal ev committee threshold =
     (if threshold = 0 then throw Sol_ZeroSignatureTreshold
      else if of_nat (length committee) < threshold then throw Sol_NotEnoughGuardians
      else
        andThen (addMembers ev committee) (\<lambda>_.
        put_storage (\<lambda>m. m\<lparr>
          am_committeeSize := (am_committeeSize m)(am_committeeId m := of_nat (length committee)),
          am_signatureThreshold := (am_signatureThreshold m)(am_committeeId m := threshold)\<rparr>)))"

definition AbstractMost_init :: "'w evm \<Rightarrow> H160 list \<Rightarrow> u256 \<Rightarrow> H160 \<Rightarrow> ('a, 'w, unit) sol" where
  "AbstractMost_init ev committee threshold weth =
     andThen (put_storage (\<lambda>m. m\<lparr>am_requestNonce := 0, am_committeeId := 0, am_wethAddress := weth\<rparr>)) (\<lambda>_.
     setCommittee_internal ev committee threshold)"

section \<open>Sending requests\<close>

text \<open>The end of the three functions that send: the event with the current nonce, and the next nonce.\<close>

definition emitRequest :: "bytes32 \<Rightarrow> u256 \<Rightarrow> bytes32 \<Rightarrow> ('a, 'w, unit) sol" where
  "emitRequest destTokenAddress amount destReceiverAddress =
     andThen (gets storage) (\<lambda>m.
     andThen (emit_event (Sol_CrosschainTransferRequest (am_committeeId m) destTokenAddress amount
       destReceiverAddress (am_requestNonce m))) (\<lambda>_.
     andThen (checked_inc (am_requestNonce m)) (\<lambda>nonce.
     put_storage (am_requestNonce_update (\<lambda>_. nonce)))))"

definition sendRequest ::
  "'w evm \<Rightarrow> (H160 \<Rightarrow> u256 \<Rightarrow> ('a, 'w, unit) sol) \<Rightarrow> sol_msg \<Rightarrow> bytes32 \<Rightarrow> u256 \<Rightarrow> bytes32 \<Rightarrow> ('a, 'w, unit) sol" where
  "sendRequest ev checkTransferAllowed msg srcTokenAddress amount destReceiverAddress =
     andThen (whenNotPaused ev) (\<lambda>_.
     if amount = 0 then throw Sol_ZeroAmount
     else if destReceiverAddress = 0 then throw Sol_ZeroAddress
     else
       andThen (gets (\<lambda>s. am_supportedPairs (storage s) srcTokenAddress)) (\<lambda>destTokenAddress.
       if destTokenAddress = 0 then throw Sol_UnsupportedPair
       else
         let token = bytes32ToAddress srcTokenAddress in
         andThen (checkTransferAllowed token amount) (\<lambda>_.
         andThen (ext_call CallReverted
           (erc20_safeTransferFrom ev token (this_address msg) (msg_sender msg) (this_address msg) amount)) (\<lambda>_.
         andThen (gets (\<lambda>s. am_isLocalToken (storage s) token)) (\<lambda>local.
         andThen (if \<not> local then ext_call CallReverted (wrapped_burn ev token (this_address msg) amount) else ret ()) (\<lambda>_.
         emitRequest destTokenAddress amount destReceiverAddress))))))"

definition sendRequestNative ::
  "'w evm \<Rightarrow> (H160 \<Rightarrow> u256 \<Rightarrow> ('a, 'w, unit) sol) \<Rightarrow> sol_msg \<Rightarrow> bytes32 \<Rightarrow> ('a, 'w, unit) sol" where
  "sendRequestNative ev checkTransferAllowed msg destReceiverAddress =
     andThen (whenNotPaused ev) (\<lambda>_.
     let amount = msg_value msg in
     if amount = 0 then throw Sol_ZeroAmount
     else if destReceiverAddress = 0 then throw Sol_ZeroAddress
     else
       andThen (gets (\<lambda>s. am_wethAddress (storage s))) (\<lambda>weth.
       andThen (gets (\<lambda>s. am_supportedPairs (storage s) (addressToBytes32 weth))) (\<lambda>destTokenAddress.
       if destTokenAddress = 0 then throw Sol_UnsupportedPair
       else
         andThen (checkTransferAllowed weth amount) (\<lambda>_.
         andThen (low_level_call (weth_deposit ev weth (this_address msg) amount)) (\<lambda>success.
         if \<not> success then throw Sol_WrappingEth
         else emitRequest destTokenAddress amount destReceiverAddress)))))"

definition sendRequestAzeroToNative ::
  "'w evm \<Rightarrow> (H160 \<Rightarrow> u256 \<Rightarrow> ('a, 'w, unit) sol) \<Rightarrow> sol_msg \<Rightarrow> u256 \<Rightarrow> bytes32 \<Rightarrow> ('a, 'w, unit) sol" where
  "sendRequestAzeroToNative ev checkTransferAllowed msg amount destReceiverAddress =
     andThen (whenNotPaused ev) (\<lambda>_.
     if amount = 0 then throw Sol_ZeroAmount
     else if destReceiverAddress = 0 then throw Sol_ZeroAddress
     else
       andThen (gets (\<lambda>s. am_wrappedAzeroAddress (storage s))) (\<lambda>wazero.
       if wazero = 0 then throw Sol_AzeroAddressNotSet
       else
         andThen (checkTransferAllowed wazero amount) (\<lambda>_.
         andThen (ext_call CallReverted
           (erc20_safeTransferFrom ev wazero (this_address msg) (msg_sender msg) (this_address msg) amount)) (\<lambda>_.
         andThen (ext_call CallReverted (wrapped_burn ev wazero (this_address msg) amount)) (\<lambda>_.
         emitRequest 0 amount destReceiverAddress)))))"

section \<open>Receiving requests\<close>

definition GAS_LIMIT :: nat where
  "GAS_LIMIT = 3500"

text \<open>\<open>abi.decode(returndata, (bool))\<close> reverts on fewer than 32 bytes and on a word other than 0 and 1.\<close>

definition abi_decode_bool :: "u8 list \<Rightarrow> bool option" where
  "abi_decode_bool bs =
     (if length bs < 32 then None
      else if take 31 bs = replicate 31 0 \<and> (bs ! 31 = 0 \<or> bs ! 31 = 1) then Some (bs ! 31 = 1)
      else None)"

definition tokenTransferReturnSuccess ::
  "'w evm \<Rightarrow> sol_msg \<Rightarrow> H160 \<Rightarrow> H160 \<Rightarrow> u256 \<Rightarrow> ('a, 'w, bool) sol" where
  "tokenTransferReturnSuccess ev msg token receiver amount s =
     (case erc20_transfer_call ev token (this_address msg) receiver amount (world s) of
        None \<Rightarrow> Inr (False, s)
      | Some (returndata, w) \<Rightarrow>
          (case if returndata = [] then Some True else abi_decode_bool returndata of
             None \<Rightarrow> Inl (Err CallReverted)
           | Some ok \<Rightarrow> Inr (ok \<and> code_length ev token w > 0, s\<lparr>world := w\<rparr>)))"

text \<open>
  \<open>delete\<close> of the pending request resets its counter; the mapping of its signatures cannot be
  deleted and stays.
\<close>

definition markProcessed :: "bytes32 \<Rightarrow> 'a AbstractMost_scheme \<Rightarrow> 'a AbstractMost_scheme" where
  "markProcessed requestHash m = m\<lparr>
     am_processedRequests := (am_processedRequests m)(requestHash := True),
     am_pendingRequests := (am_pendingRequests m)
       (requestHash := (am_pendingRequests m requestHash)\<lparr>signatureCount := 0\<rparr>)\<rparr>"

text \<open>The pay-out of \<open>onReceiveRequestThresholdMet\<close>: address 0 stands for ether.\<close>

definition payOut ::
  "'w evm \<Rightarrow> sol_msg \<Rightarrow> 'a AbstractMost_scheme \<Rightarrow> bytes32 \<Rightarrow> H160 \<Rightarrow> u256 \<Rightarrow> H160 \<Rightarrow> ('a, 'w, unit) sol" where
  "payOut ev msg m requestHash token amount receiver =
     (if token = 0 then
        andThen (low_level_call (weth_withdraw ev (am_wethAddress m) (this_address msg) amount)) (\<lambda>unwrapSuccess.
        if \<not> unwrapSuccess then throw Sol_UnwrappingEth
        else
          andThen (low_level_call (send_ether ev (this_address msg) receiver amount (Some GAS_LIMIT))) (\<lambda>sent.
          if \<not> sent then emit_event (Sol_EthTransferFailed requestHash) else ret ()))
      else if \<not> am_isLocalToken m token then
        ext_call CallReverted (wrapped_mint ev token (this_address msg) receiver amount)
      else
        andThen (tokenTransferReturnSuccess ev msg token receiver amount) (\<lambda>ok.
        if \<not> ok then emit_event (Sol_TokenTransferFailed requestHash) else ret ()))"

definition onReceiveRequestThresholdMet ::
  "'w evm \<Rightarrow> sol_msg \<Rightarrow> bytes32 \<Rightarrow> bytes32 \<Rightarrow> u256 \<Rightarrow> bytes32 \<Rightarrow> ('a, 'w, unit) sol" where
  "onReceiveRequestThresholdMet ev msg requestHash destTokenAddress amount destReceiverAddress =
     andThen (put_storage (markProcessed requestHash)) (\<lambda>_.
     andThen (gets storage) (\<lambda>m.
     andThen (payOut ev msg m requestHash (bytes32ToAddress destTokenAddress) amount
       (bytes32ToAddress destReceiverAddress)) (\<lambda>_.
     emit_event (Sol_RequestProcessed requestHash))))"

definition receiveRequest ::
  "'w evm \<Rightarrow> (sol_msg \<Rightarrow> bytes32 \<Rightarrow> bytes32 \<Rightarrow> u256 \<Rightarrow> bytes32 \<Rightarrow> ('a, 'w, unit) sol) \<Rightarrow> sol_msg \<Rightarrow>
   bytes32 \<Rightarrow> u256 \<Rightarrow> bytes32 \<Rightarrow> u256 \<Rightarrow> bytes32 \<Rightarrow> u256 \<Rightarrow> ('a, 'w, unit) sol" where
  "receiveRequest ev thresholdMet msg given_hash committee_id destTokenAddress amount destReceiverAddress nonce =
     andThen (whenNotPaused ev) (\<lambda>_.
     andThen (gets (\<lambda>s. isInCommittee ev committee_id (msg_sender msg) (storage s))) (\<lambda>member.
     if \<not> member then throw Sol_NotInCommittee
     else
       andThen (gets (\<lambda>s. am_processedRequests (storage s) given_hash)) (\<lambda>processed.
       if processed then emit_event (Sol_ProcessedRequestSigned given_hash (msg_sender msg))
       else
         let requestHash = sol_request_hash (evm_keccak256 ev) committee_id destTokenAddress amount
           destReceiverAddress nonce in
         andThen (gets (\<lambda>s. am_pendingRequests (storage s) requestHash)) (\<lambda>request.
         if signatures request (msg_sender msg) then emit_event (Sol_RequestAlreadySigned requestHash (msg_sender msg))
         else if given_hash \<noteq> requestHash then throw Sol_DataHashMismatch
         else
           andThen (checked_inc (signatureCount request)) (\<lambda>count.
           andThen (put_storage (\<lambda>m. m\<lparr>am_pendingRequests := (am_pendingRequests m)(requestHash :=
             \<lparr>signatureCount = count, signatures = (signatures request)(msg_sender msg := True)\<rparr>)\<rparr>)) (\<lambda>_.
           andThen (emit_event (Sol_RequestSigned requestHash (msg_sender msg))) (\<lambda>_.
           andThen (gets (\<lambda>s. am_signatureThreshold (storage s) committee_id)) (\<lambda>threshold.
           if threshold \<le> count
           then thresholdMet msg requestHash destTokenAddress amount destReceiverAddress
           else ret ()))))))))"

section \<open>Governance\<close>

definition sol_pause :: "'w evm \<Rightarrow> sol_msg \<Rightarrow> ('a, 'w, unit) sol" where
  "sol_pause ev msg = andThen (onlyOwner ev msg) (\<lambda>_. ext_call EnforcedPause (oz_pause ev (msg_sender msg)))"

definition sol_unpause :: "'w evm \<Rightarrow> sol_msg \<Rightarrow> ('a, 'w, unit) sol" where
  "sol_unpause ev msg = andThen (onlyOwner ev msg) (\<lambda>_. ext_call ExpectedPause (oz_unpause ev (msg_sender msg)))"

definition recoverERC20 :: "'w evm \<Rightarrow> sol_msg \<Rightarrow> H160 \<Rightarrow> H160 \<Rightarrow> u256 \<Rightarrow> ('a, 'w, unit) sol" where
  "recoverERC20 ev msg token to amount = andThen (onlyOwner ev msg) (\<lambda>_.
     ext_call CallReverted (erc20_safeTransfer ev token (this_address msg) to amount))"

definition recoverNative :: "'w evm \<Rightarrow> sol_msg \<Rightarrow> H160 \<Rightarrow> u256 \<Rightarrow> ('a, 'w, unit) sol" where
  "recoverNative ev msg to amount = andThen (onlyOwner ev msg) (\<lambda>_.
     andThen (low_level_call (send_ether ev (this_address msg) to amount (Some GAS_LIMIT))) (\<lambda>success.
     if \<not> success then throw Sol_EthTransfer else ret ()))"

definition setCommittee :: "'w evm \<Rightarrow> sol_msg \<Rightarrow> H160 list \<Rightarrow> u256 \<Rightarrow> ('a, 'w, unit) sol" where
  "setCommittee ev msg committee threshold =
     andThen (onlyOwner ev msg) (\<lambda>_.
     andThen (whenPaused ev) (\<lambda>_.
     andThen (gets (\<lambda>s. am_committeeId (storage s))) (\<lambda>current.
     andThen (checked_inc current) (\<lambda>next.
     andThen (put_storage (am_committeeId_update (\<lambda>_. next))) (\<lambda>_.
     andThen (setCommittee_internal ev committee threshold) (\<lambda>_.
     emit_event (Sol_CommitteeUpdated next)))))))"

definition setWrappedAzeroAddress :: "'w evm \<Rightarrow> sol_msg \<Rightarrow> H160 \<Rightarrow> ('a, 'w, unit) sol" where
  "setWrappedAzeroAddress ev msg wazero =
     andThen (onlyOwner ev msg) (\<lambda>_. andThen (whenPaused ev) (\<lambda>_.
     put_storage (am_wrappedAzeroAddress_update (\<lambda>_. wazero))))"

definition addPair :: "'w evm \<Rightarrow> sol_msg \<Rightarrow> bytes32 \<Rightarrow> bytes32 \<Rightarrow> bool \<Rightarrow> ('a, 'w, unit) sol" where
  "addPair ev msg from to isLocal =
     andThen (onlyOwner ev msg) (\<lambda>_. andThen (whenPaused ev) (\<lambda>_.
     put_storage (\<lambda>m. m\<lparr>am_supportedPairs := (am_supportedPairs m)(from := to),
       am_isLocalToken := (am_isLocalToken m)(bytes32ToAddress from := isLocal)\<rparr>)))"

definition setLocalToken :: "'w evm \<Rightarrow> sol_msg \<Rightarrow> bytes32 \<Rightarrow> bool \<Rightarrow> ('a, 'w, unit) sol" where
  "setLocalToken ev msg token isLocal =
     andThen (onlyOwner ev msg) (\<lambda>_. andThen (whenPaused ev) (\<lambda>_.
     put_storage (\<lambda>m. m\<lparr>am_isLocalToken := (am_isLocalToken m)(bytes32ToAddress token := isLocal)\<rparr>)))"

definition removePair :: "'w evm \<Rightarrow> sol_msg \<Rightarrow> bytes32 \<Rightarrow> ('a, 'w, unit) sol" where
  "removePair ev msg from =
     andThen (onlyOwner ev msg) (\<lambda>_. andThen (whenPaused ev) (\<lambda>_.
     put_storage (\<lambda>m. m\<lparr>am_supportedPairs := (am_supportedPairs m)(from := 0)\<rparr>)))"

text \<open>Ownership cannot be renounced: the function of OpenZeppelin is overridden by one that does nothing.\<close>

definition renounceOwnership :: "'w evm \<Rightarrow> sol_msg \<Rightarrow> ('a, 'w, unit) sol" where
  "renounceOwnership ev msg = andThen (onlyOwner ev msg) (\<lambda>_. ret ())"

definition receive_ether :: "sol_msg \<Rightarrow> ('a, 'w, unit) sol" where
  "receive_ether msg = andThen (gets (\<lambda>s. am_wethAddress (storage s))) (\<lambda>weth.
     ensure (msg_sender msg = weth) (SolRequire []))"

section \<open>Most\<close>

record Most_sol = AbstractMost +
  em_transferLimit :: H160

type_synonym 'w most_sol_ctx = "(Most_sol, sol_event, 'w) ctx"
type_synonym ('w, 'r) most_sol = "('w most_sol_ctx, sol_error, 'r) contract"

text \<open>The storage before the contract is initialized: every slot is zero.\<close>

definition blank_request :: SolRequest where
  "blank_request = \<lparr>signatureCount = 0, signatures = (\<lambda>_. False)\<rparr>"

definition blank_storage :: AbstractMost where
  "blank_storage = \<lparr>am_requestNonce = 0, am_committeeId = 0, am_wethAddress = 0,
     am_supportedPairs = (\<lambda>_. 0), am_pendingRequests = (\<lambda>_. blank_request),
     am_processedRequests = (\<lambda>_. False), am_committee = (\<lambda>_. False), am_committeeSize = (\<lambda>_. 0),
     am_signatureThreshold = (\<lambda>_. 0), am_isLocalToken = (\<lambda>_. False), am_wrappedAzeroAddress = 0\<rparr>"

definition setTransferLimitContract :: "'w evm \<Rightarrow> sol_msg \<Rightarrow> H160 \<Rightarrow> ('w, unit) most_sol" where
  "setTransferLimitContract ev msg limit =
     andThen (onlyOwner ev msg) (\<lambda>_. put_storage (em_transferLimit_update (\<lambda>_. limit)))"

definition sol_initialize :: "'w evm \<Rightarrow> sol_msg \<Rightarrow> H160 list \<Rightarrow> u256 \<Rightarrow> H160 \<Rightarrow> H160 \<Rightarrow> ('w, unit) most_sol" where
  "sol_initialize ev msg committee threshold owner_address weth =
     andThen (ext_call InvalidInitialization (oz_initializer ev)) (\<lambda>_.
     andThen (AbstractMost_init ev committee threshold weth) (\<lambda>_.
     andThen (ext_call CallReverted (oz_ownable_init ev owner_address)) (\<lambda>_.
     andThen (ext_call InvalidInitialization (oz_pausable_init ev)) (\<lambda>_.
     ext_call EnforcedPause (oz_pause ev (msg_sender msg))))))"

definition checkTransferAllowed :: "'w evm \<Rightarrow> H160 \<Rightarrow> u256 \<Rightarrow> ('w, unit) most_sol" where
  "checkTransferAllowed ev token amount =
     andThen (gets (\<lambda>s. em_transferLimit (storage s))) (\<lambda>limit.
     if limit \<noteq> 0 then
       andThen (gets (\<lambda>s. isRequestAllowed_try ev limit token amount (world s))) (\<lambda>r.
       case r of
         Returned result \<Rightarrow> if \<not> result then throw Sol_LimitExceeded else ret ()
       | Reverted \<Rightarrow> ret ()
       | Undecodable \<Rightarrow> throw CallReverted)
     else ret ())"

text \<open>The external functions of the contract, as calls.\<close>

datatype sol_call =
    SendRequest bytes32 u256 bytes32
  | SendRequestNative bytes32
  | SendRequestAzeroToNative u256 bytes32
  | ReceiveRequest bytes32 u256 bytes32 u256 bytes32 u256
  | Sol_Pause
  | Sol_Unpause
  | RecoverERC20 H160 H160 u256
  | RecoverNative H160 u256
  | SetCommittee "H160 list" u256
  | SetWrappedAzeroAddress H160
  | AddPair bytes32 bytes32 bool
  | SetLocalToken bytes32 bool
  | RemovePair bytes32
  | RenounceOwnership
  | ReceiveEther
  | SetTransferLimitContract H160

fun sol_payable :: "sol_call \<Rightarrow> bool" where
  "sol_payable (SendRequestNative _) \<longleftrightarrow> True"
| "sol_payable ReceiveEther \<longleftrightarrow> True"
| "sol_payable _ \<longleftrightarrow> False"

fun sol_function :: "'w evm \<Rightarrow> sol_msg \<Rightarrow> sol_call \<Rightarrow> ('w, unit) most_sol" where
  "sol_function ev msg (SendRequest t a r) = sendRequest ev (checkTransferAllowed ev) msg t a r"
| "sol_function ev msg (SendRequestNative r) = sendRequestNative ev (checkTransferAllowed ev) msg r"
| "sol_function ev msg (SendRequestAzeroToNative a r) = sendRequestAzeroToNative ev (checkTransferAllowed ev) msg a r"
| "sol_function ev msg (ReceiveRequest h c t a r n) =
     receiveRequest ev (onReceiveRequestThresholdMet ev) msg h c t a r n"
| "sol_function ev msg Sol_Pause = sol_pause ev msg"
| "sol_function ev msg Sol_Unpause = sol_unpause ev msg"
| "sol_function ev msg (RecoverERC20 t to a) = recoverERC20 ev msg t to a"
| "sol_function ev msg (RecoverNative to a) = recoverNative ev msg to a"
| "sol_function ev msg (SetCommittee cs t) = setCommittee ev msg cs t"
| "sol_function ev msg (SetWrappedAzeroAddress a) = setWrappedAzeroAddress ev msg a"
| "sol_function ev msg (AddPair f t l) = addPair ev msg f t l"
| "sol_function ev msg (SetLocalToken t l) = setLocalToken ev msg t l"
| "sol_function ev msg (RemovePair f) = removePair ev msg f"
| "sol_function ev msg RenounceOwnership = renounceOwnership ev msg"
| "sol_function ev msg ReceiveEther = receive_ether msg"
| "sol_function ev msg (SetTransferLimitContract l) = setTransferLimitContract ev msg l"

definition sol_dispatch :: "'w evm \<Rightarrow> sol_msg \<Rightarrow> sol_call \<Rightarrow> ('w, unit) most_sol" where
  "sol_dispatch ev msg k =
     (if \<not> sol_payable k \<and> msg_value msg \<noteq> 0 then throw NotPayable else sol_function ev msg k)"

lemmas sol_function_defs = sendRequest_def sendRequestNative_def sendRequestAzeroToNative_def
  sol_pause_def sol_unpause_def recoverERC20_def recoverNative_def setCommittee_def
  setWrappedAzeroAddress_def addPair_def setLocalToken_def removePair_def renounceOwnership_def
  receive_ether_def setTransferLimitContract_def Let_def

end
