(* ===== verification/Azero_Handler.thy ===== *)
theory Azero_Handler
  imports Eth_Handler Eth_Most
begin

text \<open>
  The handler of Aleph Zero events, \<open>AlephZeroEventHandler\<close> in
  \<open>relayer/relayer/src/handlers/azero.rs\<close>, with the signature states of
  \<open>contracts/eth.rs\<close> and \<open>contracts/l2_eth.rs\<close>: it votes on Ethereum for the requests made on
  Aleph Zero. The Ethereum node with the bridge contract on it, the ABI encoder and the nonce
  manager of the crate \<open>ethers\<close> are parameters.
\<close>

section \<open>The Ethereum side\<close>

datatype BlockNumber = Latest | Finalized

record TransactionReceipt =
  transaction_hash :: bytes32
  receipt_status :: "u64 option"

record vote_call =
  vc_request_hash :: bytes32
  vc_committee_id :: u256
  vc_dest_token_address :: bytes32
  vc_amount :: u256
  vc_dest_receiver_address :: bytes32
  vc_request_nonce :: u256

text \<open>
  The contract behind \<open>SignedEthConnection\<close>: views at a block, a call without a transaction
  (\<open>eth_call\<close>), a transaction with its gas limit and nonce, and the wait for its confirmations,
  which gives no receipt when the transaction was dropped.
\<close>

record 'w eth_node =
  eth_parse_address :: "string \<Rightarrow> H160 option"
  eth_is_in_committee :: "H160 \<Rightarrow> u256 \<Rightarrow> H160 \<Rightarrow> 'w \<Rightarrow> (string + bool) \<times> 'w"
  eth_committee_id :: "H160 \<Rightarrow> 'w \<Rightarrow> (string + u256) \<times> 'w"
  eth_needs_signature :: "H160 \<Rightarrow> BlockNumber \<Rightarrow> bytes32 \<Rightarrow> H160 \<Rightarrow> u256 \<Rightarrow> 'w \<Rightarrow> (string + bool) \<times> 'w"
  eth_call :: "H160 \<Rightarrow> vote_call \<Rightarrow> u32 \<Rightarrow> 'w \<Rightarrow> (string + unit) \<times> 'w"
  eth_next_nonce :: "'w \<Rightarrow> u256 \<times> 'w"
  eth_send :: "H160 \<Rightarrow> vote_call \<Rightarrow> u32 \<Rightarrow> u256 \<Rightarrow> 'w \<Rightarrow> (string + bytes32) \<times> 'w"
  eth_confirm :: "bytes32 \<Rightarrow> nat \<Rightarrow> nat \<Rightarrow> 'w \<Rightarrow> (string + TransactionReceipt option) \<times> 'w"

definition ask_eth :: "('w \<Rightarrow> ('e + 'a) \<times> 'w) \<Rightarrow> ('e \<Rightarrow> 'f) \<Rightarrow> ('w, 'f, 'a) contract" where
  "ask_eth f g w = (case f w of (Inl e, _) \<Rightarrow> Inl (Err (g e)) | (Inr x, w') \<Rightarrow> Inr (x, w'))"

lemma run_ask_eth [run_simps]:
  "ask_eth f g w = Inr (x, w') \<longleftrightarrow> f w = (Inr x, w')"
  "ask_eth f g w = Inl e \<longleftrightarrow> (\<exists>why. fst (f w) = Inl why \<and> e = Err (g why))"
  by (auto simp: ask_eth_def split: prod.splits sum.splits)

datatype AlephZeroEventHandlerError =
    AzFromHex
  | AzProvider string
  | AzAzeroContract AzeroContractError
  | AzEthContractTx string
  | TxNotPresentInBlockOrMempool
  | EthContractReverted
  | AzCommitteeIdMismatch

type_synonym ('w, 'a) azero_io = "('w, AlephZeroEventHandlerError, 'a) contract"

section \<open>The request hash\<close>

datatype abi_token = Token_Uint u256 | Token_FixedBytes "u8 list"

definition azero_request_hash ::
  "(u8 list \<Rightarrow> bytes32) \<Rightarrow> (abi_token list \<Rightarrow> u8 list) \<Rightarrow> CrosschainTransferRequestData \<Rightarrow> bytes32" where
  "azero_request_hash keccak256 abi_encode d = keccak256 (abi_encode
     [Token_Uint (ucast (cr_committee_id d)), Token_FixedBytes (array_bytes (cr_dest_token_address d)),
      Token_Uint (ucast (cr_amount d)), Token_FixedBytes (array_bytes (cr_dest_receiver_address d)),
      Token_Uint (ucast (cr_request_nonce d))])"

section \<open>Signature states\<close>

datatype SignatureState = Signed (finalized: bool) | NeedSignature

text \<open>On Ethereum (\<open>contracts/eth.rs\<close>) and on its second layer (\<open>contracts/l2_eth.rs\<close>).\<close>

definition contract_signature_state ::
  "'w eth_node \<Rightarrow> H160 \<Rightarrow> bytes32 \<Rightarrow> H160 \<Rightarrow> u128 \<Rightarrow> ('w, SignatureState) azero_io" where
  "contract_signature_state en contract request_hash address committee_id =
     andThen (ask_eth (eth_needs_signature en contract Finalized request_hash address (ucast committee_id))
       AzEthContractTx) (\<lambda>needed.
     if \<not> needed then ret (Signed True)
     else
       andThen (ask_eth (eth_needs_signature en contract Latest request_hash address (ucast committee_id))
         AzEthContractTx) (\<lambda>needed_latest.
       let is_signed = \<not> needed_latest in
       ret (if is_signed then Signed False else NeedSignature)))"

definition l2_contract_signature_state ::
  "'w eth_node \<Rightarrow> H160 \<Rightarrow> bytes32 \<Rightarrow> H160 \<Rightarrow> u128 \<Rightarrow> ('w, SignatureState) azero_io" where
  "l2_contract_signature_state en contract request_hash address committee_id =
     andThen (ask_eth (eth_needs_signature en contract Latest request_hash address (ucast committee_id))
       AzEthContractTx) (\<lambda>needed.
     if \<not> needed then ret (Signed True) else ret NeedSignature)"

section \<open>The handler\<close>

definition azero_not_in_committee ::
  "'w eth_node \<Rightarrow> H160 \<Rightarrow> u256 \<Rightarrow> H160 \<Rightarrow> ('w, bool) azero_io" where
  "azero_not_in_committee en most committee_id address =
     andThen (ask_eth (eth_is_in_committee en most committee_id address) AzEthContractTx) (\<lambda>b.
     if b then ret False
     else
       andThen (ask_eth (eth_committee_id en most) AzEthContractTx) (\<lambda>current.
       if current < committee_id then throw AzCommitteeIdMismatch else ret True))"

text \<open>The arguments of \<open>contract.receive_request\<close> in \<open>handle_event\<close>.\<close>

definition azero_vote_call :: "bytes32 \<Rightarrow> CrosschainTransferRequestData \<Rightarrow> vote_call" where
  "azero_vote_call request_hash d =
     \<lparr>vc_request_hash = request_hash, vc_committee_id = ucast (cr_committee_id d),
      vc_dest_token_address = cr_dest_token_address d, vc_amount = ucast (cr_amount d),
      vc_dest_receiver_address = cr_dest_receiver_address d, vc_request_nonce = ucast (cr_request_nonce d)\<rparr>"

text \<open>
  The vote: a dry run, then the transaction with the next nonce, its confirmations and the check
  of its status. \<open>NonceManagerMiddleware::next\<close> cannot fail.
\<close>

definition azero_vote :: "'w eth_node \<Rightarrow> Config \<Rightarrow> H160 \<Rightarrow> vote_call \<Rightarrow> ('w, unit) azero_io" where
  "azero_vote en cfg contract call =
     andThen (ask_eth (eth_call en contract call (cfg_eth_gas_limit cfg)) AzEthContractTx) (\<lambda>_.
     andThen (\<lambda>w. Inr (eth_next_nonce en w)) (\<lambda>nonce.
     andThen (ask_eth (eth_send en contract call (cfg_eth_gas_limit cfg) nonce) AzEthContractTx) (\<lambda>pending.
     andThen (ask_eth (eth_confirm en pending (cfg_eth_tx_min_confirmations cfg)
       (cfg_eth_tx_submission_retries cfg)) AzProvider) (\<lambda>r.
     andThen (ok_or r TxNotPresentInBlockOrMempool) (\<lambda>receipt.
     if receipt_status receipt = Some 0 then throw EthContractReverted else ret ())))))"

fun azero_vote_loop ::
  "nat \<Rightarrow> ('s, 'e, SignatureState) contract \<Rightarrow> ('s, 'e, unit) contract \<Rightarrow> ('s \<Rightarrow> 's) \<Rightarrow> 's \<Rightarrow>
   ('e fault + unit \<times> 's) option" where
  "azero_vote_loop 0 state vote sleep s = None"
| "azero_vote_loop (Suc k) state vote sleep s =
     (case state s of
        Inl e \<Rightarrow> Some (Inl e)
      | Inr (Signed True, s1) \<Rightarrow> Some (Inr ((), s1))
      | Inr (Signed False, s1) \<Rightarrow> azero_vote_loop k state vote sleep (sleep s1)
      | Inr (NeedSignature, s1) \<Rightarrow>
          (case vote s1 of
             Inl e \<Rightarrow> Some (Inl e)
           | Inr (_, s2) \<Rightarrow> azero_vote_loop k state vote sleep s2))"

text \<open>
  The signature state is a parameter of the handler, because it depends on the feature \<open>l2\<close> the
  relayer is compiled with: \<open>contract_signature_state\<close> or \<open>l2_contract_signature_state\<close>.
\<close>

definition azero_handle_event ::
  "nat \<Rightarrow> ('w eth_node \<Rightarrow> H160 \<Rightarrow> bytes32 \<Rightarrow> H160 \<Rightarrow> u128 \<Rightarrow> ('w, SignatureState) azero_io) \<Rightarrow>
   (u8 list \<Rightarrow> bytes32) \<Rightarrow> (abi_token list \<Rightarrow> u8 list) \<Rightarrow> 'w eth_node \<Rightarrow> ('w \<Rightarrow> 'w) \<Rightarrow> H160 \<Rightarrow> Config \<Rightarrow>
   ContractEvent \<Rightarrow> 'w \<Rightarrow> (AlephZeroEventHandlerError fault + unit \<times> 'w) option" where
  "azero_handle_event fuel signature_state keccak256 abi_encode en sleep address cfg event w =
     (if ce_name event \<noteq> Some ''CrosschainTransferRequest'' then Some (Inr ((), w))
      else
        (case get_request_event_data (ce_data event) of
           Inl e \<Rightarrow> Some (Inl (Err (AzAzeroContract e)))
         | Inr d \<Rightarrow>
             let request_hash = azero_request_hash keccak256 abi_encode d in
             if (case cfg_blacklisted_requests cfg of None \<Rightarrow> False | Some bl \<Rightarrow> request_hash \<in> set bl)
             then Some (Inr ((), w))
             else
               (case eth_parse_address en (cfg_eth_contract_address cfg) of
                  None \<Rightarrow> Some (Inl (Err AzFromHex))
                | Some contract \<Rightarrow>
                    (case azero_not_in_committee en contract (ucast (cr_committee_id d)) address w of
                       Inl e \<Rightarrow> Some (Inl e)
                     | Inr (True, w1) \<Rightarrow> Some (Inr ((), w1))
                     | Inr (False, w1) \<Rightarrow>
                         azero_vote_loop fuel
                           (signature_state en contract request_hash address (cr_committee_id d))
                           (azero_vote en cfg contract (azero_vote_call request_hash d))
                           sleep w1))))"

end
