(* ===== verification/Azero_Handler_Properties.thy ===== *)
theory Azero_Handler_Properties
  imports Azero_Handler Eth_Handler_Properties
begin

text \<open>
  Properties of the handler of Aleph Zero events: its hash is the one the Ethereum contract
  recomputes, a vote is sent once after a good dry run, a successful run leaves nothing to sign,
  and its loop is the same as the loop of the other direction, so it ends under the same
  conditions.
\<close>

section \<open>The request hash\<close>

text \<open>
  What the ABI says of tuples of static types: every element takes one 32-byte word, integers
  with their most significant byte first.
\<close>

fun static_word :: "abi_token \<Rightarrow> u8 list" where
  "static_word (Token_Uint x) = array_bytes x"
| "static_word (Token_FixedBytes bs) = bs"

fun static_token :: "abi_token \<Rightarrow> bool" where
  "static_token (Token_Uint x) = True"
| "static_token (Token_FixedBytes bs) = (length bs = 32)"

definition static_abi :: "(abi_token list \<Rightarrow> u8 list) \<Rightarrow> bool" where
  "static_abi enc \<longleftrightarrow> (\<forall>ts. list_all static_token ts \<longrightarrow> enc ts = concat (map static_word ts))"

lemma azero_request_hash_agrees:
  assumes "static_abi enc"
  shows "azero_request_hash k enc d = sol_request_hash k (ucast (cr_committee_id d)) (cr_dest_token_address d)
    (ucast (cr_amount d)) (cr_dest_receiver_address d) (ucast (cr_request_nonce d))"
  using assms by (simp add: azero_request_hash_def sol_request_hash_def static_abi_def)

section \<open>The vote\<close>

lemma azero_vote_Inr:
  assumes "azero_vote en cfg contract call w = Inr (u, w')"
  obtains w1 nonce w2 pending w3 receipt where
    "eth_call en contract call (cfg_eth_gas_limit cfg) w = (Inr (), w1)"
    "eth_next_nonce en w1 = (nonce, w2)"
    "eth_send en contract call (cfg_eth_gas_limit cfg) nonce w2 = (Inr pending, w3)"
    "eth_confirm en pending (cfg_eth_tx_min_confirmations cfg) (cfg_eth_tx_submission_retries cfg) w3 =
       (Inr (Some receipt), w')"
    "receipt_status receipt \<noteq> Some 0"
  using assms unfolding azero_vote_def
  by (auto simp: run_simps split: if_splits)

section \<open>The loop\<close>

text \<open>
  With the signature state of \<open>contracts/eth.rs\<close> the loop is the voting loop of the other
  handler, asking first at the finalized and then at the latest block.
\<close>

definition azero_query ::
  "'w eth_node \<Rightarrow> H160 \<Rightarrow> bytes32 \<Rightarrow> H160 \<Rightarrow> u128 \<Rightarrow> BlockNumber \<Rightarrow> ('w, bool) azero_io" where
  "azero_query en contract h address c block =
     ask_eth (eth_needs_signature en contract block h address (ucast c)) AzEthContractTx"

lemma azero_vote_loop_eth:
  "azero_vote_loop k (contract_signature_state en contract h address c) vote sleep w =
     eth_vote_loop k (azero_query en contract h address c Finalized)
       (azero_query en contract h address c Latest) vote sleep w"
proof (induction k arbitrary: w)
  case (Suc k)
  then show ?case
    by (auto simp: contract_signature_state_def azero_query_def andThen_def ret_def
        split: sum.splits prod.splits)
qed simp

lemma l2_vote_loop_done:
  "azero_vote_loop k (l2_contract_signature_state en contract h address c) vote sleep w = Some (Inr (u, w')) \<Longrightarrow>
     \<exists>w0. azero_query en contract h address c Latest w0 = Inr (False, w')"
proof (induction k arbitrary: w)
  case (Suc k)
  from Suc.prems Suc.IH show ?case
    by (auto simp: l2_contract_signature_state_def azero_query_def andThen_def ret_def
        split: sum.splits prod.splits if_splits SignatureState.splits bool.splits)
qed simp

section \<open>How the handler ends\<close>

lemma azero_not_in_committee_True:
  assumes "azero_not_in_committee en most c address w = Inr (True, w')"
  shows "\<exists>w1 current. eth_is_in_committee en most c address w = (Inr False, w1) \<and>
    eth_committee_id en most w1 = (Inr current, w') \<and> c \<le> current"
  using assms unfolding azero_not_in_committee_def by (auto simp: run_simps split: if_splits)

lemma azero_handle_event_Inr:
  assumes run: "azero_handle_event fuel sig k enc en sleep address cfg event w = Some (Inr (u, w'))"
    and name: "ce_name event = Some ''CrosschainTransferRequest''"
  obtains d h where "get_request_event_data (ce_data event) = Inr d" "h = azero_request_hash k enc d"
    "blacklisted cfg h \<or>
     (\<exists>contract. eth_parse_address en (cfg_eth_contract_address cfg) = Some contract \<and>
       (azero_not_in_committee en contract (ucast (cr_committee_id d)) address w = Inr (True, w') \<or>
        (\<exists>vote w1. azero_vote_loop fuel (sig en contract h address (cr_committee_id d)) vote sleep w1 =
           Some (Inr (u, w')))))"
proof -
  from run name obtain d where d: "get_request_event_data (ce_data event) = Inr d"
    by (auto simp: azero_handle_event_def split: sum.splits)
  show thesis
  proof (rule that [OF d refl])
    show "blacklisted cfg (azero_request_hash k enc d) \<or>
     (\<exists>contract. eth_parse_address en (cfg_eth_contract_address cfg) = Some contract \<and>
       (azero_not_in_committee en contract (ucast (cr_committee_id d)) address w = Inr (True, w') \<or>
        (\<exists>vote w1. azero_vote_loop fuel (sig en contract (azero_request_hash k enc d) address
            (cr_committee_id d)) vote sleep w1 = Some (Inr (u, w')))))"
    proof (cases "blacklisted cfg (azero_request_hash k enc d)")
      case False
      with run name d show ?thesis
        unfolding azero_handle_event_def blacklisted_def [symmetric]
        by (auto simp: Let_def split: sum.splits prod.splits option.splits bool.splits)
    qed simp
  qed
qed

section \<open>Properties\<close>

text \<open>
  What a successful end of the handler means for the request: it is blacklisted; or the contract
  said that the guardian is not in the request's committee, which is not a future one; or in the
  very last step the contract answered that the signature is not needed, at the finalized block
  (at the latest block when compiled for a second layer).
\<close>

definition azero_request_settled ::
  "bool \<Rightarrow> (u8 list \<Rightarrow> bytes32) \<Rightarrow> 'w eth_node \<Rightarrow> H160 \<Rightarrow> Config \<Rightarrow> CrosschainTransferRequestData \<Rightarrow> 'w \<Rightarrow> 'w \<Rightarrow> bool" where
  "azero_request_settled l2 k en address cfg d w w' \<longleftrightarrow>
    (let h = sol_request_hash k (ucast (cr_committee_id d)) (cr_dest_token_address d) (ucast (cr_amount d))
       (cr_dest_receiver_address d) (ucast (cr_request_nonce d)); c = ucast (cr_committee_id d) in
     blacklisted cfg h \<or>
     (\<exists>contract. eth_parse_address en (cfg_eth_contract_address cfg) = Some contract \<and>
      ((\<exists>w1 current. eth_is_in_committee en contract c address w = (Inr False, w1) \<and>
          eth_committee_id en contract w1 = (Inr current, w') \<and> c \<le> current) \<or>
       (\<exists>w0. eth_needs_signature en contract (if l2 then Latest else Finalized) h address c w0 =
          (Inr False, w')))))"

abbreviation signature_state :: "bool \<Rightarrow> 'w eth_node \<Rightarrow> H160 \<Rightarrow> bytes32 \<Rightarrow> H160 \<Rightarrow> u128 \<Rightarrow> ('w, SignatureState) azero_io" where
  "signature_state l2 \<equiv> (if l2 then l2_contract_signature_state else contract_signature_state)"

lemma azero_handled_request_settled:
  assumes run: "azero_handle_event fuel (signature_state l2) k enc en sleep address cfg event w = Some (Inr (u, w'))"
    and name: "ce_name event = Some ''CrosschainTransferRequest''"
    and abi: "static_abi enc"
  shows "\<exists>d. get_request_event_data (ce_data event) = Inr d \<and> azero_request_settled l2 k en address cfg d w w'"
  using run name
proof (cases rule: azero_handle_event_Inr)
  case (1 d h)
  let ?sig = "signature_state l2"
  have loop: "\<exists>w0. eth_needs_signature en contract (if l2 then Latest else Finalized) h address
      (ucast (cr_committee_id d)) w0 = (Inr False, w')"
    if "azero_vote_loop fuel (?sig en contract h address (cr_committee_id d)) vote sleep w1 =
      Some (Inr (u, w'))" for contract vote w1
    using that eth_vote_loop_done l2_vote_loop_done
    by (cases l2) (fastforce simp: azero_vote_loop_eth azero_query_def run_simps)+
  from 1 loop azero_not_in_committee_True show ?thesis
    unfolding azero_request_settled_def azero_request_hash_agrees [OF abi, symmetric] Let_def by meson
qed

text \<open>
  The handler of an event sends no other transaction than the vote with the data of the event: on a
  node that treats all other transactions differently it does the same.
\<close>

lemma azero_handler_sends_only_vote:
  assumes "get_request_event_data (ce_data event) = Inr d" "v = azero_vote_call (azero_request_hash k enc d) d"
    and "\<And>contract gas nonce. eth_send en contract v gas nonce = send contract v gas nonce"
      "\<And>contract gas. eth_call en contract v gas = call contract v gas"
  shows "azero_handle_event fuel (signature_state l2) k enc (en\<lparr>eth_send := send, eth_call := call\<rparr>) sleep address cfg event w =
    azero_handle_event fuel (signature_state l2) k enc en sleep address cfg event w"
proof -
  let ?en = "en\<lparr>eth_send := send, eth_call := call\<rparr>"
  have vote: "azero_vote ?en cfg contract v = azero_vote en cfg contract v" for contract
    by (simp add: azero_vote_def assms(3,4))
  have sig: "signature_state l2 ?en = signature_state l2 en"
    by (simp add: l2_contract_signature_state_def contract_signature_state_def fun_eq_iff cong: if_cong)
  have member: "azero_not_in_committee ?en = azero_not_in_committee en"
    by (simp add: azero_not_in_committee_def fun_eq_iff cong: if_cong)
  show ?thesis
    unfolding azero_handle_event_def sig member assms(1) Let_def sum.case vote [unfolded assms(2)] by simp
qed

text \<open>An Ethereum node for the witness, with one vote and two rounds until it is final.\<close>

definition relay_eth_node :: "(bool \<times> nat) eth_node" where
  "relay_eth_node =
     \<lparr>eth_parse_address = (\<lambda>_. Some 55),
      eth_is_in_committee = (\<lambda>_ _ _ w. (Inr True, w)),
      eth_committee_id = (\<lambda>_ w. (Inr 0, w)),
      eth_needs_signature = (\<lambda>_ block _ _ _ w. (Inr (\<not> (fst w \<and> (block = Latest \<or> snd w = 0))), w)),
      eth_call = (\<lambda>_ _ _ w. (Inr (), w)),
      eth_next_nonce = (\<lambda>w. (3, w)),
      eth_send = (\<lambda>_ _ _ _ w. (Inr 1, (True, 2))),
      eth_confirm = (\<lambda>_ _ _ w. (Inr (Some \<lparr>transaction_hash = 1, receipt_status = Some 1\<rparr>), w))\<rparr>"

definition relay_azero_event :: ContractEvent where
  "relay_azero_event = \<lparr>ce_contract = 100, ce_name = Some ''CrosschainTransferRequest'',
     ce_data = request_event_data 0 5 10 6 0\<rparr>"

lemma static_abi_static: "static_abi (\<lambda>ts. concat (map static_word ts))"
  by (simp add: static_abi_def)

lemma relay_azero_handled:
  "azero_handle_event 4 contract_signature_state (\<lambda>_. 77) (\<lambda>ts. concat (map static_word ts)) relay_eth_node
     (\<lambda>(b, n). (b, n - 1)) 9 relay_config relay_azero_event (False, 0) = Some (Inr ((), (True, 0)))"
proof -
  have four: "4 = Suc (Suc (Suc (Suc (0::nat))))" by simp
  show ?thesis
    unfolding four
    by (simp add: azero_handle_event_def relay_azero_event_def request_event_decodes azero_request_hash_def
        relay_config_def relay_eth_node_def azero_not_in_committee_def contract_signature_state_def
        azero_vote_def ask_eth_def eval_simps)
qed

end
