(* ===== verification/Relayer_Sync.thy ===== *)
theory Relayer_Sync
  imports Relayer_Contracts Relayer_Config
begin

text \<open>
  What the two directions of the relayer share when they follow a chain: the block numbers kept
  in Redis (\<open>relayer/relayer/src/redis/mod.rs\<close>), the end of a batch of blocks
  (\<open>listeners/eth.rs\<close>, \<open>listeners/azero.rs\<close>), the wait for a finalized block
  (\<open>connections/eth.rs\<close>, \<open>listeners/azero.rs\<close>) and the events of a range of blocks. The relayer
  is built with \<open>overflow-checks = true\<close>, so an arithmetic overflow is a panic.
\<close>

section \<open>Block numbers in Redis\<close>

type_synonym redis = "string \<Rightarrow> u32 option"

definition redis_key :: "string \<Rightarrow> string \<Rightarrow> string" where
  "redis_key name key = name @ '':'' @ key"

text \<open>A missing key and a failed request (\<open>readable\<close> is false) both give the default.\<close>

definition read_block_number :: "bool \<Rightarrow> string \<Rightarrow> string \<Rightarrow> redis \<Rightarrow> u32 \<Rightarrow> u32" where
  "read_block_number readable name key r default_block =
     (case (if readable then r (redis_key name key) else None) of
        Some value \<Rightarrow> value
      | None \<Rightarrow> default_block)"

definition write_block_number :: "string \<Rightarrow> string \<Rightarrow> redis \<Rightarrow> u32 \<Rightarrow> redis" where
  "write_block_number name key r last_block_number = r(redis_key name key \<mapsto> last_block_number)"

text \<open>
  The start of \<open>RedisManager::run\<close>: the overrides of the first run, then the two block numbers
  that are sent to the listeners, Ethereum first.
\<close>

definition redis_start :: "bool \<Rightarrow> bool \<Rightarrow> Config \<Rightarrow> redis \<Rightarrow> redis \<times> u32 \<times> u32" where
  "redis_start readable is_first_run cfg r =
     (let azero = sync_deref (cfg_default_sync_from_block_azero cfg);
          eth = sync_deref (cfg_default_sync_from_block_eth cfg);
          r1 = (if cfg_override_azero_cache cfg \<and> is_first_run
                then write_block_number (cfg_name cfg) (cfg_redis_azero_block_key cfg) r azero else r);
          r2 = (if cfg_override_eth_cache cfg \<and> is_first_run
                then write_block_number (cfg_name cfg) (cfg_redis_eth_block_key cfg) r1 eth else r1)
      in (r2, read_block_number readable (cfg_name cfg) (cfg_redis_eth_block_key cfg) r2 eth,
          read_block_number readable (cfg_name cfg) (cfg_redis_azero_block_key cfg) r2 azero))"

lemma redis_key_inject: "redis_key n k = redis_key n k' \<longleftrightarrow> k = k'"
  by (simp add: redis_key_def)

lemma read_write_block_number:
  "read_block_number True n k (write_block_number n k r b) d = b"
  "k \<noteq> k' \<Longrightarrow> read_block_number rd n k' (write_block_number n k r b) d = read_block_number rd n k' r d"
  by (simp_all add: read_block_number_def write_block_number_def redis_key_inject)

section \<open>Batches of blocks\<close>

text \<open>\<open>min(finalized, from + sync_step - 1)\<close> and \<open>to + 1\<close>; \<open>None\<close> is the panic.\<close>

definition batch_end :: "u32 \<Rightarrow> u32 \<Rightarrow> u32 \<Rightarrow> u32 option" where
  "batch_end next_finalized unprocessed sync_step =
     (case checked_add unprocessed sync_step of
        None \<Rightarrow> None
      | Some s \<Rightarrow> map_option (min next_finalized) (checked_sub s 1))"

definition block_range :: "u32 \<Rightarrow> u32 \<Rightarrow> u32 list" where
  "block_range from to = map of_nat [unat from..<Suc (unat to)]"

lemma set_block_range: "b \<in> set (block_range from to) \<longleftrightarrow> from \<le> b \<and> b \<le> to"
proof
  assume "b \<in> set (block_range from to)"
  then obtain k where k: "b = of_nat k" "unat from \<le> k" "k \<le> unat to" by (auto simp: block_range_def)
  have "k < 2 ^ 32" using k(3) unsigned_less [of to, where 'a = nat] by simp
  then have "unat b = k" using k(1) by (simp add: unat_of_nat)
  with k show "from \<le> b \<and> b \<le> to" by (simp add: word_le_nat_alt)
next
  assume "from \<le> b \<and> b \<le> to"
  then have "unat b \<in> {unat from..<Suc (unat to)}" by (simp add: word_le_nat_alt)
  moreover have "b = of_nat (unat b)" by simp
  ultimately show "b \<in> set (block_range from to)" unfolding block_range_def set_map set_upt by (rule rev_image_eqI)
qed

text \<open>A batch ends at a finalized block, holds at most \<open>sync_step\<close> blocks, and is not empty.\<close>

lemma batch_end_SomeD:
  assumes "batch_end fin n step = Some to"
  shows "to \<le> fin" "unat to < unat n + unat step" "n \<le> fin \<Longrightarrow> 0 < step \<Longrightarrow> n \<le> to"
proof -
  from assms obtain s l where s: "checked_add n step = Some s" and l: "checked_sub s 1 = Some l"
    and to: "to = min fin l" by (auto simp: batch_end_def split: option.splits)
  from checked_add_SomeD [OF s] have us: "unat s = unat n + unat step" by blast
  from checked_sub_SomeD [OF l] have ul: "unat l = unat s - 1" "0 < unat s"
    by (auto simp: word_le_nat_alt)
  show "to \<le> fin" by (simp add: to)
  have "unat to \<le> unat l" unfolding to by (simp add: word_le_nat_alt [symmetric])
  with us ul show "unat to < unat n + unat step" by linarith
  show "n \<le> to" if "n \<le> fin" "0 < step"
    using that us ul unfolding to by (auto simp: word_le_nat_alt word_less_nat_alt)
qed

section \<open>Waiting for a finalized block\<close>

text \<open>
  The answers of an Ethereum node to \<open>get_block\<close>; the number of a block is missing while the
  block is pending, and \<open>as_u32\<close> panics when it does not fit.
\<close>

datatype block_answer = Block "u64 option" | No_block | Block_error

fun get_block_not_older_than :: "block_answer list \<Rightarrow> u32 \<Rightarrow> (unit fault + u32) option" where
  "get_block_not_older_than [] not_older_than = None"
| "get_block_not_older_than (Block None # as) not_older_than = Some (Inl Trap)"
| "get_block_not_older_than (Block (Some number) # as) not_older_than =
     (if unat number < 2 ^ 32 then
        (if not_older_than \<le> ucast number then Some (Inr (ucast number))
         else get_block_not_older_than as not_older_than)
      else Some (Inl Trap))"
| "get_block_not_older_than (No_block # as) not_older_than = get_block_not_older_than as not_older_than"
| "get_block_not_older_than (Block_error # as) not_older_than = get_block_not_older_than as not_older_than"

lemma get_block_not_older_than_bound:
  "get_block_not_older_than as n = Some (Inr b) \<Longrightarrow> n \<le> b"
  by (induction as n rule: get_block_not_older_than.induct) (auto split: if_splits)

text \<open>The same wait on Aleph Zero; an error of the client ends it.\<close>

fun get_next_finalized_block_number_azero ::
  "nat \<Rightarrow> 'w azero_node \<Rightarrow> ('w \<Rightarrow> 'w) \<Rightarrow> u32 \<Rightarrow> 'w net \<Rightarrow> (client_error fault + u32 \<times> 'w net) option" where
  "get_next_finalized_block_number_azero 0 nd sleep not_older_than s = None"
| "get_next_finalized_block_number_azero (Suc k) nd sleep not_older_than s =
     (case get_finalized_block_hash nd s of
        Inl e \<Rightarrow> Some (Inl e)
      | Inr (hash, s1) \<Rightarrow>
          (case get_block_number nd hash s1 of
             Inl e \<Rightarrow> Some (Inl e)
           | Inr (None, s2) \<Rightarrow> Some (Inl Trap)
           | Inr (Some number, s2) \<Rightarrow>
               if not_older_than \<le> number then Some (Inr (number, s2))
               else get_next_finalized_block_number_azero k nd sleep not_older_than (net_world_update sleep s2)))"

lemma get_next_finalized_block_number_azero_bound:
  "get_next_finalized_block_number_azero k nd sleep n s = Some (Inr (b, s')) \<Longrightarrow> n \<le> b"
  by (induction k arbitrary: s) (auto split: sum.splits prod.splits option.splits if_splits)

section \<open>Events of a range of blocks\<close>

text \<open>The events of all blocks, in the order of the blocks; the first failed block fails the range.\<close>

fun fetch_events_in_blocks ::
  "'w azero_node \<Rightarrow> u32 list \<Rightarrow> ContractInstance list \<Rightarrow> ('w, ContractEvent list) net_io" where
  "fetch_events_in_blocks nd [] contracts = ret []"
| "fetch_events_in_blocks nd (b # bs) contracts =
     andThen (fetch_events_from_contracts nd b contracts) (\<lambda>events.
     andThen (fetch_events_in_blocks nd bs contracts) (\<lambda>rest. ret (events @ rest)))"

definition fetch_events_in_block_range ::
  "'w azero_node \<Rightarrow> u32 \<Rightarrow> u32 \<Rightarrow> ContractInstance list \<Rightarrow> ('w, ContractEvent list) net_io" where
  "fetch_events_in_block_range nd from_block to_block contracts =
     fetch_events_in_blocks nd (block_range from_block to_block) contracts"

text \<open>
  On a node that gives the events of a block whenever it is asked for them, the range gives the
  events of its blocks, in their order.
\<close>

lemma fetch_events_in_blocks_concat:
  assumes "\<And>b s. b \<in> set bs \<Longrightarrow> \<exists>s'. fetch_events_from_contracts nd b cs s = Inr (block_events b, s')"
  shows "\<exists>s'. fetch_events_in_blocks nd bs cs s = Inr (concat (map block_events bs), s')"
  using assms
proof (induction bs arbitrary: s)
  case (Cons b bs)
  from Cons.prems [of b] obtain s1 where "fetch_events_from_contracts nd b cs s = Inr (block_events b, s1)"
    by auto
  moreover from Cons.IH [of s1] Cons.prems obtain s2 where
    "fetch_events_in_blocks nd bs cs s1 = Inr (concat (map block_events bs), s2)" by auto
  ultimately show ?case by (simp add: andThen_def ret_def)
qed (simp add: ret_def)

section \<open>Runs of a machine\<close>

text \<open>
  A machine is a step function that says what an action does, and \<open>None\<close> when the action is not
  possible; an interleaving of its tasks is a list of actions.
\<close>

fun run_actions :: "('a \<Rightarrow> 's \<Rightarrow> 's option) \<Rightarrow> 'a list \<Rightarrow> 's \<Rightarrow> 's option" where
  "run_actions step [] s = Some s"
| "run_actions step (a # as) s = (case step a s of None \<Rightarrow> None | Some s' \<Rightarrow> run_actions step as s')"

lemma run_actions_append:
  "run_actions step (as @ bs) s = (case run_actions step as s of None \<Rightarrow> None | Some s' \<Rightarrow> run_actions step bs s')"
  by (induction as arbitrary: s) (simp_all split: option.splits)

locale machine_invariant =
  fixes step :: "'a \<Rightarrow> 's \<Rightarrow> 's option"
    and inv :: "'s \<Rightarrow> bool"
  assumes step_inv: "inv s \<Longrightarrow> step a s = Some s' \<Longrightarrow> inv s'"
begin

lemma run_inv: "inv s \<Longrightarrow> run_actions step as s = Some s' \<Longrightarrow> inv s'"
  by (induction as arbitrary: s) (auto split: option.splits intro: step_inv)

end

end
