(* ===== verification/Eth_Sync.thy ===== *)
theory Eth_Sync
  imports Relayer_Sync
begin

text \<open>
  How the relayer follows Ethereum: \<open>EthereumListener\<close> (\<open>listeners/eth.rs\<close>), the loop of
  \<open>EthereumEventsHandler\<close> (\<open>handlers/eth.rs\<close>), the Ethereum part of \<open>RedisManager\<close>
  (\<open>redis/mod.rs\<close>) and the channels that \<open>run_relayer\<close> (\<open>main.rs\<close>) puts between them, as a
  machine whose steps are the points where a task waits. Which task moves next, and which ready
  branch of a \<open>select!\<close> it takes, is the choice of the action.
\<close>

section \<open>Channels\<close>

text \<open>
  A receiver of a broadcast channel of capacity 1: the unread number, and whether another one
  was overwritten. Receiving from a receiver that lags gives an error first.
\<close>

record bus =
  msg :: "u32 option"
  lagged :: bool

definition bus_new :: bus where
  "bus_new = \<lparr>msg = None, lagged = False\<rparr>"

definition bus_send :: "u32 \<Rightarrow> bus \<Rightarrow> bus" where
  "bus_send n b = \<lparr>msg = Some n, lagged = (msg b \<noteq> None)\<rparr>"

text \<open>\<open>None\<close>: nothing to receive; \<open>Some (None, b)\<close>: the error.\<close>

definition bus_recv :: "bus \<Rightarrow> (u32 option \<times> bus) option" where
  "bus_recv b =
     (case msg b of
        None \<Rightarrow> None
      | Some n \<Rightarrow> if lagged b then Some (None, b\<lparr>lagged := False\<rparr>) else Some (Some n, bus_new))"

lemma bus_recv_SomeD: "bus_recv b = Some (Some n, b') \<Longrightarrow> msg b = Some n \<and> b' = bus_new"
  by (auto simp: bus_recv_def split: option.splits if_splits)

lemma bus_recv_LaggedD: "bus_recv b = Some (None, b') \<Longrightarrow> msg b' = msg b"
  by (auto simp: bus_recv_def split: option.splits if_splits)

section \<open>State\<close>

text \<open>The batch that travels to the handler; its one-shot acknowledgement is \<open>ack\<close> below.\<close>

record 'e EthMostEvents =
  em_from_block :: u32
  em_to_block :: u32
  em_events :: "'e list"

datatype ack = Ack_waiting | Ack_sent | Ack_dropped

text \<open>
  Where a task waits. \<open>EL_Deaf\<close>: the awaited branch gave an error that its pattern \<open>Ok(..)\<close>
  does not match, so \<open>select!\<close> has disabled it and only the circuit breaker is left.
  \<open>Stopped\<close>: the task has returned, because of the circuit breaker, an error or a panic.
\<close>

datatype eth_listener =
    EL_Recv
  | EL_Finality u32
  | EL_Query u32 u32
  | EL_Ack u32 u32
  | EL_Deaf
  | EL_Stopped

datatype 'e eth_events_handler =
    EH_Recv
  | EH_Handling "'e EthMostEvents" "'e list"
  | EH_Stopped

datatype redis_manager = RM_Loop | RM_Deaf | RM_Stopped

text \<open>
  The last two fields record the past: the events whose handler returned \<open>Ok\<close>, and the highest
  finalized block that was seen.
\<close>

record 'e eth_sync =
  es_redis :: redis
  es_bus_listener :: bus
  es_bus_redis :: bus
  es_listener :: eth_listener
  es_channel :: "'e EthMostEvents option"
  es_handler :: "'e eth_events_handler"
  es_ack :: ack
  es_manager :: redis_manager
  es_breaker :: bool
  es_handled :: "'e set"
  es_final :: nat

section \<open>The listener\<close>

definition eth_listener_recv :: "'e eth_sync \<Rightarrow> 'e eth_sync option" where
  "eth_listener_recv s =
     (if es_listener s = EL_Recv then
        (case bus_recv (es_bus_listener s) of
           None \<Rightarrow> None
         | Some (Some n, b) \<Rightarrow> Some (s\<lparr>es_bus_listener := b, es_listener := EL_Finality n\<rparr>)
         | Some (None, b) \<Rightarrow> Some (s\<lparr>es_bus_listener := b, es_listener := EL_Deaf\<rparr>))
      else None)"

text \<open>\<open>get_next_finalized_block_number\<close> returns a block that is not older.\<close>

definition eth_listener_finalized :: "u32 \<Rightarrow> u32 \<Rightarrow> 'e eth_sync \<Rightarrow> 'e eth_sync option" where
  "eth_listener_finalized sync_step next_finalized s =
     (case es_listener s of
        EL_Finality n \<Rightarrow>
          if n \<le> next_finalized then
            Some (s\<lparr>es_final := max (es_final s) (unat next_finalized),
              es_listener := (case batch_end next_finalized n sync_step of
                None \<Rightarrow> EL_Stopped | Some to \<Rightarrow> EL_Query n to)\<rparr>)
          else None
      | _ \<Rightarrow> None)"

text \<open>Both subscribers, the listener itself and the Redis manager, get the next block number.\<close>

definition eth_mark_next :: "u32 \<Rightarrow> 'e eth_sync \<Rightarrow> 'e eth_sync" where
  "eth_mark_next to s =
     (case checked_add to 1 of
        None \<Rightarrow> s\<lparr>es_listener := EL_Stopped\<rparr>
      | Some n \<Rightarrow> s\<lparr>es_bus_listener := bus_send n (es_bus_listener s),
          es_bus_redis := bus_send n (es_bus_redis s), es_listener := EL_Recv\<rparr>)"

text \<open>
  The query of the events, which fails when \<open>ok\<close> is false; the events of a finalized block are
  \<open>block_events\<close>. The batch cannot be sent when the handler has returned.
\<close>

definition eth_listener_query :: "(u32 \<Rightarrow> 'e list) \<Rightarrow> bool \<Rightarrow> 'e eth_sync \<Rightarrow> 'e eth_sync option" where
  "eth_listener_query block_events ok s =
     (case es_listener s of
        EL_Query n to \<Rightarrow>
          if \<not> ok then Some (s\<lparr>es_listener := EL_Deaf\<rparr>)
          else
            let events = concat (map block_events (block_range n to)) in
            if events = [] then Some (eth_mark_next to s)
            else if es_handler s = EH_Stopped then Some (s\<lparr>es_listener := EL_Stopped\<rparr>)
            else if es_channel s = None then
              Some (s\<lparr>es_channel := Some \<lparr>em_from_block = n, em_to_block = to, em_events = events\<rparr>,
                es_ack := Ack_waiting, es_listener := EL_Ack n to\<rparr>)
            else None
      | _ \<Rightarrow> None)"

definition eth_listener_ack :: "'e eth_sync \<Rightarrow> 'e eth_sync option" where
  "eth_listener_ack s =
     (case es_listener s of
        EL_Ack n to \<Rightarrow>
          (case es_ack s of
             Ack_waiting \<Rightarrow> None
           | Ack_sent \<Rightarrow> Some (eth_mark_next to s)
           | Ack_dropped \<Rightarrow> Some (s\<lparr>es_listener := EL_Recv\<rparr>))
      | _ \<Rightarrow> None)"

definition eth_listener_breaker :: "'e eth_sync \<Rightarrow> 'e eth_sync option" where
  "eth_listener_breaker s =
     (if es_breaker s \<and> es_listener s \<noteq> EL_Stopped then Some (s\<lparr>es_listener := EL_Stopped\<rparr>) else None)"

section \<open>The events handler\<close>

text \<open>When the handler returns, a batch it holds or could still receive is dropped with its ack.\<close>

definition eth_stop_handler :: "'e eth_sync \<Rightarrow> 'e eth_sync" where
  "eth_stop_handler s = s\<lparr>es_handler := EH_Stopped, es_channel := None,
     es_ack := (if es_ack s = Ack_waiting then Ack_dropped else es_ack s)\<rparr>"

definition eth_handler_recv :: "'e eth_sync \<Rightarrow> 'e eth_sync option" where
  "eth_handler_recv s =
     (case (es_handler s, es_channel s) of
        (EH_Recv, Some b) \<Rightarrow> Some (s\<lparr>es_channel := None, es_handler := EH_Handling b (em_events b)\<rparr>)
      | _ \<Rightarrow> None)"

text \<open>The next event is handled; \<open>ok\<close> is whether \<open>handle_event\<close> returned \<open>Ok\<close>.\<close>

definition eth_handler_event :: "bool \<Rightarrow> 'e eth_sync \<Rightarrow> 'e eth_sync option" where
  "eth_handler_event ok s =
     (case es_handler s of
        EH_Handling b (e # rest) \<Rightarrow>
          if ok then Some (s\<lparr>es_handled := insert e (es_handled s), es_handler := EH_Handling b rest\<rparr>)
          else Some (eth_stop_handler (s\<lparr>es_breaker := True\<rparr>))
      | _ \<Rightarrow> None)"

definition eth_handler_done :: "'e eth_sync \<Rightarrow> 'e eth_sync option" where
  "eth_handler_done s =
     (case es_handler s of
        EH_Handling b [] \<Rightarrow>
          if es_listener s = EL_Stopped then Some (eth_stop_handler s)
          else Some (s\<lparr>es_ack := Ack_sent, es_handler := EH_Recv\<rparr>)
      | _ \<Rightarrow> None)"

definition eth_handler_breaker :: "'e eth_sync \<Rightarrow> 'e eth_sync option" where
  "eth_handler_breaker s =
     (if es_breaker s \<and> es_handler s \<noteq> EH_Stopped then Some (eth_stop_handler s) else None)"

section \<open>The Redis manager\<close>

text \<open>A failed write (\<open>ok\<close> is false) ends the manager.\<close>

definition redis_eth_block :: "Config \<Rightarrow> bool \<Rightarrow> 'e eth_sync \<Rightarrow> 'e eth_sync option" where
  "redis_eth_block cfg ok s =
     (if es_manager s = RM_Loop then
        (case bus_recv (es_bus_redis s) of
           None \<Rightarrow> None
         | Some (Some n, b) \<Rightarrow>
             Some (if ok then s\<lparr>es_bus_redis := b, es_redis :=
                 write_block_number (cfg_name cfg) (cfg_redis_eth_block_key cfg) (es_redis s) n\<rparr>
               else s\<lparr>es_bus_redis := b, es_manager := RM_Stopped\<rparr>)
         | Some (None, b) \<Rightarrow> Some (s\<lparr>es_bus_redis := b, es_manager := RM_Deaf\<rparr>))
      else None)"

text \<open>A sealed block of Aleph Zero arrives; the next round of the loop listens to both again.\<close>

definition redis_azero_seal :: "Config \<Rightarrow> u32 \<Rightarrow> bool \<Rightarrow> 'e eth_sync \<Rightarrow> 'e eth_sync option" where
  "redis_azero_seal cfg seal_block_number ok s =
     (if es_manager s = RM_Stopped then None
      else
        (case checked_add seal_block_number 1 of
           None \<Rightarrow> Some (s\<lparr>es_manager := RM_Stopped\<rparr>)
         | Some n \<Rightarrow>
             Some (if ok then s\<lparr>es_manager := RM_Loop, es_redis :=
                 write_block_number (cfg_name cfg) (cfg_redis_azero_block_key cfg) (es_redis s) n\<rparr>
               else s\<lparr>es_manager := RM_Stopped\<rparr>)))"

definition redis_breaker :: "'e eth_sync \<Rightarrow> 'e eth_sync option" where
  "redis_breaker s =
     (if es_breaker s \<and> es_manager s \<noteq> RM_Stopped then Some (s\<lparr>es_manager := RM_Stopped\<rparr>) else None)"

section \<open>Start and reboot\<close>

definition eth_boot :: "u32 \<Rightarrow> 'e eth_sync \<Rightarrow> 'e eth_sync" where
  "eth_boot n s = s\<lparr>es_bus_listener := bus_send n bus_new, es_bus_redis := bus_send n bus_new,
     es_listener := EL_Recv, es_channel := None, es_handler := EH_Recv, es_ack := Ack_waiting,
     es_manager := RM_Loop, es_breaker := False\<rparr>"

definition eth_init :: "Config \<Rightarrow> redis \<Rightarrow> 'e eth_sync" where
  "eth_init cfg r =
     (let (r', n, _) = redis_start True True cfg r in
      eth_boot n \<lparr>es_redis = r', es_bus_listener = bus_new, es_bus_redis = bus_new, es_listener = EL_Stopped,
        es_channel = None, es_handler = EH_Stopped, es_ack = Ack_waiting, es_manager = RM_Stopped,
        es_breaker = False, es_handled = {}, es_final = 0\<rparr>)"

text \<open>When all tasks have returned, \<open>main\<close> runs the relayer again, with \<open>first_run\<close> false.\<close>

definition eth_reboot :: "Config \<Rightarrow> bool \<Rightarrow> 'e eth_sync \<Rightarrow> 'e eth_sync option" where
  "eth_reboot cfg readable s =
     (if es_listener s = EL_Stopped \<and> es_handler s = EH_Stopped \<and> es_manager s = RM_Stopped then
        (let (r', n, _) = redis_start readable False cfg (es_redis s) in Some (eth_boot n (s\<lparr>es_redis := r'\<rparr>)))
      else None)"

section \<open>Steps and runs\<close>

datatype eth_action =
    Listener_recv
  | Listener_finalized u32
  | Listener_query bool
  | Listener_ack
  | Listener_breaker
  | Handler_recv
  | Handler_event bool
  | Handler_done
  | Handler_breaker
  | Redis_eth_block bool
  | Redis_azero_seal u32 bool
  | Redis_breaker
  | Breaker
  | Reboot bool

fun eth_step :: "Config \<Rightarrow> (u32 \<Rightarrow> 'e list) \<Rightarrow> eth_action \<Rightarrow> 'e eth_sync \<Rightarrow> 'e eth_sync option" where
  "eth_step cfg ev Listener_recv s = eth_listener_recv s"
| "eth_step cfg ev (Listener_finalized n) s = eth_listener_finalized (cfg_sync_step cfg) n s"
| "eth_step cfg ev (Listener_query ok) s = eth_listener_query ev ok s"
| "eth_step cfg ev Listener_ack s = eth_listener_ack s"
| "eth_step cfg ev Listener_breaker s = eth_listener_breaker s"
| "eth_step cfg ev Handler_recv s = eth_handler_recv s"
| "eth_step cfg ev (Handler_event ok) s = eth_handler_event ok s"
| "eth_step cfg ev Handler_done s = eth_handler_done s"
| "eth_step cfg ev Handler_breaker s = eth_handler_breaker s"
| "eth_step cfg ev (Redis_eth_block ok) s = redis_eth_block cfg ok s"
| "eth_step cfg ev (Redis_azero_seal n ok) s = redis_azero_seal cfg n ok s"
| "eth_step cfg ev Redis_breaker s = redis_breaker s"
| "eth_step cfg ev Breaker s = Some (s\<lparr>es_breaker := True\<rparr>)"
| "eth_step cfg ev (Reboot readable) s = eth_reboot cfg readable s"

definition eth_run :: "Config \<Rightarrow> (u32 \<Rightarrow> 'e list) \<Rightarrow> eth_action list \<Rightarrow> 'e eth_sync \<Rightarrow> 'e eth_sync option" where
  "eth_run cfg ev = run_actions (eth_step cfg ev)"

definition eth_cursor :: "Config \<Rightarrow> 'e eth_sync \<Rightarrow> u32 option" where
  "eth_cursor cfg s = es_redis s (redis_key (cfg_name cfg) (cfg_redis_eth_block_key cfg))"

end
