(* ===== verification/Eth_Sync_Properties.thy ===== *)
theory Eth_Sync_Properties
  imports Eth_Sync
begin

text \<open>
  The block cursor of the Ethereum direction: it never passes an event that was not handled, nor
  a block that is not final, whatever the interleaving of the tasks, their failures and the
  reboots of the relayer.
\<close>

section \<open>Invariant\<close>

text \<open>A block number is good when all events from the first block up to it are handled.\<close>

definition eth_good :: "(u32 \<Rightarrow> 'e list) \<Rightarrow> u32 \<Rightarrow> 'e set \<Rightarrow> nat \<Rightarrow> u32 \<Rightarrow> bool" where
  "eth_good ev start handled fin n \<longleftrightarrow> (\<forall>b. start \<le> b \<and> b < n \<longrightarrow> set (ev b) \<subseteq> handled) \<and>
     (n \<le> start \<or> unat n \<le> Suc fin)"

definition range_events :: "(u32 \<Rightarrow> 'e list) \<Rightarrow> u32 \<Rightarrow> u32 \<Rightarrow> 'e set" where
  "range_events ev n to = (\<Union>b \<in> {n..to}. set (ev b))"

definition handler_busy :: "'e eth_sync \<Rightarrow> bool" where
  "handler_busy s \<longleftrightarrow> es_channel s \<noteq> None \<or> es_handler s \<noteq> EH_Recv \<and> es_handler s \<noteq> EH_Stopped"

definition ack_inv :: "(u32 \<Rightarrow> 'e list) \<Rightarrow> u32 \<Rightarrow> u32 \<Rightarrow> 'e eth_sync \<Rightarrow> bool" where
  "ack_inv ev n to s \<longleftrightarrow> (es_ack s = Ack_sent \<longrightarrow> range_events ev n to \<subseteq> es_handled s) \<and>
     (es_ack s \<noteq> Ack_waiting \<longrightarrow> \<not> handler_busy s) \<and>
     (\<forall>b. es_channel s = Some b \<longrightarrow> range_events ev n to = set (em_events b) \<and> es_handler s = EH_Recv) \<and>
     (\<forall>b rest. es_handler s = EH_Handling b rest \<longrightarrow> range_events ev n to \<subseteq> es_handled s \<union> set rest)"

definition listener_inv :: "(u32 \<Rightarrow> 'e list) \<Rightarrow> u32 \<Rightarrow> 'e eth_sync \<Rightarrow> bool" where
  "listener_inv ev start s \<longleftrightarrow>
     (case es_listener s of
        EL_Finality n \<Rightarrow> eth_good ev start (es_handled s) (es_final s) n \<and> \<not> handler_busy s
      | EL_Query n to \<Rightarrow> eth_good ev start (es_handled s) (es_final s) n \<and> unat to \<le> es_final s \<and> \<not> handler_busy s
      | EL_Ack n to \<Rightarrow> eth_good ev start (es_handled s) (es_final s) n \<and> unat to \<le> es_final s \<and> ack_inv ev n to s
      | EL_Stopped \<Rightarrow> True
      | _ \<Rightarrow> \<not> handler_busy s)"

definition eth_inv :: "Config \<Rightarrow> (u32 \<Rightarrow> 'e list) \<Rightarrow> u32 \<Rightarrow> 'e eth_sync \<Rightarrow> bool" where
  "eth_inv cfg ev start s \<longleftrightarrow>
     (\<forall>c. eth_cursor cfg s = Some c \<longrightarrow> eth_good ev start (es_handled s) (es_final s) c) \<and>
     (\<forall>n. msg (es_bus_listener s) = Some n \<longrightarrow> eth_good ev start (es_handled s) (es_final s) n) \<and>
     (\<forall>n. msg (es_bus_redis s) = Some n \<longrightarrow> eth_good ev start (es_handled s) (es_final s) n) \<and>
     listener_inv ev start s"

lemma eth_goodI_low: "n \<le> start \<Longrightarrow> eth_good ev start H F n"
  by (auto simp: eth_good_def)

lemma eth_good_mono:
  "eth_good ev start H F n \<Longrightarrow> H \<subseteq> H' \<Longrightarrow> F \<le> F' \<Longrightarrow> eth_good ev start H' F' n"
  by (fastforce simp: eth_good_def)

lemma range_eventsD: "range_events ev n to \<subseteq> D \<Longrightarrow> n \<le> b \<Longrightarrow> b \<le> to \<Longrightarrow> set (ev b) \<subseteq> D"
  unfolding range_events_def by (meson UN_subset_iff atLeastAtMost_iff)

lemma eth_good_next:
  assumes good: "eth_good ev start H F n" and range: "range_events ev n to \<subseteq> H" and "unat to \<le> F"
    and suc: "checked_add to 1 = Some m"
  shows "eth_good ev start H F m"
proof -
  from checked_add_SomeD [OF suc] have m: "unat m = unat to + 1" by auto
  have "set (ev b) \<subseteq> H" if "start \<le> b" "b < m" for b
  proof (cases "b < n")
    case True
    with good that show ?thesis by (auto simp: eth_good_def)
  next
    case False
    with that m show ?thesis
      by (intro range_eventsD [OF range]) (auto simp: word_le_nat_alt word_less_nat_alt)
  qed
  with m assms(3) show ?thesis by (auto simp: eth_good_def)
qed

lemma concat_block_range: "set (concat (map ev (block_range n to))) = range_events ev n to"
  by (auto simp: range_events_def set_block_range)

section \<open>Every step keeps the invariant\<close>

lemma eth_mark_next_inv:
  assumes "eth_inv cfg ev start s" "eth_good ev start (es_handled s) (es_final s) n" "range_events ev n to \<subseteq> es_handled s"
    "unat to \<le> es_final s" "\<not> handler_busy s"
  shows "eth_inv cfg ev start (eth_mark_next to s)"
proof (cases "checked_add to 1")
  case None
  with assms(1) show ?thesis
    by (simp add: eth_mark_next_def eth_inv_def listener_inv_def eth_cursor_def)
next
  case (Some m)
  from eth_good_next [OF assms(2-4) Some] assms(1,5) Some show ?thesis
    by (simp add: eth_mark_next_def eth_inv_def listener_inv_def eth_cursor_def
        bus_send_def handler_busy_def split: eth_events_handler.splits)
qed

lemma eth_stop_handler_inv: "eth_inv cfg ev start s \<Longrightarrow> eth_inv cfg ev start (eth_stop_handler s)"
  by (auto simp: eth_stop_handler_def eth_inv_def listener_inv_def eth_cursor_def
      handler_busy_def ack_inv_def split: eth_listener.splits)

lemma eth_boot_inv:
  assumes "\<forall>c. eth_cursor cfg s = Some c \<longrightarrow> eth_good ev start (es_handled s) (es_final s) c" "eth_good ev start (es_handled s) (es_final s) n"
  shows "eth_inv cfg ev start (eth_boot n s)"
  using assms by (auto simp: eth_boot_def eth_inv_def listener_inv_def eth_cursor_def bus_send_def
      eth_good_def handler_busy_def)

lemmas eth_inv_defs = eth_inv_def listener_inv_def eth_cursor_def handler_busy_def ack_inv_def

lemma eth_listener_recv_inv:
  "eth_inv cfg ev start s \<Longrightarrow> eth_listener_recv s = Some s' \<Longrightarrow> eth_inv cfg ev start s'"
  by (auto simp: eth_listener_recv_def eth_inv_defs bus_new_def
      split: if_splits option.splits prod.splits dest: bus_recv_SomeD bus_recv_LaggedD)

lemma eth_listener_finalized_inv:
  assumes "eth_inv cfg ev start s" "eth_listener_finalized step fin s = Some s'"
  shows "eth_inv cfg ev start s'"
proof -
  from assms(2) obtain n where n: "es_listener s = EL_Finality n"
    and s': "s' = s\<lparr>es_final := max (es_final s) (unat fin),
      es_listener := (case batch_end fin n step of None \<Rightarrow> EL_Stopped | Some to \<Rightarrow> EL_Query n to)\<rparr>"
    by (auto simp: eth_listener_finalized_def split: eth_listener.splits if_splits)
  have good: "eth_good ev start (es_handled s) (es_final s) m \<Longrightarrow> eth_good ev start (es_handled s') (es_final s') m" for m
    by (erule eth_good_mono) (simp_all add: s')
  have "unat to \<le> es_final s'" if "batch_end fin n step = Some to" for to
    using batch_end_SomeD(1) [OF that] by (simp add: s' word_le_nat_alt)
  with assms(1) n good show ?thesis
    by (cases "batch_end fin n step") (auto simp: eth_inv_defs s')
qed

lemma eth_listener_query_inv:
  assumes "eth_inv cfg ev start s" "eth_listener_query ev ok s = Some s'"
  shows "eth_inv cfg ev start s'"
proof -
  from assms(2) obtain n to where n: "es_listener s = EL_Query n to"
    by (auto simp: eth_listener_query_def split: eth_listener.splits)
  let ?evs = "concat (map ev (block_range n to))"
  from assms(2) n consider
      "s' = s\<lparr>es_listener := EL_Deaf\<rparr> \<or> s' = s\<lparr>es_listener := EL_Stopped\<rparr>"
    | "?evs = []" "s' = eth_mark_next to s"
    | "es_handler s \<noteq> EH_Stopped"
      "s' = s\<lparr>es_channel := Some \<lparr>em_from_block = n, em_to_block = to, em_events = ?evs\<rparr>,
        es_ack := Ack_waiting, es_listener := EL_Ack n to\<rparr>"
    unfolding eth_listener_query_def Let_def by (auto split: if_splits)
  then show ?thesis
  proof cases
    case 1
    with assms(1) n show ?thesis by (auto simp: eth_inv_defs)
  next
    case 2
    then have "range_events ev n to = {}" using concat_block_range [of ev n to] by simp
    moreover from assms(1) n have "eth_good ev start (es_handled s) (es_final s) n"
      "unat to \<le> es_final s" "\<not> handler_busy s" by (simp_all add: eth_inv_def listener_inv_def)
    ultimately show ?thesis using eth_mark_next_inv [OF assms(1), of n to] 2(2) by simp
  next
    case 3
    with assms(1) n concat_block_range [of ev n to] show ?thesis
      by (auto simp: eth_inv_defs eth_good_def split: eth_events_handler.splits)
  qed
qed

lemma eth_listener_ack_inv:
  assumes "eth_inv cfg ev start s" "eth_listener_ack s = Some s'"
  shows "eth_inv cfg ev start s'"
proof -
  from assms(2) obtain n to where n: "es_listener s = EL_Ack n to"
    and s': "es_ack s = Ack_sent \<and> s' = eth_mark_next to s \<or>
      es_ack s = Ack_dropped \<and> s' = s\<lparr>es_listener := EL_Recv\<rparr>"
    by (auto simp: eth_listener_ack_def split: eth_listener.splits ack.splits)
  from assms(1) n have inv: "eth_good ev start (es_handled s) (es_final s) n" "unat to \<le> es_final s"
    "ack_inv ev n to s" by (simp_all add: eth_inv_def listener_inv_def)
  from s' show ?thesis
  proof
    assume "es_ack s = Ack_sent \<and> s' = eth_mark_next to s"
    with inv eth_mark_next_inv [OF assms(1), of n to] show ?thesis by (simp add: ack_inv_def)
  next
    assume "es_ack s = Ack_dropped \<and> s' = s\<lparr>es_listener := EL_Recv\<rparr>"
    with assms(1) inv show ?thesis by (simp add: eth_inv_defs)
  qed
qed

lemma eth_handler_recv_inv:
  "eth_inv cfg ev start s \<Longrightarrow> eth_handler_recv s = Some s' \<Longrightarrow> eth_inv cfg ev start s'"
  by (auto simp: eth_handler_recv_def eth_inv_defs
      split: eth_events_handler.splits option.splits eth_listener.splits)

lemma eth_handler_event_inv:
  assumes "eth_inv cfg ev start s" "eth_handler_event ok s = Some s'"
  shows "eth_inv cfg ev start s'"
proof -
  from assms(2) obtain b e rest where h: "es_handler s = EH_Handling b (e # rest)"
    by (auto simp: eth_handler_event_def split: eth_events_handler.splits list.splits)
  show ?thesis
  proof (cases ok)
    case True
    with assms(2) h have s': "s' = s\<lparr>es_handled := insert e (es_handled s), es_handler := EH_Handling b rest\<rparr>"
      by (simp add: eth_handler_event_def)
    have good: "eth_good ev start (es_handled s) (es_final s) m \<Longrightarrow> eth_good ev start (es_handled s') (es_final s') m" for m
      by (erule eth_good_mono) (auto simp: s')
    with assms(1) h show ?thesis
      by (auto simp: eth_inv_defs s' split: eth_listener.splits)
  next
    case False
    with assms(2) h have "s' = eth_stop_handler (s\<lparr>es_breaker := True\<rparr>)"
      by (simp add: eth_handler_event_def)
    moreover have "eth_inv cfg ev start (s\<lparr>es_breaker := True\<rparr>)"
      using assms(1) by (auto simp: eth_inv_defs eth_good_def split: eth_listener.splits eth_events_handler.splits)
    ultimately show ?thesis by (simp add: eth_stop_handler_inv)
  qed
qed

lemma eth_handler_done_inv:
  assumes "eth_inv cfg ev start s" "eth_handler_done s = Some s'"
  shows "eth_inv cfg ev start s'"
proof (cases "s' = eth_stop_handler s")
  case False
  with assms(2) obtain b where "es_handler s = EH_Handling b []" "es_listener s \<noteq> EL_Stopped"
    "s' = s\<lparr>es_ack := Ack_sent, es_handler := EH_Recv\<rparr>"
    by (auto simp: eth_handler_done_def split: eth_events_handler.splits list.splits if_splits)
  with assms(1) show ?thesis by (auto simp: eth_inv_defs split: eth_listener.splits)
qed (simp add: eth_stop_handler_inv assms(1))

text \<open>The steps of the Redis manager touch neither the listener nor the handler.\<close>

definition same_tasks :: "'e eth_sync \<Rightarrow> 'e eth_sync \<Rightarrow> bool" where
  "same_tasks s s' \<longleftrightarrow> es_listener s' = es_listener s \<and> es_channel s' = es_channel s \<and>
     es_handler s' = es_handler s \<and> es_ack s' = es_ack s \<and> es_handled s' = es_handled s \<and> es_final s' = es_final s"

lemma eth_inv_frame:
  assumes inv: "eth_inv cfg ev start s" and same: "same_tasks s s'"
    and "es_bus_listener s' = es_bus_listener s"
    and "msg (es_bus_redis s') = None \<or> msg (es_bus_redis s') = msg (es_bus_redis s)"
    and "eth_cursor cfg s' = eth_cursor cfg s \<or> eth_cursor cfg s' = msg (es_bus_redis s)"
  shows "eth_inv cfg ev start s'"
proof -
  have "listener_inv ev start s' = listener_inv ev start s"
    using same by (simp add: listener_inv_def ack_inv_def handler_busy_def same_tasks_def split: eth_listener.split)
  then show ?thesis using assms by (auto simp: eth_inv_def same_tasks_def)
qed

lemma redis_eth_block_inv:
  assumes inv: "eth_inv cfg ev start s" and step: "redis_eth_block cfg ok s = Some s'"
  shows "eth_inv cfg ev start s'"
proof (rule eth_inv_frame [OF inv])
  from step obtain n b where recv: "bus_recv (es_bus_redis s) = Some (n, b)"
    and s': "s' = (case n of
        None \<Rightarrow> s\<lparr>es_bus_redis := b, es_manager := RM_Deaf\<rparr>
      | Some n \<Rightarrow> if ok then s\<lparr>es_bus_redis := b, es_redis :=
          write_block_number (cfg_name cfg) (cfg_redis_eth_block_key cfg) (es_redis s) n\<rparr>
        else s\<lparr>es_bus_redis := b, es_manager := RM_Stopped\<rparr>)"
    by (auto simp: redis_eth_block_def split: if_splits option.splits)
  show "same_tasks s s'" "es_bus_listener s' = es_bus_listener s"
    by (simp_all add: s' same_tasks_def split: option.splits)
  show "msg (es_bus_redis s') = None \<or> msg (es_bus_redis s') = msg (es_bus_redis s)"
    "eth_cursor cfg s' = eth_cursor cfg s \<or> eth_cursor cfg s' = msg (es_bus_redis s)"
    using recv bus_recv_SomeD [of "es_bus_redis s"] bus_recv_LaggedD [of "es_bus_redis s"]
    by (auto simp: s' eth_cursor_def write_block_number_def bus_new_def split: option.splits)
qed

lemma redis_azero_seal_inv:
  assumes keys: "cfg_redis_eth_block_key cfg \<noteq> cfg_redis_azero_block_key cfg"
    and inv: "eth_inv cfg ev start s" and step: "redis_azero_seal cfg n ok s = Some s'"
  shows "eth_inv cfg ev start s'"
  by (rule eth_inv_frame [OF inv]; use step keys in \<open>auto simp: redis_azero_seal_def same_tasks_def
    eth_cursor_def write_block_number_def redis_key_inject split: if_splits option.splits\<close>)

lemma breaker_inv:
  assumes inv: "eth_inv cfg ev start s"
  shows "eth_listener_breaker s = Some s' \<Longrightarrow> eth_inv cfg ev start s'"
    "eth_handler_breaker s = Some s' \<Longrightarrow> eth_inv cfg ev start s'"
    "redis_breaker s = Some s' \<Longrightarrow> eth_inv cfg ev start s'"
    "eth_inv cfg ev start (s\<lparr>es_breaker := True\<rparr>)"
proof -
  show "eth_listener_breaker s = Some s' \<Longrightarrow> eth_inv cfg ev start s'"
    using inv by (auto simp: eth_listener_breaker_def eth_inv_def listener_inv_def eth_cursor_def split: if_splits)
  show "eth_handler_breaker s = Some s' \<Longrightarrow> eth_inv cfg ev start s'"
    using eth_stop_handler_inv [OF inv] by (auto simp: eth_handler_breaker_def split: if_splits)
  show "redis_breaker s = Some s' \<Longrightarrow> eth_inv cfg ev start s'"
    by (rule eth_inv_frame [OF inv]) (auto simp: redis_breaker_def same_tasks_def eth_cursor_def split: if_splits)
  show "eth_inv cfg ev start (s\<lparr>es_breaker := True\<rparr>)"
    by (rule eth_inv_frame [OF inv]) (simp_all add: same_tasks_def eth_cursor_def)
qed

lemma eth_reboot_inv:
  assumes "eth_inv cfg ev start s" "sync_deref (cfg_default_sync_from_block_eth cfg) \<le> start"
    "eth_reboot cfg readable s = Some s'"
  shows "eth_inv cfg ev start s'"
proof -
  let ?n = "read_block_number readable (cfg_name cfg) (cfg_redis_eth_block_key cfg) (es_redis s)
    (sync_deref (cfg_default_sync_from_block_eth cfg))"
  from assms(3) have s': "s' = eth_boot ?n s"
    by (auto simp: eth_reboot_def redis_start_def Let_def split: if_splits)
  have "eth_good ev start (es_handled s) (es_final s) ?n"
    using assms(1,2) by (auto simp: read_block_number_def eth_inv_def eth_cursor_def
        split: option.splits if_splits intro: eth_goodI_low)
  with assms(1) show ?thesis unfolding s' by (intro eth_boot_inv) (simp_all add: eth_inv_def)
qed

lemma eth_step_inv:
  assumes "cfg_redis_eth_block_key cfg \<noteq> cfg_redis_azero_block_key cfg"
    "sync_deref (cfg_default_sync_from_block_eth cfg) \<le> start"
    "eth_inv cfg ev start s" "eth_step cfg ev a s = Some s'"
  shows "eth_inv cfg ev start s'"
  using assms by (cases a) (auto intro: eth_listener_recv_inv eth_listener_finalized_inv eth_listener_query_inv
      eth_listener_ack_inv breaker_inv eth_handler_recv_inv eth_handler_event_inv eth_handler_done_inv
      redis_eth_block_inv redis_azero_seal_inv eth_reboot_inv)

text \<open>
  The laws of a machine with an invariant hold for the Ethereum direction when the configuration
  keeps the two cursors apart and its default block is not past the first block.
\<close>

definition sound_eth_config :: "Config \<Rightarrow> u32 \<Rightarrow> bool" where
  "sound_eth_config cfg start \<longleftrightarrow> cfg_redis_eth_block_key cfg \<noteq> cfg_redis_azero_block_key cfg \<and>
     sync_deref (cfg_default_sync_from_block_eth cfg) \<le> start"

interpretation eth_machine: machine_invariant "eth_step cfg ev"
  "\<lambda>s. sound_eth_config cfg start \<longrightarrow> eth_inv cfg ev start s" for cfg ev start
  by unfold_locales (auto simp: sound_eth_config_def intro: eth_step_inv)

lemma eth_init_inv: "eth_inv cfg ev (fst (snd (redis_start True True cfg r))) (eth_init cfg r)"
proof -
  obtain r' n m where start: "redis_start True True cfg r = (r', n, m)" by (cases "redis_start True True cfg r")
  then have "r' (redis_key (cfg_name cfg) (cfg_redis_eth_block_key cfg)) = Some c \<Longrightarrow> c \<le> n" for c
    by (auto simp: redis_start_def Let_def read_block_number_def split: if_splits option.splits)
  then show ?thesis unfolding eth_init_def start
    by (auto intro!: eth_boot_inv eth_goodI_low simp: eth_cursor_def)
qed

text \<open>
  A failed query of the events leaves the listener deaf: no step but the circuit breaker, which
  some other task has to open, lets it go on, and the query is not repeated.
\<close>

lemma eth_failed_query_stalls:
  assumes "es_listener s = EL_Query n to" "eth_step cfg ev (Listener_query False) s = Some s1"
    "run_actions (eth_step cfg ev) as s1 = Some s2" "Listener_breaker \<notin> set as"
  shows "es_listener s2 = EL_Deaf"
proof -
  have step: "es_listener u' = EL_Deaf" if "es_listener u = EL_Deaf" "a \<noteq> Listener_breaker"
    "eth_step cfg ev a u = Some u'" for a u u'
    using that by (cases a) (auto simp: eth_listener_recv_def eth_listener_finalized_def eth_listener_query_def
        eth_listener_ack_def eth_handler_recv_def eth_handler_event_def eth_handler_done_def
        eth_handler_breaker_def eth_stop_handler_def redis_eth_block_def redis_azero_seal_def
        redis_breaker_def eth_reboot_def split: eth_events_handler.splits option.splits list.splits if_splits prod.splits)
  have "es_listener u = EL_Deaf \<Longrightarrow> run_actions (eth_step cfg ev) as u = Some u' \<Longrightarrow>
      Listener_breaker \<notin> set as \<Longrightarrow> es_listener u' = EL_Deaf" for u u'
    by (induction as arbitrary: u) (auto split: option.splits dest!: step [rotated 2])
  moreover have "es_listener s1 = EL_Deaf" using assms(1,2) by (auto simp: eth_listener_query_def)
  ultimately show ?thesis using assms(3,4) by blast
qed

section \<open>Properties\<close>

text \<open>
  The Ethereum cursor never passes an unhandled event. Take the block number the relayer
  starts from on its first run, and any interleaving of its tasks: failing queries and handlers,
  failing Redis requests, messages lost by a lagging receiver, circuit breaker events and reboots
  included. Then every event of every block from that number up to the cursor kept in Redis has
  been handled successfully, and every block before the cursor was final. The hypotheses are that the
  two Redis keys differ and that the default block, to which a failed read falls back, is not past the start.
\<close>

lemma eth_cursor_sound:
  assumes keys: "cfg_redis_eth_block_key cfg \<noteq> cfg_redis_azero_block_key cfg"
    and default: "sync_deref (cfg_default_sync_from_block_eth cfg) \<le> start"
    and first: "start = fst (snd (redis_start True True cfg r))"
    and run: "eth_run cfg ev actions (eth_init cfg r) = Some s"
    and cursor: "eth_cursor cfg s = Some c"
    and block: "start \<le> b" "b < c"
  shows "set (ev b) \<subseteq> es_handled s \<and> unat b \<le> es_final s"
proof -
  have "eth_inv cfg ev start s"
    using eth_machine.run_inv [OF _ run [unfolded eth_run_def], of start] eth_init_inv [of cfg ev r]
      keys default first by (simp add: sound_eth_config_def)
  with cursor have "eth_good ev start (es_handled s) (es_final s) c" by (simp add: eth_inv_def)
  with block show ?thesis by (auto simp: eth_good_def word_less_nat_alt word_le_nat_alt)
qed

text \<open>Block 2 has an event; the relayer handles it, and a failing run of block 4 is not passed.\<close>

definition sync_config :: Config where
  sync_config_base: "sync_config = base_config"

lemmas sync_config_def = sync_config_base [unfolded base_config_def]

definition sync_actions :: "eth_action list" where
  "sync_actions = [Listener_recv, Redis_eth_block True, Listener_finalized 5, Listener_query True, Handler_recv,
     Handler_event True, Handler_done, Listener_ack, Redis_eth_block True]"

lemma sync_range: "block_range 1 2 = [1, 2]"
  by (simp add: block_range_def upt_rec)

lemmas sync_eval = sync_config_def redis_start_def read_block_number_def write_block_number_def redis_key_def
  bus_send_def bus_new_def bus_recv_def batch_end_def checked_add_def checked_sub_def word_le_nat_alt

lemma eth_cursor_sound_witness:
  "\<exists>s. eth_run sync_config (\<lambda>b. if b = 2 then [''request''] else []) sync_actions
       (eth_init sync_config (\<lambda>_. None)) = Some s \<and>
     eth_cursor sync_config s = Some 3 \<and> ''request'' \<in> es_handled s \<and> 2 \<le> es_final s"
proof -
  let ?ev = "\<lambda>b::u32. if b = 2 then [''request''] else []"
  have "\<exists>s. eth_run sync_config ?ev sync_actions (eth_init sync_config (\<lambda>_. None)) = Some s \<and>
      eth_cursor sync_config s = Some 3"
    by (simp add: eth_run_def sync_actions_def eth_init_def eth_boot_def eth_listener_recv_def
        eth_listener_finalized_def eth_listener_query_def eth_listener_ack_def eth_mark_next_def
        eth_handler_recv_def eth_handler_event_def eth_handler_done_def redis_eth_block_def
        eth_cursor_def sync_range sync_eval)
  then obtain s where run: "eth_run sync_config ?ev sync_actions (eth_init sync_config (\<lambda>_. None)) = Some s"
    and cursor: "eth_cursor sync_config s = Some 3" by blast
  have "set (?ev 2) \<subseteq> es_handled s \<and> unat (2::u32) \<le> es_final s"
    by (rule eth_cursor_sound [where start = 1, OF _ _ _ run cursor])
      (simp_all add: sync_config_def redis_start_def read_block_number_def)
  with run cursor show ?thesis by auto
qed

end
