(* ===== verification/Azero_Sync.thy ===== *)
theory Azero_Sync
  imports Eth_Sync
begin

text \<open>
  How the relayer follows Aleph Zero: \<open>AlephZeroListener\<close> (\<open>listeners/azero.rs\<close>), the loop of
  \<open>AlephZeroEventsHandler\<close> (\<open>handlers/azero.rs\<close>), the Aleph Zero part of \<open>RedisManager\<close>
  (\<open>redis/mod.rs\<close>) and the channels between them. Unlike the other direction, the listener
  does not wait for a batch to be handled: several batches are handled at the same time, their
  acknowledgements are taken in the order of the batches, and the events of a batch are handled
  by concurrent tasks.
\<close>

section \<open>State\<close>

text \<open>
  A batch is in the channel, in the hands of its task with the events that are not finished yet,
  acknowledged, or dropped without an acknowledgement.
\<close>

datatype 'e batch_state = B_Queued | B_Running "'e list" | B_Acked | B_Dropped

record 'e AzeroMostEvents =
  ab_events :: "'e list"
  ab_from_block :: u32
  ab_to_block :: u32
  ab_state :: "'e batch_state"

text \<open>
  \<open>AL_Select deaf\<close> is the outer \<open>select!\<close>, with the branch of block numbers disabled when
  \<open>deaf\<close>; \<open>AL_Seal\<close> is the wait to hand a block number to the Redis manager.
\<close>

datatype 'e azero_listener =
    AL_Select bool
  | AL_Finality u32
  | AL_Fetch u32 u32
  | AL_Send "'e AzeroMostEvents"
  | AL_Seal u32
  | AL_Deaf
  | AL_Stopped

text \<open>
  \<open>as_batches\<close> are the batches whose acknowledgement the listener still awaits, oldest first.
  The last three fields record the past: the events whose handler returned \<open>Ok\<close>, those whose
  handler returned an error, and the highest finalized block that was seen.
\<close>

record 'e azero_sync =
  as_redis :: redis
  as_bus :: bus
  as_listener :: "'e azero_listener"
  as_batches :: "'e AzeroMostEvents list"
  as_seal :: "u32 option"
  as_handler_running :: bool
  as_manager_running :: bool
  as_breaker :: bool
  as_handled :: "'e set"
  as_failed :: "'e set"
  as_final :: nat

section \<open>The listener\<close>

definition azero_listener_recv :: "'e azero_sync \<Rightarrow> 'e azero_sync option" where
  "azero_listener_recv s =
     (if as_listener s = AL_Select False then
        (case bus_recv (as_bus s) of
           None \<Rightarrow> None
         | Some (Some n, b) \<Rightarrow> Some (s\<lparr>as_bus := b, as_listener := AL_Finality n\<rparr>)
         | Some (None, b) \<Rightarrow> Some (s\<lparr>as_bus := b, as_listener := AL_Select True\<rparr>))
      else None)"

text \<open>
  The errors of the wait for a finalized block. The client's errors convert to \<open>AzeroClient\<close>,
  the match opens the circuit breaker for \<open>AlephClient\<close> only.
\<close>

datatype AlephZeroListenerError = AlephClient | AzeroClientError client_error

definition azero_finality_failed :: "AlephZeroListenerError \<Rightarrow> 'e azero_sync \<Rightarrow> 'e azero_sync option" where
  "azero_finality_failed e s =
     (case as_listener s of
        AL_Finality n \<Rightarrow>
          Some (case e of
              AlephClient \<Rightarrow> s\<lparr>as_breaker := True, as_listener := AL_Stopped\<rparr>
            | _ \<Rightarrow> s\<lparr>as_listener := AL_Stopped\<rparr>)
      | _ \<Rightarrow> None)"

definition azero_listener_finalized :: "u32 \<Rightarrow> u32 \<Rightarrow> 'e azero_sync \<Rightarrow> 'e azero_sync option" where
  "azero_listener_finalized sync_step next_finalized s =
     (case as_listener s of
        AL_Finality n \<Rightarrow>
          if n \<le> next_finalized then
            Some (s\<lparr>as_final := max (as_final s) (unat next_finalized),
              as_listener := (case batch_end next_finalized n sync_step of
                None \<Rightarrow> AL_Stopped | Some to \<Rightarrow> AL_Fetch n to)\<rparr>)
          else None
      | _ \<Rightarrow> None)"

definition azero_listener_fetch :: "(u32 \<Rightarrow> 'e list) \<Rightarrow> bool \<Rightarrow> 'e azero_sync \<Rightarrow> 'e azero_sync option" where
  "azero_listener_fetch block_events ok s =
     (case as_listener s of
        AL_Fetch n to \<Rightarrow>
          Some (s\<lparr>as_listener := (if ok then
              AL_Send \<lparr>ab_events = concat (map block_events (block_range n to)), ab_from_block = n,
                ab_to_block = to, ab_state = B_Queued\<rparr>
            else AL_Stopped)\<rparr>)
      | _ \<Rightarrow> None)"

text \<open>
  The channel holds 32 batches. Sending to a handler that has returned gives an error, which the
  pattern \<open>Ok(_)\<close> does not match.
\<close>

definition azero_listener_send :: "'e azero_sync \<Rightarrow> 'e azero_sync option" where
  "azero_listener_send s =
     (case as_listener s of
        AL_Send b \<Rightarrow>
          if \<not> as_handler_running s then Some (s\<lparr>as_listener := AL_Deaf\<rparr>)
          else if length (filter (\<lambda>b. ab_state b = B_Queued) (as_batches s)) < 32 then
            (case checked_add (ab_to_block b) 1 of
               None \<Rightarrow> Some (s\<lparr>as_batches := as_batches s @ [b], as_listener := AL_Stopped\<rparr>)
             | Some n \<Rightarrow> Some (s\<lparr>as_batches := as_batches s @ [b], as_bus := bus_send n (as_bus s),
                 as_listener := AL_Select False\<rparr>))
          else None
      | _ \<Rightarrow> None)"

definition azero_listener_ack :: "'e azero_sync \<Rightarrow> 'e azero_sync option" where
  "azero_listener_ack s =
     (case (as_listener s, as_batches s) of
        (AL_Select _, b # bs) \<Rightarrow>
          (case ab_state b of
             B_Acked \<Rightarrow> Some (s\<lparr>as_batches := bs, as_listener := AL_Seal (ab_to_block b)\<rparr>)
           | B_Dropped \<Rightarrow> Some (s\<lparr>as_batches := bs, as_listener := AL_Stopped\<rparr>)
           | _ \<Rightarrow> None)
      | _ \<Rightarrow> None)"

definition azero_listener_seal :: "'e azero_sync \<Rightarrow> 'e azero_sync option" where
  "azero_listener_seal s =
     (case as_listener s of
        AL_Seal n \<Rightarrow>
          if \<not> as_manager_running s then Some (s\<lparr>as_listener := AL_Stopped\<rparr>)
          else if as_seal s = None then Some (s\<lparr>as_seal := Some n, as_listener := AL_Select False\<rparr>)
          else None
      | _ \<Rightarrow> None)"

text \<open>The circuit breaker is a branch of the two \<open>select!\<close> only.\<close>

fun in_select :: "'e azero_listener \<Rightarrow> bool" where
  "in_select (AL_Select _) = True"
| "in_select (AL_Send _) = True"
| "in_select AL_Deaf = True"
| "in_select _ = False"

definition azero_listener_breaker :: "'e azero_sync \<Rightarrow> 'e azero_sync option" where
  "azero_listener_breaker s =
     (if as_breaker s \<and> in_select (as_listener s) then Some (s\<lparr>as_listener := AL_Stopped\<rparr>) else None)"

section \<open>The events handler\<close>

text \<open>The handler takes the oldest batch of the channel.\<close>

fun start_first :: "'e AzeroMostEvents list \<Rightarrow> 'e AzeroMostEvents list option" where
  "start_first [] = None"
| "start_first (b # bs) =
     (if ab_state b = B_Queued then Some (b\<lparr>ab_state := B_Running (ab_events b)\<rparr> # bs)
      else map_option ((#) b) (start_first bs))"

definition azero_handler_recv :: "'e azero_sync \<Rightarrow> 'e azero_sync option" where
  "azero_handler_recv s =
     (if as_handler_running s then map_option (\<lambda>bs. s\<lparr>as_batches := bs\<rparr>) (start_first (as_batches s)) else None)"

text \<open>
  A task of the \<open>i\<close>-th batch ends: its handler returned \<open>Ok\<close>, returned an error, or panicked. An
  error opens the circuit breaker, and the batch goes on; a panic ends the batch.
\<close>

datatype task_result = Task_ok | Task_err | Task_panic

definition azero_handler_event :: "nat \<Rightarrow> 'e \<Rightarrow> task_result \<Rightarrow> 'e azero_sync \<Rightarrow> 'e azero_sync option" where
  "azero_handler_event i e result s =
     (if i < length (as_batches s) then
        (case ab_state (as_batches s ! i) of
           B_Running events \<Rightarrow>
             if e \<in> set events then
               let b = as_batches s ! i; rest = b\<lparr>ab_state := B_Running (remove1 e events)\<rparr> in
               Some (case result of
                   Task_ok \<Rightarrow> s\<lparr>as_batches := (as_batches s)[i := rest], as_handled := insert e (as_handled s)\<rparr>
                 | Task_err \<Rightarrow> s\<lparr>as_batches := (as_batches s)[i := rest], as_failed := insert e (as_failed s),
                     as_breaker := True\<rparr>
                 | Task_panic \<Rightarrow> s\<lparr>as_batches := (as_batches s)[i := b\<lparr>ab_state := B_Dropped\<rparr>]\<rparr>)
             else None
         | _ \<Rightarrow> None)
      else None)"

definition azero_handler_done :: "nat \<Rightarrow> 'e azero_sync \<Rightarrow> 'e azero_sync option" where
  "azero_handler_done i s =
     (if i < length (as_batches s) \<and> ab_state (as_batches s ! i) = B_Running [] then
        Some (s\<lparr>as_batches := (as_batches s)[i := (as_batches s ! i)\<lparr>ab_state := B_Acked\<rparr>]\<rparr>)
      else None)"

text \<open>The handler returns: its tasks are aborted and the batches of the channel are dropped.\<close>

definition drop_batch :: "'e AzeroMostEvents \<Rightarrow> 'e AzeroMostEvents" where
  "drop_batch b = (if ab_state b = B_Acked then b else b\<lparr>ab_state := B_Dropped\<rparr>)"

definition azero_handler_breaker :: "'e azero_sync \<Rightarrow> 'e azero_sync option" where
  "azero_handler_breaker s =
     (if as_breaker s \<and> as_handler_running s then
        Some (s\<lparr>as_handler_running := False, as_batches := map drop_batch (as_batches s)\<rparr>)
      else None)"

section \<open>The Redis manager\<close>

definition redis_seal_block :: "Config \<Rightarrow> bool \<Rightarrow> 'e azero_sync \<Rightarrow> 'e azero_sync option" where
  "redis_seal_block cfg ok s =
     (case as_seal s of
        Some seal_block_number \<Rightarrow>
          if as_manager_running s then
            (case checked_add seal_block_number 1 of
               None \<Rightarrow> Some (s\<lparr>as_seal := None, as_manager_running := False\<rparr>)
             | Some n \<Rightarrow>
                 Some (if ok then s\<lparr>as_seal := None, as_redis :=
                     write_block_number (cfg_name cfg) (cfg_redis_azero_block_key cfg) (as_redis s) n\<rparr>
                   else s\<lparr>as_seal := None, as_manager_running := False\<rparr>))
          else None
      | None \<Rightarrow> None)"

text \<open>The other direction's block numbers are written under the other key.\<close>

definition redis_other_block :: "Config \<Rightarrow> u32 \<Rightarrow> 'e azero_sync \<Rightarrow> 'e azero_sync option" where
  "redis_other_block cfg n s =
     (if as_manager_running s then
        Some (s\<lparr>as_redis := write_block_number (cfg_name cfg) (cfg_redis_eth_block_key cfg) (as_redis s) n\<rparr>)
      else None)"

definition azero_redis_breaker :: "'e azero_sync \<Rightarrow> 'e azero_sync option" where
  "azero_redis_breaker s =
     (if as_breaker s \<and> as_manager_running s then Some (s\<lparr>as_manager_running := False\<rparr>) else None)"

section \<open>Start and reboot\<close>

definition azero_boot :: "u32 \<Rightarrow> 'e azero_sync \<Rightarrow> 'e azero_sync" where
  "azero_boot n s = s\<lparr>as_bus := bus_send n bus_new, as_listener := AL_Select False, as_batches := [],
     as_seal := None, as_handler_running := True, as_manager_running := True, as_breaker := False\<rparr>"

definition azero_init :: "Config \<Rightarrow> redis \<Rightarrow> 'e azero_sync" where
  "azero_init cfg r =
     (let (r', _, n) = redis_start True True cfg r in
      azero_boot n \<lparr>as_redis = r', as_bus = bus_new, as_listener = AL_Stopped, as_batches = [], as_seal = None,
        as_handler_running = False, as_manager_running = False, as_breaker = False, as_handled = {},
        as_failed = {}, as_final = 0\<rparr>)"

definition azero_reboot :: "Config \<Rightarrow> bool \<Rightarrow> 'e azero_sync \<Rightarrow> 'e azero_sync option" where
  "azero_reboot cfg readable s =
     (if as_listener s = AL_Stopped \<and> \<not> as_handler_running s \<and> \<not> as_manager_running s then
        (let (r', _, n) = redis_start readable False cfg (as_redis s) in Some (azero_boot n (s\<lparr>as_redis := r'\<rparr>)))
      else None)"

section \<open>Steps and runs\<close>

datatype 'e azero_action =
    Az_recv
  | Az_finality_failed AlephZeroListenerError
  | Az_finalized u32
  | Az_fetch bool
  | Az_send
  | Az_ack
  | Az_seal
  | Az_listener_breaker
  | Az_handler_recv
  | Az_handler_event nat 'e task_result
  | Az_handler_done nat
  | Az_handler_breaker
  | Az_redis_seal bool
  | Az_redis_other u32
  | Az_redis_breaker
  | Az_breaker
  | Az_reboot bool

fun azero_step :: "Config \<Rightarrow> (u32 \<Rightarrow> 'e list) \<Rightarrow> 'e azero_action \<Rightarrow> 'e azero_sync \<Rightarrow> 'e azero_sync option" where
  "azero_step cfg ev Az_recv s = azero_listener_recv s"
| "azero_step cfg ev (Az_finality_failed e) s = azero_finality_failed e s"
| "azero_step cfg ev (Az_finalized n) s = azero_listener_finalized (cfg_sync_step cfg) n s"
| "azero_step cfg ev (Az_fetch ok) s = azero_listener_fetch ev ok s"
| "azero_step cfg ev Az_send s = azero_listener_send s"
| "azero_step cfg ev Az_ack s = azero_listener_ack s"
| "azero_step cfg ev Az_seal s = azero_listener_seal s"
| "azero_step cfg ev Az_listener_breaker s = azero_listener_breaker s"
| "azero_step cfg ev Az_handler_recv s = azero_handler_recv s"
| "azero_step cfg ev (Az_handler_event i e r) s = azero_handler_event i e r s"
| "azero_step cfg ev (Az_handler_done i) s = azero_handler_done i s"
| "azero_step cfg ev Az_handler_breaker s = azero_handler_breaker s"
| "azero_step cfg ev (Az_redis_seal ok) s = redis_seal_block cfg ok s"
| "azero_step cfg ev (Az_redis_other n) s = redis_other_block cfg n s"
| "azero_step cfg ev Az_redis_breaker s = azero_redis_breaker s"
| "azero_step cfg ev Az_breaker s = Some (s\<lparr>as_breaker := True\<rparr>)"
| "azero_step cfg ev (Az_reboot readable) s = azero_reboot cfg readable s"

definition azero_run ::
  "Config \<Rightarrow> (u32 \<Rightarrow> 'e list) \<Rightarrow> 'e azero_action list \<Rightarrow> 'e azero_sync \<Rightarrow> 'e azero_sync option" where
  "azero_run cfg ev = run_actions (azero_step cfg ev)"

definition azero_cursor :: "Config \<Rightarrow> 'e azero_sync \<Rightarrow> u32 option" where
  "azero_cursor cfg s = as_redis s (redis_key (cfg_name cfg) (cfg_redis_azero_block_key cfg))"

end
