(* ===== verification/Azero_Sync_Properties.thy ===== *)
theory Azero_Sync_Properties
  imports Azero_Sync Eth_Sync_Properties
begin

text \<open>
  The block cursor of the Aleph Zero direction: every event before it was handled, or its handler
  failed; and a run in which a failed event is passed, because the acknowledgement of a batch is
  sent even after a handler of the batch has failed.
\<close>

section \<open>Invariant\<close>

text \<open>
  \<open>az_good n\<close>: all events of the blocks from the first one up to \<open>n\<close> are accounted for. The
  awaited batches are a chain of adjacent ranges of blocks that starts at a good number and ends
  where the listener goes on.
\<close>

definition az_good :: "(u32 \<Rightarrow> 'e list) \<Rightarrow> u32 \<Rightarrow> 'e set \<Rightarrow> nat \<Rightarrow> nat \<Rightarrow> bool" where
  "az_good ev start D F n \<longleftrightarrow> (\<forall>b. start \<le> b \<and> unat b < n \<longrightarrow> set (ev b) \<subseteq> D) \<and>
     (n \<le> unat start \<or> n \<le> Suc F)"

fun chain_blocks :: "nat \<Rightarrow> 'e AzeroMostEvents list \<Rightarrow> nat \<Rightarrow> bool" where
  "chain_blocks p [] q \<longleftrightarrow> p = q"
| "chain_blocks p (b # bs) q \<longleftrightarrow> unat (ab_from_block b) = p \<and> chain_blocks (Suc (unat (ab_to_block b))) bs q"

fun unfinished :: "'e AzeroMostEvents \<Rightarrow> 'e batch_state \<Rightarrow> 'e set" where
  "unfinished b B_Queued = set (ab_events b)"
| "unfinished b (B_Running events) = set events"
| "unfinished b B_Acked = {}"
| "unfinished b B_Dropped = UNIV"

definition batch_inv :: "(u32 \<Rightarrow> 'e list) \<Rightarrow> 'e set \<Rightarrow> nat \<Rightarrow> 'e AzeroMostEvents \<Rightarrow> bool" where
  "batch_inv ev D F b \<longleftrightarrow> range_events ev (ab_from_block b) (ab_to_block b) \<subseteq> D \<union> unfinished b (ab_state b) \<and>
     unat (ab_to_block b) \<le> F"

fun listener_at :: "(u32 \<Rightarrow> 'e list) \<Rightarrow> nat \<Rightarrow> 'e azero_listener \<Rightarrow> nat \<Rightarrow> bool" where
  "listener_at ev F (AL_Finality n) q \<longleftrightarrow> unat n = q"
| "listener_at ev F (AL_Fetch n to) q \<longleftrightarrow> unat n = q \<and> unat to \<le> F"
| "listener_at ev F (AL_Send b) q \<longleftrightarrow> unat (ab_from_block b) = q \<and> ab_state b = B_Queued \<and>
     set (ab_events b) = range_events ev (ab_from_block b) (ab_to_block b) \<and> unat (ab_to_block b) \<le> F"
| "listener_at ev F _ q \<longleftrightarrow> True"

abbreviation accounted :: "'e azero_sync \<Rightarrow> 'e set" where
  "accounted s \<equiv> as_handled s \<union> as_failed s"

definition follows :: "(u32 \<Rightarrow> 'e list) \<Rightarrow> u32 \<Rightarrow> 'e azero_sync \<Rightarrow> nat \<Rightarrow> nat \<Rightarrow> bool" where
  "follows ev start s p q \<longleftrightarrow> az_good ev start (accounted s) (as_final s) p \<and> chain_blocks p (as_batches s) q \<and>
     (\<forall>b \<in> set (as_batches s). batch_inv ev (accounted s) (as_final s) b) \<and>
     listener_at ev (as_final s) (as_listener s) q \<and>
     (\<forall>n. msg (as_bus s) = Some n \<longrightarrow> unat n = q)"

definition sealed_good :: "(u32 \<Rightarrow> 'e list) \<Rightarrow> u32 \<Rightarrow> 'e azero_sync \<Rightarrow> bool" where
  "sealed_good ev start s \<longleftrightarrow>
     (\<forall>n. as_seal s = Some n \<longrightarrow> az_good ev start (accounted s) (as_final s) (Suc (unat n))) \<and>
     (\<forall>n. as_listener s = AL_Seal n \<longrightarrow> az_good ev start (accounted s) (as_final s) (Suc (unat n)))"

definition azero_inv :: "Config \<Rightarrow> (u32 \<Rightarrow> 'e list) \<Rightarrow> u32 \<Rightarrow> 'e azero_sync \<Rightarrow> bool" where
  "azero_inv cfg ev start s \<longleftrightarrow>
     (\<forall>c. azero_cursor cfg s = Some c \<longrightarrow> az_good ev start (accounted s) (as_final s) (unat c)) \<and>
     sealed_good ev start s \<and> (as_listener s = AL_Stopped \<or> (\<exists>p q. follows ev start s p q))"

lemma az_goodI_low: "n \<le> unat start \<Longrightarrow> az_good ev start D F n"
  by (auto simp: az_good_def word_le_nat_alt)

lemma az_good_mono: "az_good ev start D F n \<Longrightarrow> D \<subseteq> D' \<Longrightarrow> F \<le> F' \<Longrightarrow> az_good ev start D' F' n"
  by (fastforce simp: az_good_def)

lemma az_good_batch:
  assumes "az_good ev start D F (unat (ab_from_block b))" "batch_inv ev D F b" "ab_state b = B_Acked"
  shows "az_good ev start D F (Suc (unat (ab_to_block b)))"
proof -
  have "set (ev k) \<subseteq> D" if "start \<le> k" "unat k < Suc (unat (ab_to_block b))" for k
  proof (cases "unat k < unat (ab_from_block b)")
    case True
    with assms(1) that show ?thesis by (auto simp: az_good_def)
  next
    case False
    from assms(2,3) have "range_events ev (ab_from_block b) (ab_to_block b) \<subseteq> D" by (simp add: batch_inv_def)
    then show ?thesis by (rule range_eventsD) (use that False in \<open>auto simp: word_le_nat_alt\<close>)
  qed
  with assms(2) show ?thesis by (auto simp: az_good_def batch_inv_def)
qed

lemma chain_blocks_append: "chain_blocks p (bs @ [b]) q \<longleftrightarrow>
    chain_blocks p bs (unat (ab_from_block b)) \<and> q = Suc (unat (ab_to_block b))"
  by (induction bs arbitrary: p) auto

text \<open>Changing only the state of a batch keeps the chain.\<close>

lemma chain_blocks_same:
  "list_all2 (\<lambda>b b'. ab_from_block b' = ab_from_block b \<and> ab_to_block b' = ab_to_block b) bs bs' \<Longrightarrow>
     chain_blocks p bs' q = chain_blocks p bs q"
  by (induction bs bs' arbitrary: p rule: list_all2_induct) auto

lemma batch_inv_mono: "batch_inv ev D F b \<Longrightarrow> D \<subseteq> D' \<Longrightarrow> F \<le> F' \<Longrightarrow> batch_inv ev D' F' b"
  by (auto simp: batch_inv_def)

lemma listener_at_mono: "listener_at ev F l q \<Longrightarrow> F \<le> F' \<Longrightarrow> listener_at ev F' l q"
  by (cases "(ev, F, l, q)" rule: listener_at.cases) auto

section \<open>Steps of the listener\<close>

lemma azero_listener_recv_inv:
  assumes inv: "azero_inv cfg ev start s" and step: "azero_listener_recv s = Some s'"
  shows "azero_inv cfg ev start s'"
proof -
  from step obtain n b where l: "as_listener s = AL_Select False" and recv: "bus_recv (as_bus s) = Some (n, b)"
    and s': "s' = s\<lparr>as_bus := b, as_listener := (case n of None \<Rightarrow> AL_Select True | Some n \<Rightarrow> AL_Finality n)\<rparr>"
    by (auto simp: azero_listener_recv_def split: if_splits option.splits)
  from inv l obtain p q where f: "follows ev start s p q" by (auto simp: azero_inv_def)
  have "follows ev start s' p q"
  proof (cases n)
    case None
    with f recv show ?thesis by (auto simp: follows_def s' dest: bus_recv_LaggedD)
  next
    case (Some m)
    with f recv show ?thesis by (auto simp: follows_def s' bus_new_def dest: bus_recv_SomeD)
  qed
  with inv show ?thesis
    by (auto simp: azero_inv_def sealed_good_def azero_cursor_def s' split: option.splits)
qed

lemma azero_listener_stopped_inv:
  assumes "azero_inv cfg ev start s" "as_redis s' = as_redis s" "as_seal s' = as_seal s"
    "as_handled s' = as_handled s" "as_failed s' = as_failed s" "as_final s' = as_final s"
    "as_listener s' = AL_Stopped"
  shows "azero_inv cfg ev start s'"
  using assms by (simp add: azero_inv_def sealed_good_def azero_cursor_def)

lemma azero_listener_finalized_inv:
  assumes inv: "azero_inv cfg ev start s" and step: "azero_listener_finalized st fin s = Some s'"
  shows "azero_inv cfg ev start s'"
proof -
  from step obtain n where l: "as_listener s = AL_Finality n"
    and s': "s' = s\<lparr>as_final := max (as_final s) (unat fin),
      as_listener := (case batch_end fin n st of None \<Rightarrow> AL_Stopped | Some to \<Rightarrow> AL_Fetch n to)\<rparr>"
    by (auto simp: azero_listener_finalized_def split: azero_listener.splits if_splits)
  from inv l obtain p q where f: "follows ev start s p q" by (auto simp: azero_inv_def)
  let ?F = "max (as_final s) (unat fin)"
  have good: "az_good ev start (accounted s) (as_final s) k \<Longrightarrow> az_good ev start (accounted s) ?F k" for k
    by (erule az_good_mono) simp_all
  have batch: "batch_inv ev (accounted s) (as_final s) b \<Longrightarrow> batch_inv ev (accounted s) ?F b" for b
    by (erule batch_inv_mono) simp_all
  have "listener_at ev ?F (AL_Fetch n to) q" if "batch_end fin n st = Some to" for to
    using batch_end_SomeD(1) [OF that] f l by (auto simp: follows_def word_le_nat_alt)
  then have "as_listener s' = AL_Stopped \<or> follows ev start s' p q"
    using f good batch by (auto simp: follows_def s' split: option.splits)
  with inv good show ?thesis
    by (auto simp: azero_inv_def sealed_good_def azero_cursor_def s' split: option.splits)
qed

lemma azero_listener_fetch_inv:
  assumes inv: "azero_inv cfg ev start s" and step: "azero_listener_fetch ev ok s = Some s'"
  shows "azero_inv cfg ev start s'"
proof -
  from step obtain n to where l: "as_listener s = AL_Fetch n to"
    by (auto simp: azero_listener_fetch_def split: azero_listener.splits)
  with inv obtain p q where f: "follows ev start s p q" by (auto simp: azero_inv_def)
  show ?thesis
  proof (cases ok)
    case True
    with step l have s': "s' = s\<lparr>as_listener := AL_Send \<lparr>ab_events = concat (map ev (block_range n to)),
        ab_from_block = n, ab_to_block = to, ab_state = B_Queued\<rparr>\<rparr>"
      by (simp add: azero_listener_fetch_def)
    from f l have "follows ev start s' p q"
      using concat_block_range [of ev n to] by (auto simp: follows_def s')
    with inv show ?thesis by (auto simp: azero_inv_def sealed_good_def azero_cursor_def s')
  next
    case False
    with step l show ?thesis
      by (intro azero_listener_stopped_inv [OF inv]) (auto simp: azero_listener_fetch_def)
  qed
qed

lemma azero_listener_send_inv:
  assumes inv: "azero_inv cfg ev start s" and step: "azero_listener_send s = Some s'"
  shows "azero_inv cfg ev start s'"
proof -
  from step obtain b where l: "as_listener s = AL_Send b"
    by (auto simp: azero_listener_send_def split: azero_listener.splits)
  with inv obtain p q where f: "follows ev start s p q" by (auto simp: azero_inv_def)
  from step l consider "s' = s\<lparr>as_listener := AL_Deaf\<rparr>" | "as_listener s' = AL_Stopped"
      "s' = s\<lparr>as_batches := as_batches s @ [b], as_listener := AL_Stopped\<rparr>"
    | n where "checked_add (ab_to_block b) 1 = Some n"
      "s' = s\<lparr>as_batches := as_batches s @ [b], as_bus := bus_send n (as_bus s), as_listener := AL_Select False\<rparr>"
    by (auto simp: azero_listener_send_def split: if_splits option.splits)
  then show ?thesis
  proof cases
    case 1
    with f have "follows ev start s' p q" by (simp add: follows_def)
    with inv 1 show ?thesis by (auto simp: azero_inv_def sealed_good_def azero_cursor_def)
  next
    case 2
    then show ?thesis by (intro azero_listener_stopped_inv [OF inv]) simp_all
  next
    case 3
    then have "unat n = Suc (unat (ab_to_block b))" using checked_add_SomeD by fastforce
    with f l 3 have "follows ev start s' p (Suc (unat (ab_to_block b)))"
      by (auto simp: follows_def chain_blocks_append batch_inv_def bus_send_def)
    with inv 3(2) show ?thesis by (auto simp: azero_inv_def sealed_good_def azero_cursor_def)
  qed
qed

text \<open>The oldest batch is acknowledged: all blocks up to its end are accounted for.\<close>

lemma azero_listener_ack_inv:
  assumes inv: "azero_inv cfg ev start s" and step: "azero_listener_ack s = Some s'"
  shows "azero_inv cfg ev start s'"
proof -
  from step obtain d b bs where l: "as_listener s = AL_Select d" "as_batches s = b # bs"
    and "ab_state b = B_Acked \<and> s' = s\<lparr>as_batches := bs, as_listener := AL_Seal (ab_to_block b)\<rparr> \<or>
      s' = s\<lparr>as_batches := bs, as_listener := AL_Stopped\<rparr>"
    by (auto simp: azero_listener_ack_def split: azero_listener.splits list.splits batch_state.splits)
  then consider "ab_state b = B_Acked" "s' = s\<lparr>as_batches := bs, as_listener := AL_Seal (ab_to_block b)\<rparr>"
    | "s' = s\<lparr>as_batches := bs, as_listener := AL_Stopped\<rparr>" by blast
  then show ?thesis
  proof cases
    case 1
    from inv l obtain p q where f: "follows ev start s p q" by (auto simp: azero_inv_def)
    from f l 1(1) have good: "az_good ev start (accounted s) (as_final s) (Suc (unat (ab_to_block b)))"
      by (intro az_good_batch) (auto simp: follows_def)
    with f l have "follows ev start s' (Suc (unat (ab_to_block b))) q" by (simp add: follows_def 1(2))
    with inv good show ?thesis by (auto simp: azero_inv_def sealed_good_def azero_cursor_def 1(2))
  next
    case 2
    then show ?thesis by (intro azero_listener_stopped_inv [OF inv]) simp_all
  qed
qed

lemma azero_listener_seal_inv:
  assumes inv: "azero_inv cfg ev start s" and step: "azero_listener_seal s = Some s'"
  shows "azero_inv cfg ev start s'"
proof -
  from step obtain n where l: "as_listener s = AL_Seal n"
    and s': "s' = s\<lparr>as_listener := AL_Stopped\<rparr> \<or> s' = s\<lparr>as_seal := Some n, as_listener := AL_Select False\<rparr>"
    by (auto simp: azero_listener_seal_def split: azero_listener.splits if_splits)
  from inv l obtain p q where f: "follows ev start s p q" by (auto simp: azero_inv_def)
  from s' show ?thesis
  proof
    assume "s' = s\<lparr>as_listener := AL_Stopped\<rparr>"
    then show ?thesis by (intro azero_listener_stopped_inv [OF inv]) simp_all
  next
    assume s': "s' = s\<lparr>as_seal := Some n, as_listener := AL_Select False\<rparr>"
    with f have "follows ev start s' p q" by (simp add: follows_def)
    with inv l show ?thesis by (auto simp: azero_inv_def sealed_good_def azero_cursor_def s')
  qed
qed

section \<open>Steps of the handler\<close>

text \<open>
  A step of the handler changes the states of batches only, accounts for more events, and leaves
  no batch with an event that is neither unfinished nor accounted for.
\<close>

lemma azero_handler_frame:
  assumes inv: "azero_inv cfg ev start s"
    and batches: "list_all2 (\<lambda>b b'. ab_from_block b' = ab_from_block b \<and> ab_to_block b' = ab_to_block b \<and>
        (batch_inv ev (accounted s) (as_final s) b \<longrightarrow> batch_inv ev (accounted s') (as_final s) b'))
      (as_batches s) (as_batches s')"
    and more: "accounted s \<subseteq> accounted s'"
    and same: "as_redis s' = as_redis s" "as_bus s' = as_bus s" "as_listener s' = as_listener s"
      "as_seal s' = as_seal s" "as_final s' = as_final s"
  shows "azero_inv cfg ev start s'"
proof -
  have good: "az_good ev start (accounted s) (as_final s) k \<Longrightarrow> az_good ev start (accounted s') (as_final s) k" for k
    by (erule az_good_mono [OF _ more]) simp
  have fol: "follows ev start s' p q" if f: "follows ev start s p q" for p q
  proof -
    have "chain_blocks p (as_batches s') q"
      using f chain_blocks_same [of "as_batches s" "as_batches s'" p q] list_all2_mono [OF batches]
      by (auto simp: follows_def)
    moreover have "batch_inv ev (accounted s') (as_final s) b'" if b': "b' \<in> set (as_batches s')" for b'
    proof -
      from b' obtain i where i: "i < length (as_batches s')" "b' = as_batches s' ! i" by (auto simp: in_set_conv_nth)
      with batches have "i < length (as_batches s)" by (simp add: list_all2_lengthD)
      with f have "batch_inv ev (accounted s) (as_final s) (as_batches s ! i)" by (simp add: follows_def)
      with list_all2_nthD2 [OF batches i(1)] i(2) show ?thesis by simp
    qed
    ultimately show ?thesis using f good by (simp add: follows_def same)
  qed
  have "as_listener s' = AL_Stopped \<or> (\<exists>p q. follows ev start s' p q)"
    using inv fol unfolding azero_inv_def same by meson
  with inv good show ?thesis
    unfolding azero_inv_def sealed_good_def azero_cursor_def same by blast
qed

lemma list_all2_update:
  "i < length bs \<Longrightarrow> (\<And>b. P b b) \<Longrightarrow> P (bs ! i) b' \<Longrightarrow> list_all2 P bs (bs[i := b'])"
  by (auto simp: list_all2_conv_all_nth nth_list_update)

lemma start_first_all2:
  "start_first bs = Some bs' \<Longrightarrow> (\<And>b. P b b) \<Longrightarrow>
   (\<And>b. ab_state b = B_Queued \<Longrightarrow> P b (b\<lparr>ab_state := B_Running (ab_events b)\<rparr>)) \<Longrightarrow> list_all2 P bs bs'"
  by (induction bs arbitrary: bs') (auto simp: list.rel_refl split: if_splits)

lemma azero_handler_recv_inv:
  assumes inv: "azero_inv cfg ev start s" and step: "azero_handler_recv s = Some s'"
  shows "azero_inv cfg ev start s'"
proof -
  from step obtain bs where bs: "start_first (as_batches s) = Some bs" and s': "s' = s\<lparr>as_batches := bs\<rparr>"
    by (auto simp: azero_handler_recv_def split: if_splits)
  show ?thesis
    by (rule azero_handler_frame [OF inv])
      (auto simp: s' batch_inv_def intro!: start_first_all2 [OF bs])
qed

lemma azero_handler_event_inv:
  assumes inv: "azero_inv cfg ev start s" and step: "azero_handler_event i e r s = Some s'"
  shows "azero_inv cfg ev start s'"
proof -
  let ?b = "as_batches s ! i"
  from step obtain events where i: "i < length (as_batches s)" and st: "ab_state ?b = B_Running events"
    and e: "e \<in> set events"
    by (auto simp: azero_handler_event_def split: if_splits batch_state.splits)
  let ?rest = "?b\<lparr>ab_state := B_Running (remove1 e events)\<rparr>"
  from step i st e have s': "s' = (case r of
      Task_ok \<Rightarrow> s\<lparr>as_batches := (as_batches s)[i := ?rest], as_handled := insert e (as_handled s)\<rparr>
    | Task_err \<Rightarrow> s\<lparr>as_batches := (as_batches s)[i := ?rest], as_failed := insert e (as_failed s), as_breaker := True\<rparr>
    | Task_panic \<Rightarrow> s\<lparr>as_batches := (as_batches s)[i := ?b\<lparr>ab_state := B_Dropped\<rparr>]\<rparr>)"
    by (auto simp: azero_handler_event_def Let_def)
  have sub: "set events \<subseteq> insert e (set (remove1 e events))" by (induction events) auto
  have rest: "batch_inv ev (insert e D) F ?rest" if "batch_inv ev D F ?b" for D F
    using that sub st by (auto simp: batch_inv_def)
  have drop: "batch_inv ev D F (?b\<lparr>ab_state := B_Dropped\<rparr>)" if "batch_inv ev D F ?b" for D F
    using that by (simp add: batch_inv_def)
  have grow: "batch_inv ev (insert e D) F b" if "batch_inv ev D F b" for D F b
    using that by (rule batch_inv_mono) auto
  show ?thesis
  proof (rule azero_handler_frame [OF inv])
    show "list_all2 (\<lambda>b b'. ab_from_block b' = ab_from_block b \<and> ab_to_block b' = ab_to_block b \<and>
        (batch_inv ev (accounted s) (as_final s) b \<longrightarrow> batch_inv ev (accounted s') (as_final s) b'))
      (as_batches s) (as_batches s')"
      using i rest [of "accounted s"] drop grow [of "accounted s"]
      by (cases r) (auto simp: s' intro!: list_all2_update)
  qed (auto simp: s' split: task_result.splits)
qed

lemma azero_handler_done_inv:
  assumes inv: "azero_inv cfg ev start s" and step: "azero_handler_done i s = Some s'"
  shows "azero_inv cfg ev start s'"
proof -
  from step have i: "i < length (as_batches s)" and st: "ab_state (as_batches s ! i) = B_Running []"
    and s': "s' = s\<lparr>as_batches := (as_batches s)[i := (as_batches s ! i)\<lparr>ab_state := B_Acked\<rparr>]\<rparr>"
    by (auto simp: azero_handler_done_def split: if_splits)
  show ?thesis
    by (rule azero_handler_frame [OF inv])
      (auto simp: s' batch_inv_def st intro!: list_all2_update [OF i])
qed

lemma azero_handler_breaker_inv:
  assumes inv: "azero_inv cfg ev start s" and step: "azero_handler_breaker s = Some s'"
  shows "azero_inv cfg ev start s'"
proof -
  from step have s': "s' = s\<lparr>as_handler_running := False, as_batches := map drop_batch (as_batches s)\<rparr>"
    by (auto simp: azero_handler_breaker_def split: if_splits)
  show ?thesis
    by (rule azero_handler_frame [OF inv])
      (auto simp: s' batch_inv_def drop_batch_def list_all2_conv_all_nth)
qed

section \<open>Steps of the Redis manager, circuit breaker and reboot\<close>

text \<open>Steps that leave the listener, its channels and the batches alone.\<close>

lemma azero_redis_frame:
  assumes inv: "azero_inv cfg ev start s"
    and same: "as_bus s' = as_bus s" "as_listener s' = as_listener s" "as_batches s' = as_batches s"
      "as_handled s' = as_handled s" "as_failed s' = as_failed s" "as_final s' = as_final s"
    and seal: "as_seal s' = None \<or> as_seal s' = as_seal s"
    and cursor: "azero_cursor cfg s' = azero_cursor cfg s \<or>
      (\<exists>n c. as_seal s = Some n \<and> checked_add n 1 = Some c \<and> azero_cursor cfg s' = Some c)"
  shows "azero_inv cfg ev start s'"
proof -
  have "az_good ev start (accounted s) (as_final s) (unat c)" if "azero_cursor cfg s' = Some c" for c
    using cursor
  proof
    assume "\<exists>n c. as_seal s = Some n \<and> checked_add n 1 = Some c \<and> azero_cursor cfg s' = Some c"
    with that obtain n where n: "as_seal s = Some n" "checked_add n 1 = Some c" by auto
    then have "unat c = Suc (unat n)" using checked_add_SomeD by fastforce
    with n inv show ?thesis by (simp add: azero_inv_def sealed_good_def)
  qed (use inv that in \<open>simp add: azero_inv_def\<close>)
  moreover have "follows ev start s' p q = follows ev start s p q" for p q
    by (simp add: follows_def same)
  ultimately show ?thesis using inv seal by (auto simp: azero_inv_def sealed_good_def same)
qed

lemma azero_redis_inv:
  assumes inv: "azero_inv cfg ev start s"
    and keys: "cfg_redis_eth_block_key cfg \<noteq> cfg_redis_azero_block_key cfg"
  shows "redis_seal_block cfg ok s = Some s' \<Longrightarrow> azero_inv cfg ev start s'"
    "redis_other_block cfg n s = Some s' \<Longrightarrow> azero_inv cfg ev start s'"
    "azero_redis_breaker s = Some s' \<Longrightarrow> azero_inv cfg ev start s'"
    "azero_inv cfg ev start (s\<lparr>as_breaker := True\<rparr>)"
proof -
  show "redis_seal_block cfg ok s = Some s' \<Longrightarrow> azero_inv cfg ev start s'"
    by (rule azero_redis_frame [OF inv]; auto simp: redis_seal_block_def azero_cursor_def
        write_block_number_def split: option.splits if_splits)
  show "redis_other_block cfg n s = Some s' \<Longrightarrow> azero_inv cfg ev start s'"
    by (rule azero_redis_frame [OF inv]; use keys in \<open>auto simp: redis_other_block_def azero_cursor_def
        write_block_number_def redis_key_inject split: if_splits\<close>)
  show "azero_redis_breaker s = Some s' \<Longrightarrow> azero_inv cfg ev start s'"
    by (rule azero_redis_frame [OF inv]; auto simp: azero_redis_breaker_def azero_cursor_def split: if_splits)
  show "azero_inv cfg ev start (s\<lparr>as_breaker := True\<rparr>)"
    by (rule azero_redis_frame [OF inv]; simp add: azero_cursor_def)
qed

lemma azero_boot_inv:
  assumes "\<forall>c. azero_cursor cfg s = Some c \<longrightarrow> az_good ev start (accounted s) (as_final s) (unat c)"
    "az_good ev start (accounted s) (as_final s) (unat n)"
  shows "azero_inv cfg ev start (azero_boot n s)"
proof -
  have "follows ev start (azero_boot n s) (unat n) (unat n)"
    using assms(2) by (simp add: follows_def azero_boot_def bus_send_def)
  with assms(1) show ?thesis
    by (auto simp: azero_inv_def sealed_good_def azero_cursor_def azero_boot_def)
qed

lemma azero_reboot_inv:
  assumes inv: "azero_inv cfg ev start s"
    and default: "sync_deref (cfg_default_sync_from_block_azero cfg) \<le> start"
    and step: "azero_reboot cfg readable s = Some s'"
  shows "azero_inv cfg ev start s'"
proof -
  let ?n = "read_block_number readable (cfg_name cfg) (cfg_redis_azero_block_key cfg) (as_redis s)
    (sync_deref (cfg_default_sync_from_block_azero cfg))"
  from step have s': "s' = azero_boot ?n s"
    by (auto simp: azero_reboot_def redis_start_def Let_def split: if_splits)
  have "az_good ev start (accounted s) (as_final s) (unat ?n)"
    using inv default by (auto simp: read_block_number_def azero_inv_def azero_cursor_def word_le_nat_alt
        split: option.splits if_splits intro: az_goodI_low)
  with inv show ?thesis unfolding s' by (intro azero_boot_inv) (simp_all add: azero_inv_def)
qed

lemma azero_stop_inv:
  assumes inv: "azero_inv cfg ev start s"
  shows "azero_finality_failed e s = Some s' \<Longrightarrow> azero_inv cfg ev start s'"
    "azero_listener_breaker s = Some s' \<Longrightarrow> azero_inv cfg ev start s'"
  by (rule azero_listener_stopped_inv [OF inv]; auto simp: azero_finality_failed_def
      azero_listener_breaker_def split: azero_listener.splits AlephZeroListenerError.splits if_splits)+

lemma azero_step_inv:
  assumes "cfg_redis_eth_block_key cfg \<noteq> cfg_redis_azero_block_key cfg"
    "sync_deref (cfg_default_sync_from_block_azero cfg) \<le> start"
    "azero_inv cfg ev start s" "azero_step cfg ev a s = Some s'"
  shows "azero_inv cfg ev start s'"
  using assms by (cases a) (auto intro: azero_listener_recv_inv azero_listener_finalized_inv
      azero_listener_fetch_inv azero_listener_send_inv azero_listener_ack_inv azero_listener_seal_inv
      azero_handler_recv_inv azero_handler_event_inv azero_handler_done_inv azero_handler_breaker_inv
      azero_redis_inv azero_reboot_inv azero_stop_inv)

definition sound_azero_config :: "Config \<Rightarrow> u32 \<Rightarrow> bool" where
  "sound_azero_config cfg start \<longleftrightarrow> cfg_redis_eth_block_key cfg \<noteq> cfg_redis_azero_block_key cfg \<and>
     sync_deref (cfg_default_sync_from_block_azero cfg) \<le> start"

interpretation azero_machine: machine_invariant "azero_step cfg ev"
  "\<lambda>s. sound_azero_config cfg start \<longrightarrow> azero_inv cfg ev start s" for cfg ev start
  by unfold_locales (auto simp: sound_azero_config_def intro: azero_step_inv)

lemma azero_init_inv: "azero_inv cfg ev (snd (snd (redis_start True True cfg r))) (azero_init cfg r)"
proof -
  obtain r' m n where start: "redis_start True True cfg r = (r', m, n)" by (cases "redis_start True True cfg r")
  then have "r' (redis_key (cfg_name cfg) (cfg_redis_azero_block_key cfg)) = Some c \<Longrightarrow> c \<le> n" for c
    by (auto simp: redis_start_def Let_def read_block_number_def split: if_splits option.splits)
  then show ?thesis unfolding azero_init_def start
    by (auto intro!: azero_boot_inv az_goodI_low simp: azero_cursor_def word_le_nat_alt)
qed

text \<open>
  An error of the client during the wait for a finalized block stops the listener without opening
  the circuit breaker: the conversion of the error does not give the variant the match looks for.
\<close>

lemma azero_client_error_fatal:
  assumes "azero_finality_failed (AzeroClientError e) s = Some s'"
  shows "as_listener s' = AL_Stopped \<and> as_breaker s' = as_breaker s"
  using assms by (auto simp: azero_finality_failed_def split: azero_listener.splits)

section \<open>Properties\<close>

text \<open>
  The Aleph Zero cursor passes no event without a word. Take the block number the relayer
  starts from on its first run, and any interleaving of its tasks: batches handled at the same
  time and finished in any order, failing requests, panics, circuit breaker events and reboots included.
  Then for every event of every block from that number up to the cursor in Redis, its handler
  succeeded or returned an error; and every block before the cursor was final. In a run in which
  no handler returned an error, all of them were handled successfully.
\<close>

lemma azero_cursor_accounted:
  assumes keys: "cfg_redis_eth_block_key cfg \<noteq> cfg_redis_azero_block_key cfg"
    and default: "sync_deref (cfg_default_sync_from_block_azero cfg) \<le> start"
    and first: "start = snd (snd (redis_start True True cfg r))"
    and run: "azero_run cfg ev actions (azero_init cfg r) = Some s"
    and cursor: "azero_cursor cfg s = Some c"
    and block: "start \<le> b" "b < c"
  shows "set (ev b) \<subseteq> as_handled s \<union> as_failed s \<and> unat b \<le> as_final s \<and>
    (as_failed s = {} \<longrightarrow> set (ev b) \<subseteq> as_handled s)"
proof -
  have "azero_inv cfg ev start s"
    using azero_machine.run_inv [OF _ run [unfolded azero_run_def], of start] azero_init_inv [of cfg ev r]
      keys default first by (simp add: sound_azero_config_def)
  with cursor have "az_good ev start (accounted s) (as_final s) (unat c)" by (simp add: azero_inv_def)
  with block show ?thesis by (auto simp: az_good_def word_less_nat_alt word_le_nat_alt)
qed

text \<open>Two batches of two blocks each, with events in blocks 2 and 3, the second one finished first.\<close>

definition sync_events :: "u32 \<Rightarrow> string list" where
  "sync_events b = (if b = 2 then [''two''] else if b = 3 then [''three''] else [])"

definition sync_azero_actions :: "string azero_action list" where
  "sync_azero_actions = [Az_recv, Az_finalized 5, Az_fetch True, Az_send, Az_handler_recv,
     Az_recv, Az_finalized 5, Az_fetch True, Az_send, Az_handler_recv,
     Az_handler_event 1 ''three'' Task_ok, Az_handler_done 1, Az_handler_event 0 ''two'' Task_ok, Az_handler_done 0,
     Az_ack, Az_seal, Az_redis_seal True, Az_ack, Az_seal, Az_redis_seal True]"

lemma sync_azero_range: "block_range 1 2 = [1, 2]" "block_range 3 4 = [3, 4]"
  by (simp_all add: block_range_def upt_rec)

lemmas azero_sync_eval = azero_run_def azero_init_def azero_boot_def azero_listener_recv_def
  azero_listener_finalized_def azero_listener_fetch_def azero_listener_send_def azero_listener_ack_def
  azero_listener_seal_def azero_handler_recv_def azero_handler_event_def azero_handler_done_def
  redis_seal_block_def azero_cursor_def sync_azero_range sync_eval sync_events_def

lemma azero_cursor_accounted_witness:
  "\<exists>s. azero_run sync_config sync_events sync_azero_actions (azero_init sync_config (\<lambda>_. None)) = Some s \<and>
     azero_cursor sync_config s = Some 5 \<and> ''three'' \<in> as_handled s \<union> as_failed s \<and> 3 \<le> as_final s"
proof -
  have "\<exists>s. azero_run sync_config sync_events sync_azero_actions (azero_init sync_config (\<lambda>_. None)) = Some s \<and>
      azero_cursor sync_config s = Some 5"
    by (simp add: sync_azero_actions_def azero_sync_eval)
  then obtain s where
    run: "azero_run sync_config sync_events sync_azero_actions (azero_init sync_config (\<lambda>_. None)) = Some s"
    and cursor: "azero_cursor sync_config s = Some 5" by blast
  have "set (sync_events 3) \<subseteq> as_handled s \<union> as_failed s \<and> unat (3::u32) \<le> as_final s \<and>
      (as_failed s = {} \<longrightarrow> set (sync_events 3) \<subseteq> as_handled s)"
    by (rule azero_cursor_accounted [where start = 1, OF _ _ _ run cursor])
      (simp_all add: sync_config_def redis_start_def read_block_number_def)
  with run cursor show ?thesis by (auto simp: sync_events_def)
qed


end
