(* ===== verification/Relayer_Guards.thy ===== *)
theory Relayer_Guards
  imports Relayer_Contracts Relayer_Config
begin

text \<open>
  What keeps the relayer from working during an emergency: \<open>AdvisoryListener\<close>
  (\<open>listeners/advisory.rs\<close>), \<open>AlephZeroHaltedListener\<close> (\<open>listeners/azero.rs\<close>),
  \<open>EthereumPausedListener\<close> (\<open>listeners/eth.rs\<close>), and the start of the relayer, \<open>run_relayer\<close>
  in \<open>main.rs\<close>.
\<close>

section \<open>Guards\<close>

text \<open>
  The three listeners are loops over a \<open>select!\<close> of the circuit breaker, which gives an event or
  a receive error, and the answer to a query. What differs is which answers open the breaker.
\<close>

datatype 'q guard_input = Breaker_recv "CircuitBreakerEvent option" | Answer 'q

text \<open>
  The result: the event the listener returns with and whether it has sent it itself, or the
  receive error. \<open>None\<close>: the loop goes on.
\<close>

datatype guard_result = Guard_exit CircuitBreakerEvent bool | Guard_error

fun guard_run :: "('q \<Rightarrow> CircuitBreakerEvent option) \<Rightarrow> 'q guard_input list \<Rightarrow> guard_result option" where
  "guard_run decide [] = None"
| "guard_run decide (Breaker_recv (Some e) # ins) = Some (Guard_exit e False)"
| "guard_run decide (Breaker_recv None # ins) = Some Guard_error"
| "guard_run decide (Answer q # ins) =
     (case decide q of Some e \<Rightarrow> Some (Guard_exit e True) | None \<Rightarrow> guard_run decide ins)"

definition advisory_decide :: "AzeroContractError fault + AccountId list \<Rightarrow> CircuitBreakerEvent option" where
  "advisory_decide res =
     (case res of
        Inl why \<Rightarrow> Some AlephClientError
      | Inr advisories \<Rightarrow> if advisories = [] then None else Some (AdvisoryEmergency advisories))"

definition azero_halted_decide :: "AzeroContractError fault + bool \<Rightarrow> CircuitBreakerEvent option" where
  "azero_halted_decide res =
     (case res of
        Inr is_halted \<Rightarrow> if is_halted then Some BridgeHaltAlephZero else None
      | Inl why \<Rightarrow> Some AlephClientError)"

definition eth_paused_decide :: "string + bool \<Rightarrow> CircuitBreakerEvent option" where
  "eth_paused_decide res =
     (case res of
        Inr is_paused \<Rightarrow> if is_paused then Some BridgeHaltEthereum else None
      | Inl why \<Rightarrow> Some EthConnectionError)"

section \<open>Advisories\<close>

text \<open>All advisories are asked; the result is the addresses of the active ones, in their order.\<close>

fun query_active_advisories :: "'w azero_node \<Rightarrow> AdvisoryInstance list \<Rightarrow> ('w, AccountId list) relayer_io" where
  "query_active_advisories nd [] = ret []"
| "query_active_advisories nd (a # as) =
     andThen (instance_is_emergency nd a) (\<lambda>r.
     andThen (query_active_advisories nd as) (\<lambda>rest.
     ret (if fst r then snd r # rest else rest)))"

text \<open>Missing or invalid addresses are a panic.\<close>

fun advisory_instances :: "accounts \<Rightarrow> string \<Rightarrow> string list \<Rightarrow> AzeroContractError + AdvisoryInstance list" where
  "advisory_instances acc metadata [] = Inr []"
| "advisory_instances acc metadata (address # addresses) =
     (case advisory_instance_new acc address metadata of
        Inl e \<Rightarrow> Inl e
      | Inr a \<Rightarrow> (case advisory_instances acc metadata addresses of Inl e \<Rightarrow> Inl e | Inr as \<Rightarrow> Inr (a # as)))"

definition parse_advisory_addresses :: "accounts \<Rightarrow> Config \<Rightarrow> ('s, 'e, AdvisoryInstance list) contract" where
  "parse_advisory_addresses acc cfg =
     (case cfg_advisory_contract_addresses cfg of
        None \<Rightarrow> trap
      | Some addresses \<Rightarrow>
          (case advisory_instances acc (cfg_advisory_contract_metadata cfg) addresses of
             Inl e \<Rightarrow> trap
           | Inr as \<Rightarrow> ret as))"

section \<open>The guards as tasks\<close>

text \<open>
  A task makes its contract instance once and then loops. An input is what the breaker gives or the
  state of the network in which the query is answered. \<open>None\<close>: the task is still running. An event that the task
  sends itself is lost only when nobody listens to the breaker.
\<close>

datatype AdvisoryListenerError =
    Advisory_AzeroContract AzeroContractError
  | Advisory_BroadcastSend CircuitBreakerEvent
  | Advisory_BroadcastReceive

datatype AlephZeroHaltedListenerError =
    Halted_AzeroContract AzeroContractError
  | Halted_BroadcastSend CircuitBreakerEvent
  | Halted_BroadcastReceive

datatype EthereumPausedListenerError =
    Paused_FromHex
  | Paused_BroadcastSend CircuitBreakerEvent
  | Paused_BroadcastReceive

definition guard_finish :: "bool \<Rightarrow> (CircuitBreakerEvent \<Rightarrow> 'e) \<Rightarrow> 'e \<Rightarrow> guard_result \<Rightarrow> 'e + CircuitBreakerEvent" where
  "guard_finish listening send_error receive_error r =
     (case r of
        Guard_exit e sent \<Rightarrow> if sent \<and> \<not> listening then Inl (send_error e) else Inr e
      | Guard_error \<Rightarrow> Inl receive_error)"

definition AdvisoryListener_run ::
  "'w azero_node \<Rightarrow> AdvisoryInstance list \<Rightarrow> bool \<Rightarrow> 'w net guard_input list \<Rightarrow>
   (AdvisoryListenerError + CircuitBreakerEvent) option" where
  "AdvisoryListener_run nd advisories listening ins =
     map_option (guard_finish listening Advisory_BroadcastSend Advisory_BroadcastReceive)
       (guard_run (\<lambda>net. advisory_decide (map_sum id fst (query_active_advisories nd advisories net))) ins)"

definition AlephZeroHaltedListener_run ::
  "accounts \<Rightarrow> 'w azero_node \<Rightarrow> Config \<Rightarrow> bool \<Rightarrow> 'w net guard_input list \<Rightarrow>
   (AlephZeroHaltedListenerError + CircuitBreakerEvent) option" where
  "AlephZeroHaltedListener_run acc nd cfg listening ins =
     (case most_instance_new acc (cfg_azero_contract_address cfg) (cfg_azero_contract_metadata cfg)
         (cfg_azero_ref_time_limit cfg) (cfg_azero_proof_size_limit cfg) of
        Inl e \<Rightarrow> Some (Inl (Halted_AzeroContract e))
      | Inr most_azero \<Rightarrow>
          map_option (guard_finish listening Halted_BroadcastSend Halted_BroadcastReceive)
            (guard_run (\<lambda>net. azero_halted_decide (map_sum id fst (instance_is_halted nd most_azero net))) ins))"

text \<open>\<open>paused\<close> is the answer of the Ethereum node for the contract at an address.\<close>

definition EthereumPausedListener_run ::
  "(string \<Rightarrow> 160 word option) \<Rightarrow> (160 word \<Rightarrow> 'v \<Rightarrow> string + bool) \<Rightarrow> Config \<Rightarrow> bool \<Rightarrow> 'v guard_input list \<Rightarrow>
   (EthereumPausedListenerError + CircuitBreakerEvent) option" where
  "EthereumPausedListener_run parse paused cfg listening ins =
     (case parse (cfg_eth_contract_address cfg) of
        None \<Rightarrow> Some (Inl Paused_FromHex)
      | Some address \<Rightarrow>
          map_option (guard_finish listening Paused_BroadcastSend Paused_BroadcastReceive)
            (guard_run (\<lambda>v. eth_paused_decide (paused address v)) ins))"

section \<open>The start of the relayer\<close>

definition relayer_set_payout_account ::
  "accounts \<Rightarrow> 'w azero_node \<Rightarrow> AccountId \<Rightarrow> Config \<Rightarrow> string \<Rightarrow> ('w, unit) relayer_io" where
  "relayer_set_payout_account acc nd account cfg payout_address =
     andThen (try_res (most_instance_new acc (cfg_azero_contract_address cfg) (cfg_azero_contract_metadata cfg)
       (cfg_azero_ref_time_limit cfg) (cfg_azero_proof_size_limit cfg))) (\<lambda>most_azero.
     andThen (instance_current_committee_id nd most_azero) (\<lambda>current_committee_id.
     andThen (ok_or (account_from_str acc payout_address) (NotAccountId payout_address)) (\<lambda>a.
     instance_set_payout_account acc nd account most_azero current_committee_id a)))"

datatype task =
    T_AdvisoryListener
  | T_AlephZeroHaltedListener
  | T_EthereumPausedListener
  | T_RedisManager
  | T_EthereumListener
  | T_EthereumEventsHandler
  | T_AlephZeroListener
  | T_AlephZeroEventsHandler
  | T_Emergency "AccountId list"

definition relayer_tasks :: "task list" where
  "relayer_tasks = [T_AdvisoryListener, T_AlephZeroHaltedListener, T_EthereumPausedListener, T_RedisManager,
     T_EthereumListener, T_EthereumEventsHandler, T_AlephZeroListener, T_AlephZeroEventsHandler]"

text \<open>The tasks that \<open>run_relayer\<close> spawns, after the connections are made.\<close>

definition run_relayer ::
  "accounts \<Rightarrow> 'w azero_node \<Rightarrow> AccountId \<Rightarrow> Config \<Rightarrow> ('w, task list) relayer_io" where
  "run_relayer acc nd account cfg =
     andThen (case cfg_payout_address cfg of
         Some payout_address \<Rightarrow> relayer_set_payout_account acc nd account cfg payout_address
       | None \<Rightarrow> ret ()) (\<lambda>_.
     andThen (parse_advisory_addresses acc cfg) (\<lambda>advisories.
     andThen (query_active_advisories nd advisories) (\<lambda>active_advisories.
     ret (if active_advisories \<noteq> [] then [T_Emergency active_advisories] else relayer_tasks))))"

section \<open>Properties\<close>

lemma guard_run_None:
  "guard_run decide ins = None \<longleftrightarrow> (\<forall>i \<in> set ins. \<exists>q. i = Answer q \<and> decide q = None)"
  by (induction decide ins rule: guard_run.induct) (auto split: option.splits)

lemma decide_None:
  "advisory_decide q = None \<longleftrightarrow> q = Inr []"
  "azero_halted_decide r = None \<longleftrightarrow> r = Inr False"
  "eth_paused_decide p = None \<longleftrightarrow> p = Inr False"
  by (auto simp: advisory_decide_def azero_halted_decide_def eth_paused_decide_def split: sum.splits)

lemma guard_run_sent:
  "guard_run decide ins = Some (Guard_exit e True) \<Longrightarrow> \<exists>q. Answer q \<in> set ins \<and> decide q = Some e"
  by (induction decide ins rule: guard_run.induct) (auto split: option.splits)

lemma map_sum_Inr_fst: "map_sum id fst r = Inr b \<longleftrightarrow> (\<exists>s. r = Inr (b, s))"
  by (cases r) auto

text \<open>
  A guard whose query is answered in a state where the bridge stands still, before the breaker
  opens, returns with the halt; and as long as it runs, no query was answered so.
\<close>

lemma guard_run_alarm:
  assumes "\<forall>q \<in> set qs. decide q = None" "decide q = Some e"
  shows "guard_run decide (map Answer qs @ Answer q # ins) = Some (Guard_exit e True)"
  using assms(1) by (induction qs) (simp_all add: assms(2))

lemma halted_listener_alarm:
  assumes "most_instance_new acc (cfg_azero_contract_address cfg) (cfg_azero_contract_metadata cfg)
      (cfg_azero_ref_time_limit cfg) (cfg_azero_proof_size_limit cfg) = Inr most_azero"
    and "\<forall>net \<in> set nets. \<exists>net'. instance_is_halted nd most_azero net = Inr (False, net')"
    and "instance_is_halted nd most_azero net = Inr (True, net')"
  shows "AlephZeroHaltedListener_run acc nd cfg True (map Answer nets @ Answer net # ins) = Some (Inr BridgeHaltAlephZero)"
proof -
  have "guard_run (\<lambda>net. azero_halted_decide (map_sum id fst (instance_is_halted nd most_azero net)))
      (map Answer nets @ Answer net # ins) = Some (Guard_exit BridgeHaltAlephZero True)"
    using assms(2,3) by (intro guard_run_alarm) (auto simp: azero_halted_decide_def)
  then show ?thesis by (simp add: AlephZeroHaltedListener_run_def assms(1) guard_finish_def)
qed

lemma paused_listener_alarm:
  assumes "parse (cfg_eth_contract_address cfg) = Some address"
    and "\<forall>v \<in> set vs. paused address v = Inr False" "paused address v = Inr True"
  shows "EthereumPausedListener_run parse paused cfg True (map Answer vs @ Answer v # ins) = Some (Inr BridgeHaltEthereum)"
proof -
  have "guard_run (\<lambda>v. eth_paused_decide (paused address v)) (map Answer vs @ Answer v # ins) =
      Some (Guard_exit BridgeHaltEthereum True)"
    using assms(2,3) by (intro guard_run_alarm) (auto simp: eth_paused_decide_def)
  then show ?thesis by (simp add: EthereumPausedListener_run_def assms(1) guard_finish_def)
qed

lemma advisory_listener_alarm:
  assumes "\<forall>net \<in> set nets. \<exists>net'. query_active_advisories nd advisories net = Inr ([], net')"
    and "query_active_advisories nd advisories net = Inr (active, net')" "active \<noteq> []"
  shows "AdvisoryListener_run nd advisories True (map Answer nets @ Answer net # ins) =
    Some (Inr (AdvisoryEmergency active))"
proof -
  have "guard_run (\<lambda>net. advisory_decide (map_sum id fst (query_active_advisories nd advisories net)))
      (map Answer nets @ Answer net # ins) = Some (Guard_exit (AdvisoryEmergency active) True)"
    using assms by (intro guard_run_alarm) (auto simp: advisory_decide_def)
  then show ?thesis by (simp add: AdvisoryListener_run_def guard_finish_def)
qed

lemma guards_running:
  "AdvisoryListener_run nd advisories listening advisory_ins = None \<Longrightarrow>
     \<forall>i \<in> set advisory_ins. \<exists>net net'. i = Answer net \<and> query_active_advisories nd advisories net = Inr ([], net')"
  "AlephZeroHaltedListener_run acc nd cfg listening halted_ins = None \<Longrightarrow>
     \<exists>most_azero. most_instance_new acc (cfg_azero_contract_address cfg) (cfg_azero_contract_metadata cfg)
         (cfg_azero_ref_time_limit cfg) (cfg_azero_proof_size_limit cfg) = Inr most_azero \<and>
       (\<forall>i \<in> set halted_ins. \<exists>net net'. i = Answer net \<and> instance_is_halted nd most_azero net = Inr (False, net'))"
  "EthereumPausedListener_run parse paused cfg listening paused_ins = None \<Longrightarrow>
     \<exists>most_eth. parse (cfg_eth_contract_address cfg) = Some most_eth \<and>
       (\<forall>i \<in> set paused_ins. \<exists>v. i = Answer v \<and> paused most_eth v = Inr False)"
  by (auto simp: AdvisoryListener_run_def AlephZeroHaltedListener_run_def EthereumPausedListener_run_def guard_run_None
      decide_None map_sum_Inr_fst split: sum.splits option.splits)

lemma instance_is_emergency_Inr:
  "instance_is_emergency nd a s = Inr ((b, c), s') \<Longrightarrow> c = adv_address a"
  by (auto simp: instance_is_emergency_def run_simps)

lemma query_active_advisories_Inr:
  assumes "query_active_advisories nd as s = Inr (active, s')"
  shows "\<exists>flags. active = map adv_address (map fst (filter snd (zip as flags))) \<and> length flags = length as \<and>
    (\<forall>i < length as. \<exists>s1 s2. instance_is_emergency nd (as ! i) s1 = Inr ((flags ! i, adv_address (as ! i)), s2))"
  using assms
proof (induction as arbitrary: s active)
  case (Cons a as)
  from Cons.prems obtain b c s1 rest where
    a: "instance_is_emergency nd a s = Inr ((b, c), s1)"
    and rest: "query_active_advisories nd as s1 = Inr (rest, s')" "active = (if b then c # rest else rest)"
    by (auto simp: run_simps)
  from Cons.IH [OF rest(1)] obtain flags where flags: "rest = map adv_address (map fst (filter snd (zip as flags)))"
    "length flags = length as" "\<forall>i < length as. \<exists>s1 s2.
      instance_is_emergency nd (as ! i) s1 = Inr ((flags ! i, adv_address (as ! i)), s2)" by blast
  show ?case
    using flags rest(2) a instance_is_emergency_Inr [OF a]
    by (intro exI [of _ "b # flags"]) (auto simp: less_Suc_eq_0_disj, blast+)
qed (simp add: ret_def)


text \<open>A node with one advisory contract, which reports an emergency.\<close>

definition alarm_accounts :: accounts where
  "alarm_accounts = \<lparr>account_from_str = (\<lambda>_. Some 100), account_to_string = (\<lambda>_. ''5''),
     load_metadata = (\<lambda>_. Inr \<lparr>tr_encode = (\<lambda>_ _. Inr [1]),
       tr_decode_return = (\<lambda>_ d. Inr (VTuple (Some ''Ok'') [VBool True])), tr_decode_event = (\<lambda>_. Inl '''')\<rparr>)\<rparr>"

definition alarm_config :: Config where
  alarm_config_base: "alarm_config = base_config\<lparr>cfg_dev := True, cfg_advisory_contract_addresses := Some [''5A'']\<rparr>"

lemmas alarm_config_def = alarm_config_base [unfolded base_config_def, simplified]


end
