(* ===== verification/Signer.thy ===== *)
theory Signer
  imports Prelude
begin

text \<open>
  The signer and its client: the protocol of \<open>relayer/signer_client/src/lib.rs\<close>, the server
  \<open>relayer/signer/src/main.rs\<close>, and the signers of the relayer's connections,
  \<open>relayer/relayer/src/connections/azero.rs\<close> and \<open>connections/eth.rs\<close>. The keys, the JSON
  encoding of messages and the framed socket are parameters.
\<close>

section \<open>Messages\<close>

text \<open>
  A transaction of the crate \<open>ethers\<close>: its chain id, and everything else. \<open>set_chain_id\<close> writes
  the first.
\<close>

record TypedTransaction =
  tx_chain_id :: "u64 option"
  tx_rest :: "u8 list"

definition set_chain_id :: "u64 \<Rightarrow> TypedTransaction \<Rightarrow> TypedTransaction" where
  "set_chain_id chain_id tx = tx\<lparr>tx_chain_id := Some chain_id\<rparr>"

type_synonym EthAddress = "160 word"
type_synonym signature = "u8 list"

definition ETH_MAINNET_CHAIN_ID :: u64 where
  "ETH_MAINNET_CHAIN_ID = 1"

datatype Command =
    Ping
  | AccountIdAzero
  | SignAzero "u8 list"
  | EthAddressCommand
  | SignEthHash bytes32
  | SignEthTx TypedTransaction u64

datatype Response =
    Pong
  | AccountIdAzeroResponse AccountId
  | SignedAzero "u8 list" signature
  | EthAddressResponse EthAddress
  | SignedEthHash bytes32 signature
  | SignedEthTx TypedTransaction signature u64

datatype signer_error =
    IO string
  | Serde string
  | InvalidResponse string Response
  | Closed

section \<open>The client\<close>

text \<open>
  \<open>link\<close> is the connection: sending a command and receiving the next message, where \<open>'w\<close> is
  whatever is at its other end.
\<close>

type_synonym 'w link = "Command \<Rightarrow> 'w \<Rightarrow> (signer_error + Response) \<times> 'w"

definition exchange :: "'w link \<Rightarrow> Command \<Rightarrow> ('w, signer_error, Response) contract" where
  "exchange link command w = (case link command w of (Inl e, _) \<Rightarrow> Inl (Err e) | (Inr r, w') \<Rightarrow> Inr (r, w'))"

definition azero_account_id :: "'w link \<Rightarrow> ('w, signer_error, AccountId) contract" where
  "azero_account_id link =
     andThen (exchange link AccountIdAzero) (\<lambda>r.
     case r of
       AccountIdAzeroResponse account_id \<Rightarrow> ret account_id
     | other \<Rightarrow> throw (InvalidResponse ''AccountIdAzero'' other))"

definition sign_azero :: "'w link \<Rightarrow> u8 list \<Rightarrow> ('w, signer_error, signature) contract" where
  "sign_azero link payload =
     andThen (exchange link (SignAzero payload)) (\<lambda>r.
     case r of
       SignedAzero return_payload signature \<Rightarrow>
         if return_payload = payload then ret signature else throw (InvalidResponse ''SignedAzero'' r)
     | other \<Rightarrow> throw (InvalidResponse ''SignedAzero'' other))"

definition eth_address :: "'w link \<Rightarrow> ('w, signer_error, EthAddress) contract" where
  "eth_address link =
     andThen (exchange link EthAddressCommand) (\<lambda>r.
     case r of
       EthAddressResponse address \<Rightarrow> ret address
     | other \<Rightarrow> throw (InvalidResponse ''EthAddress'' other))"

definition sign_eth_hash :: "'w link \<Rightarrow> bytes32 \<Rightarrow> ('w, signer_error, signature) contract" where
  "sign_eth_hash link hash =
     andThen (exchange link (SignEthHash hash)) (\<lambda>r.
     case r of
       SignedEthHash return_hash signature \<Rightarrow>
         if return_hash = hash then ret signature else throw (InvalidResponse ''SignedEthHash'' r)
     | other \<Rightarrow> throw (InvalidResponse ''SignedEthHash'' other))"

definition sign_eth_tx :: "'w link \<Rightarrow> TypedTransaction \<Rightarrow> ('w, signer_error, signature) contract" where
  "sign_eth_tx link tx =
     (let chain_id = (case tx_chain_id tx of None \<Rightarrow> ETH_MAINNET_CHAIN_ID | Some c \<Rightarrow> c) in
      andThen (exchange link (SignEthTx tx chain_id)) (\<lambda>res.
      case res of
        SignedEthTx return_tx signature return_chain_id \<Rightarrow>
          let return_tx = (if tx_chain_id tx \<noteq> None then set_chain_id return_chain_id return_tx else return_tx) in
          if return_tx = tx then ret signature else throw (InvalidResponse ''SignedEthTx'' res)
      | _ \<Rightarrow> throw (InvalidResponse ''SignedEthTx'' res)))"

section \<open>The server\<close>

record keys =
  azero_public :: AccountId
  azero_sign :: "u8 list \<Rightarrow> signature"
  wallet_address :: EthAddress
  wallet_sign_hash :: "bytes32 \<Rightarrow> string + signature"
  wallet_sign_transaction :: "TypedTransaction \<Rightarrow> string + signature"

text \<open>The answer to one command; an error of the wallet ends the connection.\<close>

definition handle_command :: "keys \<Rightarrow> Command \<Rightarrow> string + Response" where
  "handle_command k command =
     (case command of
        Ping \<Rightarrow> Inr Pong
      | AccountIdAzero \<Rightarrow> Inr (AccountIdAzeroResponse (azero_public k))
      | SignAzero payload \<Rightarrow> Inr (SignedAzero payload (azero_sign k payload))
      | EthAddressCommand \<Rightarrow> Inr (EthAddressResponse (wallet_address k))
      | SignEthHash hash \<Rightarrow>
          (case wallet_sign_hash k hash of Inl e \<Rightarrow> Inl e | Inr s \<Rightarrow> Inr (SignedEthHash hash s))
      | SignEthTx tx chain_id \<Rightarrow>
          let tx = set_chain_id chain_id tx in
          (case wallet_sign_transaction k tx of Inl e \<Rightarrow> Inl e | Inr s \<Rightarrow> Inr (SignedEthTx tx s chain_id)))"

text \<open>The loop over the commands that arrive, until one fails or the stream ends.\<close>

fun do_handle_client :: "keys \<Rightarrow> Command list \<Rightarrow> Response list \<times> string" where
  "do_handle_client k [] = ([], ''Closed'')"
| "do_handle_client k (command # commands) =
     (case handle_command k command of
        Inl e \<Rightarrow> ([], e)
      | Inr r \<Rightarrow> (let (rs, e) = do_handle_client k commands in (r # rs, e)))"

section \<open>The server process\<close>

text \<open>
  \<open>Server::new\<close>: the keys are read and the socket is bound, in this order. The derivation of the
  two keys, the decoding of hexadecimal digits and the socket are parameters.
\<close>

datatype server_error = SE_Key string | SE_IO string | SE_Hex string | SE_Wallet string

record server_api =
  sa_pair_from_string :: "string \<Rightarrow> string + AccountId \<times> (u8 list \<Rightarrow> signature)"
  sa_bind :: "u32 \<Rightarrow> string + unit"
  sa_hex_decode :: "string \<Rightarrow> string + u8 list"
  sa_wallet_from_bytes ::
    "u8 list \<Rightarrow> string + EthAddress \<times> (bytes32 \<Rightarrow> string + signature) \<times> (TypedTransaction \<Rightarrow> string + signature)"

definition server_new :: "server_api \<Rightarrow> string \<Rightarrow> string \<Rightarrow> u32 \<Rightarrow> server_error + keys" where
  "server_new api azero_key eth_key port =
     (case sa_pair_from_string api azero_key of Inl e \<Rightarrow> Inl (SE_Key e) | Inr (public, sign) \<Rightarrow>
     (case sa_bind api port of Inl e \<Rightarrow> Inl (SE_IO e) | Inr _ \<Rightarrow>
     (case sa_hex_decode api eth_key of Inl e \<Rightarrow> Inl (SE_Hex e) | Inr bytes \<Rightarrow>
     (case sa_wallet_from_bytes api bytes of Inl e \<Rightarrow> Inl (SE_Wallet e) | Inr (address, sign_hash, sign_tx) \<Rightarrow>
       Inr \<lparr>azero_public = public, azero_sign = sign, wallet_address = address,
         wallet_sign_hash = sign_hash, wallet_sign_transaction = sign_tx\<rparr>))))"

text \<open>
  \<open>accept_loop\<close>: every connection that is accepted is handled by a task of its own, with a copy
  of the keys; a failed accept ends the loop. The arguments are the commands of each client.
\<close>

fun accept_loop :: "keys \<Rightarrow> (string + Command list) list \<Rightarrow> (Response list \<times> string) list \<times> server_error option" where
  "accept_loop k [] = ([], None)"
| "accept_loop k (Inl e # clients) = ([], Some (SE_IO e))"
| "accept_loop k (Inr commands # clients) =
     (let (outs, e) = accept_loop k clients in (do_handle_client k commands # outs, e))"

lemma accept_loop_independent:
  "accept_loop k (map Inr clients) = (map (do_handle_client k) clients, None)"
  by (induction clients) auto

text \<open>\<open>main\<close> of the signer: the accounts that it logs cannot fail, the local address can.\<close>

definition signer_main ::
  "server_api \<Rightarrow> (string + 'a) \<Rightarrow> string \<Rightarrow> string \<Rightarrow> u32 \<Rightarrow> (string + Command list) list \<Rightarrow>
   (Response list \<times> string) list \<times> server_error option" where
  "signer_main api local_addr azero_key eth_key port clients =
     (case server_new api azero_key eth_key port of
        Inl e \<Rightarrow> ([], Some e)
      | Inr k \<Rightarrow> (case local_addr of Inl e \<Rightarrow> ([], Some (SE_IO e)) | Inr _ \<Rightarrow> accept_loop k clients))"

section \<open>The relayer's signers\<close>

text \<open>\<open>connections/azero.rs\<close>: a development key pair, or a client of the signer.\<close>

datatype 'w AzeroSigner = Dev AccountId "u8 list \<Rightarrow> signature" | AzeroSignerClient "'w link" AccountId

definition azero_signer_client_new :: "'w link \<Rightarrow> ('w, signer_error, 'w AzeroSigner) contract" where
  "azero_signer_client_new link =
     andThen (azero_account_id link) (\<lambda>account_id. ret (AzeroSignerClient link account_id))"

fun azero_signer_account_id :: "'w AzeroSigner \<Rightarrow> AccountId" where
  "azero_signer_account_id (Dev account_id _) = account_id"
| "azero_signer_account_id (AzeroSignerClient _ account_id) = account_id"

fun azero_signer_sign :: "'w AzeroSigner \<Rightarrow> u8 list \<Rightarrow> ('w, signer_error, signature) contract" where
  "azero_signer_sign (Dev _ sign) payload = ret (sign payload)"
| "azero_signer_sign (AzeroSignerClient link _) payload = sign_azero link payload"

text \<open>\<open>connections/eth.rs\<close>: a local wallet of the crate \<open>ethers\<close>, or a client of the signer.\<close>

record LocalWallet =
  lw_address :: EthAddress
  lw_chain_id :: u64
  lw_sign_message :: "u8 list \<Rightarrow> string + signature"
  lw_sign_transaction :: "TypedTransaction \<Rightarrow> string + signature"
  lw_sign_typed_data :: "u8 list \<Rightarrow> string + signature"

record 'w EthVsockSigner =
  vs_client :: "'w link"
  vs_chain_id :: u64
  vs_address :: EthAddress

datatype 'w EthereumSigner = Local LocalWallet | Vsock "'w EthVsockSigner"

datatype EthereumSignerError = WalletError string | VsockError signer_error | Eip712 string

definition vsock_sign_hash :: "'w EthVsockSigner \<Rightarrow> bytes32 \<Rightarrow> ('w, EthereumSignerError, signature) contract" where
  "vsock_sign_hash v hash = map_err VsockError (sign_eth_hash (vs_client v) hash)"

text \<open>\<open>hash_message\<close> and the encoding of typed data belong to the crate \<open>ethers\<close>.\<close>

definition vsock_sign_message ::
  "(u8 list \<Rightarrow> bytes32) \<Rightarrow> 'w EthVsockSigner \<Rightarrow> u8 list \<Rightarrow> ('w, EthereumSignerError, signature) contract" where
  "vsock_sign_message hash_message v message = vsock_sign_hash v (hash_message message)"

definition vsock_sign_transaction ::
  "'w EthVsockSigner \<Rightarrow> TypedTransaction \<Rightarrow> ('w, EthereumSignerError, signature) contract" where
  "vsock_sign_transaction v tx = map_err VsockError (sign_eth_tx (vs_client v) tx)"

definition vsock_sign_typed_data ::
  "(u8 list \<Rightarrow> string + bytes32) \<Rightarrow> 'w EthVsockSigner \<Rightarrow> u8 list \<Rightarrow> ('w, EthereumSignerError, signature) contract" where
  "vsock_sign_typed_data encode_eip712 v payload =
     andThen (map_err Eip712 (try_res (encode_eip712 payload))) (\<lambda>encoded. vsock_sign_hash v encoded)"

definition eth_sign_message ::
  "(u8 list \<Rightarrow> bytes32) \<Rightarrow> 'w EthereumSigner \<Rightarrow> u8 list \<Rightarrow> ('w, EthereumSignerError, signature) contract" where
  "eth_sign_message hash_message signer message =
     (case signer of
        Local wallet \<Rightarrow> map_err WalletError (try_res (lw_sign_message wallet message))
      | Vsock v \<Rightarrow> vsock_sign_message hash_message v message)"

definition eth_sign_transaction ::
  "'w EthereumSigner \<Rightarrow> TypedTransaction \<Rightarrow> ('w, EthereumSignerError, signature) contract" where
  "eth_sign_transaction signer tx =
     (case signer of
        Local wallet \<Rightarrow> map_err WalletError (try_res (lw_sign_transaction wallet tx))
      | Vsock v \<Rightarrow> vsock_sign_transaction v tx)"

definition eth_sign_typed_data ::
  "(u8 list \<Rightarrow> string + bytes32) \<Rightarrow> 'w EthereumSigner \<Rightarrow> u8 list \<Rightarrow> ('w, EthereumSignerError, signature) contract" where
  "eth_sign_typed_data encode_eip712 signer payload =
     (case signer of
        Local wallet \<Rightarrow> map_err WalletError (try_res (lw_sign_typed_data wallet payload))
      | Vsock v \<Rightarrow> vsock_sign_typed_data encode_eip712 v payload)"

fun eth_signer_address :: "'w EthereumSigner \<Rightarrow> EthAddress" where
  "eth_signer_address (Local wallet) = lw_address wallet"
| "eth_signer_address (Vsock v) = vs_address v"

fun eth_signer_chain_id :: "'w EthereumSigner \<Rightarrow> u64" where
  "eth_signer_chain_id (Local wallet) = lw_chain_id wallet"
| "eth_signer_chain_id (Vsock v) = vs_chain_id v"

fun with_chain_id :: "'w EthereumSigner \<Rightarrow> u64 \<Rightarrow> 'w EthereumSigner" where
  "with_chain_id (Local wallet) chain_id = Local (wallet\<lparr>lw_chain_id := chain_id\<rparr>)"
| "with_chain_id (Vsock v) chain_id = Vsock (v\<lparr>vs_chain_id := chain_id\<rparr>)"

text \<open>The signer part of \<open>with_signer\<close>: the address comes from the signer, the chain id is set later.\<close>

definition vsock_signer_new :: "'w link \<Rightarrow> ('w, signer_error, 'w EthereumSigner) contract" where
  "vsock_signer_new link =
     andThen (eth_address link) (\<lambda>address.
     ret (Vsock \<lparr>vs_client = link, vs_chain_id = 0, vs_address = address\<rparr>))"

section \<open>A client that faces the server\<close>

text \<open>
  The messages pass through their JSON encoding. It gives back what was encoded, except for the
  transactions in them, which it changes by \<open>wire\<close>; the source notes that it loses their chain id.
\<close>

fun wire_command :: "(TypedTransaction \<Rightarrow> TypedTransaction) \<Rightarrow> Command \<Rightarrow> Command" where
  "wire_command wire (SignEthTx tx chain_id) = SignEthTx (wire tx) chain_id"
| "wire_command wire c = c"

fun wire_response :: "(TypedTransaction \<Rightarrow> TypedTransaction) \<Rightarrow> Response \<Rightarrow> Response" where
  "wire_response wire (SignedEthTx tx s chain_id) = SignedEthTx (wire tx) s chain_id"
| "wire_response wire r = r"

definition server_link :: "(TypedTransaction \<Rightarrow> TypedTransaction) \<Rightarrow> keys \<Rightarrow> 'w link" where
  "server_link wire k command w =
     (case handle_command k (wire_command wire command) of
        Inl e \<Rightarrow> (Inl Closed, w)
      | Inr r \<Rightarrow> (Inr (wire_response wire r), w))"

text \<open>
  \<open>signer_tester/src/main.rs\<close>: connect, ask for both accounts and print them; every failure is a panic.
\<close>

definition expect :: "('w, 'e, 'a) contract \<Rightarrow> ('w, 'f, 'a) contract" where
  "expect m w = (case m w of Inl _ \<Rightarrow> Inl Trap | Inr r \<Rightarrow> Inr r)"

definition signer_tester_main ::
  "(u32 \<Rightarrow> u32 \<Rightarrow> string + 'w link) \<Rightarrow> u32 \<Rightarrow> u32 \<Rightarrow> ('w, 'e, AccountId \<times> EthAddress) contract" where
  "signer_tester_main connect cid port =
     (case connect cid port of
        Inl _ \<Rightarrow> trap
      | Inr client \<Rightarrow>
          andThen (expect (Signer.azero_account_id client)) (\<lambda>azero_account_id.
          andThen (expect (Signer.eth_address client)) (\<lambda>eth_address.
          ret (azero_account_id, eth_address))))"

text \<open>What the client answers when the server's key gives \<open>r\<close>: a failed signature closes the connection.\<close>

definition signed_or_closed :: "string + 'a \<Rightarrow> 'w \<Rightarrow> signer_error fault + 'a \<times> 'w" where
  "signed_or_closed r w = (case r of Inl e \<Rightarrow> Inl (Err Closed) | Inr s \<Rightarrow> Inr (s, w))"

lemmas signer_defs = sign_azero_def sign_eth_hash_def sign_eth_tx_def azero_account_id_def eth_address_def
  exchange_def

text \<open>Whoever is at the other end, a signature is accepted only with an answer about what was sent.\<close>

lemma sign_azero_matches:
  "sign_azero link payload w = Inr (s, w') \<Longrightarrow> link (SignAzero payload) w = (Inr (SignedAzero payload s), w')"
  by (auto simp: signer_defs andThen_def ret_def throw_def split: sum.splits prod.splits Response.splits if_splits)

lemma sign_eth_hash_matches:
  "sign_eth_hash link h w = Inr (s, w') \<Longrightarrow> link (SignEthHash h) w = (Inr (SignedEthHash h s), w')"
  by (auto simp: signer_defs andThen_def ret_def throw_def split: sum.splits prod.splits Response.splits if_splits)

lemma sign_eth_tx_matches:
  assumes "sign_eth_tx link tx w = Inr (s, w')"
  obtains tx' c where
    "link (SignEthTx tx (case tx_chain_id tx of None \<Rightarrow> ETH_MAINNET_CHAIN_ID | Some c \<Rightarrow> c)) w =
       (Inr (SignedEthTx tx' s c), w')"
    "if tx_chain_id tx = None then tx' = tx else set_chain_id c tx' = tx"
  using assms
  by (auto simp: signer_defs andThen_def ret_def throw_def Let_def
      split: sum.splits prod.splits Response.splits if_splits)

text \<open>The tester prints the accounts of the keys with which the server was started.\<close>

lemma signer_tester_keys:
  assumes "server_new api azero_key eth_key port = Inr k" "connect cid port = Inr (server_link wire k)"
  shows "signer_tester_main connect cid port w = Inr ((azero_public k, wallet_address k), w)"
  by (simp add: signer_tester_main_def assms(2) expect_def signer_defs server_link_def handle_command_def andThen_def
      ret_def)

text \<open>
  C40 (the signer signs what it is asked to sign, and nothing else is accepted). Across the
  encoding that loses the chain id, a client of the signer gets the accounts of the signer's keys and the
  signatures of exactly the payload, hash and transaction it asked for, a transaction without a
  chain id being signed for the main network; an error of the wallet closes the connection. And
  whatever is at the other end of the connection, the client returns a signature only from an
  answer that repeats the payload, the hash, or the transaction with its chain id.
\<close>

theorem signer_roundtrip:
  assumes wire: "\<And>tx. wire tx = tx\<lparr>tx_chain_id := None\<rparr>"
  shows "azero_account_id (server_link wire k) w = Inr (azero_public k, w) \<and>
    eth_address (server_link wire k) w = Inr (wallet_address k, w) \<and>
    sign_azero (server_link wire k) payload w = Inr (azero_sign k payload, w) \<and>
    sign_eth_hash (server_link wire k) h w = signed_or_closed (wallet_sign_hash k h) w \<and>
    sign_eth_tx (server_link wire k) tx w = signed_or_closed (wallet_sign_transaction k
      (tx\<lparr>tx_chain_id := Some (case tx_chain_id tx of None \<Rightarrow> 1 | Some c \<Rightarrow> c)\<rparr>)) w \<and>
    (sign_azero link payload v = Inr (s, v') \<longrightarrow> link (SignAzero payload) v = (Inr (SignedAzero payload s), v')) \<and>
    (sign_eth_hash link h v = Inr (s, v') \<longrightarrow> link (SignEthHash h) v = (Inr (SignedEthHash h s), v')) \<and>
    (sign_eth_tx link tx v = Inr (s, v') \<longrightarrow>
      (\<exists>tx' c. link (SignEthTx tx (case tx_chain_id tx of None \<Rightarrow> 1 | Some c \<Rightarrow> c)) v =
          (Inr (SignedEthTx tx' s c), v') \<and> tx_rest tx' = tx_rest tx \<and>
        (tx_chain_id tx = Some c \<or> tx_chain_id tx = None \<and> tx_chain_id tx' = None)))"
proof (intro conjI impI)
  show "azero_account_id (server_link wire k) w = Inr (azero_public k, w)"
    "eth_address (server_link wire k) w = Inr (wallet_address k, w)"
    "sign_azero (server_link wire k) payload w = Inr (azero_sign k payload, w)"
    "sign_eth_hash (server_link wire k) h w = signed_or_closed (wallet_sign_hash k h) w"
    by (auto simp: signer_defs server_link_def handle_command_def signed_or_closed_def andThen_def ret_def
        split: sum.splits)
  show "sign_eth_tx (server_link wire k) tx w = signed_or_closed (wallet_sign_transaction k
      (tx\<lparr>tx_chain_id := Some (case tx_chain_id tx of None \<Rightarrow> 1 | Some c \<Rightarrow> c)\<rparr>)) w"
    by (cases tx; cases "tx_chain_id tx")
      (auto simp: signer_defs server_link_def handle_command_def signed_or_closed_def andThen_def ret_def
        Let_def set_chain_id_def wire ETH_MAINNET_CHAIN_ID_def split: sum.splits)
next
  assume "sign_eth_tx link tx v = Inr (s, v')"
  then obtain tx' c where
    "link (SignEthTx tx (case tx_chain_id tx of None \<Rightarrow> ETH_MAINNET_CHAIN_ID | Some c \<Rightarrow> c)) v =
       (Inr (SignedEthTx tx' s c), v')"
    "if tx_chain_id tx = None then tx' = tx else set_chain_id c tx' = tx"
    by (rule sign_eth_tx_matches)
  then show "\<exists>tx' c. link (SignEthTx tx (case tx_chain_id tx of None \<Rightarrow> 1 | Some c \<Rightarrow> c)) v =
      (Inr (SignedEthTx tx' s c), v') \<and> tx_rest tx' = tx_rest tx \<and>
    (tx_chain_id tx = Some c \<or> tx_chain_id tx = None \<and> tx_chain_id tx' = None)"
    by (intro exI [of _ tx'] exI [of _ c]) (auto simp: set_chain_id_def ETH_MAINNET_CHAIN_ID_def split: if_splits)
qed (fact sign_azero_matches sign_eth_hash_matches)+

text \<open>Keys for the witness, which sign a transaction with its chain id.\<close>

definition demo_keys :: keys where
  "demo_keys = \<lparr>azero_public = 1, azero_sign = (\<lambda>p. 7 # p), wallet_address = 2,
     wallet_sign_hash = (\<lambda>h. Inr [ucast h]),
     wallet_sign_transaction = (\<lambda>tx. case tx_chain_id tx of None \<Rightarrow> Inl ''chain id'' | Some c \<Rightarrow> Inr (ucast c # tx_rest tx))\<rparr>"

theorem signer_roundtrip_witness:
  "sign_eth_tx (server_link (\<lambda>tx. tx\<lparr>tx_chain_id := None\<rparr>) demo_keys) \<lparr>tx_chain_id = None, tx_rest = [4, 5]\<rparr> () =
     Inr ([1, 4, 5], ()) \<and>
   sign_azero (server_link (\<lambda>tx. tx\<lparr>tx_chain_id := None\<rparr>) demo_keys) [3] () = Inr ([7, 3], ())"
proof -
  let ?wire = "\<lambda>tx. tx\<lparr>tx_chain_id := None\<rparr>" and ?tx = "\<lparr>tx_chain_id = None, tx_rest = [4, 5]\<rparr>"
  have "sign_eth_tx (server_link ?wire demo_keys) ?tx () = signed_or_closed (wallet_sign_transaction demo_keys
      (?tx\<lparr>tx_chain_id := Some (case tx_chain_id ?tx of None \<Rightarrow> 1 | Some c \<Rightarrow> c)\<rparr>)) ()"
    "sign_azero (server_link ?wire demo_keys) [3] () = Inr (azero_sign demo_keys [3], ())"
    using signer_roundtrip [of ?wire demo_keys "()" "[3]" 0 ?tx "\<lambda>_ w. (Inr Pong, w)" "()" "[]" "()"] by blast+
  then show ?thesis by (simp add: demo_keys_def signed_or_closed_def)
qed

end
