(* ===== verification/Eth_Votes.thy ===== *)
theory Eth_Votes
  imports Eth_Most Guardian_Votes
begin

text \<open>
  Votes on the Ethereum bridge, for every subclass of \<open>AbstractMost\<close>: the inversion of
  \<open>receiveRequest\<close>, and the locale \<open>sol_bridge\<close>, which says what the virtual function that
  executes a request has to do and that the other functions leave the votes alone. From that the
  contract of \<open>guardian_votes\<close> follows (a sublocale), so that a subclass inherits the guarantees
  of the voting protocol by interpreting \<open>sol_bridge\<close>.
\<close>

section \<open>Frames\<close>

text \<open>
  Relations between the states before and after a call that do not look at the rest of the
  chain: the calls to other contracts, the modifiers and checked arithmetic keep them.
\<close>

locale sol_frame = state_relation R for R :: "('a, 'w) sol_ctx \<Rightarrow> ('a, 'w) sol_ctx \<Rightarrow> bool" +
  assumes rel_world: "R s (s\<lparr>world := w\<rparr>)"
begin

lemma frame_ext_call: "always R (ext_call e f)"
  by (auto simp: always_def run_simps rel_world)

lemma frame_low_level_call: "always R (low_level_call f)"
  by (auto simp: always_def run_simps rel_world rel_refl split: option.splits)

lemma frame_checked_inc: "always R (checked_inc x)"
  by (auto simp: always_def run_simps rel_refl)

lemma frame_modifiers:
  "always R (onlyOwner ev msg)" "always R (whenPaused ev)" "always R (whenNotPaused ev)"
  by (auto simp: always_def run_simps rel_refl)

lemma frame_token: "always R (tokenTransferReturnSuccess ev msg t r a)"
  by (auto simp: always_def tokenTransferReturnSuccess_def rel_world rel_refl split: option.splits if_splits)

lemmas sol_rules = always_rules frame_ext_call frame_low_level_call frame_checked_inc frame_modifiers frame_token

end

section \<open>Inversion of receiveRequest\<close>

definition vote_recorded ::
  "bytes32 \<Rightarrow> H160 \<Rightarrow> u256 \<Rightarrow> ('a, 'w) sol_ctx \<Rightarrow> ('a, 'w) sol_ctx" where
  "vote_recorded h g count s = s\<lparr>storage := (storage s)\<lparr>am_pendingRequests := (am_pendingRequests (storage s))
     (h := \<lparr>signatureCount = count, signatures = (signatures (am_pendingRequests (storage s) h))(g := True)\<rparr>)\<rparr>,
     events := events s @ [Sol_RequestSigned h g]\<rparr>"

lemma receiveRequest_cases:
  assumes run: "receiveRequest ev tm msg h c t a r n s = Inr (u, s')"
  obtains
    (replay) "am_processedRequests (storage s) h"
      "s' = s\<lparr>events := events s @ [Sol_ProcessedRequestSigned h (msg_sender msg)]\<rparr>"
  | (again) k where "\<not> am_processedRequests (storage s) h"
      "k = sol_request_hash (evm_keccak256 ev) c t a r n" "hasSignedRequest (msg_sender msg) k (storage s)"
      "s' = s\<lparr>events := events s @ [Sol_RequestAlreadySigned k (msg_sender msg)]\<rparr>"
  | (recorded) count where "\<not> am_processedRequests (storage s) h"
      "h = sol_request_hash (evm_keccak256 ev) c t a r n" "\<not> hasSignedRequest (msg_sender msg) h (storage s)"
      "checked_add (signatureCount (am_pendingRequests (storage s) h)) 1 = Some count"
      "count < am_signatureThreshold (storage s) c" "s' = vote_recorded h (msg_sender msg) count s"
  | (executed) count where "\<not> am_processedRequests (storage s) h"
      "h = sol_request_hash (evm_keccak256 ev) c t a r n" "\<not> hasSignedRequest (msg_sender msg) h (storage s)"
      "checked_add (signatureCount (am_pendingRequests (storage s) h)) 1 = Some count"
      "am_signatureThreshold (storage s) c \<le> count"
      "tm msg h t a r (vote_recorded h (msg_sender msg) count s) = Inr ((), s')"
proof -
  note expand = run [unfolded receiveRequest_def Let_def run_simps]
  show thesis
  proof (cases "am_processedRequests (storage s) h")
    case True
    with expand show thesis by (intro replay) (auto simp: run_simps split: if_splits)
  next
    case fresh: False
    let ?k = "sol_request_hash (evm_keccak256 ev) c t a r n"
    show thesis
    proof (cases "hasSignedRequest (msg_sender msg) ?k (storage s)")
      case True
      with fresh expand show thesis by (intro again) (auto simp: run_simps hasSignedRequest_def split: if_splits)
    next
      case False
      with fresh expand have "h = ?k" by (auto simp: run_simps hasSignedRequest_def split: if_splits)
      with False fresh expand obtain count where
        "checked_add (signatureCount (am_pendingRequests (storage s) h)) 1 = Some count"
        "if am_signatureThreshold (storage s) c \<le> count
         then tm msg h t a r (vote_recorded h (msg_sender msg) count s) = Inr ((), s')
         else s' = vote_recorded h (msg_sender msg) count s"
        by (auto simp: run_simps hasSignedRequest_def vote_recorded_def split: if_splits)
      with False fresh \<open>h = ?k\<close> show thesis
        by (cases "am_signatureThreshold (storage s) c \<le> count") (auto intro: recorded executed)
    qed
  qed
qed

lemma receiveRequest_caller:
  "receiveRequest ev tm msg h c t a r n s = Inr (u, s') \<Longrightarrow>
     \<not> oz_paused ev (world s) \<and> isInCommittee ev c (msg_sender msg) (storage s)"
  by (auto simp: receiveRequest_def run_simps split: if_splits)

section \<open>What is observed of the votes\<close>

definition sol_signers :: "'a AbstractMost_scheme \<Rightarrow> bytes32 \<Rightarrow> H160 set" where
  "sol_signers m h = {g. hasSignedRequest g h m}"

definition sol_counted :: "'a AbstractMost_scheme \<Rightarrow> bytes32 \<Rightarrow> nat" where
  "sol_counted m h = unat (signatureCount (am_pendingRequests m h))"

definition sol_processed :: "'a AbstractMost_scheme \<Rightarrow> bytes32 set" where
  "sol_processed m = {h. am_processedRequests m h}"

definition sol_threshold :: "'a AbstractMost_scheme \<Rightarrow> u256 \<Rightarrow> nat" where
  "sol_threshold m c = unat (am_signatureThreshold m c)"

fun processed_hash :: "sol_event \<Rightarrow> bytes32 list" where
  "processed_hash (Sol_RequestProcessed h) = [h]"
| "processed_hash _ = []"

definition processed_hashes :: "sol_event list \<Rightarrow> bytes32 list" where
  "processed_hashes es = concat (map processed_hash es)"

lemma processed_hashes_simps [simp]:
  "processed_hashes [] = []" "processed_hashes (es @ [e]) = processed_hashes es @ processed_hash e"
  by (simp_all add: processed_hashes_def)

lemma sol_signers_recorded [simp]:
  "sol_signers (storage (vote_recorded h g k s)) = (sol_signers (storage s))(h := insert g (sol_signers (storage s) h))"
  by (auto simp: sol_signers_def hasSignedRequest_def vote_recorded_def fun_eq_iff)

lemma sol_counted_recorded [simp]:
  "sol_counted (storage (vote_recorded h g k s)) = (sol_counted (storage s))(h := unat k)"
  by (auto simp: sol_counted_def vote_recorded_def fun_eq_iff)

lemma sol_other_recorded [simp]:
  "sol_processed (storage (vote_recorded h g k s)) = sol_processed (storage s)"
  "processed_hashes (events (vote_recorded h g k s)) = processed_hashes (events s)"
  "am_committee (storage (vote_recorded h g k s)) = am_committee (storage s)"
  by (auto simp: sol_processed_def vote_recorded_def)

lemma sol_observe_markProcessed [simp]:
  "sol_signers (markProcessed h m) = sol_signers m"
  "sol_counted (markProcessed h m) = (sol_counted m)(h := 0)"
  "sol_processed (markProcessed h m) = insert h (sol_processed m)"
  by (auto simp: sol_signers_def hasSignedRequest_def sol_counted_def sol_processed_def markProcessed_def fun_eq_iff)

lemma unat_checked_inc: "checked_add (signatureCount (am_pendingRequests m h)) 1 = Some k \<Longrightarrow>
    unat k = sol_counted m h + 1"
  by (auto simp: sol_counted_def dest!: checked_add_SomeD)

definition same_sol_votes :: "('a, 'w) sol_ctx \<Rightarrow> ('a, 'w) sol_ctx \<Rightarrow> bool" where
  "same_sol_votes s s' \<longleftrightarrow> am_pendingRequests (storage s') = am_pendingRequests (storage s) \<and>
     am_processedRequests (storage s') = am_processedRequests (storage s) \<and>
     processed_hashes (events s') = processed_hashes (events s)"

lemma same_sol_votesD:
  "same_sol_votes s s' \<Longrightarrow> sol_processed (storage s') = sol_processed (storage s) \<and>
     sol_signers (storage s') = sol_signers (storage s) \<and> sol_counted (storage s') = sol_counted (storage s) \<and>
     processed_hashes (events s') = processed_hashes (events s)"
  by (auto simp: same_sol_votes_def sol_processed_def sol_signers_def sol_counted_def hasSignedRequest_def fun_eq_iff)

interpretation sol_votes_frame: sol_frame same_sol_votes
  by unfold_locales (auto simp: same_sol_votes_def)

lemma sol_votes_put_storage:
  "(\<And>m. am_pendingRequests (f m) = am_pendingRequests m \<and> am_processedRequests (f m) = am_processedRequests m) \<Longrightarrow>
     always same_sol_votes (put_storage f)"
  by (auto simp: always_def run_simps same_sol_votes_def)

lemma sol_votes_emit: "processed_hash e = [] \<Longrightarrow> always same_sol_votes (emit_event e)"
  by (auto simp: always_def run_simps same_sol_votes_def)

lemmas sol_votes_rules = sol_votes_frame.sol_rules sol_votes_put_storage sol_votes_emit

lemma sol_votes_addMembers: "always same_sol_votes (addMembers ev cs)"
proof (induction cs)
  case (Cons g cs)
  show ?case unfolding addMembers.simps by (intro sol_votes_rules Cons.IH; simp)
qed (simp add: sol_votes_rules)

lemma sol_votes_setCommittee: "always same_sol_votes (setCommittee_internal ev cs thr)"
  unfolding setCommittee_internal_def by (intro sol_votes_rules sol_votes_addMembers; simp)

lemma sol_votes_emitRequest: "always same_sol_votes (emitRequest t a r)"
  unfolding emitRequest_def by (intro sol_votes_rules; simp)

text \<open>A function that marks the request, does something with the world and reports it as processed.\<close>

lemma marked_and_reported:
  assumes "andThen (put_storage (markProcessed h)) (\<lambda>_. andThen (gets storage) (\<lambda>m.
      andThen (f m) (\<lambda>_. emit_event (Sol_RequestProcessed h)))) s = Inr (u, s')"
    and "\<And>m. always same_sol_votes (f m)"
  shows "same_sol_votes (s\<lparr>storage := markProcessed h (storage s), events := events s @ [Sol_RequestProcessed h]\<rparr>) s'"
proof -
  let ?s1 = "s\<lparr>storage := markProcessed h (storage s)\<rparr>"
  from assms(1) obtain u2 s2 where run: "f (storage ?s1) ?s1 = Inr (u2, s2)"
    and "s' = s2\<lparr>events := events s2 @ [Sol_RequestProcessed h]\<rparr>"
    by (auto simp: run_simps)
  with alwaysD [OF assms(2) run] show ?thesis by (auto simp: same_sol_votes_def)
qed

section \<open>The interface\<close>

text \<open>
  A vote is a call of \<open>receiveRequest\<close> with the hash of its data. With any other hash the call
  changes no vote.
\<close>

definition sol_vote ::
  "'w evm \<Rightarrow> (sol_msg \<Rightarrow> bytes32 \<Rightarrow> bytes32 \<Rightarrow> u256 \<Rightarrow> bytes32 \<Rightarrow> ('a, 'w, unit) sol) \<Rightarrow>
   ('a, 'w) sol_ctx \<Rightarrow> H160 \<Rightarrow> bytes32 \<Rightarrow> u256 \<Rightarrow> ('a, 'w) sol_ctx \<Rightarrow> bool" where
  "sol_vote ev tm s g h c s' \<longleftrightarrow> (\<exists>msg t a r n. msg_sender msg = g \<and>
     h = sol_request_hash (evm_keccak256 ev) c t a r n \<and> receiveRequest ev tm msg h c t a r n s = Inr ((), s'))"

lemma sol_voteI:
  "receiveRequest ev tm msg h c t a r n s = Inr ((), s') \<Longrightarrow> h = sol_request_hash (evm_keccak256 ev) c t a r n \<Longrightarrow>
     sol_vote ev tm s (msg_sender msg) h c s'"
  unfolding sol_vote_def by blast

definition sol_start :: "('a, 'w) sol_ctx \<Rightarrow> bool" where
  "sol_start s \<longleftrightarrow> am_pendingRequests (storage s) = (\<lambda>_. blank_request) \<and>
     am_processedRequests (storage s) = (\<lambda>_. False) \<and> processed_hashes (events s) = []"

locale sol_bridge =
  fixes ev :: "'w evm"
    and thresholdMet :: "sol_msg \<Rightarrow> bytes32 \<Rightarrow> bytes32 \<Rightarrow> u256 \<Rightarrow> bytes32 \<Rightarrow> ('a, 'w, unit) sol"
  assumes met_marks: "thresholdMet msg h t a r s = Inr (u, s') \<Longrightarrow>
      same_sol_votes (s\<lparr>storage := markProcessed h (storage s),
        events := events s @ [Sol_RequestProcessed h]\<rparr>) s'"
begin

lemma mismatch_same_votes:
  assumes "receiveRequest ev thresholdMet msg h c t a r n s = Inr (u, s')"
    and "h \<noteq> sol_request_hash (evm_keccak256 ev) c t a r n"
  shows "same_sol_votes s s'"
  using assms by (cases rule: receiveRequest_cases) (auto simp: same_sol_votes_def)

lemma met_effect:
  assumes "thresholdMet msg h t a r (vote_recorded h g k s) = Inr (u, s')"
  shows "sol_processed (storage s') = insert h (sol_processed (storage s))"
    "sol_signers (storage s') = (sol_signers (storage s))(h := insert g (sol_signers (storage s) h))"
    "f \<noteq> h \<Longrightarrow> sol_counted (storage s') f = sol_counted (storage s) f"
    "processed_hashes (events s') = processed_hashes (events s) @ [h]"
  using same_sol_votesD [OF met_marks [OF assms]] by auto

end

sublocale sol_bridge \<subseteq> guardian_votes sol_start "sol_vote ev thresholdMet" same_sol_votes
  "\<lambda>s. sol_processed (storage s)" "\<lambda>s. sol_signers (storage s)" "\<lambda>s. sol_counted (storage s)"
  "\<lambda>s. processed_hashes (events s)" "\<lambda>s. sol_threshold (storage s)"
proof (unfold_locales, goal_cases)
  case (1 s)
  then show ?case
    by (auto simp: sol_start_def sol_processed_def sol_signers_def sol_counted_def hasSignedRequest_def blank_request_def)
next
  case (2 s g h c s')
  then obtain msg t a r n where msg: "msg_sender msg = g" "h = sol_request_hash (evm_keccak256 ev) c t a r n"
    and run: "receiveRequest ev thresholdMet msg h c t a r n s = Inr ((), s')"
    by (auto simp: sol_vote_def)
  from run 2(2) msg show ?case
    by (cases rule: receiveRequest_cases) (auto simp: sol_processed_def sol_signers_def)
next
  case (3 s g h c s')
  then obtain msg t a r n where msg: "msg_sender msg = g" "h = sol_request_hash (evm_keccak256 ev) c t a r n"
    and run: "receiveRequest ev thresholdMet msg h c t a r n s = Inr ((), s')"
    by (auto simp: sol_vote_def)
  from run show ?case
  proof (cases rule: receiveRequest_cases)
    case (recorded k)
    with msg(1) unat_checked_inc [OF recorded(4)] show ?thesis
      by (simp add: sol_threshold_def word_less_nat_alt)
  next
    case (executed k)
    with msg(1) unat_checked_inc [OF executed(4)] met_effect [OF executed(6)] show ?thesis
      by (auto simp: sol_threshold_def word_le_nat_alt)
  qed (use 3 msg in \<open>auto simp: sol_processed_def sol_signers_def\<close>)
next
  case (4 s s')
  then show ?case by (rule same_sol_votesD)
qed

end
