(* ===== verification/Eth_Most_Properties.thy ===== *)
theory Eth_Most_Properties
  imports Eth_Votes
begin

text \<open>
  Runs of the Ethereum bridge contract \<open>Most.sol\<close>: the interpretation of \<open>sol_bridge\<close>, the
  reachable states, the invariant of the committees, and the properties with their witnesses.
\<close>

section \<open>Votes\<close>

lemma sol_votes_payOut: "always same_sol_votes (payOut ev msg m h token amount receiver)"
  unfolding payOut_def by (intro sol_votes_rules; simp)

interpretation ebv: sol_bridge ev "onReceiveRequestThresholdMet ev" for ev :: "'w evm"
  by unfold_locales (auto simp: onReceiveRequestThresholdMet_def intro: marked_and_reported sol_votes_payOut)

fun is_receiveRequest :: "sol_call \<Rightarrow> bool" where
  "is_receiveRequest (ReceiveRequest _ _ _ _ _ _) \<longleftrightarrow> True"
| "is_receiveRequest _ \<longleftrightarrow> False"

lemma checkTransferAllowed_same: "checkTransferAllowed ev token amount s = Inr (u, s') \<Longrightarrow> s' = s"
  by (auto simp: checkTransferAllowed_def run_simps split: if_splits sol_try_result.splits)

lemmas sol_votes_checkTransferAllowed = sol_votes_frame.always_same [OF checkTransferAllowed_same]

lemma sol_votes_function: "\<not> is_receiveRequest k \<Longrightarrow> always same_sol_votes (sol_function ev msg k)"
  by (cases k; simp only: sol_function.simps sol_function_defs is_receiveRequest.simps simp_thms)
    (intro sol_votes_rules sol_votes_checkTransferAllowed sol_votes_setCommittee sol_votes_emitRequest; simp)+

lemma sol_votes_dispatch: "\<not> is_receiveRequest k \<Longrightarrow> always same_sol_votes (sol_dispatch ev msg k)"
  unfolding sol_dispatch_def by (intro sol_votes_rules sol_votes_function)

section \<open>Runs of the contract\<close>

text \<open>
  The contract is initialized (which \<open>Initializable\<close> allows once), then any account calls any
  function; between two calls the rest of the chain changes in any way, which includes what the
  inherited functions of OpenZeppelin do (transferring the ownership, upgrading). A reverted call is no
  step. A list in the data of a call has fewer than \<open>2 ^ 64\<close> elements.
\<close>

definition blank_most :: Most_sol where
  "blank_most = AbstractMost.extend blank_storage (Most_sol.fields 0)"

fun fits_calldata :: "sol_call \<Rightarrow> bool" where
  "fits_calldata (SetCommittee committee _) \<longleftrightarrow> length committee < 2 ^ 64"
| "fits_calldata _ \<longleftrightarrow> True"

inductive sol_run :: "'w evm \<Rightarrow> 'w most_sol_ctx \<Rightarrow> bool" for ev :: "'w evm" where
  sol_deployed: "length committee < 2 ^ 64 \<Longrightarrow>
    sol_initialize ev msg committee threshold o' weth \<lparr>storage = blank_most, world = w, events = []\<rparr> = Inr ((), s) \<Longrightarrow>
    sol_run ev s"
| sol_called: "sol_run ev s \<Longrightarrow> fits_calldata k \<Longrightarrow> sol_dispatch ev msg k s = Inr ((), s') \<Longrightarrow> sol_run ev s'"
| sol_elsewhere: "sol_run ev s \<Longrightarrow> sol_run ev (s\<lparr>world := w\<rparr>)"

lemma blank_most_simps [simp]:
  "am_requestNonce blank_most = 0" "am_committeeId blank_most = 0"
  "am_pendingRequests blank_most = (\<lambda>_. blank_request)" "am_processedRequests blank_most = (\<lambda>_. False)"
  "am_committee blank_most = (\<lambda>_. False)" "am_committeeSize blank_most = (\<lambda>_. 0)"
  "am_signatureThreshold blank_most = (\<lambda>_. 0)" "em_transferLimit blank_most = 0"
  by (simp_all add: blank_most_def blank_storage_def AbstractMost.defs Most_sol.defs)

lemma sol_votes_initialize: "always same_sol_votes (sol_initialize ev msg cs thr o' weth)"
  unfolding sol_initialize_def AbstractMost_init_def by (intro sol_votes_rules sol_votes_setCommittee; simp)

lemma sol_dispatch_cases:
  assumes "sol_dispatch ev msg k s = Inr ((), s')"
  obtains (vote) h c t a r n where "k = ReceiveRequest h c t a r n"
      "h = sol_request_hash (evm_keccak256 ev) c t a r n"
      "sol_vote ev (onReceiveRequestThresholdMet ev) s (msg_sender msg) h c s'"
  | (other) "same_sol_votes s s'"
proof (cases "is_receiveRequest k")
  case True
  then obtain h c t a r n where k: "k = ReceiveRequest h c t a r n" by (cases k) auto
  with assms have run: "receiveRequest ev (onReceiveRequestThresholdMet ev) msg h c t a r n s = Inr ((), s')"
    by (auto simp: sol_dispatch_def run_simps split: if_splits)
  show thesis
  proof (cases "h = sol_request_hash (evm_keccak256 ev) c t a r n")
    case True
    with k run sol_voteI show thesis by (intro vote) blast+
  next
    case False
    show thesis by (rule other [OF ebv.mismatch_same_votes [OF run False]])
  qed
next
  case False
  with assms sol_votes_dispatch show thesis by (blast dest: alwaysD intro: other)
qed

lemma sol_run_reached: "sol_run ev s \<Longrightarrow> ebv.reached ev s"
proof (induction rule: sol_run.induct)
  case (sol_deployed committee msg threshold o' weth w s)
  from alwaysD [OF sol_votes_initialize sol_deployed(2)] show ?case
    by (intro ebv.reached_init) (simp add: sol_start_def same_sol_votes_def)
next
  case (sol_called s k msg s')
  from sol_called(3) show ?case
    by (cases rule: sol_dispatch_cases)
      (blast intro: ebv.reached_vote [OF sol_called(4)], blast intro: ebv.reached_other [OF sol_called(4)])
next
  case (sol_elsewhere s w)
  from sol_elsewhere(2) show ?case by (rule ebv.reached_other) (simp add: same_sol_votes_def)
qed

lemmas sol_run_votes_inv = ebv.reached_votes_inv [OF sol_run_reached]

section \<open>Committees\<close>

text \<open>
  Without a collision of the hash function on the committee ids up to \<open>b\<close>, with all addresses: a
  committee that has been set has as many members as its recorded size, at least as many as its
  threshold, which is not zero; a committee of the future, up to \<open>b\<close>, has no members.
\<close>

definition member_ids_distinct :: "'w evm \<Rightarrow> u256 \<Rightarrow> bool" where
  "member_ids_distinct ev b \<longleftrightarrow> (\<forall>c c' a a'. c \<le> b \<and> c' \<le> b \<and>
     committeeMemberId (evm_keccak256 ev) c a = committeeMemberId (evm_keccak256 ev) c' a' \<longrightarrow> c = c' \<and> a = a')"

definition sol_members :: "'w evm \<Rightarrow> 'a AbstractMost_scheme \<Rightarrow> u256 \<Rightarrow> H160 set" where
  "sol_members ev m c = {a. isInCommittee ev c a m}"

definition committees_sound :: "'w evm \<Rightarrow> u256 \<Rightarrow> 'a AbstractMost_scheme \<Rightarrow> bool" where
  "committees_sound ev b m \<longleftrightarrow> (\<forall>c.
     (c \<le> am_committeeId m \<longrightarrow> 0 < sol_threshold m c \<and> sol_threshold m c \<le> unat (am_committeeSize m c) \<and>
        card (sol_members ev m c) = unat (am_committeeSize m c) \<and> 0 \<notin> sol_members ev m c) \<and>
     (am_committeeId m < c \<and> c \<le> b \<longrightarrow> sol_members ev m c = {}))"

lemma addMembers_only_committee:
  "addMembers ev cs s = Inr (u, s') \<Longrightarrow> \<exists>cm. s' = s\<lparr>storage := (storage s)\<lparr>am_committee := cm\<rparr>\<rparr> \<and>
     (\<forall>i. am_committee (storage s) i \<longrightarrow> cm i)"
proof (induction cs arbitrary: s)
  case (Cons g cs)
  let ?id = "committeeMemberId (evm_keccak256 ev) (am_committeeId (storage s)) g"
  from Cons.prems have "addMembers ev cs
      (s\<lparr>storage := (storage s)\<lparr>am_committee := (am_committee (storage s))(?id := True)\<rparr>\<rparr>) = Inr (u, s')"
    by (auto simp: run_simps split: if_splits)
  from Cons.IH [OF this] show ?case by force
qed (auto simp: run_simps intro!: exI [of _ "am_committee (storage s')"])

lemma addMembers_mono:
  "addMembers ev cs s = Inr (u, s') \<Longrightarrow> am_committee (storage s) \<le> am_committee (storage s')"
  by (auto dest!: addMembers_only_committee)

lemma addMembers_Inr:
  assumes "addMembers ev cs s = Inr (u, s')" "member_ids_distinct ev b" "am_committeeId (storage s) \<le> b"
  shows "distinct cs \<and> 0 \<notin> set cs \<and> set cs \<inter> sol_members ev (storage s) (am_committeeId (storage s)) = {} \<and>
    (\<forall>c \<le> b. sol_members ev (storage s') c =
      (if c = am_committeeId (storage s) then sol_members ev (storage s) c \<union> set cs else sol_members ev (storage s) c))"
  using assms(1,3)
proof (induction cs arbitrary: s)
  case Nil
  then show ?case by (simp add: run_simps)
next
  case (Cons g cs)
  let ?id = "committeeMemberId (evm_keccak256 ev) (am_committeeId (storage s)) g"
  let ?s1 = "s\<lparr>storage := (storage s)\<lparr>am_committee := (am_committee (storage s))(?id := True)\<rparr>\<rparr>"
  from Cons.prems(1) have g: "g \<noteq> 0" "\<not> am_committee (storage s) ?id" and rest: "addMembers ev cs ?s1 = Inr (u, s')"
    by (auto simp: run_simps split: if_splits)
  have members: "sol_members ev (storage ?s1) c =
      (if c = am_committeeId (storage s) then insert g (sol_members ev (storage s) c) else sol_members ev (storage s) c)" if "c \<le> b" for c
    using assms(2) Cons.prems(2) that by (auto simp: member_ids_distinct_def sol_members_def isInCommittee_def)
  have "g \<notin> sol_members ev (storage s) (am_committeeId (storage s))"
    using g(2) by (simp add: sol_members_def isInCommittee_def)
  with Cons.IH [OF rest] members [OF Cons.prems(2)] members Cons.prems(2) g(1) show ?case by auto
qed

definition same_committees :: "('a, 'w) sol_ctx \<Rightarrow> ('a, 'w) sol_ctx \<Rightarrow> bool" where
  "same_committees s s' \<longleftrightarrow> am_committeeId (storage s') = am_committeeId (storage s) \<and>
     am_committee (storage s') = am_committee (storage s) \<and>
     am_committeeSize (storage s') = am_committeeSize (storage s) \<and>
     am_signatureThreshold (storage s') = am_signatureThreshold (storage s)"

interpretation committees_frame: sol_frame same_committees
  by unfold_locales (auto simp: same_committees_def)

lemma committees_emit: "always same_committees (emit_event e)"
  by (auto simp: always_def run_simps same_committees_def)

lemma committees_put_storage:
  "(\<And>m. am_committeeId (f m) = am_committeeId m \<and> am_committee (f m) = am_committee m \<and>
      am_committeeSize (f m) = am_committeeSize m \<and> am_signatureThreshold (f m) = am_signatureThreshold m) \<Longrightarrow>
     always same_committees (put_storage f)"
  by (auto simp: always_def run_simps same_committees_def)

lemmas committees_rules = committees_frame.sol_rules committees_emit committees_put_storage
  committees_frame.always_same [OF checkTransferAllowed_same]

fun is_setCommittee :: "sol_call \<Rightarrow> bool" where
  "is_setCommittee (SetCommittee _ _) \<longleftrightarrow> True"
| "is_setCommittee _ \<longleftrightarrow> False"

lemma committees_function: "\<not> is_setCommittee k \<Longrightarrow> always same_committees (sol_function ev msg k)"
  by (cases k; simp only: sol_function.simps sol_function_defs is_setCommittee.simps simp_thms
      receiveRequest_def onReceiveRequestThresholdMet_def payOut_def emitRequest_def)
    (intro committees_rules; simp add: markProcessed_def)+

lemma setCommittee_internal_Inr:
  assumes "setCommittee_internal ev cs thr s = Inr (u, s')" "member_ids_distinct ev b" "am_committeeId (storage s) \<le> b"
    and "sol_members ev (storage s) (am_committeeId (storage s)) = {}"
  shows "thr \<noteq> 0" "thr \<le> of_nat (length cs)" "distinct cs" "0 \<notin> set cs"
    "am_committeeId (storage s') = am_committeeId (storage s)"
    "am_committeeSize (storage s') = (am_committeeSize (storage s))(am_committeeId (storage s) := of_nat (length cs))"
    "am_signatureThreshold (storage s') = (am_signatureThreshold (storage s))(am_committeeId (storage s) := thr)"
    "c \<le> b \<Longrightarrow> sol_members ev (storage s') c = (if c = am_committeeId (storage s) then set cs else sol_members ev (storage s) c)"
proof -
  from assms(1) obtain s1 where thr: "thr \<noteq> 0" "thr \<le> of_nat (length cs)" and add: "addMembers ev cs s = Inr ((), s1)"
    and s': "s' = s1\<lparr>storage := (storage s1)\<lparr>
      am_committeeSize := (am_committeeSize (storage s1))(am_committeeId (storage s1) := of_nat (length cs)),
      am_signatureThreshold := (am_signatureThreshold (storage s1))(am_committeeId (storage s1) := thr)\<rparr>\<rparr>"
    by (auto simp: setCommittee_internal_def run_simps split: if_splits)
  note added = addMembers_Inr [OF add assms(2,3)]
  from addMembers_only_committee [OF add] have same: "am_committeeId (storage s1) = am_committeeId (storage s)"
    "am_committeeSize (storage s1) = am_committeeSize (storage s)"
    "am_signatureThreshold (storage s1) = am_signatureThreshold (storage s)"
    by auto
  have "sol_members ev (storage s') c = sol_members ev (storage s1) c" for c
    by (simp add: s' sol_members_def isInCommittee_def)
  with added assms(4) show "c \<le> b \<Longrightarrow>
      sol_members ev (storage s') c = (if c = am_committeeId (storage s) then set cs else sol_members ev (storage s) c)"
    by simp
  from thr added s' same show "thr \<noteq> 0" "thr \<le> of_nat (length cs)" "distinct cs" "0 \<notin> set cs"
    "am_committeeId (storage s') = am_committeeId (storage s)"
    "am_committeeSize (storage s') = (am_committeeSize (storage s))(am_committeeId (storage s) := of_nat (length cs))"
    "am_signatureThreshold (storage s') = (am_signatureThreshold (storage s))(am_committeeId (storage s) := thr)"
    by simp_all
qed

lemma committees_sound_installed:
  assumes run: "setCommittee_internal ev cs thr s = Inr (u, s')" and ids: "member_ids_distinct ev b" "am_committeeId (storage s) \<le> b" and len: "length cs < 2 ^ 64"
    and old: "\<And>c. c < am_committeeId (storage s) \<Longrightarrow> 0 < sol_threshold (storage s) c \<and>
      sol_threshold (storage s) c \<le> unat (am_committeeSize (storage s) c) \<and>
      card (sol_members ev (storage s) c) = unat (am_committeeSize (storage s) c) \<and> 0 \<notin> sol_members ev (storage s) c"
    and future: "\<And>c. am_committeeId (storage s) \<le> c \<Longrightarrow> c \<le> b \<Longrightarrow> sol_members ev (storage s) c = {}"
  shows "committees_sound ev b (storage s')"
proof -
  note new = setCommittee_internal_Inr [OF run ids future [OF order_refl ids(2)]]
  have size: "unat (of_nat (length cs) :: u256) = length cs"
    by (rule unat_of_nat_small) (use len in simp)
  have "0 < unat thr \<and> unat thr \<le> length cs"
    using new(1,2) size by (simp add: word_le_nat_alt unat_gt_0)
  moreover have "card (set cs) = length cs" by (rule distinct_card [OF new(3)])
  ultimately have here: "0 < unat thr \<and> unat thr \<le> unat (of_nat (length cs) :: u256) \<and>
      card (set cs) = unat (of_nat (length cs) :: u256)" unfolding size by blast
  show ?thesis
    unfolding committees_sound_def new(5)
  proof (rule allI)
    fix c
    show "(c \<le> am_committeeId (storage s) \<longrightarrow> 0 < sol_threshold (storage s') c \<and>
        sol_threshold (storage s') c \<le> unat (am_committeeSize (storage s') c) \<and>
        card (sol_members ev (storage s') c) = unat (am_committeeSize (storage s') c) \<and> 0 \<notin> sol_members ev (storage s') c) \<and>
      (am_committeeId (storage s) < c \<and> c \<le> b \<longrightarrow> sol_members ev (storage s') c = {})"
    proof (cases "c = am_committeeId (storage s)")
      case True
      with ids(2) here new(4) show ?thesis by (simp add: sol_threshold_def new(6-8))
    next
      case False
      with old [of c] future [of c] ids(2) new(8) [of c] show ?thesis by (auto simp: sol_threshold_def new(6,7))
    qed
  qed
qed

lemma committees_sound_frame: "same_committees s s' \<Longrightarrow> committees_sound ev b (storage s) \<Longrightarrow> committees_sound ev b (storage s')"
  by (simp add: same_committees_def committees_sound_def sol_threshold_def sol_members_def isInCommittee_def)

lemma setCommittee_Inr:
  assumes "setCommittee ev msg cs thr s = Inr (u, s')"
  obtains nxt s1 where "checked_add (am_committeeId (storage s)) 1 = Some nxt" "am_committeeId (storage s) < nxt"
    "setCommittee_internal ev cs thr (s\<lparr>storage := (storage s)\<lparr>am_committeeId := nxt\<rparr>\<rparr>) = Inr ((), s1)"
    "s' = s1\<lparr>events := events s1 @ [Sol_CommitteeUpdated nxt]\<rparr>" "am_committeeId (storage s') = nxt"
proof -
  from assms obtain nxt s1 where *: "checked_add (am_committeeId (storage s)) 1 = Some nxt"
    "setCommittee_internal ev cs thr (s\<lparr>storage := (storage s)\<lparr>am_committeeId := nxt\<rparr>\<rparr>) = Inr ((), s1)"
    "s' = s1\<lparr>events := events s1 @ [Sol_CommitteeUpdated nxt]\<rparr>"
    by (auto simp: setCommittee_def run_simps)
  moreover have "am_committeeId (storage s1) = nxt"
    using *(2) by (auto simp: setCommittee_internal_def run_simps split: if_splits dest: addMembers_only_committee)
  ultimately show thesis by (intro that) (auto dest: checked_add_1_gt)
qed

lemma committees_sound_setCommittee:
  assumes "setCommittee ev msg cs thr s = Inr (u, s')" "member_ids_distinct ev b" "length cs < 2 ^ 64"
    and "am_committeeId (storage s') \<le> b" "committees_sound ev b (storage s)"
  shows "committees_sound ev b (storage s')"
  using assms(1)
proof (cases rule: setCommittee_Inr)
  case (1 nxt s1)
  let ?m = "(storage s)\<lparr>am_committeeId := nxt\<rparr>"
  have below: "c < nxt \<longleftrightarrow> c \<le> am_committeeId (storage s)" for c
    using checked_add_SomeD [OF 1(1)] by (auto simp: word_less_nat_alt word_le_nat_alt)
  have same: "sol_members ev ?m c = sol_members ev (storage s) c" "sol_threshold ?m c = sol_threshold (storage s) c" for c
    by (simp_all add: sol_members_def isInCommittee_def sol_threshold_def)
  have "am_committeeId (storage (s\<lparr>storage := ?m\<rparr>)) \<le> b" using 1(5) assms(4) by simp
  then have "committees_sound ev b (storage s1)"
  proof (rule committees_sound_installed [OF 1(3) assms(2) _ assms(3)], goal_cases)
    case (1 c)
    then have "c \<le> am_committeeId (storage s)" using below by simp
    with assms(5) show ?case by (simp add: committees_sound_def same)
  next
    case (2 c)
    then have "am_committeeId (storage s) < c" using below [of c] by (simp add: not_le [symmetric] not_less)
    with 2(2) assms(5) show ?case by (simp add: committees_sound_def same)
  qed
  then show ?thesis by (simp add: 1(4) committees_sound_def)
qed

lemma sol_run_committees:
  assumes "sol_run ev s" "member_ids_distinct ev b"
  shows "am_committeeId (storage s) \<le> b \<Longrightarrow> committees_sound ev b (storage s)"
  using assms(1)
proof (induction rule: sol_run.induct)
  case (sol_deployed cs msg thr o' weth w s)
  then obtain s0 s1 where run: "setCommittee_internal ev cs thr s0 = Inr ((), s1)"
    and s0: "storage s0 = blank_most\<lparr>am_requestNonce := 0, am_committeeId := 0, am_wethAddress := weth\<rparr>"
    and s: "storage s = storage s1"
    by (auto simp: sol_initialize_def AbstractMost_init_def run_simps)
  have "committees_sound ev b (storage s1)"
    by (rule committees_sound_installed [OF run assms(2) _ sol_deployed(1)])
      (auto simp: s0 sol_members_def isInCommittee_def)
  then show ?case by (simp add: s)
next
  case (sol_called s k msg s')
  from sol_called(3) have run: "sol_function ev msg k s = Inr ((), s')"
    by (auto simp: sol_dispatch_def run_simps split: if_splits)
  show ?case
  proof (cases "is_setCommittee k")
    case True
    then obtain cs thr where k: "k = SetCommittee cs thr" by (cases k) auto
    with run have set: "setCommittee ev msg cs thr s = Inr ((), s')" by simp
    then have "am_committeeId (storage s) \<le> b"
      by (cases rule: setCommittee_Inr) (use sol_called(5) in simp)
    with committees_sound_setCommittee [OF set assms(2)] sol_called(2,4,5) k show ?thesis by simp
  next
    case False
    note same = alwaysD [OF committees_function [OF False] run]
    with sol_called(4,5) committees_sound_frame [OF same] show ?thesis by (simp add: same_committees_def)
  qed
next
  case (sol_elsewhere s w)
  then show ?case by simp
qed

section \<open>Signatures and numbers of requests\<close>

definition sol_genuine :: "'w evm \<Rightarrow> 'a AbstractMost_scheme \<Rightarrow> bool" where
  "sol_genuine ev m \<longleftrightarrow> (\<forall>h g. g \<in> sol_signers m h \<longrightarrow>
     (\<exists>c t a r n. h = sol_request_hash (evm_keccak256 ev) c t a r n \<and> isInCommittee ev c g m))"

lemma isInCommittee_mono:
  assumes "sol_dispatch ev msg k s = Inr ((), s')" "isInCommittee ev c g (storage s)"
  shows "isInCommittee ev c g (storage s')"
proof (cases "is_setCommittee k")
  case True
  then obtain cs thr where "k = SetCommittee cs thr" by (cases k) auto
  with assms(1) have "setCommittee ev msg cs thr s = Inr ((), s')"
    by (auto simp: sol_dispatch_def run_simps split: if_splits)
  then show ?thesis
    using assms(2) by (cases rule: setCommittee_Inr)
      (auto simp: setCommittee_internal_def run_simps isInCommittee_def split: if_splits dest!: addMembers_mono)
next
  case False
  from assms(1) have "sol_function ev msg k s = Inr ((), s')"
    by (auto simp: sol_dispatch_def run_simps split: if_splits)
  from alwaysD [OF committees_function [OF False] this] assms(2) show ?thesis
    by (simp add: isInCommittee_def same_committees_def)
qed

lemma sol_vote_signers:
  assumes "sol_vote ev (onReceiveRequestThresholdMet ev) s g h c s'" "f \<in> sol_signers (storage s') k" "f \<notin> sol_signers (storage s) k"
  shows "k = h \<and> f = g \<and> isInCommittee ev c g (storage s)"
proof -
  have "isInCommittee ev c g (storage s)"
    using assms(1) by (auto simp: sol_vote_def dest: receiveRequest_caller)
  moreover from ebv.vote_refused [OF assms(1)] ebv.vote_counted [OF assms(1)] assms(2,3)
  have "k = h \<and> f = g" by (cases "h \<in> sol_processed (storage s) \<or> g \<in> sol_signers (storage s) h") (auto split: if_splits)
  ultimately show ?thesis by blast
qed

lemma sol_run_genuine: "sol_run ev s \<Longrightarrow> sol_genuine ev (storage s)"
proof (induction rule: sol_run.induct)
  case (sol_deployed committee msg threshold o' weth w s)
  from same_sol_votesD [OF alwaysD [OF sol_votes_initialize sol_deployed(2)]] show ?case
    by (simp add: sol_genuine_def sol_signers_def hasSignedRequest_def blank_request_def)
next
  case (sol_called s k msg s')
  note mono = isInCommittee_mono [OF sol_called(3)]
  from sol_called(3) show ?case
  proof (cases rule: sol_dispatch_cases)
    case (vote h c t a r n)
    with sol_vote_signers [OF vote(3)] sol_called(4) mono show ?thesis
      unfolding sol_genuine_def by metis
  next
    case other
    from same_sol_votesD [OF other] sol_called(4) mono show ?thesis
      unfolding sol_genuine_def by metis
  qed
next
  case (sol_elsewhere s w)
  then show ?case by simp
qed

fun request_nonce :: "sol_event \<Rightarrow> u256 list" where
  "request_nonce (Sol_CrosschainTransferRequest _ _ _ _ n) = [n]"
| "request_nonce _ = []"

definition sol_request_nonces :: "sol_event list \<Rightarrow> nat list" where
  "sol_request_nonces es = map unat (concat (map request_nonce es))"

lemma sol_request_nonces_simps [simp]:
  "sol_request_nonces [] = []" "sol_request_nonces (es @ [e]) = sol_request_nonces es @ map unat (request_nonce e)"
  by (simp_all add: sol_request_nonces_def)

definition numbered :: "('a, 'w) sol_ctx \<Rightarrow> bool" where
  "numbered s \<longleftrightarrow> sol_request_nonces (events s) = [0..<unat (am_requestNonce (storage s))]"

definition keeps_numbered :: "('a, 'w) sol_ctx \<Rightarrow> ('a, 'w) sol_ctx \<Rightarrow> bool" where
  "keeps_numbered s s' \<longleftrightarrow> (numbered s \<longrightarrow> numbered s')"

interpretation numbered_frame: sol_frame keeps_numbered
  by unfold_locales (auto simp: keeps_numbered_def numbered_def)

lemma numbered_emit: "request_nonce e = [] \<Longrightarrow> always keeps_numbered (emit_event e)"
  by (auto simp: always_def run_simps keeps_numbered_def numbered_def)

lemma numbered_put_storage:
  "(\<And>m. am_requestNonce (f m) = am_requestNonce m) \<Longrightarrow> always keeps_numbered (put_storage f)"
  by (auto simp: always_def run_simps keeps_numbered_def numbered_def)

lemma numbered_emitRequest: "always keeps_numbered (emitRequest t a r)"
  by (auto simp: always_def emitRequest_def run_simps keeps_numbered_def numbered_def dest!: checked_add_SomeD)

lemmas numbered_rules = numbered_frame.sol_rules numbered_emit numbered_put_storage numbered_emitRequest
  numbered_frame.always_same [OF checkTransferAllowed_same]

lemma numbered_addMembers: "always keeps_numbered (addMembers ev cs)"
proof (induction cs)
  case (Cons g cs)
  show ?case unfolding addMembers.simps by (intro numbered_rules Cons.IH; simp)
qed (simp add: numbered_rules)

lemma numbered_function: "always keeps_numbered (sol_function ev msg k)"
  by (cases k; simp only: sol_function.simps sol_function_defs setCommittee_internal_def
      receiveRequest_def onReceiveRequestThresholdMet_def payOut_def)
    (intro numbered_rules numbered_addMembers; simp add: markProcessed_def)+

lemma sol_run_numbered: "sol_run ev s \<Longrightarrow> numbered s"
proof (induction rule: sol_run.induct)
  case (sol_deployed cs msg thr o' weth w s)
  have "always keeps_numbered (setCommittee_internal ev cs thr)"
    unfolding setCommittee_internal_def by (intro numbered_rules numbered_addMembers; simp)
  moreover from sol_deployed(2) obtain s0 s1 where "setCommittee_internal ev cs thr s0 = Inr ((), s1)" "numbered s0"
    "events s = events s1" "storage s = storage s1"
    by (auto simp: sol_initialize_def AbstractMost_init_def run_simps numbered_def)
  ultimately show ?case by (auto simp: keeps_numbered_def numbered_def dest: alwaysD)
next
  case (sol_called s k msg s')
  then show ?case
    by (auto simp: sol_dispatch_def run_simps keeps_numbered_def split: if_splits dest: numbered_function [THEN alwaysD])
next
  case (sol_elsewhere s w)
  then show ?case by (simp add: numbered_def)
qed

section \<open>Executions\<close>

lemma executed_once:
  assumes "sol_run ev s"
  shows "count_list (processed_hashes (events s)) h = (if am_processedRequests (storage s) h then 1 else 0)"
  using ebv.reached_executed_once [OF sol_run_reached [OF assms], of h] by (simp add: sol_processed_def)

lemma new_execution:
  assumes run: "sol_run ev s" and step: "sol_dispatch ev msg k s = Inr ((), s')"
    and new: "am_processedRequests (storage s') h" "\<not> am_processedRequests (storage s) h"
  shows "\<exists>c t a r n. k = ReceiveRequest h c t a r n \<and> h = sol_request_hash (evm_keccak256 ev) c t a r n \<and>
    sol_threshold (storage s) c \<le> card (sol_signers (storage s') h) \<and>
    ((\<forall>c' t' a' r' n'. h = sol_request_hash (evm_keccak256 ev) c' t' a' r' n' \<longrightarrow> c' = c) \<longrightarrow>
       sol_signers (storage s') h \<subseteq> sol_members ev (storage s') c)"
  using step
proof (cases rule: sol_dispatch_cases)
  case (vote h' c t a r n)
  from ebv.executed_quorum [OF sol_run_votes_inv [OF run] vote(3), of h] new
  have quorum: "h = h'" "sol_threshold (storage s) c \<le> card (sol_signers (storage s') h)"
    by (auto simp: sol_processed_def)
  have "sol_genuine ev (storage s')"
    using sol_called [OF run _ step] sol_run_genuine vote(1) by simp
  then have "sol_signers (storage s') h \<subseteq> sol_members ev (storage s') c"
    if "\<forall>c' t' a' r' n'. h = sol_request_hash (evm_keccak256 ev) c' t' a' r' n' \<longrightarrow> c' = c"
    using that unfolding sol_genuine_def sol_members_def by blast
  with vote(1,2) quorum show ?thesis by blast
next
  case other
  with new show ?thesis by (simp add: same_sol_votes_def)
qed

section \<open>A concrete run\<close>

text \<open>
  An environment whose world is the pause flag: every call to another contract succeeds. The
  committee is \<open>[1, 2, 3]\<close> with threshold 2, the owner is 9.
\<close>

definition demo_eth_keccak :: "u8 list \<Rightarrow> bytes32" where
  "demo_eth_keccak bs = (if length bs = 52 then le_word (rev (drop 32 bs)) else 77)"

definition demo_evm :: "bool evm" where
  "demo_evm =
     \<lparr>evm_keccak256 = demo_eth_keccak, oz_owner = (\<lambda>_. 9), oz_paused = (\<lambda>w. w),
      oz_pause = (\<lambda>_ w. if w then None else Some True), oz_unpause = (\<lambda>_ w. if w then Some False else None),
      oz_initializer = Some, oz_ownable_init = (\<lambda>_. Some), oz_pausable_init = Some,
      erc20_safeTransferFrom = (\<lambda>_ _ _ _ _. Some), erc20_safeTransfer = (\<lambda>_ _ _ _. Some),
      erc20_transfer_call = (\<lambda>_ _ _ _ w. Some ([], w)), code_length = (\<lambda>_ _. 1),
      wrapped_burn = (\<lambda>_ _ _. Some), wrapped_mint = (\<lambda>_ _ _ _. Some), wrapped_approve = (\<lambda>_ _ _ _. Some),
      weth_deposit = (\<lambda>_ _ _. Some), weth_withdraw = (\<lambda>_ _ _. Some), send_ether = (\<lambda>_ _ _ _. Some),
      isRequestAllowed_try = (\<lambda>_ _ _ _. Returned True),
      exchange_to_native = (\<lambda>_ _ a _ w. Some (a * 1000000, w)),
      exchange_from_native = (\<lambda>_ _ a _ w. Some (a div 1000000, w))\<rparr>"

definition sol_demo_msg :: "H160 \<Rightarrow> sol_msg" where
  "sol_demo_msg g = \<lparr>msg_sender = g, msg_value = 0, this_address = 100\<rparr>"

definition sol_demo_members :: "bytes32 \<Rightarrow> bool" where
  "sol_demo_members = (\<lambda>_. False)(1 := True, 2 := True, 3 := True)"

definition sol_demo_start :: "bool most_sol_ctx" where
  "sol_demo_start = \<lparr>storage = blank_most\<lparr>am_wethAddress := 50, am_committee := sol_demo_members,
     am_committeeSize := (\<lambda>_. 0)(0 := 3), am_signatureThreshold := (\<lambda>_. 0)(0 := 2)\<rparr>,
     world = True, events = []\<rparr>"

definition sol_demo_open :: "bool most_sol_ctx" where
  "sol_demo_open = sol_demo_start\<lparr>world := False\<rparr>"

definition sol_demo_voted :: "bool most_sol_ctx" where
  "sol_demo_voted = vote_recorded 77 1 1 sol_demo_open"

definition sol_demo_done :: "bool most_sol_ctx" where
  "sol_demo_done = (let s = vote_recorded 77 2 2 sol_demo_voted in
     s\<lparr>storage := markProcessed 77 (storage s), events := events s @ [Sol_RequestProcessed 77]\<rparr>)"

lemmas sol_demo_defs = sol_demo_start_def sol_demo_open_def sol_demo_voted_def sol_demo_done_def
  vote_recorded_def markProcessed_def Let_def sol_demo_msg_def

lemma demo_member_id [simp]: "committeeMemberId demo_eth_keccak c a = ucast a"
  by (simp add: committeeMemberId_def demo_eth_keccak_def address_bytes_def le_word_le_bytes)

lemma demo_request_hash [simp]: "sol_request_hash demo_eth_keccak c t a r n = 77"
  by (simp add: sol_request_hash_def demo_eth_keccak_def)

lemma demo_ids_inject: "(ucast (a::H160) :: bytes32) = ucast a' \<Longrightarrow> a = a'"
  using bytes32ToAddress_addressToBytes32 [of a] bytes32ToAddress_addressToBytes32 [of a']
  by (simp add: bytes32ToAddress_def addressToBytes32_def)

lemma demo_ids_distinct: "member_ids_distinct demo_evm 0"
  using demo_ids_inject by (auto simp: member_ids_distinct_def demo_evm_def)

lemma sol_demo_start_run: "sol_run demo_evm sol_demo_start"
proof (rule sol_deployed [of "[1, 2, 3]" demo_evm "sol_demo_msg 8" 2 9 50 False])
  show "sol_initialize demo_evm (sol_demo_msg 8) [1, 2, 3] 2 9 50
      \<lparr>storage = blank_most, world = False, events = []\<rparr> = Inr ((), sol_demo_start)"
    by (simp add: sol_initialize_def AbstractMost_init_def setCommittee_internal_def sol_eval_simps
        demo_evm_def sol_demo_defs sol_demo_members_def fun_eq_iff)
qed simp

lemma sol_demo_steps:
  "sol_dispatch demo_evm (sol_demo_msg 9) Sol_Unpause sol_demo_start = Inr ((), sol_demo_open)"
  "sol_dispatch demo_evm (sol_demo_msg 1) (ReceiveRequest 77 0 5 10 6 0) sol_demo_open = Inr ((), sol_demo_voted)"
  "sol_dispatch demo_evm (sol_demo_msg 2) (ReceiveRequest 77 0 5 10 6 0) sol_demo_voted = Inr ((), sol_demo_done)"
  by (simp_all add: sol_dispatch_def sol_unpause_def receiveRequest_def onReceiveRequestThresholdMet_def payOut_def
      isInCommittee_def sol_eval_simps demo_evm_def sol_demo_defs sol_demo_members_def blank_request_def
      checked_add_def bytes32ToAddress_def word_le_nat_alt blank_most_def blank_storage_def AbstractMost.defs Most_sol.defs)

lemma sol_demo_runs:
  "sol_run demo_evm sol_demo_open" "sol_run demo_evm sol_demo_voted" "sol_run demo_evm sol_demo_done"
proof -
  show o: "sol_run demo_evm sol_demo_open" by (rule sol_called [OF sol_demo_start_run _ sol_demo_steps(1)]) simp
  show v: "sol_run demo_evm sol_demo_voted" by (rule sol_called [OF o _ sol_demo_steps(2)]) simp
  show "sol_run demo_evm sol_demo_done" by (rule sol_called [OF v _ sol_demo_steps(3)]) simp
qed

section \<open>Properties\<close>





text \<open>
  Requests of Ethereum are numbered. In every run, the nonces of the
  \<open>CrosschainTransferRequest\<close> events, in the order of the events, are 0, 1, 2 and so on up to the
  next nonce of the contract: no number is used twice and none is left out.
\<close>

lemma eth_requests_numbered:
  assumes "sol_run ev s"
  shows "sol_request_nonces (events s) = [0..<unat (am_requestNonce (storage s))]"
  using sol_run_numbered [OF assms] by (simp add: numbered_def)

lemma eth_requests_numbered_witness:
  "\<exists>s. sol_dispatch demo_evm (sol_demo_msg 1) (SendRequestAzeroToNative 5 6)
       (sol_demo_open\<lparr>storage := (storage sol_demo_open)\<lparr>am_wrappedAzeroAddress := 4\<rparr>\<rparr>) = Inr ((), s) \<and>
     sol_request_nonces (events s) = [0]"
proof -
  let ?s0 = "sol_demo_start\<lparr>storage := (storage sol_demo_start)\<lparr>am_wrappedAzeroAddress := 4\<rparr>\<rparr>"
  let ?s1 = "sol_demo_open\<lparr>storage := (storage sol_demo_open)\<lparr>am_wrappedAzeroAddress := 4\<rparr>\<rparr>"
  have steps: "sol_dispatch demo_evm (sol_demo_msg 9) (SetWrappedAzeroAddress 4) sol_demo_start = Inr ((), ?s0)"
    "sol_dispatch demo_evm (sol_demo_msg 9) Sol_Unpause ?s0 = Inr ((), ?s1)"
    by (simp_all add: sol_dispatch_def setWrappedAzeroAddress_def sol_unpause_def sol_eval_simps demo_evm_def sol_demo_defs)
  have run: "sol_run demo_evm ?s1"
    by (rule sol_called [OF sol_called [OF sol_demo_start_run _ steps(1)] _ steps(2)]) simp_all
  obtain s where s: "sol_dispatch demo_evm (sol_demo_msg 1) (SendRequestAzeroToNative 5 6) ?s1 = Inr ((), s)"
      "am_requestNonce (storage s) = 1"
    by (simp add: sol_dispatch_def sendRequestAzeroToNative_def emitRequest_def checkTransferAllowed_def
        sol_eval_simps demo_evm_def sol_demo_defs checked_add_def)
  have "sol_run demo_evm s" by (rule sol_called [OF run _ s(1)]) simp
  from eth_requests_numbered [OF this] s show ?thesis by (auto simp: upt_rec)
qed

end
