(* ===== verification/Eth_Most_L2.thy ===== *)
theory Eth_Most_L2
  imports Eth_Most_Properties
begin

text \<open>
  The bridge contract on an Ethereum second layer, \<open>eth/contracts/MostL2.sol\<close>: the subclass of
  \<open>AbstractMost\<close> whose native token is AZERO. It mints and burns bridged AZERO and swaps it for
  the native token in a pool; the pool and the token are part of the environment \<open>evm\<close>. It is
  the second interpretation of \<open>sol_bridge\<close>.
\<close>

section \<open>Storage\<close>

record MostL2_sol = AbstractMost +
  l2_stableSwapAddress :: H160
  l2_bAzeroAddress :: H160
  l2_flat_fee :: u256

type_synonym 'w l2_sol_ctx = "(MostL2_sol, sol_event, 'w) ctx"
type_synonym ('w, 'r) l2_sol = "('w l2_sol_ctx, sol_error, 'r) contract"

definition BAZERO_TO_NATIVE_RATIO :: u256 where
  "BAZERO_TO_NATIVE_RATIO = 1000000"

definition MIN_SWAP_RATE :: u256 where
  "MIN_SWAP_RATE = 99"

definition blank_l2 :: MostL2_sol where
  "blank_l2 = AbstractMost.extend blank_storage (MostL2_sol.fields 0 0 0)"

definition l2_sol_initialize ::
  "'w evm \<Rightarrow> sol_msg \<Rightarrow> H160 list \<Rightarrow> u256 \<Rightarrow> H160 \<Rightarrow> H160 \<Rightarrow> H160 \<Rightarrow> ('w, unit) l2_sol" where
  "l2_sol_initialize ev msg committee threshold owner_address stable_swap bazero =
     andThen (ext_call InvalidInitialization (oz_initializer ev)) (\<lambda>_.
     andThen (put_storage (\<lambda>m. m\<lparr>l2_stableSwapAddress := stable_swap, l2_bAzeroAddress := bazero,
       l2_flat_fee := 10 ^ 18 div 2\<rparr>)) (\<lambda>_.
     andThen (AbstractMost_init ev committee threshold 0) (\<lambda>_.
     andThen (ext_call CallReverted (oz_ownable_init ev owner_address)) (\<lambda>_.
     andThen (ext_call InvalidInitialization (oz_pausable_init ev)) (\<lambda>_.
     ext_call EnforcedPause (oz_pause ev (msg_sender msg)))))))"

section \<open>The pool\<close>

text \<open>The products are checked; an overflow panics.\<close>

definition calc_min_amount_out_swap :: "u256 \<Rightarrow> bool \<Rightarrow> u256 option" where
  "calc_min_amount_out_swap amount to_bazero =
     (case checked_mul (amount div 100) MIN_SWAP_RATE of
        None \<Rightarrow> None
      | Some x \<Rightarrow> if to_bazero then Some (x div BAZERO_TO_NATIVE_RATIO) else checked_mul x BAZERO_TO_NATIVE_RATIO)"

definition or_panic :: "'x option \<Rightarrow> ('w, 'x) l2_sol" where
  "or_panic v = (case v of None \<Rightarrow> trap | Some x \<Rightarrow> ret x)"

text \<open>A low-level call that reports its failure, with the number it returned.\<close>

definition call_returning :: "('w \<Rightarrow> (u256 \<times> 'w) option) \<Rightarrow> ('w, u256 option) l2_sol" where
  "call_returning f s =
     (case f (world s) of None \<Rightarrow> Inr (None, s) | Some (x, w) \<Rightarrow> Inr (Some x, s\<lparr>world := w\<rparr>))"

definition swap_from_bazero :: "'w evm \<Rightarrow> sol_msg \<Rightarrow> u256 \<Rightarrow> ('w, u256 option) l2_sol" where
  "swap_from_bazero ev msg amount =
     andThen (gets storage) (\<lambda>m.
     andThen (ext_call CallReverted
       (wrapped_approve ev (l2_bAzeroAddress m) (this_address msg) (l2_stableSwapAddress m) amount)) (\<lambda>_.
     andThen (or_panic (calc_min_amount_out_swap amount False)) (\<lambda>min_amount_out.
     call_returning (exchange_to_native ev (l2_stableSwapAddress m) (this_address msg) amount min_amount_out))))"

definition swap_for_bazero :: "'w evm \<Rightarrow> sol_msg \<Rightarrow> u256 \<Rightarrow> ('w, u256) l2_sol" where
  "swap_for_bazero ev msg amount =
     andThen (or_panic (calc_min_amount_out_swap amount True)) (\<lambda>min_amount_out.
     andThen (gets storage) (\<lambda>m.
     andThen (call_returning (exchange_from_native ev (l2_stableSwapAddress m) (this_address msg) amount min_amount_out))
       (\<lambda>r. case r of None \<Rightarrow> throw CallReverted | Some amount_out \<Rightarrow> ret amount_out)))"

section \<open>Receiving requests\<close>

definition l2_sol_native_transfer :: "'w evm \<Rightarrow> sol_msg \<Rightarrow> bytes32 \<Rightarrow> u256 \<Rightarrow> H160 \<Rightarrow> ('w, unit) l2_sol" where
  "l2_sol_native_transfer ev msg requestHash amount receiver =
     andThen (gets (\<lambda>s. l2_bAzeroAddress (storage s))) (\<lambda>bazero.
     andThen (ext_call CallReverted (wrapped_mint ev bazero (this_address msg) (this_address msg) amount)) (\<lambda>_.
     andThen (swap_from_bazero ev msg amount) (\<lambda>r.
     case r of
       None \<Rightarrow>
         andThen (ext_call CallReverted (erc20_safeTransfer ev bazero (this_address msg) receiver amount)) (\<lambda>_.
         emit_event (Sol_SwapFailed requestHash amount))
     | Some amount_out \<Rightarrow>
         andThen (low_level_call (send_ether ev (this_address msg) receiver amount_out (Some GAS_LIMIT))) (\<lambda>sent.
         if \<not> sent then emit_event (Sol_NativeTransferFailed requestHash)
         else emit_event (Sol_NativeTransferSwap requestHash amount_out)))))"

definition l2_payOut ::
  "'w evm \<Rightarrow> sol_msg \<Rightarrow> MostL2_sol \<Rightarrow> bytes32 \<Rightarrow> H160 \<Rightarrow> u256 \<Rightarrow> H160 \<Rightarrow> ('w, unit) l2_sol" where
  "l2_payOut ev msg m requestHash token amount receiver =
     (if am_isLocalToken m token then throw (SolRequire ''We dont bridge non local token'')
      else if token = 0 then l2_sol_native_transfer ev msg requestHash amount receiver
      else ext_call CallReverted (wrapped_mint ev token (this_address msg) receiver amount))"

definition l2_onReceiveRequestThresholdMet ::
  "'w evm \<Rightarrow> sol_msg \<Rightarrow> bytes32 \<Rightarrow> bytes32 \<Rightarrow> u256 \<Rightarrow> bytes32 \<Rightarrow> ('w, unit) l2_sol" where
  "l2_onReceiveRequestThresholdMet ev msg requestHash destTokenAddress amount destReceiverAddress =
     andThen (put_storage (markProcessed requestHash)) (\<lambda>_.
     andThen (gets storage) (\<lambda>m.
     andThen (l2_payOut ev msg m requestHash (bytes32ToAddress destTokenAddress) amount
       (bytes32ToAddress destReceiverAddress)) (\<lambda>_.
     emit_event (Sol_RequestProcessed requestHash))))"

section \<open>Sending requests\<close>

text \<open>
  \<open>handle_flat_fee\<close>: of the value sent, \<open>native_amount\<close> is kept, the flat fee goes to the owner and
  the rest back to the sender.
\<close>

definition sol_handle_flat_fee :: "'w evm \<Rightarrow> sol_msg \<Rightarrow> u256 \<Rightarrow> ('w, unit) l2_sol" where
  "sol_handle_flat_fee ev msg native_amount =
     andThen (ensure (native_amount \<le> msg_value msg) (SolRequire ''Not enough value send for transfer'')) (\<lambda>_.
     let transferred = msg_value msg - native_amount in
     andThen (gets (\<lambda>s. l2_flat_fee (storage s))) (\<lambda>fee.
     andThen (ensure (fee \<le> transferred) (SolRequire ''Not enough value send for fees'')) (\<lambda>_.
     let surplus = transferred - fee in
     andThen (gets (\<lambda>s. oz_owner ev (world s))) (\<lambda>owner_address.
     andThen (ext_call (SolRequire ''Failed to send fee to owner'')
       (send_ether ev (this_address msg) owner_address fee None)) (\<lambda>_.
     if 0 < surplus then ext_call (SolRequire ''Failed to return surplus'')
       (send_ether ev (this_address msg) (msg_sender msg) surplus None)
     else ret ())))))"

definition l2_sol_sendRequestNative :: "'w evm \<Rightarrow> sol_msg \<Rightarrow> bytes32 \<Rightarrow> u256 \<Rightarrow> ('w, unit) l2_sol" where
  "l2_sol_sendRequestNative ev msg destReceiverAddress amount_to_bridge =
     andThen (whenNotPaused ev) (\<lambda>_.
     andThen (ensure (BAZERO_TO_NATIVE_RATIO \<le> amount_to_bridge) (SolRequire ''Value must be at least 10e6'')) (\<lambda>_.
     if destReceiverAddress = 0 then throw Sol_ZeroAddress
     else
       andThen (sol_handle_flat_fee ev msg amount_to_bridge) (\<lambda>_.
       andThen (swap_for_bazero ev msg amount_to_bridge) (\<lambda>amount_out.
       andThen (gets (\<lambda>s. l2_bAzeroAddress (storage s))) (\<lambda>bazero.
       andThen (ext_call CallReverted (wrapped_burn ev bazero (this_address msg) amount_out)) (\<lambda>_.
       emitRequest 0 amount_out destReceiverAddress))))))"

definition sendTokenRequest :: "'w evm \<Rightarrow> sol_msg \<Rightarrow> bytes32 \<Rightarrow> u256 \<Rightarrow> bytes32 \<Rightarrow> ('w, unit) l2_sol" where
  "sendTokenRequest ev msg srcTokenAddress amount destReceiverAddress =
     andThen (whenNotPaused ev) (\<lambda>_.
     if amount = 0 then throw Sol_ZeroAmount
     else if destReceiverAddress = 0 then throw Sol_ZeroAddress
     else
       andThen (sol_handle_flat_fee ev msg 0) (\<lambda>_.
       let token = bytes32ToAddress srcTokenAddress in
       andThen (gets storage) (\<lambda>m.
       let destTokenAddress = am_supportedPairs m srcTokenAddress in
       if destTokenAddress = 0 then throw Sol_UnsupportedPair
       else if am_isLocalToken m token then throw (SolRequire ''We dont bridge local tokens on L2 bridge'')
       else
         andThen (ext_call CallReverted
           (erc20_safeTransferFrom ev token (this_address msg) (msg_sender msg) (this_address msg) amount)) (\<lambda>_.
         andThen (ext_call CallReverted (wrapped_burn ev token (this_address msg) amount)) (\<lambda>_.
         emitRequest destTokenAddress amount destReceiverAddress)))))"

section \<open>Governance\<close>

definition setBridgedAzeroAddress :: "'w evm \<Rightarrow> sol_msg \<Rightarrow> H160 \<Rightarrow> ('w, unit) l2_sol" where
  "setBridgedAzeroAddress ev msg bazero =
     andThen (onlyOwner ev msg) (\<lambda>_. andThen (whenPaused ev) (\<lambda>_.
     put_storage (l2_bAzeroAddress_update (\<lambda>_. bazero))))"

definition l2_addPair :: "'w evm \<Rightarrow> sol_msg \<Rightarrow> bytes32 \<Rightarrow> bytes32 \<Rightarrow> bool \<Rightarrow> ('w, unit) l2_sol" where
  "l2_addPair ev msg from to isLocal =
     andThen (onlyOwner ev msg) (\<lambda>_. andThen (whenPaused ev) (\<lambda>_.
     andThen (ensure (\<not> isLocal) (SolRequire ''L2 Most dont bridge local tokens'')) (\<lambda>_.
     put_storage (\<lambda>m. m\<lparr>am_supportedPairs := (am_supportedPairs m)(from := to),
       am_isLocalToken := (am_isLocalToken m)(bytes32ToAddress from := False)\<rparr>))))"

definition setFlatFee :: "'w evm \<Rightarrow> sol_msg \<Rightarrow> u256 \<Rightarrow> ('w, unit) l2_sol" where
  "setFlatFee ev msg fee = andThen (onlyOwner ev msg) (\<lambda>_. put_storage (l2_flat_fee_update (\<lambda>_. fee)))"

definition l2_receive_ether :: "sol_msg \<Rightarrow> ('w, unit) l2_sol" where
  "l2_receive_ether msg = andThen (gets (\<lambda>s. l2_stableSwapAddress (storage s))) (\<lambda>pool.
     ensure (msg_sender msg = pool) (SolRequire []))"

text \<open>The functions of \<open>AbstractMost\<close> that this contract refuses.\<close>

definition l2_refused :: "'w evm \<Rightarrow> string \<Rightarrow> ('w, unit) l2_sol" where
  "l2_refused ev why = andThen (whenNotPaused ev) (\<lambda>_. throw (SolRequire why))"

section \<open>Calls\<close>

datatype l2_sol_call =
    L2_SendRequest bytes32 u256 bytes32
  | L2_SendRequestNative_refused bytes32
  | L2_SendRequestAzeroToNative u256 bytes32
  | L2_SendRequestNative bytes32 u256
  | SendTokenRequest bytes32 u256 bytes32
  | L2_ReceiveRequest bytes32 u256 bytes32 u256 bytes32 u256
  | L2_Pause
  | L2_Unpause
  | L2_RecoverERC20 H160 H160 u256
  | L2_RecoverNative H160 u256
  | L2_SetCommittee "H160 list" u256
  | L2_SetWrappedAzeroAddress H160
  | L2_AddPair bytes32 bytes32 bool
  | L2_SetLocalToken bytes32 bool
  | L2_RemovePair bytes32
  | L2_RenounceOwnership
  | L2_ReceiveEther
  | SetBridgedAzeroAddress H160
  | SetFlatFee u256

fun l2_sol_payable :: "l2_sol_call \<Rightarrow> bool" where
  "l2_sol_payable (L2_SendRequestNative_refused _) \<longleftrightarrow> True"
| "l2_sol_payable (L2_SendRequestNative _ _) \<longleftrightarrow> True"
| "l2_sol_payable (SendTokenRequest _ _ _) \<longleftrightarrow> True"
| "l2_sol_payable L2_ReceiveEther \<longleftrightarrow> True"
| "l2_sol_payable _ \<longleftrightarrow> False"

fun l2_sol_function :: "'w evm \<Rightarrow> sol_msg \<Rightarrow> l2_sol_call \<Rightarrow> ('w, unit) l2_sol" where
  "l2_sol_function ev msg (L2_SendRequest t a r) =
     l2_refused ev ''Not supported on L2 bridge, use `SendTokenRequest` instead''"
| "l2_sol_function ev msg (L2_SendRequestNative_refused r) =
     l2_refused ev ''Not supported on L2 bridge, use `sendRequestNative` with additional arg''"
| "l2_sol_function ev msg (L2_SendRequestAzeroToNative a r) = throw (SolRequire ''Not supported on L2 bridge'')"
| "l2_sol_function ev msg (L2_SendRequestNative r a) = l2_sol_sendRequestNative ev msg r a"
| "l2_sol_function ev msg (SendTokenRequest t a r) = sendTokenRequest ev msg t a r"
| "l2_sol_function ev msg (L2_ReceiveRequest h c t a r n) =
     receiveRequest ev (l2_onReceiveRequestThresholdMet ev) msg h c t a r n"
| "l2_sol_function ev msg L2_Pause = sol_pause ev msg"
| "l2_sol_function ev msg L2_Unpause = sol_unpause ev msg"
| "l2_sol_function ev msg (L2_RecoverERC20 t to a) = recoverERC20 ev msg t to a"
| "l2_sol_function ev msg (L2_RecoverNative to a) = recoverNative ev msg to a"
| "l2_sol_function ev msg (L2_SetCommittee cs t) = setCommittee ev msg cs t"
| "l2_sol_function ev msg (L2_SetWrappedAzeroAddress a) = setWrappedAzeroAddress ev msg a"
| "l2_sol_function ev msg (L2_AddPair f t l) = l2_addPair ev msg f t l"
| "l2_sol_function ev msg (L2_SetLocalToken t l) = setLocalToken ev msg t l"
| "l2_sol_function ev msg (L2_RemovePair f) = removePair ev msg f"
| "l2_sol_function ev msg L2_RenounceOwnership = renounceOwnership ev msg"
| "l2_sol_function ev msg L2_ReceiveEther = l2_receive_ether msg"
| "l2_sol_function ev msg (SetBridgedAzeroAddress a) = setBridgedAzeroAddress ev msg a"
| "l2_sol_function ev msg (SetFlatFee f) = setFlatFee ev msg f"

definition l2_sol_dispatch :: "'w evm \<Rightarrow> sol_msg \<Rightarrow> l2_sol_call \<Rightarrow> ('w, unit) l2_sol" where
  "l2_sol_dispatch ev msg k =
     (if \<not> l2_sol_payable k \<and> msg_value msg \<noteq> 0 then throw NotPayable else l2_sol_function ev msg k)"

section \<open>Votes\<close>

lemma l2_votes_rules:
  "always same_sol_votes (or_panic v)" "always same_sol_votes (call_returning f)"
  by (auto simp: always_def or_panic_def call_returning_def same_sol_votes_def run_simps split: option.splits)

lemma l2_votes_fee: "always same_sol_votes (sol_handle_flat_fee ev msg a)"
  unfolding sol_handle_flat_fee_def Let_def by (intro sol_votes_rules; simp)

lemma l2_votes_payOut: "always same_sol_votes (l2_payOut ev msg m h token amount receiver)"
  unfolding l2_payOut_def l2_sol_native_transfer_def swap_from_bazero_def
  by (intro sol_votes_rules l2_votes_rules; simp)

interpretation l2ebv: sol_bridge ev "l2_onReceiveRequestThresholdMet ev" for ev :: "'w evm"
  by unfold_locales (auto simp: l2_onReceiveRequestThresholdMet_def intro: marked_and_reported l2_votes_payOut)

fun l2_is_receiveRequest :: "l2_sol_call \<Rightarrow> bool" where
  "l2_is_receiveRequest (L2_ReceiveRequest _ _ _ _ _ _) \<longleftrightarrow> True"
| "l2_is_receiveRequest _ \<longleftrightarrow> False"

lemma l2_votes_function: "\<not> l2_is_receiveRequest k \<Longrightarrow> always same_sol_votes (l2_sol_function ev msg k)"
  by (cases k; simp only: l2_sol_function.simps sol_function_defs l2_is_receiveRequest.simps simp_thms l2_refused_def
      l2_sol_sendRequestNative_def sendTokenRequest_def swap_for_bazero_def l2_addPair_def setBridgedAzeroAddress_def
      setFlatFee_def l2_receive_ether_def)
    (intro sol_votes_rules l2_votes_rules l2_votes_fee sol_votes_setCommittee sol_votes_emitRequest; simp)+

section \<open>Runs\<close>

inductive l2_sol_run :: "'w evm \<Rightarrow> 'w l2_sol_ctx \<Rightarrow> bool" for ev :: "'w evm" where
  l2_sol_deployed: "l2_sol_initialize ev msg committee threshold o' pool bazero
      \<lparr>storage = blank_l2, world = w, events = []\<rparr> = Inr ((), s) \<Longrightarrow> l2_sol_run ev s"
| l2_sol_called: "l2_sol_run ev s \<Longrightarrow> l2_sol_dispatch ev msg k s = Inr ((), s') \<Longrightarrow> l2_sol_run ev s'"
| l2_sol_elsewhere: "l2_sol_run ev s \<Longrightarrow> l2_sol_run ev (s\<lparr>world := w\<rparr>)"

lemma l2_votes_initialize: "always same_sol_votes (l2_sol_initialize ev msg cs thr o' pool bazero)"
  unfolding l2_sol_initialize_def AbstractMost_init_def by (intro sol_votes_rules sol_votes_setCommittee; simp)

lemma l2_sol_dispatch_cases:
  assumes "l2_sol_dispatch ev msg k s = Inr ((), s')"
  obtains (vote) h c where "sol_vote ev (l2_onReceiveRequestThresholdMet ev) s (msg_sender msg) h c s'"
  | (other) "same_sol_votes s s'"
proof (cases "l2_is_receiveRequest k")
  case True
  then obtain h c t a r n where k: "k = L2_ReceiveRequest h c t a r n" by (cases k) auto
  with assms have run: "receiveRequest ev (l2_onReceiveRequestThresholdMet ev) msg h c t a r n s = Inr ((), s')"
    by (auto simp: l2_sol_dispatch_def run_simps split: if_splits)
  show thesis
  proof (cases "h = sol_request_hash (evm_keccak256 ev) c t a r n")
    case True
    show thesis by (rule vote [OF sol_voteI [OF run True]])
  next
    case False
    show thesis by (rule other [OF l2ebv.mismatch_same_votes [OF run False]])
  qed
next
  case False
  from assms have "l2_sol_function ev msg k s = Inr ((), s')"
    by (auto simp: l2_sol_dispatch_def run_simps split: if_splits)
  from other [OF alwaysD [OF l2_votes_function [OF False] this]] show thesis .
qed

lemma l2_sol_run_reached: "l2_sol_run ev s \<Longrightarrow> l2ebv.reached ev s"
proof (induction rule: l2_sol_run.induct)
  case (l2_sol_deployed msg committee threshold o' pool bazero w s)
  from alwaysD [OF l2_votes_initialize l2_sol_deployed] show ?case
    by (intro l2ebv.reached_init) (simp add: sol_start_def same_sol_votes_def blank_l2_def blank_storage_def
        AbstractMost.defs MostL2_sol.defs)
next
  case (l2_sol_called s msg k s')
  from l2_sol_called(2) show ?case
    by (cases rule: l2_sol_dispatch_cases)
      (blast intro: l2ebv.reached_vote [OF l2_sol_called(3)], blast intro: l2ebv.reached_other [OF l2_sol_called(3)])
next
  case (l2_sol_elsewhere s w)
  from l2_sol_elsewhere(2) show ?case by (rule l2ebv.reached_other) (simp add: same_sol_votes_def)
qed

section \<open>The flat fee\<close>

text \<open>
  The value sent with a request is split exactly: what is bridged, the flat fee, which goes to the
  owner, and the surplus, which goes back to the sender unless it is zero.
\<close>

lemma sol_handle_flat_fee_split:
  assumes "sol_handle_flat_fee ev msg a s = Inr (u, s')"
  shows "\<exists>surplus w. unat (msg_value msg) = unat a + unat (l2_flat_fee (storage s)) + unat surplus \<and>
    send_ether ev (this_address msg) (oz_owner ev (world s)) (l2_flat_fee (storage s)) None (world s) = Some w \<and>
    (if surplus = 0 then s' = s\<lparr>world := w\<rparr>
     else \<exists>w'. send_ether ev (this_address msg) (msg_sender msg) surplus None w = Some w' \<and> s' = s\<lparr>world := w'\<rparr>)"
proof -
  let ?fee = "l2_flat_fee (storage s)"
  let ?surplus = "msg_value msg - a - ?fee"
  from assms have le: "a \<le> msg_value msg" "?fee \<le> msg_value msg - a"
    by (auto simp: sol_handle_flat_fee_def Let_def run_simps)
  have "unat (msg_value msg) = unat a + unat ?fee + unat ?surplus"
    using le unat_sub [OF le(1)] unat_sub [OF le(2)] by (simp add: word_le_nat_alt)
  moreover obtain surplus where surplus: "?surplus = surplus" by blast
  from assms obtain w where
    "send_ether ev (this_address msg) (oz_owner ev (world s)) ?fee None (world s) = Some w"
    "if 0 < surplus
     then \<exists>w'. send_ether ev (this_address msg) (msg_sender msg) surplus None w = Some w' \<and> s' = s\<lparr>world := w'\<rparr>
     else s' = s\<lparr>world := w\<rparr>"
    unfolding sol_handle_flat_fee_def Let_def run_simps
    by (elim exE conjE) (auto simp: surplus run_simps split: if_splits)
  ultimately show ?thesis unfolding surplus by (intro exI [of _ surplus]) (auto simp: word_gt_0 split: if_splits)
qed

section \<open>Properties\<close>

text \<open>
  Votes on the Ethereum second layer. In every run of \<open>MostL2\<close> a request is reported as processed exactly
  once if it is marked as processed and never otherwise; and a call that makes a request
  processed leaves it with at least as many signatures as the threshold of some committee for which it was presented.
\<close>

lemma eth_l2_votes:
  assumes run: "l2_sol_run ev s"
  shows "count_list (processed_hashes (events s)) h = (if am_processedRequests (storage s) h then 1 else 0) \<and>
    (l2_sol_dispatch ev msg k s = Inr ((), s') \<and> am_processedRequests (storage s') h \<and> \<not> am_processedRequests (storage s) h \<longrightarrow>
      (\<exists>c t a r n. h = sol_request_hash (evm_keccak256 ev) c t a r n \<and> isInCommittee ev c (msg_sender msg) (storage s) \<and>
        sol_threshold (storage s) c \<le> card (sol_signers (storage s') h)))"
proof (intro conjI impI)
  show "count_list (processed_hashes (events s)) h = (if am_processedRequests (storage s) h then 1 else 0)"
    using l2ebv.reached_executed_once [OF l2_sol_run_reached [OF run], of h] by (simp add: sol_processed_def)
next
  assume new: "l2_sol_dispatch ev msg k s = Inr ((), s') \<and> am_processedRequests (storage s') h \<and> \<not> am_processedRequests (storage s) h"
  from conjunct1 [OF new] show "\<exists>c t a r n. h = sol_request_hash (evm_keccak256 ev) c t a r n \<and>
      isInCommittee ev c (msg_sender msg) (storage s) \<and> sol_threshold (storage s) c \<le> card (sol_signers (storage s') h)"
  proof (cases rule: l2_sol_dispatch_cases)
    case (vote h' c)
    from l2ebv.executed_quorum [OF l2ebv.reached_votes_inv [OF l2_sol_run_reached [OF run]] vote, of h] new
    have "h = h'" "sol_threshold (storage s) c \<le> card (sol_signers (storage s') h)" by (auto simp: sol_processed_def)
    moreover from vote have "\<exists>t a r n. h' = sol_request_hash (evm_keccak256 ev) c t a r n"
      "isInCommittee ev c (msg_sender msg) (storage s)"
      by (auto simp: sol_vote_def dest: receiveRequest_caller)
    ultimately show ?thesis by blast
  next
    case other
    with new show ?thesis by (simp add: same_sol_votes_def)
  qed
qed

text \<open>A committee of the guardian 1 alone; the vote for a request of bridged AZERO executes it.\<close>

definition l2_sol_demo_start :: "bool l2_sol_ctx" where
  "l2_sol_demo_start = \<lparr>storage = blank_l2\<lparr>am_committee := (\<lambda>_. False)(1 := True),
     am_committeeSize := (\<lambda>_. 0)(0 := 1), am_signatureThreshold := (\<lambda>_. 0)(0 := 1),
     l2_stableSwapAddress := 60, l2_bAzeroAddress := 61, l2_flat_fee := 500000000000000000\<rparr>, world = True, events = []\<rparr>"

definition l2_sol_demo_open :: "bool l2_sol_ctx" where
  "l2_sol_demo_open = l2_sol_demo_start\<lparr>world := False\<rparr>"

definition l2_sol_demo_done :: "bool l2_sol_ctx" where
  "l2_sol_demo_done = (let s = vote_recorded 77 1 1 l2_sol_demo_open in s\<lparr>storage := markProcessed 77 (storage s),
     events := events s @ [Sol_NativeTransferSwap 77 10000000, Sol_RequestProcessed 77]\<rparr>)"

lemma l2_sol_demo_steps:
  "l2_sol_initialize demo_evm (sol_demo_msg 8) [1] 1 9 60 61 \<lparr>storage = blank_l2, world = False, events = []\<rparr> =
     Inr ((), l2_sol_demo_start)"
  "l2_sol_dispatch demo_evm (sol_demo_msg 9) L2_Unpause l2_sol_demo_start = Inr ((), l2_sol_demo_open)"
  "l2_sol_dispatch demo_evm (sol_demo_msg 1) (L2_ReceiveRequest 77 0 0 10 6 0) l2_sol_demo_open = Inr ((), l2_sol_demo_done)"
  by (simp_all add: l2_sol_initialize_def AbstractMost_init_def setCommittee_internal_def l2_sol_dispatch_def sol_unpause_def
      receiveRequest_def l2_onReceiveRequestThresholdMet_def l2_payOut_def l2_sol_native_transfer_def swap_from_bazero_def
      calc_min_amount_out_swap_def MIN_SWAP_RATE_def BAZERO_TO_NATIVE_RATIO_def checked_mul_def or_panic_def call_returning_def
      isInCommittee_def sol_eval_simps demo_evm_def sol_demo_msg_def l2_sol_demo_start_def l2_sol_demo_open_def l2_sol_demo_done_def
      vote_recorded_def markProcessed_def Let_def blank_request_def checked_add_def bytes32ToAddress_def word_le_nat_alt
      blank_l2_def blank_storage_def AbstractMost.defs MostL2_sol.defs fun_eq_iff)

lemma eth_l2_votes_witness:
  "count_list (processed_hashes (events l2_sol_demo_done)) 77 = 1 \<and>
   (\<exists>c. sol_threshold (storage l2_sol_demo_open) c \<le> card (sol_signers (storage l2_sol_demo_done) 77))"
proof -
  have run: "l2_sol_run demo_evm l2_sol_demo_open"
    by (rule l2_sol_called [OF l2_sol_deployed [OF l2_sol_demo_steps(1)] l2_sol_demo_steps(2)])
  have new: "am_processedRequests (storage l2_sol_demo_done) 77" "\<not> am_processedRequests (storage l2_sol_demo_open) 77"
    by (simp_all add: l2_sol_demo_done_def l2_sol_demo_open_def l2_sol_demo_start_def vote_recorded_def markProcessed_def Let_def
        blank_l2_def blank_storage_def AbstractMost.defs MostL2_sol.defs)
  from eth_l2_votes [OF l2_sol_called [OF run l2_sol_demo_steps(3)], of 77] eth_l2_votes [OF run, of 77] l2_sol_demo_steps(3) new
  show ?thesis by (metis (no_types, lifting))
qed

end
