(* ===== verification/Transfer_Limit.thy ===== *)
theory Transfer_Limit
  imports Eth_Most_Properties
begin

text \<open>
  The minimum amounts of requests on Ethereum, \<open>eth/contracts/TransferLimit.sol\<close>, which the bridge
  asks in \<open>checkTransferAllowed\<close>. The price oracles are the parameters \<open>decimals\<close> and \<open>price\<close>
  (\<open>None\<close>: the call fails); the ownership of OpenZeppelin is the argument \<open>owner_address\<close>.
\<close>

section \<open>State and operations\<close>

record USDMinimum =
  um_oracle :: H160
  um_limit :: u256

record TransferLimit =
  tl_defaultMinima :: "H160 \<Rightarrow> u256"
  tl_usdMinima :: "H160 \<Rightarrow> USDMinimum"

definition setDefaultLimit ::
  "H160 \<Rightarrow> H160 \<Rightarrow> H160 \<Rightarrow> u256 \<Rightarrow> (TransferLimit, sol_error, unit) contract" where
  "setDefaultLimit owner_address sender token limit =
     andThen (ensure (sender = owner_address) (OwnableUnauthorizedAccount sender)) (\<lambda>_.
     modify (\<lambda>t. t\<lparr>tl_defaultMinima := (tl_defaultMinima t)(token := limit)\<rparr>))"

text \<open>\<open>10 ** n\<close> and the product panic when they do not fit 256 bits.\<close>

definition checked_pow10 :: "nat \<Rightarrow> u256 option" where
  "checked_pow10 n = (if (10::nat) ^ n < 2 ^ 256 then Some (10 ^ n) else None)"

definition scaled_limit :: "u256 \<Rightarrow> u256 \<Rightarrow> u8 \<Rightarrow> u256 option" where
  "scaled_limit limit token_decimals oracle_decimals =
     (case checked_add token_decimals (ucast oracle_decimals) of
        None \<Rightarrow> None
      | Some n \<Rightarrow> (case checked_pow10 (unat n) of None \<Rightarrow> None | Some p \<Rightarrow> checked_mul limit p))"

definition setUSDOracle ::
  "(H160 \<Rightarrow> u8 option) \<Rightarrow> H160 \<Rightarrow> H160 \<Rightarrow> H160 \<Rightarrow> u256 \<Rightarrow> H160 \<Rightarrow> u256 \<Rightarrow> (TransferLimit, sol_error, unit) contract" where
  "setUSDOracle decimals owner_address sender token token_decimals oracle limit =
     andThen (ensure (sender = owner_address) (OwnableUnauthorizedAccount sender)) (\<lambda>_.
     andThen (ok_or (decimals oracle) CallReverted) (\<lambda>d.
     case scaled_limit limit token_decimals d of
       None \<Rightarrow> trap
     | Some scaled \<Rightarrow> modify (\<lambda>t. t\<lparr>tl_usdMinima :=
         (tl_usdMinima t)(token := \<lparr>um_oracle = oracle, um_limit = scaled\<rparr>)\<rparr>)))"

text \<open>
  The price is a signed number that is read as an unsigned one; \<open>None\<close> is a revert, because the oracle
  failed or because of the division by a price of zero.
\<close>

definition minimumTransferAmount :: "(H160 \<Rightarrow> u256 option) \<Rightarrow> TransferLimit \<Rightarrow> H160 \<Rightarrow> u256 option" where
  "minimumTransferAmount price t token =
     (let minimum = tl_defaultMinima t token; config = tl_usdMinima t token in
      if um_limit config > 0 then
        (case price (um_oracle config) of
           None \<Rightarrow> None
         | Some usdPrice \<Rightarrow> map_option (min minimum) (checked_div (um_limit config) usdPrice))
      else Some minimum)"

definition isRequestAllowed :: "(H160 \<Rightarrow> u256 option) \<Rightarrow> TransferLimit \<Rightarrow> H160 \<Rightarrow> u256 \<Rightarrow> bool option" where
  "isRequestAllowed price t token amount = map_option (\<lambda>minimum. minimum \<le> amount) (minimumTransferAmount price t token)"

text \<open>What the bridge sees of it in its \<open>try\<close> statement.\<close>

definition limit_answer :: "bool option \<Rightarrow> sol_try_result" where
  "limit_answer r = (case r of None \<Rightarrow> Reverted | Some b \<Rightarrow> Returned b)"

section \<open>What the limit does\<close>

text \<open>
  The minimum of a token is the smaller of its default and of its limit in USD: a limit in USD
  can only lower the default, and has no effect at all on a token without a default.
\<close>

lemma minimum_at_most_default:
  "minimumTransferAmount price t token = Some m \<Longrightarrow> m \<le> tl_defaultMinima t token"
  by (auto simp: minimumTransferAmount_def Let_def split: if_splits option.splits)

lemma usd_limit_without_default:
  assumes "tl_defaultMinima t token = 0"
  shows "isRequestAllowed price t token amount \<in> {None, Some True}"
proof (cases "minimumTransferAmount price t token")
  case (Some m)
  with minimum_at_most_default [OF Some] assms have "m = 0" by simp
  with Some show ?thesis by (simp add: isRequestAllowed_def)
qed (simp add: isRequestAllowed_def)

text \<open>
  The bridge on top: with a transfer limit contract, a request passes the check exactly when its amount reaches the
  minimum or the minimum cannot be computed.
\<close>

lemma checkTransferAllowed_limit:
  assumes "em_transferLimit (storage s) = limit" "limit \<noteq> 0"
    and "isRequestAllowed_try ev limit token amount (world s) = limit_answer (isRequestAllowed price t token amount)"
  shows "checkTransferAllowed ev token amount s =
    (case minimumTransferAmount price t token of
       None \<Rightarrow> Inr ((), s)
     | Some m \<Rightarrow> if m \<le> amount then Inr ((), s) else Inl (Err Sol_LimitExceeded))"
  using assms
  by (simp add: checkTransferAllowed_def eval_simps limit_answer_def isRequestAllowed_def split: option.splits)

end
