(* ===== verification/Azero_Relay.thy ===== *)
theory Azero_Relay
  imports Azero_Handler_Properties Eth_Most_Properties
begin

text \<open>
  The handler of Aleph Zero events together with the Ethereum contract it votes on: when a vote
  is accepted by the contract, an Ethereum node that runs the contract and finalizes its blocks,
  the interpretation of \<open>vote_target\<close> on it, and the way of a request from its Aleph Zero event
  to its pay-out on Ethereum.
\<close>

section \<open>When the contract accepts a vote\<close>

text \<open>In the present world the pay-out of a request does not revert.\<close>

definition pays_out :: "'w evm \<Rightarrow> sol_msg \<Rightarrow> bytes32 \<Rightarrow> u256 \<Rightarrow> bytes32 \<Rightarrow> ('a, 'w) sol_ctx \<Rightarrow> bool" where
  "pays_out ev msg t a r s =
     (let token = bytes32ToAddress t; receiver = bytes32ToAddress r in
      if token = 0 then weth_withdraw ev (am_wethAddress (storage s)) (this_address msg) a (world s) \<noteq> None
      else if \<not> am_isLocalToken (storage s) token
      then wrapped_mint ev token (this_address msg) receiver a (world s) \<noteq> None
      else (case erc20_transfer_call ev token (this_address msg) receiver a (world s) of
              None \<Rightarrow> True
            | Some (returndata, _) \<Rightarrow> returndata = [] \<or> abi_decode_bool returndata \<noteq> None))"

lemma payOut_succeeds:
  assumes "pays_out ev msg t a r s" "world s0 = world s" "am_wethAddress m = am_wethAddress (storage s)"
    "am_isLocalToken m = am_isLocalToken (storage s)"
  shows "\<exists>s1. payOut ev msg m h (bytes32ToAddress t) a (bytes32ToAddress r) s0 = Inr ((), s1) \<and> storage s1 = storage s0"
  using assms
  by (auto simp: pays_out_def payOut_def Let_def tokenTransferReturnSuccess_def sol_eval_simps
      split: option.splits if_splits)

lemma count_no_overflow:
  assumes "ebv.votes_inv s" "\<not> am_processedRequests (storage s) h"
  shows "\<exists>k. checked_add (signatureCount (am_pendingRequests (storage s) h)) 1 = Some k"
proof -
  have "sol_counted (storage s) h = card (sol_signers (storage s) h)"
    using assms unfolding ebv.votes_inv_def by (simp add: sol_processed_def)
  also have "\<dots> \<le> card (UNIV :: H160 set)" by (rule card_mono) simp_all
  also have "\<dots> = 2 ^ 160" by (simp add: card_word)
  finally show ?thesis by (simp add: checked_add_def sol_counted_def)
qed

lemma needed_vote_accepted:
  assumes inv: "ebv.votes_inv s" and open_: "\<not> oz_paused ev (world s)"
    and need: "needsSignature ev h (msg_sender msg) c (storage s)"
    and hash: "h = sol_request_hash (evm_keccak256 ev) c t a r n"
    and pay: "pays_out ev msg t a r s"
  shows "\<exists>s'. receiveRequest ev (onReceiveRequestThresholdMet ev) msg h c t a r n s = Inr ((), s')"
proof -
  from need have g: "isInCommittee ev c (msg_sender msg) (storage s)" "\<not> am_processedRequests (storage s) h"
    "\<not> signatures (am_pendingRequests (storage s) h) (msg_sender msg)"
    by (auto simp: needsSignature_def hasSignedRequest_def split: if_splits)
  obtain k where k: "checked_add (signatureCount (am_pendingRequests (storage s) h)) 1 = Some k"
    using count_no_overflow [OF inv g(2)] by blast
  let ?v = "vote_recorded h (msg_sender msg) k s"
  let ?m = "markProcessed h (storage ?v)"
  have "\<exists>s1. payOut ev msg ?m h (bytes32ToAddress t) a (bytes32ToAddress r) (?v\<lparr>storage := ?m\<rparr>) = Inr ((), s1) \<and>
      storage s1 = storage (?v\<lparr>storage := ?m\<rparr>)"
    by (rule payOut_succeeds [OF pay]) (simp_all add: vote_recorded_def markProcessed_def)
  then have "\<exists>s'. onReceiveRequestThresholdMet ev msg h t a r ?v = Inr ((), s')"
    by (auto simp: onReceiveRequestThresholdMet_def sol_eval_simps)
  then show ?thesis
    using g open_ k unfolding receiveRequest_def hash [symmetric] Let_def
    by (auto simp: sol_eval_simps vote_recorded_def)
qed

lemma vote_settles:
  assumes "receiveRequest ev (onReceiveRequestThresholdMet ev) msg h c t a r n s = Inr ((), s')"
    and "h = sol_request_hash (evm_keccak256 ev) c t a r n"
  shows "\<not> needsSignature ev h (msg_sender msg) c' (storage s')"
proof -
  note vote = sol_voteI [OF assms]
  have "h \<in> sol_processed (storage s') \<or> msg_sender msg \<in> sol_signers (storage s') h"
    using ebv.vote_refused [OF vote] ebv.vote_counted [OF vote]
    by (cases "h \<in> sol_processed (storage s) \<or> msg_sender msg \<in> sol_signers (storage s) h") (auto split: if_splits)
  then show ?thesis by (auto simp: needsSignature_def sol_processed_def sol_signers_def)
qed

section \<open>A node that runs the contract\<close>

text \<open>
  The bridge contract at the latest and at the finalized block, how many rounds finality is behind,
  the guardian's next nonce, and the status of its last transaction. A transaction is executed
  in the next block, and a round of waiting brings finality closer.
\<close>

record 'w eth_ledger =
  el_best :: "'w most_sol_ctx"
  el_final :: "'w most_sol_ctx"
  el_behind :: nat
  el_nonce :: u256
  el_status :: u64

definition vote_tx :: "'w evm \<Rightarrow> sol_msg \<Rightarrow> vote_call \<Rightarrow> ('w, unit) most_sol" where
  "vote_tx ev msg v = receiveRequest ev (onReceiveRequestThresholdMet ev) msg (vc_request_hash v) (vc_committee_id v)
     (vc_dest_token_address v) (vc_amount v) (vc_dest_receiver_address v) (vc_request_nonce v)"

definition sol_node :: "'w evm \<Rightarrow> nat \<Rightarrow> sol_msg \<Rightarrow> 'w eth_ledger eth_node" where
  "sol_node ev lag msg =
     \<lparr>eth_parse_address = (\<lambda>_. Some (this_address msg)),
      eth_is_in_committee = (\<lambda>_ c g l. (Inr (isInCommittee ev c g (storage (el_best l))), l)),
      eth_committee_id = (\<lambda>_ l. (Inr (am_committeeId (storage (el_best l))), l)),
      eth_needs_signature = (\<lambda>_ block h g c l. (Inr (needsSignature ev h g c (storage
        (case block of Latest \<Rightarrow> el_best l | Finalized \<Rightarrow> el_final l))), l)),
      eth_call = (\<lambda>_ v _ l. (case vote_tx ev msg v (el_best l) of Inl _ \<Rightarrow> Inl ''reverted'' | Inr _ \<Rightarrow> Inr (), l)),
      eth_next_nonce = (\<lambda>l. (el_nonce l, l\<lparr>el_nonce := el_nonce l + 1\<rparr>)),
      eth_send = (\<lambda>_ v _ _ l. (Inr 1, case vote_tx ev msg v (el_best l) of
          Inl _ \<Rightarrow> l\<lparr>el_status := 0\<rparr>
        | Inr (_, s) \<Rightarrow> l\<lparr>el_best := s, el_behind := lag, el_status := 1\<rparr>)),
      eth_confirm = (\<lambda>_ _ _ l. (Inr (Some \<lparr>transaction_hash = 1, receipt_status = Some (el_status l)\<rparr>), l))\<rparr>"

definition eth_ledger_sleep :: "'w eth_ledger \<Rightarrow> 'w eth_ledger" where
  "eth_ledger_sleep l =
     (if el_behind l \<le> 1 then l\<lparr>el_final := el_best l, el_behind := 0\<rparr> else l\<lparr>el_behind := el_behind l - 1\<rparr>)"

definition eth_needed :: "'w evm \<Rightarrow> sol_msg \<Rightarrow> vote_call \<Rightarrow> ('w eth_ledger \<Rightarrow> 'w most_sol_ctx) \<Rightarrow> 'w eth_ledger \<Rightarrow> bool" where
  "eth_needed ev msg v block l \<longleftrightarrow>
     needsSignature ev (vc_request_hash v) (msg_sender msg) (vc_committee_id v) (storage (block l))"

definition hash_agrees :: "'w evm \<Rightarrow> vote_call \<Rightarrow> bool" where
  "hash_agrees ev v \<longleftrightarrow> vc_request_hash v = sol_request_hash (evm_keccak256 ev) (vc_committee_id v)
     (vc_dest_token_address v) (vc_amount v) (vc_dest_receiver_address v) (vc_request_nonce v)"

definition eth_member :: "'w evm \<Rightarrow> sol_msg \<Rightarrow> vote_call \<Rightarrow> 'w most_sol_ctx \<Rightarrow> bool" where
  "eth_member ev msg v s \<longleftrightarrow> isInCommittee ev (vc_committee_id v) (msg_sender msg) (storage s)"

definition eth_ledger_ok :: "'w evm \<Rightarrow> nat \<Rightarrow> sol_msg \<Rightarrow> vote_call \<Rightarrow> 'w eth_ledger \<Rightarrow> bool" where
  "eth_ledger_ok ev lag msg v l \<longleftrightarrow> el_behind l \<le> lag \<and> (el_behind l = 0 \<longrightarrow> el_final l = el_best l) \<and>
     hash_agrees ev v \<and> eth_member ev msg v (el_best l) \<and> eth_member ev msg v (el_final l) \<and> (eth_needed ev msg v el_best l \<longrightarrow> (\<exists>s. vote_tx ev msg v (el_best l) = Inr ((), s)))"

lemmas eth_ledger_defs = sol_node_def azero_query_def ask_eth_def eth_ledger_sleep_def eth_needed_def eth_ledger_ok_def

lemma sol_node_vote:
  assumes "vote_tx ev msg v (el_best l) = Inr ((), s)"
  shows "azero_vote (sol_node ev lag msg) cfg contract v l =
    Inr ((), l\<lparr>el_best := s, el_behind := lag, el_nonce := el_nonce l + 1, el_status := 1\<rparr>)"
  using assms by (simp add: azero_vote_def sol_node_def ask_eth_def eval_simps)

lemma vote_tx_member: "vote_tx ev msg v s = Inr (u, s') \<Longrightarrow> eth_member ev msg' v' s \<Longrightarrow> eth_member ev msg' v' s'"
  using committees_function [of "ReceiveRequest _ _ _ _ _ _"]
  by (fastforce simp: vote_tx_def eth_member_def isInCommittee_def same_committees_def dest: alwaysD)

lemma eth_vote_settles:
  assumes "eth_ledger_ok ev lag msg v l" "eth_needed ev msg v el_best l" "0 < lag"
  shows "\<exists>l'. azero_vote (sol_node ev lag msg) cfg contract v l = Inr ((), l') \<and> eth_ledger_ok ev lag msg v l' \<and>
    \<not> eth_needed ev msg v el_best l'"
proof -
  from assms obtain s where tx: "vote_tx ev msg v (el_best l) = Inr ((), s)" and hash: "hash_agrees ev v"
    by (auto simp: eth_ledger_ok_def)
  have "\<not> needsSignature ev (vc_request_hash v) (msg_sender msg) (vc_committee_id v) (storage s)"
    by (rule vote_settles [OF tx [unfolded vote_tx_def] hash [unfolded hash_agrees_def]])
  with sol_node_vote [OF tx] hash vote_tx_member [OF tx] assms show ?thesis
    by (auto simp: eth_ledger_ok_def eth_needed_def)
qed

interpretation eth_guardian_loop: vote_target
  "azero_query (sol_node ev (Suc lag) msg) contract (vc_request_hash v) (msg_sender msg) c Finalized"
  "azero_query (sol_node ev (Suc lag) msg) contract (vc_request_hash v) (msg_sender msg) c Latest"
  "azero_vote (sol_node ev (Suc lag) msg) cfg contract v" eth_ledger_sleep
  "\<lambda>l. eth_ledger_ok ev (Suc lag) msg v l \<and> vc_committee_id v = ucast c"
  "eth_needed ev msg v el_final" "eth_needed ev msg v el_best" el_behind "Suc lag"
  for ev lag msg v c cfg contract
proof (unfold_locales, goal_cases)
  case (3 l)
  then show ?case using eth_vote_settles [of ev "Suc lag" msg v l cfg contract] by auto
qed (auto simp: eth_ledger_defs)

section \<open>The handler on this node\<close>

lemma azero_call_agrees:
  "static_abi enc \<Longrightarrow> hash_agrees ev (azero_vote_call (azero_request_hash (evm_keccak256 ev) enc d) d)"
  by (simp add: hash_agrees_def azero_vote_call_def azero_request_hash_agrees)

lemma sol_node_handle_event:
  assumes "ce_name event = Some ''CrosschainTransferRequest''" "get_request_event_data (ce_data event) = Inr d"
    "h = azero_request_hash (evm_keccak256 ev) enc d" "\<not> blacklisted cfg h"
    "isInCommittee ev (ucast (cr_committee_id d)) (msg_sender msg) (storage (el_best l))"
  shows "azero_handle_event fuel contract_signature_state (evm_keccak256 ev) enc (sol_node ev lag msg) sleep
      (msg_sender msg) cfg event l =
    eth_vote_loop fuel
      (azero_query (sol_node ev lag msg) (this_address msg) h (msg_sender msg) (cr_committee_id d) Finalized)
      (azero_query (sol_node ev lag msg) (this_address msg) h (msg_sender msg) (cr_committee_id d) Latest)
      (azero_vote (sol_node ev lag msg) cfg (this_address msg) (azero_vote_call h d)) sleep l"
proof -
  have parse: "eth_parse_address (sol_node ev lag msg) a = Some (this_address msg)" for a
    by (simp add: sol_node_def)
  have member: "azero_not_in_committee (sol_node ev lag msg) (this_address msg) (ucast (cr_committee_id d)) (msg_sender msg) l =
      Inr (False, l)"
    using assms(5) by (simp add: azero_not_in_committee_def sol_node_def ask_eth_def eval_simps)
  show ?thesis
    using assms(1,2,4) unfolding azero_handle_event_def blacklisted_def [symmetric] assms(3) [symmetric]
    by (simp add: parse member azero_vote_loop_eth assms(3) [symmetric])
qed


definition relay_ledger :: "bool eth_ledger" where
  "relay_ledger = \<lparr>el_best = sol_demo_open, el_final = sol_demo_start, el_behind = 1, el_nonce = 4, el_status = 1\<rparr>"

definition relay_data :: CrosschainTransferRequestData where
  "relay_data = \<lparr>cr_committee_id = 0, cr_dest_token_address = 5, cr_amount = 10,
     cr_dest_receiver_address = 6, cr_request_nonce = 0\<rparr>"

lemma relay_ledger_run: "sol_run demo_evm (el_best relay_ledger)"
  by (simp add: relay_ledger_def sol_demo_runs)

lemma relay_ledger_facts:
  "ce_name relay_azero_event = Some ''CrosschainTransferRequest''"
  "get_request_event_data (ce_data relay_azero_event) = Inr relay_data"
  "static_abi (\<lambda>ts. concat (map static_word ts))"
  "77 = azero_request_hash (evm_keccak256 demo_evm) (\<lambda>ts. concat (map static_word ts)) relay_data"
  "\<not> blacklisted relay_config 77" "\<not> oz_paused demo_evm (world (el_best relay_ledger))"
  "isInCommittee demo_evm 0 1 (storage (el_best relay_ledger))" "isInCommittee demo_evm 0 1 (storage (el_final relay_ledger))"
  by (simp_all add: relay_azero_event_def request_event_decodes relay_data_def static_abi_def azero_request_hash_def
      demo_evm_def demo_eth_keccak_def blacklisted_def relay_config_def relay_ledger_def
      isInCommittee_def sol_demo_open_def sol_demo_start_def sol_demo_members_def)


text \<open>
  C16 (the first requests of a new committee are skipped). While the block that set the request's
  committee is not yet finalized on Ethereum, the contract answers at the finalized block that it
  does not need the guardian's signature, because the guardian is not in that committee there.
  The handler takes this for a signature that is final: it ends at once and without an error, and
  no vote is sent, although the contract needs the signature at the latest block.
\<close>

theorem fresh_committee_vote_skipped:
  assumes name: "ce_name event = Some ''CrosschainTransferRequest''"
    and data: "get_request_event_data (ce_data event) = Inr d"
    and h: "h = azero_request_hash (evm_keccak256 ev) enc d" and white: "\<not> blacklisted cfg h"
    and need: "needsSignature ev h (msg_sender msg) (ucast (cr_committee_id d)) (storage (el_best l))"
    and fresh: "\<not> isInCommittee ev (ucast (cr_committee_id d)) (msg_sender msg) (storage (el_final l))"
  shows "azero_handle_event (Suc k) contract_signature_state (evm_keccak256 ev) enc (sol_node ev lag msg) sleep
    (msg_sender msg) cfg event l = Some (Inr ((), l))"
proof -
  have member: "isInCommittee ev (ucast (cr_committee_id d)) (msg_sender msg) (storage (el_best l))"
    using need by (simp add: needsSignature_def split: if_splits)
  show ?thesis
    unfolding sol_node_handle_event [OF name data h white member]
    using fresh by (simp add: azero_query_def ask_eth_def sol_node_def needsSignature_def)
qed

text \<open>Committee 1, with the guardian 4 alone, set in the latest block.\<close>

definition fresh_state :: "bool most_sol_ctx" where
  "fresh_state = sol_demo_start\<lparr>storage := (storage sol_demo_start)\<lparr>am_committeeId := 1,
     am_committee := sol_demo_members(4 := True), am_committeeSize := (\<lambda>_. 0)(0 := 3, 1 := 1),
     am_signatureThreshold := (\<lambda>_. 0)(0 := 2, 1 := 1)\<rparr>, events := [Sol_CommitteeUpdated 1]\<rparr>"

definition fresh_ledger :: "bool eth_ledger" where
  "fresh_ledger = relay_ledger\<lparr>el_best := fresh_state, el_final := sol_demo_start\<rparr>"

definition fresh_event :: ContractEvent where
  "fresh_event = \<lparr>ce_contract = 100, ce_name = Some ''CrosschainTransferRequest'', ce_data = request_event_data 1 5 10 6 0\<rparr>"

theorem fresh_committee_vote_skipped_witness:
  "sol_dispatch demo_evm (sol_demo_msg 9) (SetCommittee [4] 1) (el_final fresh_ledger) = Inr ((), el_best fresh_ledger) \<and>
   needsSignature demo_evm 77 4 1 (storage (el_best fresh_ledger)) \<and>
   azero_handle_event 5 contract_signature_state demo_eth_keccak (\<lambda>ts. concat (map static_word ts))
     (sol_node demo_evm 3 (sol_demo_msg 4)) eth_ledger_sleep 4 relay_config fresh_event fresh_ledger =
     Some (Inr ((), fresh_ledger))"
proof -
  let ?d = "relay_data\<lparr>cr_committee_id := 1\<rparr>"
  have step: "sol_dispatch demo_evm (sol_demo_msg 9) (SetCommittee [4] 1) (el_final fresh_ledger) = Inr ((), el_best fresh_ledger)"
    by (simp add: sol_dispatch_def setCommittee_def setCommittee_internal_def sol_eval_simps demo_evm_def sol_demo_defs
        fresh_ledger_def fresh_state_def sol_demo_members_def checked_add_def fun_eq_iff)
  have event: "ce_name fresh_event = Some ''CrosschainTransferRequest''" "get_request_event_data (ce_data fresh_event) = Inr ?d"
    "77 = azero_request_hash (evm_keccak256 demo_evm) (\<lambda>ts. concat (map static_word ts)) ?d"
    by (simp_all add: fresh_event_def request_event_decodes relay_data_def azero_request_hash_def demo_evm_def demo_eth_keccak_def)
  have need: "needsSignature demo_evm 77 (msg_sender (sol_demo_msg 4)) (ucast (cr_committee_id ?d)) (storage (el_best fresh_ledger))"
    and fresh: "\<not> isInCommittee demo_evm (ucast (cr_committee_id ?d)) (msg_sender (sol_demo_msg 4)) (storage (el_final fresh_ledger))"
    by (simp_all add: needsSignature_def isInCommittee_def hasSignedRequest_def demo_evm_def fresh_ledger_def fresh_state_def
        relay_data_def sol_demo_defs sol_demo_members_def blank_request_def)
  from fresh_committee_vote_skipped [OF event relay_ledger_facts(5) need fresh, of 4 3 eth_ledger_sleep] step need
  show ?thesis by (simp add: sol_demo_msg_def demo_evm_def relay_data_def)
qed

section \<open>From an event to its execution\<close>

text \<open>Guardians vote one after the other, with the call that their relayers prepare.\<close>

fun eth_guardians_vote :: "'w evm \<Rightarrow> vote_call \<Rightarrow> sol_msg list \<Rightarrow> ('w, unit) most_sol" where
  "eth_guardians_vote ev v [] s = Inr ((), s)"
| "eth_guardians_vote ev v (msg # msgs) s =
     (case vote_tx ev msg v s of Inl e \<Rightarrow> Inl e | Inr (_, s1) \<Rightarrow> eth_guardians_vote ev v msgs s1)"

definition paid_out :: "'w evm \<Rightarrow> sol_msg \<Rightarrow> vote_call \<Rightarrow> 'w most_sol_ctx \<Rightarrow> 'w most_sol_ctx \<Rightarrow> bool" where
  "paid_out ev msg v s s' \<longleftrightarrow> (\<exists>m (s0 :: 'w most_sol_ctx) s1.
     payOut ev msg m (vc_request_hash v) (bytes32ToAddress (vc_dest_token_address v)) (vc_amount v)
       (bytes32ToAddress (vc_dest_receiver_address v)) s0 = Inr ((), s1) \<and>
     am_wethAddress m = am_wethAddress (storage s) \<and> am_isLocalToken m = am_isLocalToken (storage s) \<and>
     world s0 = world s \<and> world s' = world s1)"

text \<open>A guardian of the request's committee who has not voted, on a contract that is running.\<close>

definition can_vote :: "'w evm \<Rightarrow> vote_call \<Rightarrow> 'w most_sol_ctx \<Rightarrow> sol_msg \<Rightarrow> bool" where
  "can_vote ev v s msg \<longleftrightarrow> needsSignature ev (vc_request_hash v) (msg_sender msg) (vc_committee_id v) (storage s) \<and>
     pays_out ev msg (vc_dest_token_address v) (vc_amount v) (vc_dest_receiver_address v) s"

lemma can_vote_recorded:
  assumes "can_vote ev v s msg" "msg_sender msg \<noteq> g"
  shows "can_vote ev v (vote_recorded (vc_request_hash v) g k s) msg"
proof -
  have "pays_out ev msg t a r (vote_recorded h g k s) = pays_out ev msg t a r s" for t a r h
    unfolding pays_out_def vote_recorded_def by simp
  with assms show ?thesis
    by (auto simp: can_vote_def needsSignature_def isInCommittee_def hasSignedRequest_def vote_recorded_def split: if_splits)
qed

lemma missing_votes_execute:
  assumes "ebv.votes_inv s" "\<not> oz_paused ev (world s)" "hash_agrees ev v"
    "distinct (map msg_sender msgs)" "\<forall>msg \<in> set msgs. can_vote ev v s msg" "msgs \<noteq> []"
    "sol_threshold (storage s) (vc_committee_id v) = sol_counted (storage s) (vc_request_hash v) + length msgs"
  shows "\<exists>s'. eth_guardians_vote ev v msgs s = Inr ((), s') \<and> am_processedRequests (storage s') (vc_request_hash v) \<and>
    Sol_RequestProcessed (vc_request_hash v) \<in> set (events s') \<and> paid_out ev (last msgs) v s s'"
  using assms
proof (induction msgs arbitrary: s)
  case (Cons msg msgs)
  let ?h = "vc_request_hash v" and ?c = "vc_committee_id v"
  note hash = Cons.prems(3) [unfolded hash_agrees_def]
  have can: "can_vote ev v s msg" using Cons.prems(5) by simp
  with needed_vote_accepted [OF Cons.prems(1,2) _ hash] obtain s1 where tx: "vote_tx ev msg v s = Inr ((), s1)"
    by (auto simp: can_vote_def vote_tx_def)
  have fresh: "\<not> am_processedRequests (storage s) ?h" "\<not> hasSignedRequest (msg_sender msg) ?h (storage s)"
    using can by (auto simp: can_vote_def needsSignature_def split: if_splits)
  from tx [unfolded vote_tx_def] show ?case
  proof (cases rule: receiveRequest_cases)
    case (recorded k)
    have k: "unat k = sol_counted (storage s) ?h + 1" by (rule unat_checked_inc [OF recorded(4)])
    have more: "msgs \<noteq> []" using recorded(5) k Cons.prems(7) by (auto simp: sol_threshold_def word_less_nat_alt)
    have inv: "ebv.votes_inv s1" by (rule ebv.votes_inv_vote [OF Cons.prems(1) sol_voteI [OF tx [unfolded vote_tx_def] hash]])
    have rest: "\<forall>m \<in> set msgs. can_vote ev v s1 m"
      using Cons.prems(4,5) unfolding recorded(6) by (auto simp: image_iff intro!: can_vote_recorded)
    have thr: "sol_threshold (storage s1) ?c = sol_counted (storage s1) ?h + length msgs"
      using Cons.prems(7) k unfolding recorded(6) by (simp add: sol_threshold_def) (simp add: vote_recorded_def)
    have same: "world s1 = world s" "am_wethAddress (storage s1) = am_wethAddress (storage s)"
      "am_isLocalToken (storage s1) = am_isLocalToken (storage s)"
      unfolding recorded(6) by (simp_all add: vote_recorded_def)
    from Cons.IH [OF inv _ Cons.prems(3) _ rest more thr] Cons.prems(2,4) tx more show ?thesis
      by (auto simp: paid_out_def same)
  next
    case (executed k)
    have "msgs = []"
      using executed(5) unat_checked_inc [OF executed(4)] Cons.prems(7) by (auto simp: sol_threshold_def word_le_nat_alt)
    moreover have "am_processedRequests (storage s1) ?h \<and> Sol_RequestProcessed ?h \<in> set (events s1)"
      using ebv.met_effect [OF executed(6)] executed(6)
      by (auto simp: sol_processed_def onReceiveRequestThresholdMet_def run_simps)
    moreover have "paid_out ev msg v s s1"
      using executed(6) unfolding onReceiveRequestThresholdMet_def paid_out_def
      by (fastforce simp: run_simps vote_recorded_def markProcessed_def)
    ultimately show ?thesis using tx by simp
  qed (use fresh hash in auto)
qed simp

text \<open>
  C8 (a request of Aleph Zero that the missing guardians relay is paid out). Take a run of the
  Ethereum contract, not paused, the event of a request on Aleph Zero, and the call that the
  relayers prepare for it. When as many different guardians as the quorum still misses, each of
  them needed by the contract, send that call one after the other, and the pay-out would not revert, then every call
  succeeds, the contract marks and reports the request as processed, and what changed in the rest
  of the chain is the pay-out of the token, the amount and the receiver of the event.
\<close>

theorem relayed_azero_request_executed:
  assumes run: "sol_run ev s" "\<not> oz_paused ev (world s)"
    and event: "get_request_event_data (ce_data event) = Inr d" "static_abi enc"
    and v: "v = azero_vote_call (azero_request_hash (evm_keccak256 ev) enc d) d"
    and guardians: "distinct (map msg_sender msgs)" "\<forall>msg \<in> set msgs. can_vote ev v s msg" "msgs \<noteq> []"
    and missing: "sol_threshold (storage s) (vc_committee_id v) = sol_counted (storage s) (vc_request_hash v) + length msgs"
  shows "\<exists>s'. eth_guardians_vote ev v msgs s = Inr ((), s') \<and> am_processedRequests (storage s') (vc_request_hash v) \<and>
    Sol_RequestProcessed (vc_request_hash v) \<in> set (events s') \<and> paid_out ev (last msgs) v s s' \<and>
    vc_dest_token_address v = cr_dest_token_address d \<and> vc_dest_receiver_address v = cr_dest_receiver_address d \<and>
    unat (vc_amount v) = unat (cr_amount d)"
proof -
  have "hash_agrees ev v" unfolding v by (rule azero_call_agrees [OF event(2)])
  moreover have "unat (ucast (cr_amount d) :: u256) = unat (cr_amount d)"
    by (rule ucast_unat_eq) (use unsigned_less [of "cr_amount d", where 'a = nat] in simp)
  ultimately show ?thesis
    using missing_votes_execute [OF sol_run_votes_inv [OF run(1)] run(2) _ guardians missing]
    by (simp add: v azero_vote_call_def)
qed

theorem relayed_azero_request_executed_witness:
  "\<exists>s'. eth_guardians_vote demo_evm (azero_vote_call 77 relay_data) [sol_demo_msg 1, sol_demo_msg 2] sol_demo_open = Inr ((), s') \<and>
     am_processedRequests (storage s') 77"
proof -
  let ?v = "azero_vote_call 77 relay_data"
  have can: "\<forall>msg \<in> set [sol_demo_msg 1, sol_demo_msg 2]. can_vote demo_evm ?v sol_demo_open msg"
    by (simp add: can_vote_def needsSignature_def isInCommittee_def hasSignedRequest_def pays_out_def azero_vote_call_def
        relay_data_def demo_evm_def sol_demo_defs sol_demo_members_def blank_request_def bytes32ToAddress_def)
  have "?v = azero_vote_call (azero_request_hash (evm_keccak256 demo_evm) (\<lambda>ts. concat (map static_word ts)) relay_data) relay_data"
    by (simp add: relay_ledger_facts(4) [symmetric])
  moreover have "sol_threshold (storage sol_demo_open) (vc_committee_id ?v) =
      sol_counted (storage sol_demo_open) (vc_request_hash ?v) + length [sol_demo_msg 1, sol_demo_msg 2]"
    by (simp add: sol_threshold_def sol_counted_def azero_vote_call_def relay_data_def sol_demo_defs blank_request_def)
  moreover have "\<not> oz_paused demo_evm (world sol_demo_open)" by (simp add: demo_evm_def sol_demo_defs)
  moreover have "distinct (map msg_sender [sol_demo_msg 1, sol_demo_msg 2])" by (simp add: sol_demo_msg_def)
  ultimately have "\<exists>s'. eth_guardians_vote demo_evm ?v [sol_demo_msg 1, sol_demo_msg 2] sol_demo_open = Inr ((), s') \<and>
      am_processedRequests (storage s') (vc_request_hash ?v)"
    using relayed_azero_request_executed [OF sol_demo_runs(1) _ relay_ledger_facts(2,3) _ _ can] by blast
  then show ?thesis by (simp add: azero_vote_call_def)
qed

end
