(* ===== verification/Eth_Relay.thy ===== *)
theory Eth_Relay
  imports Eth_Handler_Properties Eth_Sync_Properties
begin

text \<open>
  The Ethereum direction of the relayer as a whole: the machine of \<open>Eth_Sync\<close>, in which the
  outcome of handling an event is not chosen freely but is the one of \<open>eth_handle_event\<close> on the
  Aleph Zero network of that moment.
\<close>

section \<open>The machine with its handler\<close>

text \<open>
  The network may have changed in any way when the handler of the next event starts. A handler
  that returns an error stops the events handler; one that has not returned (\<open>None\<close>) is no step.
\<close>

fun handles_event :: "eth_action \<Rightarrow> bool" where
  "handles_event (Handler_event _) \<longleftrightarrow> True"
| "handles_event _ \<longleftrightarrow> False"

inductive relayer_run ::
  "(u8 list \<Rightarrow> bytes32) \<Rightarrow> accounts \<Rightarrow> 'w azero_node \<Rightarrow> ('w \<Rightarrow> 'w) \<Rightarrow> AccountId \<Rightarrow> Config \<Rightarrow>
   (u32 \<Rightarrow> MostEvents list) \<Rightarrow> redis \<Rightarrow> MostEvents eth_sync \<Rightarrow> bool"
  for k acc nd sleep account cfg ev r where
  relayer_start: "relayer_run k acc nd sleep account cfg ev r (eth_init cfg r)"
| relayer_handles: "relayer_run k acc nd sleep account cfg ev r s \<Longrightarrow>
    es_handler s = EH_Handling b (e # rest) \<Longrightarrow>
    eth_handle_event fuel k acc nd sleep account cfg e net = Some res \<Longrightarrow>
    eth_step cfg ev (Handler_event (case res of Inl _ \<Rightarrow> False | Inr _ \<Rightarrow> True)) s = Some s' \<Longrightarrow>
    relayer_run k acc nd sleep account cfg ev r s'"
| relayer_moves: "relayer_run k acc nd sleep account cfg ev r s \<Longrightarrow> \<not> handles_event a \<Longrightarrow>
    eth_step cfg ev a s = Some s' \<Longrightarrow> relayer_run k acc nd sleep account cfg ev r s'"

lemma relayer_run_moves:
  "relayer_run k acc nd sleep account cfg ev r s \<Longrightarrow> list_all (\<lambda>a. \<not> handles_event a) as \<Longrightarrow>
     eth_run cfg ev as s = Some s' \<Longrightarrow> relayer_run k acc nd sleep account cfg ev r s'"
  unfolding eth_run_def
  by (induction as arbitrary: s) (auto split: option.splits intro: relayer_moves)

lemma relayer_run_inv:
  "relayer_run k acc nd sleep account cfg ev r s \<Longrightarrow> sound_eth_config cfg (fst (snd (redis_start True True cfg r))) \<Longrightarrow>
     eth_inv cfg ev (fst (snd (redis_start True True cfg r))) s"
proof (induction rule: relayer_run.induct)
  case relayer_start
  show ?case by (rule eth_init_inv)
qed (auto simp: sound_eth_config_def simp del: eth_step.simps intro: eth_step_inv)

text \<open>Only the handler records an event as handled.\<close>

lemma eth_step_handled: "eth_step cfg ev a s = Some s' \<Longrightarrow> \<not> handles_event a \<Longrightarrow> es_handled s' = es_handled s"
  by (cases a) (auto simp: eth_listener_recv_def eth_listener_finalized_def eth_listener_query_def
      eth_listener_ack_def eth_listener_breaker_def eth_mark_next_def eth_handler_recv_def eth_handler_done_def
      eth_handler_breaker_def eth_stop_handler_def redis_eth_block_def redis_azero_seal_def redis_breaker_def
      eth_reboot_def eth_boot_def Let_def
      split: eth_listener.splits eth_events_handler.splits option.splits list.splits if_splits prod.splits ack.splits)

lemma relayer_run_handled:
  "relayer_run k acc nd sleep account cfg ev r s \<Longrightarrow> e \<in> es_handled s \<Longrightarrow>
     \<exists>fuel net u net'. eth_handle_event fuel k acc nd sleep account cfg e net = Some (Inr (u, net'))"
proof (induction rule: relayer_run.induct)
  case relayer_start
  then show ?case by (simp add: eth_init_def eth_boot_def split: prod.splits)
next
  case (relayer_handles s b e' rest fuel net res s')
  then show ?case
    by (auto simp: eth_handler_event_def eth_stop_handler_def split: sum.splits if_splits) blast+
next
  case (relayer_moves s a s')
  then show ?case by (simp add: eth_step_handled)
qed

section \<open>Properties\<close>


definition relay_events :: "u32 \<Rightarrow> MostEvents list" where
  "relay_events b = (if b = 2 then [relay_event] else [])"

lemma relay_sync_run:
  "\<exists>s1 s2. eth_run relay_config relay_events [Listener_recv, Redis_eth_block True, Listener_finalized 5,
       Listener_query True, Handler_recv] (eth_init relay_config (\<lambda>_. None)) = Some s1 \<and>
     (\<exists>b. es_handler s1 = EH_Handling b [relay_event]) \<and>
     eth_step relay_config relay_events (Handler_event True) s1 = Some s2 \<and>
     (\<exists>s3. eth_run relay_config relay_events [Handler_done, Listener_ack, Redis_eth_block True] s2 = Some s3 \<and>
        eth_cursor relay_config s3 = Some 3)"
  by (simp add: eth_run_def relay_events_def eth_init_def eth_boot_def eth_listener_recv_def
        eth_listener_finalized_def eth_listener_query_def eth_listener_ack_def eth_mark_next_def
        eth_handler_recv_def eth_handler_event_def eth_handler_done_def redis_eth_block_def
        eth_cursor_def sync_range relay_config_def sync_eval)


end
