(* ===== verification/Azero_Run.thy ===== *)
theory Azero_Run
  imports Azero_Handler_Properties Azero_Sync_Properties
begin

text \<open>
  The Aleph Zero direction of the relayer as a whole: the machine of \<open>Azero_Sync\<close>, in which the
  outcome of the task of an event is the one of \<open>azero_handle_event\<close> on the Ethereum node of
  that moment. The counterpart of \<open>Eth_Relay\<close>.
\<close>

section \<open>The machine with its handler\<close>

fun task_result_of :: "AlephZeroEventHandlerError fault + unit \<times> 'w \<Rightarrow> task_result" where
  "task_result_of (Inl (Err e)) = Task_err"
| "task_result_of (Inl Trap) = Task_panic"
| "task_result_of (Inr r) = Task_ok"

fun ends_task :: "'e azero_action \<Rightarrow> bool" where
  "ends_task (Az_handler_event _ _ _) \<longleftrightarrow> True"
| "ends_task _ \<longleftrightarrow> False"

text \<open>
  The tasks of a batch run at the same time; each sees the node in a state of its own choice. A
  handler that has not returned is no step.
\<close>

inductive azero_relayer_run ::
  "bool \<Rightarrow> (u8 list \<Rightarrow> bytes32) \<Rightarrow> (abi_token list \<Rightarrow> u8 list) \<Rightarrow> 'w eth_node \<Rightarrow> ('w \<Rightarrow> 'w) \<Rightarrow> H160 \<Rightarrow> Config \<Rightarrow>
   (u32 \<Rightarrow> ContractEvent list) \<Rightarrow> redis \<Rightarrow> ContractEvent azero_sync \<Rightarrow> bool"
  for l2 k enc en sleep address cfg ev r where
  az_start: "azero_relayer_run l2 k enc en sleep address cfg ev r (azero_init cfg r)"
| az_handles: "azero_relayer_run l2 k enc en sleep address cfg ev r s \<Longrightarrow>
    azero_handle_event fuel (signature_state l2) k enc en sleep address cfg e w = Some res \<Longrightarrow>
    azero_step cfg ev (Az_handler_event i e (task_result_of res)) s = Some s' \<Longrightarrow>
    azero_relayer_run l2 k enc en sleep address cfg ev r s'"
| az_moves: "azero_relayer_run l2 k enc en sleep address cfg ev r s \<Longrightarrow> \<not> ends_task a \<Longrightarrow>
    azero_step cfg ev a s = Some s' \<Longrightarrow> azero_relayer_run l2 k enc en sleep address cfg ev r s'"

lemma azero_relayer_run_moves:
  "azero_relayer_run l2 k enc en sleep address cfg ev r s \<Longrightarrow> list_all (\<lambda>a. \<not> ends_task a) as \<Longrightarrow>
     azero_run cfg ev as s = Some s' \<Longrightarrow> azero_relayer_run l2 k enc en sleep address cfg ev r s'"
  unfolding azero_run_def
  by (induction as arbitrary: s) (auto split: option.splits intro: az_moves)

lemma azero_relayer_run_inv:
  "azero_relayer_run l2 k enc en sleep address cfg ev r s \<Longrightarrow>
     sound_azero_config cfg (snd (snd (redis_start True True cfg r))) \<Longrightarrow>
     azero_inv cfg ev (snd (snd (redis_start True True cfg r))) s"
proof (induction rule: azero_relayer_run.induct)
  case az_start
  show ?case by (rule azero_init_inv)
qed (auto simp: sound_azero_config_def simp del: azero_step.simps intro: azero_step_inv)

text \<open>Only the end of a task records an event as handled or failed.\<close>

lemma azero_step_outcomes:
  "azero_step cfg ev a s = Some s' \<Longrightarrow> \<not> ends_task a \<Longrightarrow> as_handled s' = as_handled s \<and> as_failed s' = as_failed s"
  by (cases a) (auto simp: azero_listener_recv_def azero_finality_failed_def azero_listener_finalized_def
      azero_listener_fetch_def azero_listener_send_def azero_listener_ack_def azero_listener_seal_def
      azero_listener_breaker_def azero_handler_recv_def azero_handler_done_def azero_handler_breaker_def
      redis_seal_block_def redis_other_block_def azero_redis_breaker_def azero_reboot_def azero_boot_def Let_def
      split: azero_listener.splits option.splits list.splits if_splits prod.splits batch_state.splits
        AlephZeroListenerError.splits)

lemma azero_task_outcome:
  assumes "azero_handler_event i e res s = Some s'"
  shows "as_handled s' \<subseteq> (if res = Task_ok then insert e (as_handled s) else as_handled s)"
    "as_failed s' \<subseteq> (if res = Task_err then insert e (as_failed s) else as_failed s)"
  using assms by (auto simp: azero_handler_event_def Let_def split: if_splits batch_state.splits task_result.splits)

lemma azero_relayer_run_outcomes:
  assumes "azero_relayer_run l2 k enc en sleep address cfg ev r s"
  shows "\<forall>e \<in> as_handled s. \<exists>fuel w u w'.
      azero_handle_event fuel (signature_state l2) k enc en sleep address cfg e w = Some (Inr (u, w'))"
    "\<forall>e \<in> as_failed s. \<exists>fuel w why.
      azero_handle_event fuel (signature_state l2) k enc en sleep address cfg e w = Some (Inl (Err why))"
  using assms
proof (induction rule: azero_relayer_run.induct)
  case az_start
  { case 1 show ?case by (simp add: azero_init_def azero_boot_def split: prod.splits) }
  { case 2 show ?case by (simp add: azero_init_def azero_boot_def split: prod.splits) }
next
  case (az_handles s fuel e w res i s')
  note out = azero_task_outcome [of i e "task_result_of res" s s']
  { case 1
    show ?case using az_handles out(1) by (cases res rule: task_result_of.cases) (auto, blast+) }
  { case 2
    show ?case using az_handles out(2) by (cases res rule: task_result_of.cases) (auto, blast+) }
next
  case (az_moves s a s')
  { case 1 show ?case using az_moves azero_step_outcomes [OF az_moves.hyps(3,2)] by simp }
  { case 2 show ?case using az_moves azero_step_outcomes [OF az_moves.hyps(3,2)] by simp }
qed

section \<open>Properties\<close>


definition relay_azero_events :: "u32 \<Rightarrow> ContractEvent list" where
  "relay_azero_events b = (if b = 2 then [relay_azero_event] else [])"

lemma relay_azero_sync_run:
  "\<exists>s1 s2 s3. azero_run relay_config relay_azero_events [Az_recv, Az_finalized 5, Az_fetch True, Az_send, Az_handler_recv]
       (azero_init relay_config (\<lambda>_. None)) = Some s1 \<and>
     azero_step relay_config relay_azero_events (Az_handler_event 0 relay_azero_event Task_ok) s1 = Some s2 \<and>
     azero_run relay_config relay_azero_events [Az_handler_done 0, Az_ack, Az_seal, Az_redis_seal True] s2 = Some s3 \<and>
     azero_cursor relay_config s3 = Some 3 \<and> as_failed s3 = {}"
  by (simp add: azero_sync_eval relay_azero_events_def relay_config_def)


end
