(* ===== verification/Relayer_Main.thy ===== *)
theory Relayer_Main
  imports Relayer_Guards Signer
begin

text \<open>
  How the relayer is put together: the connections to the two chains (\<open>connections/azero.rs\<close>,
  \<open>connections/eth.rs\<close>, the client of \<open>contracts_azero_client\<close>), the choice of the signer in
  \<open>create_azero_connections\<close> and \<open>create_eth_connections\<close>, and the loop of \<open>main\<close> that starts
  the tasks, waits for them and reboots. Opening sockets, key derivation, and the nonce manager
  and the signer middleware of the crate \<open>ethers\<close> are the parameter record \<open>network_api\<close>.
\<close>

section \<open>Connections\<close>

record ClientConfig =
  cc_address :: string
  cc_backoff_millis :: u64
  cc_backoff_factor :: u64
  cc_backoff_max_delay :: nat

text \<open>
  The delays between the attempts to reconnect: the policy of \<open>subxt\<close>, of which ten are taken.
\<close>

definition exponential_backoff :: "(u64 \<Rightarrow> u64 \<Rightarrow> nat \<Rightarrow> nat \<Rightarrow> nat) \<Rightarrow> ClientConfig \<Rightarrow> nat list" where
  "exponential_backoff policy config =
     map (policy (cc_backoff_millis config) (cc_backoff_factor config) (cc_backoff_max_delay config)) [0..<10]"

record 'w network_api =
  api_backoff :: "u64 \<Rightarrow> u64 \<Rightarrow> nat \<Rightarrow> nat \<Rightarrow> nat"
  api_open_azero :: "string \<Rightarrow> nat list \<Rightarrow> 'w \<Rightarrow> (string + unit) \<times> 'w"
  api_account_nonce :: "AccountId \<Rightarrow> 'w \<Rightarrow> (string + u64) \<times> 'w"
  api_open_vsock :: "u32 \<Rightarrow> u32 \<Rightarrow> 'w \<Rightarrow> (signer_error + 'w link) \<times> 'w"
  api_pair_from_string :: "string \<Rightarrow> (AccountId \<times> (u8 list \<Rightarrow> signature)) option"
  api_mnemonic_wallet :: "string \<Rightarrow> u32 \<Rightarrow> string + LocalWallet"
  api_open_eth :: "string \<Rightarrow> 'w \<Rightarrow> 'w option"
  api_initialize_nonce :: "EthAddress \<Rightarrow> 'w \<Rightarrow> (string + unit) \<times> 'w"
  api_provider_chain_id :: "'w \<Rightarrow> (string + u64) \<times> 'w"

datatype EthConnectionError =
    SignerMiddleware string
  | NonceManager string
  | SignerClient signer_error
  | LocalWalletError string

datatype RelayerError =
    AzeroConnection signer_error
  | AzeroClient string
  | EthereumConnection EthConnectionError
  | Join
  | TaskFailed string
  | AzeroContract AzeroContractError

type_synonym ('w, 'e, 'a) api_io = "('w, 'e, 'a) contract"

definition request :: "('w \<Rightarrow> ('x + 'a) \<times> 'w) \<Rightarrow> ('x \<Rightarrow> 'e) \<Rightarrow> ('w, 'e, 'a) api_io" where
  "request f g w = (case f w of (Inl e, _) \<Rightarrow> Inl (Err (g e)) | (Inr x, w') \<Rightarrow> Inr (x, w'))"

lemma run_request [run_simps]: "request f g w = Inr (x, w') \<longleftrightarrow> f w = (Inr x, w')"
  by (auto simp: request_def split: prod.splits sum.splits)

text \<open>\<open>unwrap\<close> and \<open>expect\<close> of a failed request are a panic.\<close>

definition unwrap_request :: "('w \<Rightarrow> ('x + 'a) \<times> 'w) \<Rightarrow> ('w, 'e, 'a) api_io" where
  "unwrap_request f w = (case f w of (Inl e, _) \<Rightarrow> Inl Trap | (Inr x, w') \<Rightarrow> Inr (x, w'))"

lemma run_unwrap_request [run_simps]: "unwrap_request f w = Inr (x, w') \<longleftrightarrow> f w = (Inr x, w')"
  by (auto simp: unwrap_request_def split: prod.splits sum.splits)

definition azero_client_new :: "'w network_api \<Rightarrow> ClientConfig \<Rightarrow> 'w \<Rightarrow> (string + unit) \<times> 'w" where
  "azero_client_new api config =
     api_open_azero api (cc_address config) (exponential_backoff (api_backoff api) config)"

definition azero_connection_init :: "'w network_api \<Rightarrow> string \<Rightarrow> ('w, 'e, unit) api_io" where
  "azero_connection_init api url = unwrap_request (azero_client_new api
     \<lparr>cc_address = url, cc_backoff_millis = 1000, cc_backoff_factor = 2, cc_backoff_max_delay = 30000\<rparr>)"

text \<open>A client with a signer starts with the account's nonce on the chain.\<close>

record 'w ClientWithSigner =
  cws_signer :: "'w AzeroSigner"
  cws_nonce :: u64

definition azero_with_signer ::
  "'w network_api \<Rightarrow> 'w AzeroSigner \<Rightarrow> ('w, RelayerError, 'w ClientWithSigner) api_io" where
  "azero_with_signer api signer =
     andThen (request (api_account_nonce api (azero_signer_account_id signer)) AzeroClient) (\<lambda>nonce.
     ret \<lparr>cws_signer = signer, cws_nonce = nonce\<rparr>)"

definition keypair_from_string ::
  "'w network_api \<Rightarrow> string \<Rightarrow> ('w, 'e, 'w AzeroSigner) api_io" where
  "keypair_from_string api seed =
     (case api_pair_from_string api seed of None \<Rightarrow> trap | Some (account, sign) \<Rightarrow> ret (Dev account sign))"

definition create_azero_connections ::
  "'w network_api \<Rightarrow> Config \<Rightarrow> ('w, RelayerError, 'w ClientWithSigner) api_io" where
  "create_azero_connections api cfg =
     andThen (azero_connection_init api (cfg_azero_node_wss_url cfg)) (\<lambda>_.
     andThen
       (case cfg_signer_cid cfg of
          Some cid \<Rightarrow>
            andThen (request (api_open_vsock api cid (cfg_signer_port cfg)) AzeroConnection) (\<lambda>link.
            map_err AzeroConnection (azero_signer_client_new link))
        | None \<Rightarrow>
            if cfg_dev cfg then keypair_from_string api (''//'' @ decimal (unat (cfg_dev_account_index cfg)))
            else trap) (\<lambda>signer.
     azero_with_signer api signer))"

text \<open>The Ethereum connection with its signer, and the account whose nonce the middleware counts.\<close>

record 'w SignedEthConnection =
  sec_signer :: "'w EthereumSigner"
  sec_nonce_address :: EthAddress

definition with_nonce_manager :: "'w network_api \<Rightarrow> EthAddress \<Rightarrow> ('w, EthConnectionError, EthAddress) api_io" where
  "with_nonce_manager api address =
     andThen (request (api_initialize_nonce api address) NonceManager) (\<lambda>_. ret address)"

text \<open>\<open>SignerMiddleware::new_with_provider_chain\<close>: the signer gets the chain id of the provider.\<close>

definition new_with_provider_chain ::
  "'w network_api \<Rightarrow> EthAddress \<Rightarrow> 'w EthereumSigner \<Rightarrow> ('w, EthConnectionError, 'w SignedEthConnection) api_io" where
  "new_with_provider_chain api nonce_manager signer =
     andThen (request (api_provider_chain_id api) SignerMiddleware) (\<lambda>chain_id.
     ret \<lparr>sec_signer = with_chain_id signer chain_id, sec_nonce_address = nonce_manager\<rparr>)"

definition with_local_wallet ::
  "'w network_api \<Rightarrow> LocalWallet \<Rightarrow> ('w, EthConnectionError, 'w SignedEthConnection) api_io" where
  "with_local_wallet api wallet =
     andThen (with_nonce_manager api (lw_address wallet)) (\<lambda>nonce_manager.
     new_with_provider_chain api nonce_manager (Local wallet))"

definition with_signer ::
  "'w network_api \<Rightarrow> u32 \<Rightarrow> u32 \<Rightarrow> ('w, EthConnectionError, 'w SignedEthConnection) api_io" where
  "with_signer api cid port =
     andThen (request (api_open_vsock api cid port) SignerClient) (\<lambda>client.
     andThen (map_err SignerClient (eth_address client)) (\<lambda>address.
     andThen (with_nonce_manager api address) (\<lambda>nonce_manager.
     new_with_provider_chain api nonce_manager
       (Vsock \<lparr>vs_client = client, vs_chain_id = 0, vs_address = address\<rparr>))))"

definition DEV_MNEMONIC :: string where
  "DEV_MNEMONIC = ''harsh master island dirt equip search awesome double turn crush wool grant''"

definition eth_connect :: "'w network_api \<Rightarrow> Config \<Rightarrow> ('w, 'e, unit) api_io" where
  "eth_connect api cfg w =
     (case api_open_eth api (cfg_eth_node_http_url cfg) w of None \<Rightarrow> Inl Trap | Some w' \<Rightarrow> Inr ((), w'))"

definition create_eth_connections ::
  "'w network_api \<Rightarrow> Config \<Rightarrow> ('w, EthConnectionError, 'w SignedEthConnection) api_io" where
  "create_eth_connections api cfg =
     andThen
       (case cfg_signer_cid cfg of
          Some cid \<Rightarrow> with_signer api cid (cfg_signer_port cfg)
        | None \<Rightarrow>
            if cfg_dev cfg then
              andThen (map_err LocalWalletError (try_res (api_mnemonic_wallet api DEV_MNEMONIC (cfg_dev_account_index cfg))))
                (\<lambda>wallet. with_local_wallet api wallet)
            else trap) (\<lambda>eth_signed_connection.
     andThen (eth_connect api cfg) (\<lambda>_.
     ret eth_signed_connection))"

section \<open>One run of the relayer\<close>

text \<open>
  \<open>run_relayer\<close> with its connections. The first argument of the result is what it spawned; the
  network of the Aleph Zero client starts with the nonce of the signer's account. An error of a
  contract call, of the payout account or of an advisory, is \<open>AzeroContract\<close> either way.
\<close>

definition on_network ::
  "u64 \<Rightarrow> ('w, 'a) relayer_io \<Rightarrow> ('w, RelayerError, 'a) api_io" where
  "on_network nonce m w =
     (case m \<lparr>net_world = w, net_nonce = nonce\<rparr> of
        Inl (Err e) \<Rightarrow> Inl (Err (AzeroContract e))
      | Inl Trap \<Rightarrow> Inl Trap
      | Inr (x, n) \<Rightarrow> Inr (x, net_world n))"

lemma run_on_network [run_simps]:
  "on_network nonce m w = Inr (x, w') \<longleftrightarrow> (\<exists>n. m \<lparr>net_world = w, net_nonce = nonce\<rparr> = Inr (x, n) \<and> w' = net_world n)"
  by (auto simp: on_network_def split: sum.splits fault.splits)

definition start_relayer ::
  "'w network_api \<Rightarrow> accounts \<Rightarrow> 'w azero_node \<Rightarrow> Config \<Rightarrow>
   ('w, RelayerError, task list \<times> 'w ClientWithSigner \<times> 'w SignedEthConnection) api_io" where
  "start_relayer api acc nd cfg =
     andThen (create_azero_connections api cfg) (\<lambda>azero.
     andThen (map_err EthereumConnection (create_eth_connections api cfg)) (\<lambda>eth.
     andThen (on_network (cws_nonce azero)
       (run_relayer acc nd (azero_signer_account_id (cws_signer azero)) cfg)) (\<lambda>tasks.
     ret (tasks, azero, eth))))"

section \<open>The loop of main\<close>

text \<open>
  \<open>tasks\<close> is the \<open>JoinSet\<close>; a task that has been joined has returned a circuit breaker event or an error, or
  it panicked (\<open>JoinError\<close>). Times are nanoseconds. The last field counts the runs so far.
\<close>

datatype join_result = JoinError | TaskErr RelayerError | TaskOk CircuitBreakerEvent

record main_state =
  ms_tasks :: "task list"
  ms_first_run :: bool
  ms_delay :: nat
  ms_tick :: nat
  ms_runs :: nat

text \<open>The process runs on, or \<open>main\<close> has returned an error, or it has exited with status 1, or panicked.\<close>

datatype main_outcome = Main_loop main_state | Main_return RelayerError | Main_exit | Main_panic

text \<open>\<open>restart\<close> is what \<open>run_relayer\<close> does at this reboot, and \<open>after\<close> the time when it has returned.\<close>

record join_event =
  je_task :: task
  je_result :: join_result
  je_now :: nat
  je_restart :: "RelayerError fault + task list"
  je_after :: nat

definition main_started :: "RelayerError fault + task list \<Rightarrow> nat \<Rightarrow> main_outcome" where
  "main_started started now =
     (case started of
        Inl (Err e) \<Rightarrow> Main_return e
      | Inl Trap \<Rightarrow> Main_panic
      | Inr tasks \<Rightarrow> Main_loop \<lparr>ms_tasks = tasks, ms_first_run = False, ms_delay = DEFAULT_BACKOFF_DURATION,
          ms_tick = now, ms_runs = 1\<rparr>)"

definition main_join :: "join_event \<Rightarrow> main_state \<Rightarrow> main_outcome option" where
  "main_join e ms =
     (if je_task e \<notin> set (ms_tasks ms) then None
      else
        let tasks = remove1 (je_task e) (ms_tasks ms) in
        (case je_result e of
           JoinError \<Rightarrow> Some (Main_return Join)
         | TaskErr why \<Rightarrow> Some Main_exit
         | TaskOk result \<Rightarrow>
             if tasks \<noteq> [] then Some (Main_loop (ms\<lparr>ms_tasks := tasks\<rparr>))
             else
               let delay = next_delay (ms_delay ms) (je_now e - ms_tick ms) in
               (case je_restart e of
                  Inl (Err why) \<Rightarrow> Some (Main_return why)
                | Inl Trap \<Rightarrow> Some Main_panic
                | Inr spawned \<Rightarrow> Some (Main_loop (ms\<lparr>ms_tasks := spawned, ms_delay := delay,
                    ms_tick := je_after e, ms_runs := ms_runs ms + 1\<rparr>)))))"

fun main_loop :: "join_event list \<Rightarrow> main_outcome \<Rightarrow> main_outcome option" where
  "main_loop [] out = Some out"
| "main_loop (e # es) (Main_loop ms) = (case main_join e ms of None \<Rightarrow> None | Some out \<Rightarrow> main_loop es out)"
| "main_loop (e # es) _ = None"

section \<open>Generations of tasks\<close>

text \<open>What one run of the relayer spawns: the eight tasks, or the report of an emergency.\<close>

definition generation :: "task list \<Rightarrow> bool" where
  "generation ts \<longleftrightarrow> ts = relayer_tasks \<or> (\<exists>as. ts = [T_Emergency as])"

lemma generation_props: "generation ts \<Longrightarrow> ts \<noteq> [] \<and> distinct ts"
  by (auto simp: generation_def relayer_tasks_def)

lemma run_relayer_generation: "run_relayer acc nd account cfg s = Inr (ts, s') \<Longrightarrow> generation ts"
  by (auto simp: run_relayer_def generation_def run_simps)

lemma start_relayer_generation: "start_relayer api acc nd cfg w = Inr ((ts, azero, eth), w') \<Longrightarrow> generation ts"
  by (auto simp: start_relayer_def run_simps intro: run_relayer_generation)

text \<open>
  The events that a process sees: at a reboot the relayer was started as \<open>start_relayer\<close> does, on whatever the
  network was then.
\<close>

definition really_started ::
  "'w network_api \<Rightarrow> accounts \<Rightarrow> 'w azero_node \<Rightarrow> Config \<Rightarrow> RelayerError fault + task list \<Rightarrow> bool" where
  "really_started api acc nd cfg started \<longleftrightarrow>
     (\<exists>w. started = (case start_relayer api acc nd cfg w of Inl e \<Rightarrow> Inl e | Inr (run, _) \<Rightarrow> Inr (fst run)))"

lemma really_started_generation:
  assumes "really_started api acc nd cfg (Inr ts)"
  shows "generation ts"
proof -
  from assms obtain w where w: "Inr ts = (case start_relayer api acc nd cfg w of Inl e \<Rightarrow> Inl e | Inr (run, _) \<Rightarrow> Inr (fst run))"
    by (auto simp: really_started_def)
  then obtain x w' where "start_relayer api acc nd cfg w = Inr (x, w')" "fst x = ts"
    by (cases "start_relayer api acc nd cfg w") (auto split: prod.splits)
  then show ?thesis using start_relayer_generation by (cases x) auto
qed

definition main_inv :: "main_state \<Rightarrow> bool" where
  "main_inv ms \<longleftrightarrow> (\<exists>g. generation g \<and> set (ms_tasks ms) \<subseteq> set g) \<and> distinct (ms_tasks ms) \<and> ms_tasks ms \<noteq> [] \<and>
     DEFAULT_BACKOFF_DURATION \<le> ms_delay ms \<and> ms_delay ms \<le> MAX_BACKOFF_DURATION \<and> \<not> ms_first_run ms"

lemma main_join_inv:
  assumes "main_inv ms" "main_join e ms = Some (Main_loop ms')" "really_started api acc nd cfg (je_restart e)"
  shows "main_inv ms'"
proof -
  note delay = next_delay_bounds [of "ms_delay ms" "je_now e - ms_tick ms"]
  from assms(2) obtain result where r: "je_result e = TaskOk result"
    by (auto simp: main_join_def Let_def split: if_splits join_result.splits)
  show ?thesis
  proof (cases "remove1 (je_task e) (ms_tasks ms) = []")
    case True
    with assms(2) r obtain spawned where sp: "je_restart e = Inr spawned"
      and ms': "ms' = ms\<lparr>ms_tasks := spawned, ms_delay := next_delay (ms_delay ms) (je_now e - ms_tick ms),
        ms_tick := je_after e, ms_runs := ms_runs ms + 1\<rparr>"
      by (auto simp: main_join_def Let_def split: if_splits sum.splits fault.splits)
    have "generation spawned" using assms(3) sp really_started_generation by metis
    with assms(1) delay generation_props show ?thesis unfolding main_inv_def ms' by auto
  next
    case False
    with assms(2) r have "ms' = ms\<lparr>ms_tasks := remove1 (je_task e) (ms_tasks ms)\<rparr>"
      by (auto simp: main_join_def Let_def split: if_splits)
    with False assms(1) show ?thesis
      by (auto simp: main_inv_def dest: notin_set_remove1 [THEN contrapos_nn] in_mono intro: distinct_remove1)
  qed
qed

lemma main_loop_inv:
  "main_inv ms \<Longrightarrow> main_loop es (Main_loop ms) = Some (Main_loop ms') \<Longrightarrow>
     list_all (\<lambda>e. really_started api acc nd cfg (je_restart e)) es \<Longrightarrow> main_inv ms'"
proof (induction es arbitrary: ms)
  case (Cons e es)
  then obtain out where out: "main_join e ms = Some out" "main_loop es out = Some (Main_loop ms')"
    by (auto split: option.splits)
  then obtain ms1 where ms1: "out = Main_loop ms1" by (cases es; cases out) auto
  with out Cons.prems main_join_inv have "main_inv ms1" by fastforce
  with Cons.IH out ms1 Cons.prems(3) show ?case by simp
qed simp

section \<open>Properties\<close>

text \<open>
  C38 (one generation of tasks at a time). As long as \<open>main\<close> runs, whatever its tasks return and in whatever order
  they end, the tasks that run are different tasks of one and the same start of the relayer, at
  least one of them is left, and the delay before the next reboot is between 2 seconds and 10
  minutes. A reboot happens only when the last of them has ended with a circuit breaker event; a task that
  returns an error ends the process instead.
\<close>

theorem one_generation_at_a_time:
  assumes start: "really_started api acc nd cfg started"
    and restarts: "list_all (\<lambda>e. really_started api acc nd cfg (je_restart e)) es"
    and run: "main_loop es (main_started started t0) = Some (Main_loop ms)"
  shows "(\<exists>g. generation g \<and> set (ms_tasks ms) \<subseteq> set g) \<and> distinct (ms_tasks ms) \<and> ms_tasks ms \<noteq> [] \<and>
    DEFAULT_BACKOFF_DURATION \<le> ms_delay ms \<and> ms_delay ms \<le> MAX_BACKOFF_DURATION \<and>
    (main_join e ms = Some (Main_loop ms') \<and> ms_runs ms' \<noteq> ms_runs ms \<longrightarrow>
       ms_tasks ms = [je_task e] \<and> (\<exists>event. je_result e = TaskOk event)) \<and>
    (je_task e \<in> set (ms_tasks ms) \<and> je_result e = TaskErr why \<longrightarrow> main_join e ms = Some Main_exit)"
proof -
  obtain ts where ts: "started = Inr ts"
    using run by (cases es; cases started) (auto simp: main_started_def split: fault.splits)
  with start really_started_generation have "generation ts" by blast
  then have "main_inv \<lparr>ms_tasks = ts, ms_first_run = False, ms_delay = DEFAULT_BACKOFF_DURATION, ms_tick = t0, ms_runs = 1\<rparr>"
    using generation_props by (auto simp: main_inv_def backoff_defs)
  from main_loop_inv [OF this _ restarts] have "main_inv ms"
    using run by (simp add: ts main_started_def)
  moreover have "ms_tasks ms = [je_task e] \<and> (\<exists>event. je_result e = TaskOk event)"
    if "main_join e ms = Some (Main_loop ms')" "ms_runs ms' \<noteq> ms_runs ms"
    using that by (cases "ms_tasks ms") (auto simp: main_join_def Let_def split: if_splits join_result.splits)
  moreover have "main_join e ms = Some Main_exit" if "je_task e \<in> set (ms_tasks ms)" "je_result e = TaskErr why"
    using that by (simp add: main_join_def)
  ultimately show ?thesis unfolding main_inv_def by blast
qed

text \<open>A start with a remote signer, on the network of the emergency above.\<close>

definition boot_keys :: keys where
  "boot_keys = \<lparr>azero_public = 21, azero_sign = (\<lambda>p. p), wallet_address = 22,
     wallet_sign_hash = (\<lambda>_. Inr [1]), wallet_sign_transaction = (\<lambda>_. Inr [2])\<rparr>"

definition boot_api :: "(u64 \<times> dyn_value list \<times> u8 list) list network_api" where
  "boot_api = \<lparr>api_backoff = (\<lambda>_ _ _ _. 1), api_open_azero = (\<lambda>_ _ w. (Inr (), w)), api_account_nonce = (\<lambda>_ w. (Inr 7, w)),
     api_open_vsock = (\<lambda>_ _ w. (Inr (server_link id boot_keys), w)), api_pair_from_string = (\<lambda>_. None),
     api_mnemonic_wallet = (\<lambda>_ _. Inl ''''), api_open_eth = (\<lambda>_. Some),
     api_initialize_nonce = (\<lambda>_ w. (Inr (), w)), api_provider_chain_id = (\<lambda>w. (Inr 5, w))\<rparr>"

definition boot_config :: Config where
  boot_config_base: "boot_config = alarm_config\<lparr>cfg_signer_cid := Some 3\<rparr>"

lemmas boot_config_def = boot_config_base [unfolded alarm_config_base base_config_def, simplified]

lemma boot_run:
  "run_relayer alarm_accounts demo_node account boot_config \<lparr>net_world = [], net_nonce = n\<rparr> =
     Inr ([T_Emergency [100]], \<lparr>net_world = [], net_nonce = n\<rparr>)"
  by (simp add: run_relayer_def boot_config_def parse_advisory_addresses_def
      advisory_instance_new_def contract_instance_new_def alarm_accounts_def instance_is_emergency_def
      contract_read0_def contract_read_def dry_run_any_def instance_encode_def instance_decode_def
      contract_call_and_get_def ask_def eval_simps demo_node_def try_result_def try_bool_def default_params_def)

lemma boot_started:
  "start_relayer boot_api alarm_accounts demo_node boot_config [] = Inr (([T_Emergency [100]],
     \<lparr>cws_signer = AzeroSignerClient (server_link id boot_keys) 21, cws_nonce = 7\<rparr>,
     \<lparr>sec_signer = Vsock \<lparr>vs_client = server_link id boot_keys, vs_chain_id = 5, vs_address = 22\<rparr>, sec_nonce_address = 22\<rparr>), [])"
proof -
  have "cfg_signer_cid boot_config = Some 3" by (simp add: boot_config_def)
  then show ?thesis
    by (simp add: start_relayer_def create_azero_connections_def create_eth_connections_def azero_connection_init_def
        azero_client_new_def azero_with_signer_def azero_signer_client_new_def with_signer_def with_nonce_manager_def
        new_with_provider_chain_def eth_connect_def signer_defs server_link_def handle_command_def boot_api_def boot_keys_def
        request_def unwrap_request_def on_network_def boot_run eval_simps)
qed

definition boot_event :: join_event where
  "boot_event = \<lparr>je_task = T_Emergency [100], je_result = TaskOk (AdvisoryEmergency [100]), je_now = 5,
     je_restart = Inr [T_Emergency [100]], je_after = 9\<rparr>"

theorem one_generation_at_a_time_witness:
  "main_loop [boot_event] (main_started (Inr [T_Emergency [100]]) 0) = Some (Main_loop
     \<lparr>ms_tasks = [T_Emergency [100]], ms_first_run = False, ms_delay = 2200000000, ms_tick = 9, ms_runs = 2\<rparr>) \<and>
   DEFAULT_BACKOFF_DURATION \<le> 2200000000 \<and> (2200000000::nat) \<le> MAX_BACKOFF_DURATION"
proof -
  have start: "really_started boot_api alarm_accounts demo_node boot_config (Inr [T_Emergency [100]])"
    unfolding really_started_def using boot_started by (intro exI [of _ "[]"]) simp
  have run: "main_loop [boot_event] (main_started (Inr [T_Emergency [100]]) 0) = Some (Main_loop
     \<lparr>ms_tasks = [T_Emergency [100]], ms_first_run = False, ms_delay = 2200000000, ms_tick = 9, ms_runs = 2\<rparr>)"
    by (simp add: main_started_def main_join_def boot_event_def next_delay_def backoff_defs)
  have "list_all (\<lambda>e. really_started boot_api alarm_accounts demo_node boot_config (je_restart e)) [boot_event]"
    using start by (simp add: boot_event_def)
  from one_generation_at_a_time [OF start this run] run show ?thesis by simp
qed

lemma server_link_addresses:
  "azero_account_id (server_link wire k) w = Inr (azero_public k, w)"
  "eth_address (server_link wire k) w = Inr (wallet_address k, w)"
  by (simp_all add: signer_defs server_link_def handle_command_def eval_simps)

lemma unconfigured_start_fails:
  "cfg_signer_cid cfg = None \<Longrightarrow> \<not> cfg_dev cfg \<Longrightarrow> start_relayer api acc nd cfg w \<noteq> Inr r"
  by (cases r) (auto simp: start_relayer_def create_azero_connections_def run_simps)



end
