(* ===== verification/Relayed_Requests.thy ===== *)
theory Relayed_Requests
  imports Guardian_Votes
begin

text \<open>
  Who stands behind an executed request. The locale \<open>relayed_requests\<close> adds to the voting protocol
  what is voted on: a guardian submits the data of a request, and the vote is for its hash. Some
  guardians are honest, that is, they submit only what was requested on the other chain; the
  others submit anything. When the committee of every executed request has fewer dishonest
  members than its threshold and the hash function has no collision among the data submitted, everything
  that is executed was requested, and nothing is executed twice.
\<close>

section \<open>The interface\<close>

locale relayed_requests =
  guardian_votes init vote other processed signers counted executed threshold
  for init :: "'s \<Rightarrow> bool"
    and vote :: "'s \<Rightarrow> 'a::finite \<Rightarrow> bytes32 \<Rightarrow> 'c \<Rightarrow> 's \<Rightarrow> bool"
    and other processed signers counted executed threshold +
  fixes submit :: "'s \<Rightarrow> 'a \<Rightarrow> 'd \<Rightarrow> 's \<Rightarrow> bool"
    and hash_of :: "'d \<Rightarrow> bytes32"
    and committee_of :: "'d \<Rightarrow> 'c"
    and members :: "'s \<Rightarrow> 'c \<Rightarrow> 'a set"
  assumes submit_votes: "submit s a d s' \<Longrightarrow> vote s a (hash_of d) (committee_of d) s'"
    and submit_member: "submit s a d s' \<Longrightarrow> a \<in> members s (committee_of d)"
    and submit_members: "submit s a d s' \<Longrightarrow> members s c \<subseteq> members s' c"
    and other_members: "other s s' \<Longrightarrow> members s c \<subseteq> members s' c"
begin

text \<open>
  A run with the requests of the other chain \<open>R\<close>, the data submitted so far \<open>P\<close> and the executed
  requests \<open>E\<close> in their order.
\<close>

inductive relayed :: "'a set \<Rightarrow> 's \<Rightarrow> 'd set \<Rightarrow> 'd set \<Rightarrow> 'd list \<Rightarrow> bool" for honest where
  relayed_init: "init s \<Longrightarrow> relayed honest s R {} []"
| relayed_more: "relayed honest s R P E \<Longrightarrow> R \<subseteq> R' \<Longrightarrow> relayed honest s R' P E"
| relayed_other: "relayed honest s R P E \<Longrightarrow> other s s' \<Longrightarrow> relayed honest s' R P E"
| relayed_submit: "relayed honest s R P E \<Longrightarrow> submit s a d s' \<Longrightarrow> (a \<in> honest \<Longrightarrow> d \<in> R) \<Longrightarrow>
    (processed s' \<noteq> processed s \<Longrightarrow>
       card (members s' (committee_of d) - honest) < threshold s (committee_of d)) \<Longrightarrow>
    relayed honest s' R (insert d P) (if processed s' = processed s then E else E @ [d])"

lemma relayed_votes_inv: "relayed honest s R P E \<Longrightarrow> votes_inv s"
  by (induction rule: relayed.induct)
    (auto intro: votes_inv_init votes_inv_other votes_inv_vote [OF _ submit_votes])

lemma submit_signers:
  assumes "submit s a d s'" "b \<in> signers s' h"
  shows "b \<in> signers s h \<or> b = a \<and> h = hash_of d"
  using vote_refused [OF submit_votes [OF assms(1)]] vote_counted [OF submit_votes [OF assms(1)]] assms(2)
  by (cases "hash_of d \<in> processed s \<or> a \<in> signers s (hash_of d)") (auto split: if_splits)

text \<open>Every recorded signature has its data, and an honest guardian's data were requested.\<close>

lemma relayed_signed:
  "relayed honest s R P E \<Longrightarrow> b \<in> signers s h \<Longrightarrow>
     \<exists>d \<in> P. hash_of d = h \<and> b \<in> members s (committee_of d) \<and> (b \<in> honest \<longrightarrow> d \<in> R)"
proof (induction arbitrary: b h rule: relayed.induct)
  case (relayed_init s R)
  then show ?case by (auto dest: init_empty)
next
  case (relayed_more s R P E R')
  then show ?case by blast
next
  case (relayed_other s R P E s')
  then have "b \<in> signers s h" by (auto dest: other_frame)
  with relayed_other show ?case using other_members by blast
next
  case (relayed_submit s R P E a d s')
  note grow = submit_members [OF relayed_submit.hyps(2)]
  from submit_signers [OF relayed_submit.hyps(2) relayed_submit.prems]
  show ?case
  proof
    assume "b \<in> signers s h"
    with relayed_submit.IH grow show ?thesis by blast
  next
    assume "b = a \<and> h = hash_of d"
    with relayed_submit.hyps(3) submit_member [OF relayed_submit.hyps(2)] grow show ?thesis by blast
  qed
qed

lemma executed_submission:
  assumes "votes_inv s" "submit s a d s'" "processed s' \<noteq> processed s"
  shows "processed s' = insert (hash_of d) (processed s)" "hash_of d \<notin> processed s"
    "threshold s (committee_of d) \<le> card (signers s' (hash_of d))"
proof -
  note vote = submit_votes [OF assms(2)]
  have fresh: "hash_of d \<notin> processed s" "a \<notin> signers s (hash_of d)"
    using vote_refused [OF vote] assms(3) by blast+
  with vote_counted [OF vote] assms(3)
  show new: "processed s' = insert (hash_of d) (processed s)" "hash_of d \<notin> processed s"
    by (metis, blast)
  show "threshold s (committee_of d) \<le> card (signers s' (hash_of d))"
    using executed_quorum [OF assms(1) vote, of "hash_of d"] new by blast
qed

lemma quorum_has_honest:
  assumes "S \<subseteq> M" "card (M - honest) < k" "k \<le> card S"
  shows "\<exists>b \<in> S. b \<in> (honest :: 'a set)"
proof (rule ccontr)
  assume "\<not> ?thesis"
  with assms(1) have "S \<subseteq> M - honest" by blast
  then have "card S \<le> card (M - honest)" by (intro card_mono) simp_all
  with assms(2,3) show False by simp
qed

lemma relayed_executed:
  "relayed honest s R P E \<Longrightarrow> inj_on hash_of P \<Longrightarrow>
     set E \<subseteq> R \<inter> P \<and> distinct E \<and> hash_of ` set E = processed s"
proof (induction rule: relayed.induct)
  case (relayed_init s R)
  then show ?case by (auto dest: init_empty)
next
  case (relayed_other s R P E s')
  then show ?case by (auto dest: other_frame)
next
  case (relayed_submit s R P E a d s')
  have IH: "set E \<subseteq> R \<inter> P \<and> distinct E \<and> hash_of ` set E = processed s"
    using relayed_submit by (simp add: inj_on_insert)
  show ?case
  proof (cases "processed s' = processed s")
    case False
    note run = relayed.relayed_submit [OF relayed_submit(1-4)]
    note new = executed_submission [OF relayed_votes_inv [OF relayed_submit(1)] relayed_submit(2) False]
    have same: "d' = d" if "d' \<in> insert d P" "hash_of d' = hash_of d" for d'
      using inj_onD [OF relayed_submit.prems that(2,1)] by blast
    have "signers s' (hash_of d) \<subseteq> members s' (committee_of d)"
      using relayed_signed [OF run] same by blast
    from quorum_has_honest [OF this relayed_submit(4) [OF False] new(3)]
    obtain b where "b \<in> signers s' (hash_of d)" "b \<in> honest" by blast
    with relayed_signed [OF run] same have "d \<in> R" by blast
    with IH new False show ?thesis by auto
  qed (use IH in auto)
qed auto

text \<open>So no more is executed than was requested, in number or in any amount.\<close>

lemma relayed_total:
  assumes "relayed honest s R P E" "inj_on hash_of P" "finite R"
  shows "(\<Sum>d \<leftarrow> E. f d) \<le> (\<Sum>d \<in> R. f d :: nat)"
proof -
  from relayed_executed [OF assms(1,2)] have E: "set E \<subseteq> R" "distinct E" by auto
  have "(\<Sum>d \<leftarrow> E. f d) = (\<Sum>d \<in> set E. f d)" by (simp add: E(2) sum_list_distinct_conv_sum_set)
  also have "\<dots> \<le> (\<Sum>d \<in> R. f d)" by (rule sum_mono2 [OF assms(3) E(1)]) simp
  finally show ?thesis .
qed

end

end
