(* ===== verification/Bridge_System.thy ===== *)
theory Bridge_System
  imports Relayed_Requests Most_Economy Eth_Handler_Properties Azero_Relay
begin

text \<open>
  The two bridge contracts with their guardians as one system. A run interleaves, in any order, calls of the
  contract on Aleph Zero, calls of the contract on Ethereum, and changes of the rest of either
  chain. Everybody may call anything, but an honest guardian votes only as the relayer does: with the
  vote that \<open>eth_prepare\<close> makes from an event of the Ethereum contract, and with the call that the
  handler of Aleph Zero events makes from an event of the Aleph Zero contract.

  Both contracts interpret \<open>relayed_requests\<close>; what is executed on either side has been requested
  on the other.
\<close>

section \<open>Requests of the two chains\<close>

type_synonym azero_request = "u128 \<times> bytes32 \<times> u128 \<times> bytes32 \<times> u128"
type_synonym eth_request = "u256 \<times> bytes32 \<times> u256 \<times> bytes32 \<times> u256"

definition azero_hash :: "'w chain \<Rightarrow> azero_request \<Rightarrow> bytes32" where
  "azero_hash ch = (\<lambda>(c, t, a, r, n). hash_request_data (chain_keccak256 ch) c t a r n)"

definition eth_hash :: "'w evm \<Rightarrow> eth_request \<Rightarrow> bytes32" where
  "eth_hash ev = (\<lambda>(c, t, a, r, n). sol_request_hash (evm_keccak256 ev) c t a r n)"

text \<open>
  What the events of one chain request of the other. The relayer votes for an event of Ethereum only if its
  numbers fit 128 bits.
\<close>

fun azero_event_request :: "most_event \<Rightarrow> eth_request list" where
  "azero_event_request (CrosschainTransferRequest c t a r n) = [(ucast c, t, ucast a, r, ucast n)]"
| "azero_event_request _ = []"

fun eth_event_request :: "sol_event \<Rightarrow> azero_request list" where
  "eth_event_request (Sol_CrosschainTransferRequest c t a r n) =
     (if unat c < 2 ^ 128 \<and> unat a < 2 ^ 128 \<and> unat n < 2 ^ 128 then [(ucast c, t, ucast a, r, ucast n)] else [])"
| "eth_event_request _ = []"

definition azero_requests :: "most_event list \<Rightarrow> eth_request list" where
  "azero_requests es = concat (map azero_event_request es)"

definition eth_requests :: "sol_event list \<Rightarrow> azero_request list" where
  "eth_requests es = concat (map eth_event_request es)"

lemma requests_mono:
  "set es \<subseteq> set es' \<Longrightarrow> set (azero_requests es) \<subseteq> set (azero_requests es')"
  "set fs \<subseteq> set fs' \<Longrightarrow> set (eth_requests fs) \<subseteq> set (eth_requests fs')"
  by (auto simp: azero_requests_def eth_requests_def)

section \<open>Events are never taken back\<close>

definition events_grow :: "('m, 'e, 'w) ctx \<Rightarrow> ('m, 'e, 'w) ctx \<Rightarrow> bool" where
  "events_grow s s' \<longleftrightarrow> set (events s) \<subseteq> set (events s')"

interpretation grow: state_relation events_grow
  by unfold_locales (auto simp: events_grow_def)

interpretation sol_grow: sol_frame events_grow
  by unfold_locales (auto simp: events_grow_def)

lemma grow_basic:
  "always events_grow (put_storage f)" "always events_grow (emit_event e)"
  "always events_grow (call_world g)" "always events_grow (call_env_fn h)"
  by (auto simp: always_def run_simps events_grow_def)

lemma grow_calls:
  "always events_grow (env_transfer ch env to a)" "always events_grow get_data"
  "always events_grow get_ownable_data" "always events_grow (set_data d)"
  "always events_grow ensure_halted" "always events_grow ensure_not_halted"
  "always events_grow (only_committee_member c b)" "always events_grow (owner_only env)"
  "always events_grow (deny_payment env)"
  by (auto simp: always_def run_simps events_grow_def owner_only_def)

lemma grow_fee: "always events_grow (get_base_fee ch env)"
  unfolding get_base_fee_def get_gas_price_with_limits_def get_gas_price_def
  by (intro grow.always_rules grow_basic grow_calls)

lemmas grow_rules = grow.always_rules grow_basic grow_calls grow_fee

lemma grow_parts:
  "always events_grow (most_send_request_inner ch env st dt a r b f)"
  "always events_grow (get_outstanding_member_rewards m_id cc)"
  unfolding most_send_request_inner_def take_tokens_def return_surplus_def most_burn_from_def
    most_transfer_from_def get_outstanding_member_rewards_def
  by (intro grow_rules)+

lemma grow_receive: "always events_grow (receive_request ch env h c t a r n)"
proof (rule alwaysI)
  fix s :: "'a most_ctx" and u s'
  assume "receive_request ch env h c t a r n s = Inr (u, s')"
  then show "events_grow s s'"
  proof (cases rule: receive_request_cases)
    case (executed k thr s1)
    from alwaysD [OF pocket_pay_out executed(7)] executed(8) show ?thesis
      by (auto simp: pocket_only_def events_grow_def)
  qed (auto simp: events_grow_def)
qed

lemma grow_dispatch: "always events_grow (dispatch ch env k)"
proof -
  have "always events_grow (most_message ch env k)"
  proof (cases "is_receive k")
    case True
    then show ?thesis using grow_receive by (cases k) auto
  next
    case False
    then show ?thesis
      by (cases k; simp only: most_message.simps most_message_defs is_receive.simps simp_thms)
        (intro grow_rules grow_parts; simp)+
  qed
  then show ?thesis unfolding dispatch_def by (intro grow_rules)
qed

lemma grow_addMembers: "always events_grow (addMembers ev cs)"
proof (induction cs)
  case (Cons g cs)
  show ?case unfolding addMembers.simps by (intro sol_grow.sol_rules grow_basic Cons.IH)
qed (simp add: grow_rules)

lemma grow_sol_dispatch: "always events_grow (sol_dispatch ev msg k)"
proof -
  have "always events_grow (sol_function ev msg k)"
    by (cases k; simp only: sol_function.simps sol_function_defs setCommittee_internal_def
        receiveRequest_def onReceiveRequestThresholdMet_def payOut_def emitRequest_def)
      (intro sol_grow.sol_rules grow_basic grow_addMembers grow.always_same [OF checkTransferAllowed_same]; simp)+
  then show ?thesis unfolding sol_dispatch_def by (intro sol_grow.sol_rules)
qed

section \<open>Submissions on Aleph Zero\<close>

definition most_submit :: "'w chain \<Rightarrow> 'w most_ctx \<Rightarrow> AccountId \<Rightarrow> azero_request \<Rightarrow> 'w most_ctx \<Rightarrow> bool" where
  "most_submit ch s g d s' \<longleftrightarrow> (case d of (c, t, a, r, n) \<Rightarrow>
     \<exists>env. caller env = g \<and> receive_request ch env (azero_hash ch d) c t a r n s = Inr ((), s'))"

definition most_quiet :: "'w most_ctx \<Rightarrow> 'w most_ctx \<Rightarrow> bool" where
  "most_quiet s s' \<longleftrightarrow> same_votes s s' \<and> m_committees (storage s) \<subseteq> m_committees (storage s')"

lemma most_submit_vote: "most_submit ch s g d s' \<Longrightarrow> most_vote ch s g (azero_hash ch d) (fst d) s'"
  unfolding most_submit_def most_vote_def by (cases d) (simp, blast)

lemma most_submitD:
  assumes "most_submit ch s g d s'"
  shows "(fst d, g) \<in> m_committees (storage s)" "m_committees (storage s') = m_committees (storage s)"
  using assms receive_keeps(1) [of ch _ _ _ _ _ _ _ s "()" s' m_committees]
  by (auto simp: most_submit_def dest: receive_request_guards(1))

interpretation azr: relayed_requests most_init "most_vote ch" most_quiet
  "\<lambda>s. m_processed_requests (storage s)" "\<lambda>s. signers_of (storage s)" "\<lambda>s. counted_of (storage s)"
  "\<lambda>s. executed_hashes (events s)" "\<lambda>s. threshold_of (storage s)"
  "most_submit ch" "azero_hash ch" fst "\<lambda>s. members_of (storage s)"
  for ch :: "'w chain"
proof (unfold_locales, goal_cases)
  case (2 s a h c s')
  then show ?case by (rule mv.vote_refused)
next
  case (3 s a h c s')
  then show ?case by (rule mv.vote_counted)
next
  case (5 s a d s')
  then show ?case by (rule most_submit_vote)
qed (auto simp: members_of_def most_quiet_def same_votes_def signers_of_def counted_of_def pending_or_default_def
    most_submitD dest: mv.init_empty)

fun azero_submission :: "'w chain \<Rightarrow> most_call \<Rightarrow> azero_request option" where
  "azero_submission ch (Receive_request h c t a r n) =
     (if h = azero_hash ch (c, t, a, r, n) then Some (c, t, a, r, n) else None)"
| "azero_submission ch _ = None"

lemma dispatch_submission:
  assumes "dispatch ch env k s = Inr ((), s')"
  shows "case azero_submission ch k of None \<Rightarrow> most_quiet s s' | Some d \<Rightarrow> most_submit ch s (caller env) d s'"
proof -
  from assms have run: "most_message ch env k s = Inr ((), s')" by (rule dispatch_message)
  note grow = committees_grow [OF run]
  show ?thesis
  proof (cases "is_receive k")
    case True
    then obtain h c t a r n where k: "k = Receive_request h c t a r n" by (cases k) auto
    with run have rcv: "receive_request ch env h c t a r n s = Inr ((), s')" by simp
    show ?thesis
    proof (cases "h = azero_hash ch (c, t, a, r, n)")
      case True
      with rcv k show ?thesis by (auto simp: most_submit_def)
    next
      case False
      with rcv have "same_votes s s'"
        by (cases rule: receive_request_cases) (auto simp: azero_hash_def same_votes_def)
      with False k grow show ?thesis by (simp add: most_quiet_def)
    qed
  next
    case False
    then have "azero_submission ch k = None" by (cases k) auto
    with grow alwaysD [OF votes_message [OF False] run] show ?thesis by (simp add: most_quiet_def)
  qed
qed

section \<open>Submissions on Ethereum\<close>

definition sol_submit :: "'w evm \<Rightarrow> 'w most_sol_ctx \<Rightarrow> H160 \<Rightarrow> eth_request \<Rightarrow> 'w most_sol_ctx \<Rightarrow> bool" where
  "sol_submit ev s g d s' \<longleftrightarrow> (case d of (c, t, a, r, n) \<Rightarrow> \<exists>msg. msg_sender msg = g \<and>
     receiveRequest ev (onReceiveRequestThresholdMet ev) msg (eth_hash ev d) c t a r n s = Inr ((), s'))"

definition sol_quiet :: "'w evm \<Rightarrow> 'w most_sol_ctx \<Rightarrow> 'w most_sol_ctx \<Rightarrow> bool" where
  "sol_quiet ev s s' \<longleftrightarrow> same_sol_votes s s' \<and>
     (\<forall>c. sol_members ev (storage s) c \<subseteq> sol_members ev (storage s') c)"

lemma sol_submit_vote:
  "sol_submit ev s g d s' \<Longrightarrow> sol_vote ev (onReceiveRequestThresholdMet ev) s g (eth_hash ev d) (fst d) s'"
  unfolding sol_submit_def sol_vote_def by (cases d) (simp add: eth_hash_def, blast)

lemma sol_submit_members:
  assumes "sol_submit ev s g d s'"
  shows "g \<in> sol_members ev (storage s) (fst d)" "sol_members ev (storage s') = sol_members ev (storage s)"
proof -
  from assms obtain msg c t a r n where msg: "msg_sender msg = g" "d = (c, t, a, r, n)"
    and run: "receiveRequest ev (onReceiveRequestThresholdMet ev) msg (eth_hash ev d) c t a r n s = Inr ((), s')"
    by (cases d) (auto simp: sol_submit_def)
  with receiveRequest_caller [OF run] show "g \<in> sol_members ev (storage s) (fst d)" by (simp add: sol_members_def)
  have "sol_function ev msg (ReceiveRequest (eth_hash ev d) c t a r n) s = Inr ((), s')" using run by simp
  from alwaysD [OF committees_function this] show "sol_members ev (storage s') = sol_members ev (storage s)"
    by (simp add: same_committees_def sol_members_def isInCommittee_def fun_eq_iff)
qed

interpretation ethr: relayed_requests sol_start "sol_vote ev (onReceiveRequestThresholdMet ev)" "sol_quiet ev"
  "\<lambda>s. sol_processed (storage s)" "\<lambda>s. sol_signers (storage s)" "\<lambda>s. sol_counted (storage s)"
  "\<lambda>s. processed_hashes (events s)" "\<lambda>s. sol_threshold (storage s)"
  "sol_submit ev" "eth_hash ev" fst "\<lambda>s. sol_members ev (storage s)"
  for ev :: "'w evm"
proof (unfold_locales, goal_cases)
  case (1 s)
  then show ?case by (rule ebv.init_empty)
next
  case (2 s a h c s')
  then show ?case by (rule ebv.vote_refused)
next
  case (3 s a h c s')
  then show ?case by (rule ebv.vote_counted)
next
  case (4 s s')
  then show ?case unfolding sol_quiet_def by (blast dest: same_sol_votesD)
next
  case (5 s a d s')
  then show ?case by (rule sol_submit_vote)
qed (auto simp: sol_quiet_def sol_submit_members)

fun eth_submission :: "'w evm \<Rightarrow> sol_call \<Rightarrow> eth_request option" where
  "eth_submission ev (ReceiveRequest h c t a r n) =
     (if h = eth_hash ev (c, t, a, r, n) then Some (c, t, a, r, n) else None)"
| "eth_submission ev _ = None"

lemma sol_dispatch_submission:
  assumes "sol_dispatch ev msg k s = Inr ((), s')"
  shows "case eth_submission ev k of None \<Rightarrow> sol_quiet ev s s' | Some d \<Rightarrow> sol_submit ev s (msg_sender msg) d s'"
proof -
  have grow: "sol_members ev (storage s) c \<subseteq> sol_members ev (storage s') c" for c
    using isInCommittee_mono [OF assms] by (auto simp: sol_members_def)
  show ?thesis
  proof (cases "eth_submission ev k")
    case (Some d)
    then obtain h c t a r n where k: "k = ReceiveRequest h c t a r n" "d = (c, t, a, r, n)" "h = eth_hash ev d"
      by (cases k) (auto split: if_splits)
    with assms have "receiveRequest ev (onReceiveRequestThresholdMet ev) msg h c t a r n s = Inr ((), s')"
      by (auto simp: sol_dispatch_def run_simps split: if_splits)
    with k Some show ?thesis by (auto simp: sol_submit_def)
  next
    case None
    from assms have "same_sol_votes s s'"
    proof (cases rule: sol_dispatch_cases)
      case (vote h c t a r n)
      with None show ?thesis by (simp add: eth_hash_def)
    qed
    with None grow show ?thesis by (simp add: sol_quiet_def)
  qed
qed

section \<open>The system\<close>

text \<open>
  The honest guardians with their accounts on the two chains, and what their relayers run with:
  the node and the configuration of each, and the ABI encoder of the crate \<open>ethers\<close>.
\<close>

record 'n guardians =
  honest_azero :: "AccountId set"
  honest_eth :: "H160 set"
  g_accounts :: accounts
  g_node :: "AccountId \<Rightarrow> 'n azero_node"
  g_config :: "AccountId \<Rightarrow> Config"
  g_abi_encode :: "abi_token list \<Rightarrow> u8 list"

definition vote_message :: "vote_data \<Rightarrow> most_call" where
  "vote_message v = Receive_request (vd_request_hash v) (vd_committee_id v) (vd_dest_token_address v) (vd_amount v)
     (vd_dest_receiver_address v) (vd_request_nonce v)"

definition eth_vote_message :: "vote_call \<Rightarrow> sol_call" where
  "eth_vote_message v = ReceiveRequest (vc_request_hash v) (vc_committee_id v) (vc_dest_token_address v) (vc_amount v)
     (vc_dest_receiver_address v) (vc_request_nonce v)"

text \<open>The votes that the two handlers of a guardian's relayer prepare for events that have happened.\<close>

definition relays_eth ::
  "(u8 list \<Rightarrow> bytes32) \<Rightarrow> 'n guardians \<Rightarrow> AccountId \<Rightarrow> sol_event list \<Rightarrow> most_call \<Rightarrow> bool" where
  "relays_eth keccak gs g es k \<longleftrightarrow> (\<exists>c t a r n v w w'. Sol_CrosschainTransferRequest c t a r n \<in> set es \<and>
     eth_prepare keccak (g_accounts gs) (g_node gs g) g (g_config gs g) (CrosschainTransferRequestFilter c t a r n) w =
       Inr (Some v, w') \<and> k = vote_message v)"

definition relays_azero ::
  "(u8 list \<Rightarrow> bytes32) \<Rightarrow> 'n guardians \<Rightarrow> most_event list \<Rightarrow> sol_call \<Rightarrow> bool" where
  "relays_azero keccak gs es k \<longleftrightarrow> (\<exists>c t a r n d. CrosschainTransferRequest c t a r n \<in> set es \<and>
     get_request_event_data (request_event_data c t a r n) = Inr d \<and>
     k = eth_vote_message (azero_vote_call (azero_request_hash keccak (g_abi_encode gs) d) d))"

text \<open>
  The state: the contracts, and what has been submitted to each of them and which of it they have
  executed, in this order.
\<close>

record ('w, 'v) bridge =
  br_azero :: "'w most_ctx"
  br_eth :: "'v most_sol_ctx"
  azero_submitted :: "azero_request set"
  azero_executed :: "azero_request list"
  eth_submitted :: "eth_request set"
  eth_executed :: "eth_request list"

definition azero_call_step :: "'w chain \<Rightarrow> most_call \<Rightarrow> 'w most_ctx \<Rightarrow> ('w, 'v) bridge \<Rightarrow> ('w, 'v) bridge" where
  "azero_call_step ch k s' b =
     (case azero_submission ch k of
        None \<Rightarrow> b\<lparr>br_azero := s'\<rparr>
      | Some d \<Rightarrow> b\<lparr>br_azero := s', azero_submitted := insert d (azero_submitted b), azero_executed :=
          (if m_processed_requests (storage s') = m_processed_requests (storage (br_azero b)) then azero_executed b
           else azero_executed b @ [d])\<rparr>)"

definition eth_call_step :: "'v evm \<Rightarrow> sol_call \<Rightarrow> 'v most_sol_ctx \<Rightarrow> ('w, 'v) bridge \<Rightarrow> ('w, 'v) bridge" where
  "eth_call_step ev k s' b =
     (case eth_submission ev k of
        None \<Rightarrow> b\<lparr>br_eth := s'\<rparr>
      | Some d \<Rightarrow> b\<lparr>br_eth := s', eth_submitted := insert d (eth_submitted b), eth_executed :=
          (if sol_processed (storage s') = sol_processed (storage (br_eth b)) then eth_executed b
           else eth_executed b @ [d])\<rparr>)"

text \<open>A committee that executes a request has fewer dishonest members than its threshold.\<close>

definition azero_trusted :: "'w chain \<Rightarrow> AccountId set \<Rightarrow> most_call \<Rightarrow> 'w most_ctx \<Rightarrow> 'w most_ctx \<Rightarrow> bool" where
  "azero_trusted ch honest k s s' \<longleftrightarrow> (\<forall>d. azero_submission ch k = Some d \<and>
     m_processed_requests (storage s') \<noteq> m_processed_requests (storage s) \<longrightarrow>
     card (members_of (storage s') (fst d) - honest) < threshold_of (storage s) (fst d))"

definition eth_trusted :: "'v evm \<Rightarrow> H160 set \<Rightarrow> sol_call \<Rightarrow> 'v most_sol_ctx \<Rightarrow> 'v most_sol_ctx \<Rightarrow> bool" where
  "eth_trusted ev honest k s s' \<longleftrightarrow> (\<forall>d. eth_submission ev k = Some d \<and>
     sol_processed (storage s') \<noteq> sol_processed (storage s) \<longrightarrow>
     card (sol_members ev (storage s') (fst d) - honest) < sol_threshold (storage s) (fst d))"

inductive bridge_run :: "'w chain \<Rightarrow> 'v evm \<Rightarrow> 'n guardians \<Rightarrow> ('w, 'v) bridge \<Rightarrow> bool"
  for ch :: "'w chain" and ev :: "'v evm" and gs :: "'n guardians" where
  bridge_deployed: "most_run ch 0 s \<Longrightarrow> most_init s \<Longrightarrow> sol_run ev s' \<Longrightarrow> sol_start s' \<Longrightarrow>
    bridge_run ch ev gs \<lparr>br_azero = s, br_eth = s', azero_submitted = {}, azero_executed = [],
      eth_submitted = {}, eth_executed = []\<rparr>"
| azero_called: "bridge_run ch ev gs b \<Longrightarrow> fits_usize k \<Longrightarrow> dispatch ch env k (br_azero b) = Inr ((), s') \<Longrightarrow>
    (caller env \<in> honest_azero gs \<and> is_receive k \<longrightarrow>
       relays_eth (chain_keccak256 ch) gs (caller env) (events (br_eth b)) k) \<Longrightarrow>
    azero_trusted ch (honest_azero gs) k (br_azero b) s' \<Longrightarrow> bridge_run ch ev gs (azero_call_step ch k s' b)"
| eth_called: "bridge_run ch ev gs b \<Longrightarrow> fits_calldata k \<Longrightarrow> sol_dispatch ev msg k (br_eth b) = Inr ((), s') \<Longrightarrow>
    (msg_sender msg \<in> honest_eth gs \<and> is_receiveRequest k \<longrightarrow>
       relays_azero (evm_keccak256 ev) gs (events (br_azero b)) k) \<Longrightarrow>
    eth_trusted ev (honest_eth gs) k (br_eth b) s' \<Longrightarrow> bridge_run ch ev gs (eth_call_step ev k s' b)"
| azero_elsewhere: "bridge_run ch ev gs b \<Longrightarrow> bridge_run ch ev gs (b\<lparr>br_azero := (br_azero b)\<lparr>world := w\<rparr>\<rparr>)"
| eth_elsewhere: "bridge_run ch ev gs b \<Longrightarrow> bridge_run ch ev gs (b\<lparr>br_eth := (br_eth b)\<lparr>world := w'\<rparr>\<rparr>)"

text \<open>The relayer votes for what was requested.\<close>

lemma relays_eth_requested:
  assumes "relays_eth (chain_keccak256 ch) gs g es k" "azero_submission ch k = Some d"
  shows "d \<in> set (eth_requests es)"
proof -
  from assms(1) obtain c t a r n v w w' where e: "Sol_CrosschainTransferRequest c t a r n \<in> set es"
    and prep: "eth_prepare (chain_keccak256 ch) (g_accounts gs) (g_node gs g) g (g_config gs g)
      (CrosschainTransferRequestFilter c t a r n) w = Inr (Some v, w')" and k: "k = vote_message v"
    by (auto simp: relays_eth_def)
  from prep obtain c' a' n' where nums: "unat c' = unat c" "unat a' = unat a" "unat n' = unat n"
    and v: "vd_committee_id v = c'" "vd_dest_token_address v = t" "vd_amount v = a'"
      "vd_dest_receiver_address v = r" "vd_request_nonce v = n'"
    by (cases rule: eth_prepare_Inr) (auto split: if_splits)
  have d: "d = (c', t, a', r, n')" using assms(2) k v by (auto simp: vote_message_def split: if_splits)
  have fits: "unat x < 2 ^ 128 \<and> x' = ucast x" if "unat x' = unat x" for x :: u256 and x' :: u128
  proof -
    have "unat x < 2 ^ 128" using unsigned_less [of x', where 'a = nat] that by simp
    moreover from this have "unat x' = unat (ucast x :: u128)" using that by (simp add: ucast_u128_unat)
    ultimately show ?thesis by (simp add: word_unat_eq_iff)
  qed
  have "d \<in> set (eth_event_request (Sol_CrosschainTransferRequest c t a r n))"
    using fits [OF nums(1)] fits [OF nums(2)] fits [OF nums(3)] d by simp
  with e show ?thesis unfolding eth_requests_def set_concat set_map by blast
qed

lemma relays_azero_requested:
  assumes "relays_azero keccak gs es k" "eth_submission ev k = Some d"
  shows "d \<in> set (azero_requests es)"
proof -
  from assms(1) obtain c t a r n x where e: "CrosschainTransferRequest c t a r n \<in> set es"
    and x: "get_request_event_data (request_event_data c t a r n) = Inr x"
    and k: "k = eth_vote_message (azero_vote_call (azero_request_hash keccak (g_abi_encode gs) x) x)"
    by (auto simp: relays_azero_def)
  have "x = \<lparr>cr_committee_id = c, cr_dest_token_address = t, cr_amount = a,
      cr_dest_receiver_address = r, cr_request_nonce = n\<rparr>"
    using x by (simp add: request_event_decodes)
  with k assms(2) have "d \<in> set (azero_event_request (CrosschainTransferRequest c t a r n))"
    by (auto simp: eth_vote_message_def azero_vote_call_def split: if_splits)
  with e show ?thesis unfolding azero_requests_def set_concat set_map by blast
qed

section \<open>What is executed was requested\<close>

lemma bridge_run_contracts:
  "bridge_run ch ev gs b \<Longrightarrow> (\<exists>n. most_run ch n (br_azero b)) \<and> sol_run ev (br_eth b)"
proof (induction rule: bridge_run.induct)
  case (azero_called b k env s')
  then show ?case by (auto simp: azero_call_step_def split: option.splits intro: most_run.called)
next
  case (eth_called b k msg s')
  then show ?case by (auto simp: eth_call_step_def split: option.splits intro: sol_called)
qed (auto intro: most_run.elsewhere sol_elsewhere)

lemma azero_call_relayed:
  assumes "azr.relayed ch honest (br_azero b) R (azero_submitted b) (azero_executed b)"
    and step: "dispatch ch env k (br_azero b) = Inr ((), s')"
    and vote: "\<And>d. azero_submission ch k = Some d \<Longrightarrow> caller env \<in> honest \<Longrightarrow> d \<in> R"
    and trusted: "azero_trusted ch honest k (br_azero b) s'"
  shows "let b' = azero_call_step ch k s' b in azr.relayed ch honest (br_azero b') R (azero_submitted b') (azero_executed b')"
proof (cases "azero_submission ch k")
  case None
  with dispatch_submission [OF step] assms(1) show ?thesis
    by (simp add: azero_call_step_def azr.relayed_other)
next
  case (Some d)
  with dispatch_submission [OF step] have "most_submit ch (br_azero b) (caller env) d s'" by simp
  moreover have "card (members_of (storage s') (fst d) - honest) < threshold_of (storage (br_azero b)) (fst d)"
    if "m_processed_requests (storage s') \<noteq> m_processed_requests (storage (br_azero b))"
    using trusted Some that unfolding azero_trusted_def by blast
  ultimately show ?thesis
    using azr.relayed_submit [OF assms(1) _ vote [OF Some]] Some by (simp add: azero_call_step_def)
qed

lemma eth_call_relayed:
  assumes "ethr.relayed ev honest (br_eth b) R (eth_submitted b) (eth_executed b)"
    and step: "sol_dispatch ev msg k (br_eth b) = Inr ((), s')"
    and vote: "\<And>d. eth_submission ev k = Some d \<Longrightarrow> msg_sender msg \<in> honest \<Longrightarrow> d \<in> R"
    and trusted: "eth_trusted ev honest k (br_eth b) s'"
  shows "let b' = eth_call_step ev k s' b in ethr.relayed ev honest (br_eth b') R (eth_submitted b') (eth_executed b')"
proof (cases "eth_submission ev k")
  case None
  with sol_dispatch_submission [OF step] assms(1) show ?thesis
    by (simp add: eth_call_step_def ethr.relayed_other)
next
  case (Some d)
  with sol_dispatch_submission [OF step] have "sol_submit ev (br_eth b) (msg_sender msg) d s'" by simp
  moreover have "card (sol_members ev (storage s') (fst d) - honest) < sol_threshold (storage (br_eth b)) (fst d)"
    if "sol_processed (storage s') \<noteq> sol_processed (storage (br_eth b))"
    using trusted Some that unfolding eth_trusted_def by blast
  ultimately show ?thesis
    using ethr.relayed_submit [OF assms(1) _ vote [OF Some]] Some by (simp add: eth_call_step_def)
qed

lemma submission_is_vote:
  "azero_submission ch k = Some d \<Longrightarrow> is_receive k" "eth_submission ev l = Some x \<Longrightarrow> is_receiveRequest l"
  by (cases k; simp) (cases l; simp)

lemma azero_call_simps [simp]:
  "br_azero (azero_call_step ch k s' b) = s'" "br_eth (azero_call_step ch k s' b) = br_eth b"
  "eth_submitted (azero_call_step ch k s' b) = eth_submitted b" "eth_executed (azero_call_step ch k s' b) = eth_executed b"
  by (simp_all add: azero_call_step_def split: option.splits)

lemma eth_call_simps [simp]:
  "br_eth (eth_call_step ev k s' b) = s'" "br_azero (eth_call_step ev k s' b) = br_azero b"
  "azero_submitted (eth_call_step ev k s' b) = azero_submitted b" "azero_executed (eth_call_step ev k s' b) = azero_executed b"
  by (simp_all add: eth_call_step_def split: option.splits)

definition azero_side :: "'w chain \<Rightarrow> 'n guardians \<Rightarrow> ('w, 'v) bridge \<Rightarrow> bool" where
  "azero_side ch gs b \<longleftrightarrow> azr.relayed ch (honest_azero gs) (br_azero b) (set (eth_requests (events (br_eth b))))
     (azero_submitted b) (azero_executed b)"

definition eth_side :: "'v evm \<Rightarrow> 'n guardians \<Rightarrow> ('w, 'v) bridge \<Rightarrow> bool" where
  "eth_side ev gs b \<longleftrightarrow> ethr.relayed ev (honest_eth gs) (br_eth b) (set (azero_requests (events (br_azero b))))
     (eth_submitted b) (eth_executed b)"

lemma quiet_elsewhere: "most_quiet s (s\<lparr>world := w\<rparr>)" "sol_quiet ev s' (s'\<lparr>world := w'\<rparr>)"
  by (simp_all add: most_quiet_def same_votes_def sol_quiet_def same_sol_votes_def)

lemma bridge_run_sides: "bridge_run ch ev gs b \<Longrightarrow> azero_side ch gs b \<and> eth_side ev gs b"
proof (induction rule: bridge_run.induct)
  case (bridge_deployed s s')
  then show ?case by (simp add: azero_side_def eth_side_def azr.relayed_init ethr.relayed_init)
next
  case (azero_called b k env s')
  have "set (azero_requests (events (br_azero b))) \<subseteq> set (azero_requests (events s'))"
    using alwaysD [OF grow_dispatch azero_called(3)] by (intro requests_mono) (simp add: events_grow_def)
  with azero_called(6) have "eth_side ev gs (azero_call_step ch k s' b)"
    by (auto simp: eth_side_def intro: ethr.relayed_more)
  moreover have "azero_side ch gs (azero_call_step ch k s' b)"
    using azero_call_relayed [OF _ azero_called(3) _ azero_called(5), of "set (eth_requests (events (br_eth b)))"]
      azero_called(4,6) relays_eth_requested submission_is_vote(1)
    by (simp add: azero_side_def Let_def) blast
  ultimately show ?case by blast
next
  case (eth_called b k msg s')
  have "set (eth_requests (events (br_eth b))) \<subseteq> set (eth_requests (events s'))"
    using alwaysD [OF grow_sol_dispatch eth_called(3)] by (intro requests_mono) (simp add: events_grow_def)
  with eth_called(6) have "azero_side ch gs (eth_call_step ev k s' b)"
    by (auto simp: azero_side_def intro: azr.relayed_more)
  moreover have "eth_side ev gs (eth_call_step ev k s' b)"
    using eth_call_relayed [OF _ eth_called(3) _ eth_called(5), of "set (azero_requests (events (br_azero b)))"]
      eth_called(4,6) relays_azero_requested submission_is_vote(2)
    by (simp add: eth_side_def Let_def) blast
  ultimately show ?case by blast
next
  case (azero_elsewhere b w)
  then show ?case
    by (simp add: azero_side_def eth_side_def azr.relayed_other [OF _ quiet_elsewhere(1)])
next
  case (eth_elsewhere b w')
  then show ?case
    by (simp add: azero_side_def eth_side_def ethr.relayed_other [OF _ quiet_elsewhere(2)])
qed

text \<open>The amount of one token in a list of requests.\<close>

definition total_of :: "bytes32 \<Rightarrow> ('c \<times> bytes32 \<times> 'n::len word \<times> bytes32 \<times> 'c) list \<Rightarrow> nat" where
  "total_of t ds = (\<Sum>(c, tk, a, r, n) \<leftarrow> ds. if tk = t then unat a else 0)"

lemma sum_set_le: "(\<Sum>x \<in> set xs. f x :: nat) \<le> (\<Sum>x \<leftarrow> xs. f x)"
proof (induction xs)
  case (Cons x xs)
  then show ?case by (cases "x \<in> set xs") (auto simp: insert_absorb intro: trans_le_add2)
qed simp

text \<open>Calls that are no votes.\<close>

lemma azero_called_other:
  assumes "bridge_run ch ev gs b" "\<not> is_receive k" "fits_usize k" "dispatch ch env k (br_azero b) = Inr ((), s')"
  shows "bridge_run ch ev gs (b\<lparr>br_azero := s'\<rparr>)"
proof -
  have none: "azero_submission ch k = None" using assms(2) by (cases k) auto
  have "azero_trusted ch (honest_azero gs) k (br_azero b) s'" by (simp add: azero_trusted_def none)
  from azero_called [OF assms(1,3,4) _ this] assms(2) show ?thesis by (simp add: azero_call_step_def none)
qed

lemma eth_called_other:
  assumes "bridge_run ch ev gs b" "\<not> is_receiveRequest k" "fits_calldata k" "sol_dispatch ev msg k (br_eth b) = Inr ((), s')"
  shows "bridge_run ch ev gs (b\<lparr>br_eth := s'\<rparr>)"
proof -
  have none: "eth_submission ev k = None" using assms(2) by (cases k) auto
  have "eth_trusted ev (honest_eth gs) k (br_eth b) s'" by (simp add: eth_trusted_def none)
  from eth_called [OF assms(1,3,4) _ this] assms(2) show ?thesis by (simp add: eth_call_step_def none)
qed

end
