(* ===== verification/Bridge_Properties.thy ===== *)
theory Bridge_Properties
  imports Bridge_System
begin

text \<open>
  The properties of the system of \<open>Bridge_System\<close>, with two concrete runs of it: a request of
  Ethereum that is executed on Aleph Zero, and one of Aleph Zero that is executed on Ethereum. In
  both, the guardians 1 and 3 are honest and the guardian 2 is not.
\<close>

section \<open>Two runs\<close>

definition demo_guardians :: "(bool \<times> nat) guardians" where
  "demo_guardians = \<lparr>honest_azero = {1, 3}, honest_eth = {1, 3}, g_accounts = relay_accounts,
     g_node = (\<lambda>_. relay_node), g_config = (\<lambda>_. relay_config), g_abi_encode = (\<lambda>ts. concat (map static_word ts))\<rparr>"

text \<open>On Ethereum the token 7 is listed and 10 units of it are sent.\<close>

definition sol_demo_listed :: "bool most_sol_ctx" where
  "sol_demo_listed = sol_demo_start\<lparr>storage := (storage sol_demo_start)\<lparr>am_supportedPairs := (\<lambda>_. 0)(7 := 5)\<rparr>\<rparr>"

definition sol_demo_sent :: "bool most_sol_ctx" where
  "sol_demo_sent = sol_demo_listed\<lparr>storage := (storage sol_demo_listed)\<lparr>am_requestNonce := 1\<rparr>, world := False,
     events := [Sol_CrosschainTransferRequest 0 5 10 6 0]\<rparr>"

lemma sol_demo_sends:
  "sol_dispatch demo_evm (sol_demo_msg 9) (AddPair 7 5 False) sol_demo_start = Inr ((), sol_demo_listed)"
  "sol_dispatch demo_evm (sol_demo_msg 9) Sol_Unpause sol_demo_listed = Inr ((), sol_demo_listed\<lparr>world := False\<rparr>)"
  "sol_dispatch demo_evm (sol_demo_msg 1) (SendRequest 7 10 6) (sol_demo_listed\<lparr>world := False\<rparr>) = Inr ((), sol_demo_sent)"
  by (simp_all add: sol_dispatch_def addPair_def sol_unpause_def sendRequest_def emitRequest_def checkTransferAllowed_def
      sol_eval_simps demo_evm_def sol_demo_defs sol_demo_listed_def sol_demo_sent_def checked_add_def fun_eq_iff
      blank_most_def blank_storage_def AbstractMost.defs Most_sol.defs)

lemma sol_demo_sent_run: "sol_run demo_evm sol_demo_sent"
  by (rule sol_called [OF sol_called [OF sol_called [OF sol_demo_start_run _ sol_demo_sends(1)]
        _ sol_demo_sends(2)] _ sol_demo_sends(3)]) simp_all

definition to_azero :: "demo_world most_ctx \<Rightarrow> (demo_world, bool) bridge" where
  "to_azero s = \<lparr>br_azero = s, br_eth = sol_demo_sent, azero_submitted = {}, azero_executed = [],
     eth_submitted = {}, eth_executed = []\<rparr>"

lemma demo_vote_1: "relays_eth demo_keccak demo_guardians 1 (events sol_demo_sent) (Receive_request 77 0 5 10 6 0)"
proof -
  have "vote_message relay_vote = Receive_request 77 0 5 10 6 0" by (simp add: vote_message_def relay_vote_def)
  moreover have "Sol_CrosschainTransferRequest 0 5 10 6 0 \<in> set (events sol_demo_sent)" by (simp add: sol_demo_sent_def)
  ultimately show ?thesis
    using relay_prepare [unfolded relay_event_def] unfolding relays_eth_def demo_guardians_def by fastforce
qed

definition paid_on_azero :: "(demo_world, bool) bridge" where
  "paid_on_azero = (to_azero demo_done)\<lparr>azero_submitted := {(0, 5, 10, 6, 0)}, azero_executed := [(0, 5, 10, 6, 0)]\<rparr>"

lemma demo_submission: "azero_submission demo_chain (Receive_request 77 0 5 10 6 0) = Some (0, 5, 10, 6, 0)"
  by (simp add: azero_hash_def hash_request_data_def demo_chain_def demo_keccak_def)

lemma paid_on_azero_run: "bridge_run demo_chain demo_evm demo_guardians paid_on_azero"
proof -
  let ?k = "Receive_request 77 0 5 10 6 0"
  have "bridge_run demo_chain demo_evm demo_guardians (to_azero demo_start)"
    unfolding to_azero_def
    by (rule bridge_deployed [OF demo_start_run _ sol_demo_sent_run])
      (simp_all add: most_init_def sol_start_def demo_state_defs sol_demo_sent_def sol_demo_listed_def sol_demo_defs
        processed_hashes_def)
  from azero_called_other [OF this, of "Set_halted False" "demo_env 9 0" demo_open] demo_step_open
  have opened: "bridge_run demo_chain demo_evm demo_guardians (to_azero demo_open)" by (simp add: to_azero_def)
  have open_eth: "events (br_eth (to_azero demo_open)) = events sol_demo_sent"
    and open_azero: "br_azero (to_azero demo_open) = demo_open" by (simp_all add: to_azero_def)
  have k: "chain_keccak256 demo_chain = demo_keccak" by (simp add: demo_chain_def)
  have "azero_trusted demo_chain (honest_azero demo_guardians) ?k demo_open demo_voted"
    by (simp add: azero_trusted_def demo_state_defs)
  with azero_called [OF opened, of ?k "demo_env 1 0" demo_voted] demo_vote_1 dispatch_receiveI [OF _ demo_step_voted]
  have voted: "bridge_run demo_chain demo_evm demo_guardians (azero_call_step demo_chain ?k demo_voted (to_azero demo_open))"
    by (simp add: open_eth open_azero k demo_env_def)
  have "members_of (storage demo_done) 0 - {1, 3} = {2}" by (auto simp: demo_state_defs members_of_def)
  then have "azero_trusted demo_chain (honest_azero demo_guardians) ?k demo_voted demo_done"
    unfolding azero_trusted_def demo_submission
    by (simp add: demo_guardians_def threshold_of_def) (simp add: demo_state_defs)
  with azero_called [OF voted, of ?k "demo_env 2 0" demo_done] dispatch_receiveI [OF _ demo_step_done]
  have final: "bridge_run demo_chain demo_evm demo_guardians
      (azero_call_step demo_chain ?k demo_done (azero_call_step demo_chain ?k demo_voted (to_azero demo_open)))"
    by (simp add: demo_env_def demo_guardians_def)
  have "azero_call_step demo_chain ?k demo_done (azero_call_step demo_chain ?k demo_voted (to_azero demo_open)) = paid_on_azero"
    unfolding azero_call_step_def demo_submission paid_on_azero_def to_azero_def by (simp add: demo_state_defs)
  with final show ?thesis by simp
qed

text \<open>The other direction: the request that \<open>Most_Economy\<close> sends on Aleph Zero.\<close>

definition to_eth :: "demo_world most_ctx \<Rightarrow> (demo_world, bool) bridge" where
  "to_eth s = \<lparr>br_azero = s, br_eth = sol_demo_open, azero_submitted = {}, azero_executed = [],
     eth_submitted = {}, eth_executed = []\<rparr>"

definition paid_on_eth :: "(demo_world, bool) bridge" where
  "paid_on_eth = (to_eth demo_sent)\<lparr>br_eth := sol_demo_done, eth_submitted := {(0, 55, 10, 6, 0)},
     eth_executed := [(0, 55, 10, 6, 0)]\<rparr>"

lemma demo_eth_votes:
  "sol_dispatch demo_evm (sol_demo_msg 1) (ReceiveRequest 77 0 55 10 6 0) sol_demo_open = Inr ((), sol_demo_voted)"
  "sol_dispatch demo_evm (sol_demo_msg 2) (ReceiveRequest 77 0 55 10 6 0) sol_demo_voted = Inr ((), sol_demo_done)"
  by (simp_all add: sol_dispatch_def receiveRequest_def onReceiveRequestThresholdMet_def payOut_def
      isInCommittee_def sol_eval_simps demo_evm_def sol_demo_defs sol_demo_members_def blank_request_def
      checked_add_def bytes32ToAddress_def word_le_nat_alt blank_most_def blank_storage_def AbstractMost.defs Most_sol.defs)

lemma demo_eth_submission: "eth_submission demo_evm (ReceiveRequest 77 0 55 10 6 0) = Some (0, 55, 10, 6, 0)"
  by (simp add: eth_hash_def demo_evm_def)

lemma demo_eth_vote_1: "relays_azero demo_eth_keccak demo_guardians (events demo_sent) (ReceiveRequest 77 0 55 10 6 0)"
proof -
  let ?d = "\<lparr>cr_committee_id = 0, cr_dest_token_address = 55, cr_amount = 10, cr_dest_receiver_address = 6, cr_request_nonce = 0\<rparr>"
  have "azero_request_hash demo_eth_keccak (g_abi_encode demo_guardians) ?d = 77"
    by (simp add: azero_request_hash_def demo_guardians_def demo_eth_keccak_def)
  then have "ReceiveRequest 77 0 55 10 6 0 =
      eth_vote_message (azero_vote_call (azero_request_hash demo_eth_keccak (g_abi_encode demo_guardians) ?d) ?d)"
    by (simp add: eth_vote_message_def azero_vote_call_def)
  moreover have "CrosschainTransferRequest 0 55 10 6 0 \<in> set (events demo_sent)" by (simp add: demo_send_defs)
  ultimately show ?thesis
    using request_event_decodes [of 0 55 10 6 0] unfolding relays_azero_def by blast
qed

lemma paid_on_eth_run: "bridge_run demo_chain demo_evm demo_guardians paid_on_eth"
proof -
  let ?k = "ReceiveRequest 77 0 55 10 6 0" and ?w = "demo_start\<lparr>storage := demo_most\<lparr>m_wazero := Some 50\<rparr>\<rparr>"
  have "bridge_run demo_chain demo_evm demo_guardians (to_eth demo_start)"
    unfolding to_eth_def
    by (rule bridge_deployed [OF demo_start_run _ sol_demo_runs(1)])
      (simp_all add: most_init_def sol_start_def demo_state_defs sol_demo_defs processed_hashes_def)
  with azero_called_other [of demo_chain demo_evm demo_guardians "to_eth demo_start" "Set_wazero 50" "demo_env 9 0" ?w]
    demo_step_wazero
  have "bridge_run demo_chain demo_evm demo_guardians (to_eth ?w)" by (simp add: to_eth_def)
  with azero_called_other [of demo_chain demo_evm demo_guardians "to_eth ?w" "Add_pair 5 55 False" "demo_env 9 0" demo_listed]
    demo_step_pair
  have "bridge_run demo_chain demo_evm demo_guardians (to_eth demo_listed)" by (simp add: to_eth_def)
  with azero_called_other [of demo_chain demo_evm demo_guardians "to_eth demo_listed" "Set_halted False" "demo_env 9 0" demo_ready]
    demo_step_ready
  have "bridge_run demo_chain demo_evm demo_guardians (to_eth demo_ready)" by (simp add: to_eth_def)
  with azero_called_other [of demo_chain demo_evm demo_guardians "to_eth demo_ready" "Send_request 5 10 6" "demo_env 4 500" demo_sent]
    demo_step_sent
  have sent: "bridge_run demo_chain demo_evm demo_guardians (to_eth demo_sent)" by (simp add: to_eth_def dispatch_payable)
  have sent_eth: "br_eth (to_eth demo_sent) = sol_demo_open" "events (br_azero (to_eth demo_sent)) = events demo_sent"
    by (simp_all add: to_eth_def)
  have k: "evm_keccak256 demo_evm = demo_eth_keccak" by (simp add: demo_evm_def)
  have "eth_trusted demo_evm (honest_eth demo_guardians) ?k sol_demo_open sol_demo_voted"
    by (simp add: eth_trusted_def sol_demo_defs sol_processed_def)
  with eth_called [OF sent, of ?k "sol_demo_msg 1" sol_demo_voted] demo_eth_vote_1 demo_eth_votes(1)
  have voted: "bridge_run demo_chain demo_evm demo_guardians (eth_call_step demo_evm ?k sol_demo_voted (to_eth demo_sent))"
    by (simp add: sent_eth k)
  have "sol_members demo_evm (storage sol_demo_done) 0 - {1, 3} \<subseteq> {2}"
  proof
    fix g assume "g \<in> sol_members demo_evm (storage sol_demo_done) 0 - {1, 3}"
    then have "(ucast g :: bytes32) = ucast (2 :: H160)" "g \<noteq> 1" "g \<noteq> 3"
      using demo_ids_inject [of g 1] demo_ids_inject [of g 3]
      by (auto simp: sol_members_def isInCommittee_def demo_evm_def sol_demo_defs sol_demo_members_def split: if_splits)
    with demo_ids_inject show "g \<in> {2}" by blast
  qed
  then have "card (sol_members demo_evm (storage sol_demo_done) 0 - {1, 3}) \<le> card {2 :: H160}" by (rule card_mono [rotated]) simp
  then have "eth_trusted demo_evm (honest_eth demo_guardians) ?k sol_demo_voted sol_demo_done"
    unfolding eth_trusted_def demo_eth_submission
    by (simp add: demo_guardians_def sol_threshold_def) (simp add: sol_demo_defs)
  with eth_called [OF voted, of ?k "sol_demo_msg 2" sol_demo_done] demo_eth_votes(2)
  have final: "bridge_run demo_chain demo_evm demo_guardians
      (eth_call_step demo_evm ?k sol_demo_done (eth_call_step demo_evm ?k sol_demo_voted (to_eth demo_sent)))"
    by (simp add: demo_guardians_def sol_demo_msg_def)
  have "eth_call_step demo_evm ?k sol_demo_done (eth_call_step demo_evm ?k sol_demo_voted (to_eth demo_sent)) = paid_on_eth"
    unfolding eth_call_step_def demo_eth_submission paid_on_eth_def to_eth_def by (simp add: sol_demo_defs sol_processed_def)
  with final show ?thesis by simp
qed

section \<open>Properties\<close>

lemma total_of_le:
  assumes "distinct ds" "set ds \<subseteq> set es"
  shows "total_of t ds \<le> total_of t es"
proof -
  let ?f = "\<lambda>(c, tk, a, r, n). if tk = t then unat a else 0"
  have "total_of t ds = (\<Sum>d \<in> set ds. ?f d)" using assms(1) by (simp add: total_of_def sum_list_distinct_conv_sum_set)
  also have "\<dots> \<le> (\<Sum>d \<in> set es. ?f d)" using assms(2) by (intro sum_mono2) simp_all
  also have "\<dots> \<le> total_of t es" unfolding total_of_def by (rule sum_set_le)
  finally show ?thesis .
qed

text \<open>
  C4 (what is paid out on Ethereum was requested on Aleph Zero). Take any run of the two contracts in
  which honest guardians vote as the relayer does, all others do what they like, every committee that executes a
  request has fewer dishonest members than its threshold, and no two requests submitted to the
  Ethereum contract collide under the hash function. The requests that the
  Ethereum contract has executed are pairwise different, they are the ones it reports as processed, and each
  of them is, field by field, a request that an event of the Aleph Zero contract made; and of
  no token has more been executed than was requested.
\<close>

theorem eth_executes_only_requested:
  assumes run: "bridge_run ch ev gs b" and no_collision: "inj_on (eth_hash ev) (eth_submitted b)"
  shows "distinct (eth_executed b) \<and>
    {h. am_processedRequests (storage (br_eth b)) h} = eth_hash ev ` set (eth_executed b) \<and>
    set (eth_executed b) \<subseteq> set (azero_requests (events (br_azero b))) \<and>
    total_of t (eth_executed b) \<le> total_of t (azero_requests (events (br_azero b)))"
proof -
  have "eth_side ev gs b" using bridge_run_sides [OF run] by blast
  from ethr.relayed_executed [OF this [unfolded eth_side_def] no_collision] total_of_le show ?thesis
    by (auto simp: sol_processed_def)
qed

theorem eth_executes_only_requested_witness:
  "bridge_run demo_chain demo_evm demo_guardians paid_on_eth \<and> eth_executed paid_on_eth = [(0, 55, 10, 6, 0)] \<and>
   (0, 55, 10, 6, 0) \<in> set (azero_requests (events demo_sent))"
proof -
  have "inj_on (eth_hash demo_evm) (eth_submitted paid_on_eth)" by (simp add: paid_on_eth_def)
  from eth_executes_only_requested [OF paid_on_eth_run this] paid_on_eth_run show ?thesis
    by (simp add: paid_on_eth_def to_eth_def)
qed

text \<open>
  C5 (what is paid out on Aleph Zero was requested on Ethereum). In the same runs, when no two requests submitted to
  the Aleph Zero contract collide under the hash function: the requests that the Aleph Zero contract has
  executed are pairwise different, they are its \<open>processed_requests\<close>, each of them is a request that
  an event of the Ethereum contract made, and of no token has more been executed than was requested.
\<close>

theorem azero_executes_only_requested:
  assumes run: "bridge_run ch ev gs b" and no_collision: "inj_on (azero_hash ch) (azero_submitted b)"
  shows "distinct (azero_executed b) \<and>
    m_processed_requests (storage (br_azero b)) = azero_hash ch ` set (azero_executed b) \<and>
    set (azero_executed b) \<subseteq> set (eth_requests (events (br_eth b))) \<and>
    total_of t (azero_executed b) \<le> total_of t (eth_requests (events (br_eth b)))"
proof -
  have "azero_side ch gs b" using bridge_run_sides [OF run] by blast
  from azr.relayed_executed [OF this [unfolded azero_side_def] no_collision] total_of_le show ?thesis by auto
qed

theorem azero_executes_only_requested_witness:
  "bridge_run demo_chain demo_evm demo_guardians paid_on_azero \<and> azero_executed paid_on_azero = [(0, 5, 10, 6, 0)] \<and>
   (0, 5, 10, 6, 0) \<in> set (eth_requests (events sol_demo_sent))"
proof -
  have "inj_on (azero_hash demo_chain) (azero_submitted paid_on_azero)" by (simp add: paid_on_azero_def)
  from azero_executes_only_requested [OF paid_on_azero_run this] paid_on_azero_run show ?thesis
    by (simp add: paid_on_azero_def to_azero_def)
qed

end
