(* ===== verification/Eth_Tokens.thy ===== *)
theory Eth_Tokens
  imports Azero_Relay
begin

text \<open>
  The token contracts on Ethereum that the repository holds: \<open>eth/contracts/WETH9.sol\<close>, the ether that the bridge
  wraps, and \<open>eth/contracts/WrappedToken.sol\<close>, the tokens that it mints and burns. \<open>WETH9\<close> is compiled with Solidity
  0.4, so that its arithmetic wraps. The ERC20 implementation and the ownership of \<open>WrappedToken\<close> are
  OpenZeppelin's: the record \<open>erc20\<close> is a parameter, and the predicate \<open>erc20_laws\<close> states what its
  documentation promises about the total supply.
\<close>

section \<open>WETH9\<close>

record WETH9 =
  weth_balanceOf :: "H160 \<Rightarrow> u256"
  weth_allowance :: "H160 \<Rightarrow> H160 \<Rightarrow> u256"
  weth_ether :: nat

datatype weth_event =
    Weth_Approval H160 H160 u256
  | Weth_Transfer H160 H160 u256
  | Weth_Deposit H160 u256
  | Weth_Withdrawal H160 u256

type_synonym 'w weth_ctx = "(WETH9, weth_event, 'w) ctx"
type_synonym ('w, 'r) weth_fun = "('w weth_ctx, sol_error, 'r) contract"

text \<open>
  The value of a payable call is in the contract's ether balance before its code runs. The
  fallback function is the same function. The other functions are not payable: the value of their calls is zero.
\<close>

definition deposit :: "sol_msg \<Rightarrow> ('w, unit) weth_fun" where
  "deposit msg =
     andThen (put_storage (\<lambda>m. m\<lparr>weth_ether := weth_ether m + unat (msg_value msg)\<rparr>)) (\<lambda>_.
     andThen (put_storage (\<lambda>m. m\<lparr>weth_balanceOf := (weth_balanceOf m)
       (msg_sender msg := weth_balanceOf m (msg_sender msg) + msg_value msg)\<rparr>)) (\<lambda>_.
     emit_event (Weth_Deposit (msg_sender msg) (msg_value msg))))"

text \<open>
  \<open>accepts\<close> is the call of the receiver with the 2300 gas of \<open>transfer\<close>: \<open>None\<close> when it fails,
  as it does when the contract has not enough ether.
\<close>

definition transfer_ether :: "(H160 \<Rightarrow> u256 \<Rightarrow> 'w \<Rightarrow> 'w option) \<Rightarrow> H160 \<Rightarrow> u256 \<Rightarrow> ('w, unit) weth_fun" where
  "transfer_ether accepts to wad =
     andThen (gets (\<lambda>s. weth_ether (storage s))) (\<lambda>ether.
     andThen (ensure (unat wad \<le> ether) CallReverted) (\<lambda>_.
     andThen (put_storage (\<lambda>m. m\<lparr>weth_ether := weth_ether m - unat wad\<rparr>)) (\<lambda>_.
     call_world (\<lambda>w. case accepts to wad w of None \<Rightarrow> Inl (Err CallReverted) | Some w' \<Rightarrow> Inr w'))))"

definition withdraw :: "(H160 \<Rightarrow> u256 \<Rightarrow> 'w \<Rightarrow> 'w option) \<Rightarrow> sol_msg \<Rightarrow> u256 \<Rightarrow> ('w, unit) weth_fun" where
  "withdraw accepts msg wad =
     andThen (gets (\<lambda>s. weth_balanceOf (storage s) (msg_sender msg))) (\<lambda>balance.
     andThen (ensure (wad \<le> balance) (SolRequire '''')) (\<lambda>_.
     andThen (put_storage (\<lambda>m. m\<lparr>weth_balanceOf := (weth_balanceOf m)
       (msg_sender msg := weth_balanceOf m (msg_sender msg) - wad)\<rparr>)) (\<lambda>_.
     andThen (transfer_ether accepts (msg_sender msg) wad) (\<lambda>_.
     emit_event (Weth_Withdrawal (msg_sender msg) wad)))))"

definition weth_totalSupply :: "WETH9 \<Rightarrow> nat" where
  "weth_totalSupply m = weth_ether m"

definition weth_approve :: "sol_msg \<Rightarrow> H160 \<Rightarrow> u256 \<Rightarrow> ('w, bool) weth_fun" where
  "weth_approve msg guy wad =
     andThen (put_storage (\<lambda>m. m\<lparr>weth_allowance := (weth_allowance m)
       (msg_sender msg := (weth_allowance m (msg_sender msg))(guy := wad))\<rparr>)) (\<lambda>_.
     andThen (emit_event (Weth_Approval (msg_sender msg) guy wad)) (\<lambda>_. ret True))"

definition weth_transferFrom :: "sol_msg \<Rightarrow> H160 \<Rightarrow> H160 \<Rightarrow> u256 \<Rightarrow> ('w, bool) weth_fun" where
  "weth_transferFrom msg src dst wad =
     andThen (gets (\<lambda>s. weth_balanceOf (storage s) src)) (\<lambda>balance.
     andThen (ensure (wad \<le> balance) (SolRequire '''')) (\<lambda>_.
     andThen (gets (\<lambda>s. weth_allowance (storage s) src (msg_sender msg))) (\<lambda>allowance.
     andThen (if src \<noteq> msg_sender msg \<and> allowance \<noteq> - 1 then
         andThen (ensure (wad \<le> allowance) (SolRequire '''')) (\<lambda>_.
         put_storage (\<lambda>m. m\<lparr>weth_allowance := (weth_allowance m)
           (src := (weth_allowance m src)(msg_sender msg := weth_allowance m src (msg_sender msg) - wad))\<rparr>))
       else ret ()) (\<lambda>_.
     andThen (put_storage (\<lambda>m. m\<lparr>weth_balanceOf := (weth_balanceOf m)(src := weth_balanceOf m src - wad)\<rparr>)) (\<lambda>_.
     andThen (put_storage (\<lambda>m. m\<lparr>weth_balanceOf := (weth_balanceOf m)(dst := weth_balanceOf m dst + wad)\<rparr>)) (\<lambda>_.
     andThen (emit_event (Weth_Transfer src dst wad)) (\<lambda>_. ret True)))))))"

definition weth_transfer :: "sol_msg \<Rightarrow> H160 \<Rightarrow> u256 \<Rightarrow> ('w, bool) weth_fun" where
  "weth_transfer msg dst wad = weth_transferFrom msg (msg_sender msg) dst wad"

datatype weth_call =
    Weth_deposit
  | Weth_withdraw u256
  | Weth_approve H160 u256
  | Weth_transfer_call H160 u256
  | Weth_transferFrom H160 H160 u256

fun weth_function :: "(H160 \<Rightarrow> u256 \<Rightarrow> 'w \<Rightarrow> 'w option) \<Rightarrow> sol_msg \<Rightarrow> weth_call \<Rightarrow> ('w, unit) weth_fun" where
  "weth_function accepts msg Weth_deposit = deposit msg"
| "weth_function accepts msg (Weth_withdraw wad) = withdraw accepts msg wad"
| "weth_function accepts msg (Weth_approve guy wad) = andThen (weth_approve msg guy wad) (\<lambda>_. ret ())"
| "weth_function accepts msg (Weth_transfer_call dst wad) = andThen (weth_transfer msg dst wad) (\<lambda>_. ret ())"
| "weth_function accepts msg (Weth_transferFrom src dst wad) = andThen (weth_transferFrom msg src dst wad) (\<lambda>_. ret ())"

section \<open>Wrapped ether is backed by ether\<close>

definition weth_supply :: "WETH9 \<Rightarrow> nat" where
  "weth_supply m = (\<Sum>a \<in> UNIV. unat (weth_balanceOf m a))"

definition weth_backed :: "WETH9 \<Rightarrow> bool" where
  "weth_backed m \<longleftrightarrow> weth_supply m \<le> weth_ether m \<and> weth_ether m < 2 ^ 256"

lemma sum_update:
  fixes f :: "'a::finite \<Rightarrow> 'b::len word"
  shows "(\<Sum>x \<in> UNIV. unat ((f(a := v)) x)) + unat (f a) = (\<Sum>x \<in> UNIV. unat (f x)) + unat v"
proof -
  have "(\<Sum>x \<in> UNIV. unat ((f(a := v)) x)) = unat v + (\<Sum>x \<in> UNIV - {a}. unat (f x))"
    by (subst sum.remove [of UNIV a]) (auto intro!: sum.cong)
  moreover have "(\<Sum>x \<in> UNIV. unat (f x)) = unat (f a) + (\<Sum>x \<in> UNIV - {a}. unat (f x))"
    by (rule sum.remove) simp_all
  ultimately show ?thesis by simp
qed

lemma unat_add_fits: "unat (x::u256) + unat y < 2 ^ 256 \<Longrightarrow> unat (x + y) = unat x + unat y"
  by (simp add: unat_word_ariths)

lemma balance_le_supply: "unat (weth_balanceOf m a) \<le> weth_supply m"
  unfolding weth_supply_def by (rule member_le_sum) simp_all

text \<open>Moving an amount from one balance to another, possibly the same one, keeps the sum.\<close>

lemma supply_moved:
  assumes "wad \<le> f src" "(\<Sum>a \<in> UNIV. unat (f a)) < 2 ^ 256"
  shows "let g = f(src := f src - wad) in
    (\<Sum>a \<in> UNIV. unat ((g(dst := g dst + wad :: u256)) (a :: H160))) = (\<Sum>a \<in> UNIV. unat (f a))"
proof -
  let ?g = "f(src := f src - wad)"
  have "unat (f src - wad) + unat wad = unat (f src)"
    using assms(1) by (simp add: unat_sub word_le_nat_alt)
  with sum_update [of f src "f src - wad"]
  have g: "(\<Sum>a \<in> UNIV. unat (?g a)) + unat wad = (\<Sum>a \<in> UNIV. unat (f a))" by simp
  have "unat (?g dst) \<le> (\<Sum>a \<in> UNIV. unat (?g a))" by (rule member_le_sum) simp_all
  with g assms(2) have "unat (?g dst + wad) = unat (?g dst) + unat wad" by (intro unat_add_fits) linarith
  with sum_update [of ?g dst "?g dst + wad"] g show ?thesis unfolding Let_def by linarith
qed

lemma weth_transferFrom_Inr:
  assumes "weth_transferFrom msg src dst wad s = Inr (u, s')"
  shows "wad \<le> weth_balanceOf (storage s) src" "weth_ether (storage s') = weth_ether (storage s)"
    "weth_balanceOf (storage s') = (let g = (weth_balanceOf (storage s))(src := weth_balanceOf (storage s) src - wad) in
       g(dst := g dst + wad))"
  using assms by (auto simp: weth_transferFrom_def run_simps Let_def split: if_splits)

lemma weth_transferFrom_backed:
  assumes "weth_transferFrom msg src dst wad s = Inr (u, s')" "weth_backed (storage s)"
  shows "weth_backed (storage s')"
proof -
  note eff = weth_transferFrom_Inr [OF assms(1)]
  have "weth_supply (storage s') = weth_supply (storage s)"
    using supply_moved [of wad "weth_balanceOf (storage s)" src dst] eff(1) assms(2)
    unfolding weth_supply_def eff(3) Let_def weth_backed_def by linarith
  with assms(2) eff(2) show ?thesis by (simp add: weth_backed_def)
qed

lemma weth_function_backed:
  assumes "weth_function accepts msg k s = Inr (u, s')" "weth_backed (storage s)"
    and "k = Weth_deposit \<Longrightarrow> weth_ether (storage s) + unat (msg_value msg) < 2 ^ 256"
  shows "weth_backed (storage s')"
proof (cases k)
  case Weth_deposit
  let ?m = "storage s" and ?g = "msg_sender msg"
  have "unat (weth_balanceOf ?m ?g + msg_value msg) = unat (weth_balanceOf ?m ?g) + unat (msg_value msg)"
    using assms(2,3) Weth_deposit balance_le_supply [of ?m ?g]
    by (intro unat_add_fits) (simp add: weth_backed_def)
  with sum_update [of "weth_balanceOf ?m" ?g "weth_balanceOf ?m ?g + msg_value msg"] assms Weth_deposit show ?thesis
    by (auto simp: weth_backed_def weth_supply_def deposit_def run_simps)
next
  case (Weth_withdraw wad)
  let ?m = "storage s" and ?g = "msg_sender msg"
  from assms(1) Weth_withdraw have le: "wad \<le> weth_balanceOf ?m ?g" "unat wad \<le> weth_ether ?m"
    and s': "weth_balanceOf (storage s') = (weth_balanceOf ?m)(?g := weth_balanceOf ?m ?g - wad)"
      "weth_ether (storage s') = weth_ether ?m - unat wad"
    by (auto simp: withdraw_def transfer_ether_def run_simps split: option.splits)
  have "unat (weth_balanceOf ?m ?g - wad) + unat wad = unat (weth_balanceOf ?m ?g)"
    using le(1) by (simp add: unat_sub word_le_nat_alt)
  with sum_update [of "weth_balanceOf ?m" ?g "weth_balanceOf ?m ?g - wad"] assms(2) le(2) show ?thesis
    unfolding weth_backed_def weth_supply_def s' by linarith
next
  case (Weth_approve guy wad)
  with assms show ?thesis by (auto simp: weth_backed_def weth_supply_def weth_approve_def run_simps)
next
  case (Weth_transfer_call dst wad)
  with assms(1,2) show ?thesis by (auto simp: weth_transfer_def run_simps intro: weth_transferFrom_backed)
next
  case (Weth_transferFrom src dst wad)
  with assms(1,2) show ?thesis by (auto simp: run_simps intro: weth_transferFrom_backed)
qed

text \<open>
  A run of \<open>WETH9\<close> from its deployment with empty balances. Ether can also reach the contract without a call of its
  code; there is less ether than \<open>2 ^ 256\<close> wei.
\<close>

inductive weth_run :: "(H160 \<Rightarrow> u256 \<Rightarrow> 'w \<Rightarrow> 'w option) \<Rightarrow> 'w weth_ctx \<Rightarrow> bool"
  for accepts :: "H160 \<Rightarrow> u256 \<Rightarrow> 'w \<Rightarrow> 'w option" where
  weth_deployed: "e < 2 ^ 256 \<Longrightarrow>
    weth_run accepts \<lparr>storage = \<lparr>weth_balanceOf = (\<lambda>_. 0), weth_allowance = (\<lambda>_ _. 0), weth_ether = e\<rparr>,
      world = w, events = []\<rparr>"
| weth_called: "weth_run accepts s \<Longrightarrow> weth_function accepts msg k s = Inr ((), s') \<Longrightarrow>
    (k = Weth_deposit \<Longrightarrow> weth_ether (storage s) + unat (msg_value msg) < 2 ^ 256) \<Longrightarrow> weth_run accepts s'"
| weth_endowed: "weth_run accepts s \<Longrightarrow> weth_ether (storage s) + e < 2 ^ 256 \<Longrightarrow>
    weth_run accepts (s\<lparr>storage := (storage s)\<lparr>weth_ether := weth_ether (storage s) + e\<rparr>\<rparr>)"
| weth_elsewhere: "weth_run accepts s \<Longrightarrow> weth_run accepts (s\<lparr>world := w\<rparr>)"

lemma weth_run_backed: "weth_run accepts s \<Longrightarrow> weth_backed (storage s)"
proof (induction rule: weth_run.induct)
  case (weth_called s msg k s')
  then show ?case using weth_function_backed by blast
qed (auto simp: weth_backed_def weth_supply_def)

text \<open>
  In every run the balances together are covered by the contract's ether, so that whoever accepts ether can
  withdraw his whole balance or any part of it.
\<close>

lemma weth_can_withdraw:
  assumes "weth_run accepts s" "wad \<le> weth_balanceOf (storage s) (msg_sender msg)"
    "accepts (msg_sender msg) wad (world s) = Some w"
  shows "\<exists>s'. withdraw accepts msg wad s = Inr ((), s') \<and> world s' = w \<and>
    weth_balanceOf (storage s') = (weth_balanceOf (storage s))
      (msg_sender msg := weth_balanceOf (storage s) (msg_sender msg) - wad)"
proof -
  have "unat wad \<le> weth_ether (storage s)"
    using weth_run_backed [OF assms(1)] assms(2) balance_le_supply [of "storage s" "msg_sender msg"]
    by (simp add: weth_backed_def word_le_nat_alt)
  with assms(2,3) show ?thesis by (simp add: withdraw_def transfer_ether_def sol_eval_simps)
qed

text \<open>
  The pay-out of ether by a bridge whose WETH contract is \<open>WETH9\<close>: it does not revert just when the bridge
  has that much wrapped ether and its \<open>receive\<close> function takes it.
\<close>

definition weth_is_WETH9 ::
  "'w evm \<Rightarrow> (H160 \<Rightarrow> u256 \<Rightarrow> 'v \<Rightarrow> 'v option) \<Rightarrow> ('w \<Rightarrow> 'v weth_ctx) \<Rightarrow> ('v weth_ctx \<Rightarrow> 'w \<Rightarrow> 'w) \<Rightarrow> bool" where
  "weth_is_WETH9 ev accepts get put \<longleftrightarrow> (\<forall>weth bridge a w. weth_withdraw ev weth bridge a w =
     (case withdraw accepts \<lparr>msg_sender = bridge, msg_value = 0, this_address = weth\<rparr> a (get w) of
        Inl _ \<Rightarrow> None | Inr (_, s) \<Rightarrow> Some (put s w)))"

lemma ether_pays_out:
  assumes "weth_is_WETH9 ev accepts get put" "weth_run accepts (get (world s))" "bytes32ToAddress t = 0"
    "\<And>w. accepts (this_address msg) a w \<noteq> None"
  shows "pays_out ev msg t a r s \<longleftrightarrow> a \<le> weth_balanceOf (storage (get (world s))) (this_address msg)"
proof -
  let ?s = "get (world s)" and ?b = "this_address msg"
  let ?msg = "\<lparr>msg_sender = ?b, msg_value = 0, this_address = am_wethAddress (storage s)\<rparr>"
  obtain w where w: "accepts ?b a (world ?s) = Some w" using assms(4) by blast
  have "(\<exists>s'. withdraw accepts ?msg a ?s = Inr ((), s')) \<longleftrightarrow> a \<le> weth_balanceOf (storage ?s) ?b"
    using weth_can_withdraw [OF assms(2), of a ?msg w] w by (auto simp: withdraw_def run_simps)
  then show ?thesis
    using assms(1,3) by (auto simp: pays_out_def weth_is_WETH9_def Let_def split: sum.splits)
qed

section \<open>WrappedToken\<close>

record 'd erc20 =
  erc20_totalSupply :: "'d \<Rightarrow> u256"
  erc20_balanceOf :: "'d \<Rightarrow> H160 \<Rightarrow> u256"
  erc20_mint :: "H160 \<Rightarrow> u256 \<Rightarrow> 'd \<Rightarrow> 'd option"
  erc20_burn :: "H160 \<Rightarrow> u256 \<Rightarrow> 'd \<Rightarrow> 'd option"
  erc20_transfer :: "H160 \<Rightarrow> H160 \<Rightarrow> u256 \<Rightarrow> 'd \<Rightarrow> 'd option"
  erc20_transferFrom :: "H160 \<Rightarrow> H160 \<Rightarrow> H160 \<Rightarrow> u256 \<Rightarrow> 'd \<Rightarrow> 'd option"
  erc20_approve :: "H160 \<Rightarrow> H160 \<Rightarrow> u256 \<Rightarrow> 'd \<Rightarrow> 'd option"

definition erc20_laws :: "'d erc20 \<Rightarrow> bool" where
  "erc20_laws p \<longleftrightarrow>
     (\<forall>a v d d'. erc20_mint p a v d = Some d' \<longrightarrow> unat (erc20_totalSupply p d') = unat (erc20_totalSupply p d) + unat v) \<and>
     (\<forall>a v d d'. erc20_burn p a v d = Some d' \<longrightarrow> unat (erc20_totalSupply p d') + unat v = unat (erc20_totalSupply p d)) \<and>
     (\<forall>a b v d d'. erc20_transfer p a b v d = Some d' \<longrightarrow> erc20_totalSupply p d' = erc20_totalSupply p d) \<and>
     (\<forall>a b c v d d'. erc20_transferFrom p a b c v d = Some d' \<longrightarrow> erc20_totalSupply p d' = erc20_totalSupply p d) \<and>
     (\<forall>a b v d d'. erc20_approve p a b v d = Some d' \<longrightarrow> erc20_totalSupply p d' = erc20_totalSupply p d)"

record 'd WrappedToken =
  wt_erc20 :: 'd
  wt_owner :: H160
  wt_decimals :: u8
  wt_minterBurner :: H160

datatype wrapped_error = NotMinter | NotBurner | WT_OwnableUnauthorizedAccount H160 | WT_ERC20

type_synonym ('d, 'r) wrapped_fun = "('d WrappedToken, wrapped_error, 'r) contract"

definition WrappedToken_new :: "'d \<Rightarrow> sol_msg \<Rightarrow> u8 \<Rightarrow> H160 \<Rightarrow> 'd WrappedToken" where
  "WrappedToken_new blank msg decimals minter_burner =
     \<lparr>wt_erc20 = blank, wt_owner = msg_sender msg, wt_decimals = decimals, wt_minterBurner = minter_burner\<rparr>"

definition on_erc20 :: "('d \<Rightarrow> 'd option) \<Rightarrow> ('d, unit) wrapped_fun" where
  "on_erc20 f m = (case f (wt_erc20 m) of None \<Rightarrow> Inl (Err WT_ERC20) | Some d \<Rightarrow> Inr ((), m\<lparr>wt_erc20 := d\<rparr>))"

definition onlyMinter :: "sol_msg \<Rightarrow> ('d, unit) wrapped_fun" where
  "onlyMinter msg = andThen (gets wt_minterBurner) (\<lambda>m. ensure (msg_sender msg = m) NotMinter)"

definition onlyBurner :: "sol_msg \<Rightarrow> ('d, unit) wrapped_fun" where
  "onlyBurner msg = andThen (gets wt_minterBurner) (\<lambda>m. ensure (msg_sender msg = m) NotBurner)"

definition mint :: "'d erc20 \<Rightarrow> sol_msg \<Rightarrow> H160 \<Rightarrow> u256 \<Rightarrow> ('d, unit) wrapped_fun" where
  "mint p msg to amount = andThen (onlyMinter msg) (\<lambda>_. on_erc20 (erc20_mint p to amount))"

definition burn :: "'d erc20 \<Rightarrow> sol_msg \<Rightarrow> u256 \<Rightarrow> ('d, unit) wrapped_fun" where
  "burn p msg amount = andThen (onlyBurner msg) (\<lambda>_. on_erc20 (erc20_burn p (msg_sender msg) amount))"

definition setMinterBurner :: "sol_msg \<Rightarrow> H160 \<Rightarrow> ('d, unit) wrapped_fun" where
  "setMinterBurner msg minter_burner =
     andThen (gets wt_owner) (\<lambda>owner.
     andThen (ensure (msg_sender msg = owner) (WT_OwnableUnauthorizedAccount (msg_sender msg))) (\<lambda>_.
     modify (\<lambda>m. m\<lparr>wt_minterBurner := minter_burner\<rparr>)))"

datatype wrapped_call =
    Wt_mint H160 u256
  | Wt_burn u256
  | Wt_setMinterBurner H160
  | Wt_transfer H160 u256
  | Wt_transferFrom H160 H160 u256
  | Wt_approve H160 u256

text \<open>The last three are inherited from \<open>ERC20\<close>.\<close>

fun wrapped_function :: "'d erc20 \<Rightarrow> sol_msg \<Rightarrow> wrapped_call \<Rightarrow> ('d, unit) wrapped_fun" where
  "wrapped_function p msg (Wt_mint to amount) = mint p msg to amount"
| "wrapped_function p msg (Wt_burn amount) = burn p msg amount"
| "wrapped_function p msg (Wt_setMinterBurner m) = setMinterBurner msg m"
| "wrapped_function p msg (Wt_transfer to v) = on_erc20 (erc20_transfer p (msg_sender msg) to v)"
| "wrapped_function p msg (Wt_transferFrom f to v) = on_erc20 (erc20_transferFrom p (msg_sender msg) f to v)"
| "wrapped_function p msg (Wt_approve to v) = on_erc20 (erc20_approve p (msg_sender msg) to v)"

text \<open>
  With an ERC20 implementation that keeps its promises, only the minter changes the total supply, by exactly the
  amount minted or burned, and what is burned is taken from himself; only the owner changes the minter.
\<close>

lemma wrapped_supply_controlled:
  assumes "erc20_laws p" "wrapped_function p msg k m = Inr (u, m')"
  shows "wt_minterBurner m' \<noteq> wt_minterBurner m \<Longrightarrow> msg_sender msg = wt_owner m"
    and "erc20_totalSupply p (wt_erc20 m') \<noteq> erc20_totalSupply p (wt_erc20 m) \<Longrightarrow> msg_sender msg = wt_minterBurner m \<and>
      (case k of
         Wt_mint to v \<Rightarrow> unat (erc20_totalSupply p (wt_erc20 m')) = unat (erc20_totalSupply p (wt_erc20 m)) + unat v
       | Wt_burn v \<Rightarrow> unat (erc20_totalSupply p (wt_erc20 m')) + unat v = unat (erc20_totalSupply p (wt_erc20 m))
       | _ \<Rightarrow> False)"
  using assms unfolding erc20_laws_def
  by (cases k; auto simp: mint_def burn_def setMinterBurner_def onlyMinter_def onlyBurner_def on_erc20_def run_simps
      split: option.splits)+

end
