(* ===== verification/Stable_Swap.thy ===== *)
theory Stable_Swap
  imports Eth_Most_L2 "HOL-Library.Monad_Syntax"
begin

text \<open>
  The swap of the pool that the second layer bridge uses, \<open>eth/contracts/StableSwap/StableSwapTwoPool.sol\<close>: the
  invariant \<open>get_D\<close> and the new balance \<open>get_y\<close>, both computed by Newton's method in at most 255
  rounds, and \<open>exchange\<close> (\<open>pool_exchange\<close> here) with its two entry points. Arithmetic is checked: \<open>None\<close> is a panic (an overflow
  or a division by zero), a failed \<open>require\<close> or a failed transfer. Liquidity and administration of the pool are left out. Arrays
  of two entries are functions of the index.
\<close>

section \<open>State\<close>

record StableSwapTwoPool =
  ss_RATES :: "nat \<Rightarrow> u256"
  ss_coins :: "nat \<Rightarrow> H160"
  ss_balances :: "nat \<Rightarrow> u256"
  ss_fee :: u256
  ss_admin_fee :: u256
  ss_support_native :: bool
  ss_initial_A :: u256
  ss_future_A :: u256
  ss_initial_A_time :: u256
  ss_future_A_time :: u256
  ss_is_killed :: bool

definition N_COINS :: u256 where
  "N_COINS = 2"

definition PRECISION :: u256 where
  "PRECISION = 1000000000000000000"

definition FEE_DENOMINATOR :: u256 where
  "FEE_DENOMINATOR = 10000000000"

definition NATIVE_ADDRESS :: H160 where
  "NATIVE_ADDRESS = 0xEeeeeEeeeEeEeeEeEeEeeEEEeeeeEeeeeeeeEEeE"

section \<open>Invariant and price\<close>

definition get_amplification_coefficient :: "u256 \<Rightarrow> StableSwapTwoPool \<Rightarrow> u256 option" where
  "get_amplification_coefficient timestamp p =
     (let t1 = ss_future_A_time p; A1 = ss_future_A p in
      if timestamp < t1 then
        let A0 = ss_initial_A p; t0 = ss_initial_A_time p in
        if A0 < A1 then
          do { d \<leftarrow> checked_sub A1 A0; e \<leftarrow> checked_sub timestamp t0; m \<leftarrow> checked_mul d e;
               l \<leftarrow> checked_sub t1 t0; q \<leftarrow> checked_div m l; checked_add A0 q }
        else
          do { d \<leftarrow> checked_sub A0 A1; e \<leftarrow> checked_sub timestamp t0; m \<leftarrow> checked_mul d e;
               l \<leftarrow> checked_sub t1 t0; q \<leftarrow> checked_div m l; checked_sub A0 q }
      else Some A1)"

definition xp_mem_at :: "StableSwapTwoPool \<Rightarrow> (nat \<Rightarrow> u256) \<Rightarrow> nat \<Rightarrow> u256 option" where
  "xp_mem_at p balances i = do { m \<leftarrow> checked_mul (ss_RATES p i) (balances i); checked_div m PRECISION }"

definition xp_mem :: "StableSwapTwoPool \<Rightarrow> (nat \<Rightarrow> u256) \<Rightarrow> (nat \<Rightarrow> u256) option" where
  "xp_mem p balances = do { x0 \<leftarrow> xp_mem_at p balances 0; x1 \<leftarrow> xp_mem_at p balances 1; Some (\<lambda>i. if i = 0 then x0 else x1) }"

text \<open>The test that ends both loops.\<close>

definition within_one :: "u256 \<Rightarrow> u256 \<Rightarrow> bool" where
  "within_one x prev = (if prev < x then x - prev \<le> 1 else prev - x \<le> 1)"

definition next_D_P :: "u256 \<Rightarrow> u256 \<Rightarrow> u256 \<Rightarrow> u256 option" where
  "next_D_P D D_P x = do { n \<leftarrow> checked_mul D_P D; d \<leftarrow> checked_mul x N_COINS; checked_div n d }"

definition next_D :: "u256 \<Rightarrow> u256 \<Rightarrow> u256 \<Rightarrow> u256 \<Rightarrow> u256 option" where
  "next_D Ann S D_P D = do {
     a \<leftarrow> checked_mul Ann S; b \<leftarrow> checked_mul D_P N_COINS; ab \<leftarrow> checked_add a b; n \<leftarrow> checked_mul ab D;
     a1 \<leftarrow> checked_sub Ann 1; c \<leftarrow> checked_mul a1 D; n1 \<leftarrow> checked_add N_COINS 1; e \<leftarrow> checked_mul n1 D_P;
     d \<leftarrow> checked_add c e; checked_div n d }"

fun get_D_loop :: "nat \<Rightarrow> (nat \<Rightarrow> u256) \<Rightarrow> u256 \<Rightarrow> u256 \<Rightarrow> u256 \<Rightarrow> u256 option" where
  "get_D_loop 0 xp Ann S D = Some D"
| "get_D_loop (Suc j) xp Ann S D = do {
     D_P0 \<leftarrow> next_D_P D D (xp 0);
     D_P \<leftarrow> next_D_P D D_P0 (xp 1);
     D' \<leftarrow> next_D Ann S D_P D;
     if within_one D' D then Some D' else get_D_loop j xp Ann S D' }"

definition get_D :: "(nat \<Rightarrow> u256) \<Rightarrow> u256 \<Rightarrow> u256 option" where
  "get_D xp amp = do {
     S \<leftarrow> checked_add (xp 0) (xp 1);
     if S = 0 then Some 0
     else do { Ann \<leftarrow> checked_mul amp N_COINS; get_D_loop 255 xp Ann S S } }"

definition next_y :: "u256 \<Rightarrow> u256 \<Rightarrow> u256 \<Rightarrow> u256 \<Rightarrow> u256 option" where
  "next_y b c D y = do {
     yy \<leftarrow> checked_mul y y; n \<leftarrow> checked_add yy c;
     y2 \<leftarrow> checked_mul 2 y; yb \<leftarrow> checked_add y2 b; d \<leftarrow> checked_sub yb D; checked_div n d }"

fun get_y_loop :: "nat \<Rightarrow> u256 \<Rightarrow> u256 \<Rightarrow> u256 \<Rightarrow> u256 \<Rightarrow> u256 option" where
  "get_y_loop 0 b c D y = Some y"
| "get_y_loop (Suc m) b c D y = do {
     y' \<leftarrow> next_y b c D y;
     if within_one y' y then Some y' else get_y_loop m b c D y' }"

text \<open>
  With two coins the loop over \<open>k\<close> adds only the new balance \<open>x\<close> of the coin \<open>i\<close>.
\<close>

definition get_y :: "u256 \<Rightarrow> StableSwapTwoPool \<Rightarrow> nat \<Rightarrow> nat \<Rightarrow> u256 \<Rightarrow> (nat \<Rightarrow> u256) \<Rightarrow> u256 option" where
  "get_y timestamp p i j x xp =
     (if i \<noteq> j \<and> i < 2 \<and> j < 2 then do {
        amp \<leftarrow> get_amplification_coefficient timestamp p;
        D \<leftarrow> get_D xp amp;
        Ann \<leftarrow> checked_mul amp N_COINS;
        cD \<leftarrow> checked_mul D D; xn \<leftarrow> checked_mul x N_COINS; c1 \<leftarrow> checked_div cD xn;
        c1D \<leftarrow> checked_mul c1 D; an \<leftarrow> checked_mul Ann N_COINS; c \<leftarrow> checked_div c1D an;
        q \<leftarrow> checked_div D Ann; b \<leftarrow> checked_add x q;
        get_y_loop 255 b c D D }
      else None)"

section \<open>Exchange\<close>

text \<open>What the pool does with coins: \<open>None\<close> when the transfer fails.\<close>

record 'w pool_env =
  pool_transfer_from :: "H160 \<Rightarrow> H160 \<Rightarrow> u256 \<Rightarrow> 'w \<Rightarrow> 'w option"
  pool_transfer_out :: "H160 \<Rightarrow> H160 \<Rightarrow> u256 \<Rightarrow> 'w \<Rightarrow> 'w option"

definition exchange_amounts ::
  "u256 \<Rightarrow> StableSwapTwoPool \<Rightarrow> nat \<Rightarrow> nat \<Rightarrow> u256 \<Rightarrow> (u256 \<times> u256) option" where
  "exchange_amounts timestamp p src dst amount_in = do {
     xp \<leftarrow> xp_mem p (ss_balances p);
     m \<leftarrow> checked_mul amount_in (ss_RATES p src); q \<leftarrow> checked_div m PRECISION; x \<leftarrow> checked_add (xp src) q;
     y \<leftarrow> get_y timestamp p src dst x xp;
     dy0 \<leftarrow> checked_sub (xp dst) y; dy1 \<leftarrow> checked_sub dy0 1;
     f \<leftarrow> checked_mul dy1 (ss_fee p); dy_fee \<leftarrow> checked_div f FEE_DENOMINATOR;
     net \<leftarrow> checked_sub dy1 dy_fee; np \<leftarrow> checked_mul net PRECISION; dy \<leftarrow> checked_div np (ss_RATES p dst);
     a \<leftarrow> checked_mul dy_fee (ss_admin_fee p); a1 \<leftarrow> checked_div a FEE_DENOMINATOR;
     a2 \<leftarrow> checked_mul a1 PRECISION; dy_admin_fee \<leftarrow> checked_div a2 (ss_RATES p dst);
     Some (dy, dy_admin_fee) }"

definition pool_exchange ::
  "'w pool_env \<Rightarrow> u256 \<Rightarrow> sol_msg \<Rightarrow> nat \<Rightarrow> nat \<Rightarrow> u256 \<Rightarrow> u256 \<Rightarrow> StableSwapTwoPool \<times> 'w \<Rightarrow>
   (u256 \<times> StableSwapTwoPool \<times> 'w) option" where
  "pool_exchange pe timestamp msg src dst amount_in amount_out = (\<lambda>(p, w).
     if ss_is_killed p \<or> \<not> ss_support_native p \<and> msg_value msg \<noteq> 0 then None
     else do {
       (dy, dy_admin_fee) \<leftarrow> exchange_amounts timestamp p src dst amount_in;
       if dy < amount_out then None
       else do {
         b_src \<leftarrow> checked_add (ss_balances p src) amount_in;
         b1 \<leftarrow> checked_sub (ss_balances p dst) dy; b_dst \<leftarrow> checked_sub b1 dy_admin_fee;
         w1 \<leftarrow> (if ss_coins p src = NATIVE_ADDRESS then (if amount_in = msg_value msg then Some w else None)
                else pool_transfer_from pe (ss_coins p src) (msg_sender msg) amount_in w);
         w2 \<leftarrow> pool_transfer_out pe (ss_coins p dst) (msg_sender msg) dy w1;
         Some (dy, p\<lparr>ss_balances := (ss_balances p)(src := b_src, dst := b_dst)\<rparr>, w2) } })"

definition pool_exchange_to_native ::
  "'w pool_env \<Rightarrow> u256 \<Rightarrow> sol_msg \<Rightarrow> u256 \<Rightarrow> u256 \<Rightarrow> StableSwapTwoPool \<times> 'w \<Rightarrow> (u256 \<times> StableSwapTwoPool \<times> 'w) option" where
  "pool_exchange_to_native pe timestamp msg amount_in native_min_amount_out = (\<lambda>(p, w).
     if \<not> ss_support_native p then None
     else if ss_coins p 0 = NATIVE_ADDRESS then pool_exchange pe timestamp msg 1 0 amount_in native_min_amount_out (p, w)
     else pool_exchange pe timestamp msg 0 1 amount_in native_min_amount_out (p, w))"

definition pool_exchange_from_native ::
  "'w pool_env \<Rightarrow> u256 \<Rightarrow> sol_msg \<Rightarrow> u256 \<Rightarrow> StableSwapTwoPool \<times> 'w \<Rightarrow> (u256 \<times> StableSwapTwoPool \<times> 'w) option" where
  "pool_exchange_from_native pe timestamp msg min_amount_out = (\<lambda>(p, w).
     if \<not> ss_support_native p then None
     else if ss_coins p 0 = NATIVE_ADDRESS then pool_exchange pe timestamp msg 0 1 (msg_value msg) min_amount_out (p, w)
     else pool_exchange pe timestamp msg 1 0 (msg_value msg) min_amount_out (p, w))"

section \<open>What an exchange does\<close>

text \<open>
  A successful exchange pays at least the minimum asked for, and pays it out of the recorded balance: the
  balance of the coin sold grows by the amount taken, and that of the coin bought falls by what is paid
  and the administrator's fee, without wrapping. Nothing else of the pool changes.
\<close>

lemma pool_exchange_effect:
  assumes "pool_exchange pe timestamp msg src dst amount_in amount_out (p, w) = Some (dy, p', w')" "src \<noteq> dst"
  shows "amount_out \<le> dy" "\<not> ss_is_killed p"
    "unat (ss_balances p' src) = unat (ss_balances p src) + unat amount_in"
    "\<exists>admin :: u256. unat (ss_balances p' dst) + unat dy + unat admin = unat (ss_balances p dst)"
    "\<exists>b. p' = p\<lparr>ss_balances := b\<rparr>"
proof -
  from assms(1) obtain b_src b1 b_dst admin where
    "amount_out \<le> dy" "\<not> ss_is_killed p" "checked_add (ss_balances p src) amount_in = Some b_src"
    "checked_sub (ss_balances p dst) dy = Some b1" "checked_sub b1 admin = Some b_dst"
    "p' = p\<lparr>ss_balances := (ss_balances p)(src := b_src, dst := b_dst)\<rparr>"
    by (auto simp: pool_exchange_def split: if_splits Option.bind_splits)
  note swap = this
  from swap(4,5) have "unat b_dst + unat dy + unat admin = unat (ss_balances p dst)"
    by (auto dest!: checked_sub_SomeD simp: word_le_nat_alt)
  with swap(6) show "\<exists>admin :: u256. unat (ss_balances p' dst) + unat dy + unat admin = unat (ss_balances p dst)"
    by auto
  from swap assms(2) show "amount_out \<le> dy" "\<not> ss_is_killed p"
    "unat (ss_balances p' src) = unat (ss_balances p src) + unat amount_in" "\<exists>b. p' = p\<lparr>ss_balances := b\<rparr>"
    by (auto dest!: checked_add_SomeD)
qed

text \<open>
  A pool behind the bridge. The bridge on the second layer demands at least 99 percent of the native
  amount, up to the rounding of the division by 100; a swap that succeeds gives it.
\<close>

definition swaps_in_pool ::
  "'w evm \<Rightarrow> 'v pool_env \<Rightarrow> u256 \<Rightarrow> ('w \<Rightarrow> StableSwapTwoPool \<times> 'v) \<Rightarrow> (StableSwapTwoPool \<times> 'v \<Rightarrow> 'w \<Rightarrow> 'w) \<Rightarrow> bool" where
  "swaps_in_pool ev pe timestamp get put \<longleftrightarrow> (\<forall>pool bridge amount min w. exchange_to_native ev pool bridge amount min w =
     map_option (\<lambda>(dy, s). (dy, put s w))
       (pool_exchange_to_native pe timestamp \<lparr>msg_sender = bridge, msg_value = 0, this_address = pool\<rparr> amount min (get w)))"

lemma swap_from_bazero_rate:
  assumes "swaps_in_pool ev pe timestamp get put" "swap_from_bazero ev msg amount s = Inr (Some amount_out, s')"
  shows "unat amount div 100 * 99 * 1000000 \<le> unat amount_out"
proof -
  from assms(2) obtain min w w1 where min: "calc_min_amount_out_swap amount False = Some min"
    and call: "exchange_to_native ev (l2_stableSwapAddress (storage s)) (this_address msg) amount min w = Some (amount_out, w1)"
    by (fastforce simp: swap_from_bazero_def or_panic_def call_returning_def run_simps split: option.splits)
  obtain p v where pv: "get w = (p, v)" by (cases "get w")
  from call assms(1) pv have "min \<le> amount_out"
    by (auto simp: swaps_in_pool_def pool_exchange_to_native_def split: if_splits dest: pool_exchange_effect(1))
  moreover from min have "unat min = unat amount div 100 * 99 * 1000000"
    by (auto simp: calc_min_amount_out_swap_def MIN_SWAP_RATE_def BAZERO_TO_NATIVE_RATIO_def unat_div
        split: option.splits dest!: checked_mul_SomeD)
  ultimately show ?thesis by (simp add: word_le_nat_alt)
qed

end
