(* ===== verification/Spec2Isabelle.thy ===== *)
theory Spec2Isabelle
  imports Most_Properties Most_Economy Most_Governance Most_L2_Properties Gas_Oracle Advisory Token
    Azero_Values Azero_Client Relayer_Contracts Relayer_Config Eth_Handler_Properties
    Azero_Handler_Properties Eth_Sync_Properties Azero_Sync_Properties Relayer_Guards Signer
    Eth_Most_L2 Transfer_Limit Azero_Relay Eth_Relay Azero_Run Relayer_Main Bridge_Properties Eth_Tokens Stable_Swap
begin

text \<open>
  Verification of the Membrane bridge between Aleph Zero and Ethereum.

  \<^bold>\<open>The system.\<close> A request to move tokens is made on one chain, as a \<open>CrosschainTransferRequest\<close>
  event of the bridge contract there. Guardians run the relayer, which follows both chains and votes
  for every request on the other chain; the bridge contract there executes a request when a quorum
  of its committee has voted for it. The ink! contracts are under \<open>azero/contracts\<close>, the Solidity
  contracts under \<open>eth/contracts\<close>, the relayer with its client crate and the remote signer under \<open>relayer\<close>.

  \<^bold>\<open>Foundations.\<close> \<open>Prelude\<close> has the machine types, Rust's checked and saturating arithmetic on
  words, byte encodings, and the state and error monad in which contract messages and relayer
  tasks are written: \<open>Inl (Err e)\<close> is a returned error, \<open>Inl Trap\<close> a panic, and both roll the
  state of a message back. The collection \<open>run_simps\<close> inverts runs; the locale
  \<open>state_relation\<close> proves frame properties and invariants along the structure of a program.
  \<open>Ink_Env\<close> is the environment of a contract: the record \<open>chain\<close> (tokens, native transfers, oracle
  calls, keccak) is a parameter, and its world \<open>'w\<close> is arbitrary. The contracts are built with
  overflow checks off, so that plain operators wrap; the relayer is built with them on, so that an
  overflow is a panic.

  \<^bold>\<open>The Aleph Zero bridge contract\<close>, \<open>most/lib.rs\<close>:
  \<^item> \<open>Most_State\<close>: storage, constructor, checks, getters, fees; \<open>Most_Messages\<close>: every message
    that changes state and their dispatch with ink!'s payment check;
  \<^item> \<open>Guardian_Votes\<close>: the locale \<open>guardian_votes\<close>, an abstract specification of voting on requests,
    with its invariant; \<open>Most_Voting\<close> interprets it for this contract, \<open>Most_L2_Properties\<close> for the other,
    and the two Solidity contracts get it through the locale \<open>sol_bridge\<close>;
  \<^item> \<open>Most_Frames\<close>, \<open>Most_Invariants\<close>: what each message leaves alone and which invariants of the storage it keeps;
  \<^item> \<open>Most_Properties\<close>: a request is executed at most once and only by a quorum of its committee,
    voting refines the specification, repeated votes are harmless, needed votes are recorded;
    the end of this theory follows a request from the relayer's preparation to its execution;
  \<^item> \<open>Most_Economy\<close>: rewards are covered by collected fees, nonces are consecutive, what sending a
    request does and when it is refused, the fee formula, pocket money, the round trip of AZERO;
  \<^item> \<open>Most_Governance\<close>: what a halted bridge refuses, what only the owner can do, what is frozen
    while the bridge runs, the two-step change of owner (\<open>Ownable2Step\<close>, a locale interpreted for each contract).

  \<^bold>\<open>The other contracts\<close>: \<open>Most_L2\<close> and \<open>Most_L2_Properties\<close> (\<open>most-l2/lib.rs\<close>), \<open>Gas_Oracle\<close>,
  \<open>Advisory\<close>, \<open>Token\<close> (the crate \<open>psp22\<close> is a parameter with its documented laws), and
  \<open>Shared_Hash\<close>, the request hash of \<open>shared\<close> with the injectivity of what is hashed.

  \<^bold>\<open>The Ethereum contracts\<close>, \<open>eth/contracts\<close>:
  \<^item> \<open>Eth_Most\<close>: \<open>AbstractMost.sol\<close> and \<open>Most.sol\<close>. The record \<open>evm\<close> is a parameter: OpenZeppelin's base
    contracts, tokens, WETH, ether transfers, keccak. Checked arithmetic that overflows is \<open>Trap\<close>;
  \<^item> \<open>Eth_Votes\<close>: the locale \<open>sol_bridge\<close> for the subclasses of \<open>AbstractMost\<close>, with \<open>guardian_votes\<close>
    as a sublocale; \<open>Eth_Most_Properties\<close> interprets it for \<open>Most.sol\<close> and shows that a request is executed
    at most once, by a quorum of its committee, that the quorum can be reached and that requests
    are numbered;
  \<^item> \<open>Eth_Most_L2\<close>: \<open>MostL2.sol\<close>, the second interpretation, with its flat fee and swaps;
    \<open>Transfer_Limit\<close>: \<open>TransferLimit.sol\<close> and what the bridge makes of its answer;
  \<^item> \<open>Eth_Tokens\<close>: \<open>WETH9.sol\<close>, whose debts are covered by its ether, so that a holder who accepts ether can
    always unwrap, and \<open>WrappedToken.sol\<close>, whose supply only its minter changes;
  \<^item> \<open>Stable_Swap\<close>: the exchange of \<open>StableSwapTwoPool.sol\<close>. Newton's method runs for at most 255 rounds, as
    in the source; a swap that the bridge makes pays at least 99 percent.

  \<^bold>\<open>The two chains together\<close>. The locale \<open>relayed_requests\<close> (theory \<open>Relayed_Requests\<close>) extends
  \<open>guardian_votes\<close> by honest voters: with fewer dishonest members than the threshold, what
  a quorum executes was requested. \<open>Bridge_System\<close> interprets it for both contracts and puts them
  side by side: calls of either contract by anybody in any order, where an honest guardian votes
  only with what the relayer's handlers make of an event of the other contract. \<open>Bridge_Properties\<close> shows
  that each chain executes only what was requested on the other, once, and of no token more than that. Its
  hypotheses are about the guardians (fewer dishonest members than the threshold in a committee that
  executes) and about keccak (no collision among the requests that were submitted).

  \<^bold>\<open>The client crate\<close>, \<open>contracts_azero_client\<close>: \<open>Azero_Values\<close> (conversion of returned values),
  \<open>Azero_Client\<close> (contract instances, events, transactions with their nonces). The node, \<open>subxt\<close> and
  the transcoder are the parameter records \<open>azero_node\<close> and \<open>transcoder\<close>; the network is threaded
  through every request, because it moves on while the relayer waits.

  \<^bold>\<open>The relayer\<close>, \<open>relayer/src\<close>:
  \<^item> \<open>Relayer_Config\<close>: configuration, circuit breaker events and the back-off of reboots;
    \<open>Relayer_Contracts\<close>: the wrappers of the Aleph Zero contracts and the decoding of request events;
  \<^item> \<open>Eth_Handler\<close>, \<open>Eth_Handler_Properties\<close>: the handler that votes on Aleph Zero. Its loop is a
    function of fuel with result \<open>None\<close> while it runs; the locale \<open>vote_target\<close> says what it needs
    of the chain, and its interpretation on a chain that runs the bridge contract and finalizes its
    blocks within \<open>lag + 1\<close> rounds shows that \<open>lag + 3\<close> rounds are enough;
  \<^item> \<open>Azero_Handler\<close>, \<open>Azero_Handler_Properties\<close>: the handler that votes on Ethereum, for both
    values of the feature \<open>l2\<close>; its loop is shown to be the loop of the other handler. \<open>Azero_Relay\<close> runs it
    against the Ethereum contract: \<open>vote_target\<close> is interpreted on a node that runs
    \<open>Most.sol\<close> and finalizes within \<open>lag + 1\<close> rounds, so that \<open>lag + 3\<close> rounds are enough here
    too, and a request of Aleph Zero is followed to its pay-out;
  \<^item> \<open>Relayer_Sync\<close>, \<open>Eth_Sync\<close>, \<open>Azero_Sync\<close> with their properties: listeners, loops over batches of events,
    Redis manager and the channels between them, as two machines whose actions are the points
    where a task waits; the order of the actions is arbitrary, and so are the failures. The locale \<open>machine_invariant\<close>
    is interpreted for both. The cursor never passes an unhandled event of Ethereum; on
    Aleph Zero it can pass an event whose handler failed, and no other. \<open>Eth_Relay\<close> joins the machine
    of Ethereum with the handler itself: no request is left behind. \<open>Azero_Run\<close> does so for Aleph Zero: every
    request below the cursor is settled, or its handler has returned an error;
  \<^item> \<open>Relayer_Guards\<close>: the advisory, halted and paused listeners as tasks, and the start of the tasks;
    \<open>Relayer_Main\<close>: the connections with their signers and nonces, and the loop of \<open>main\<close> over
    the tasks that end;
  \<^item> \<open>Signer\<close>: the remote signer, its client, its tester and the signers of the two connections.

  \<open>Demo_Chain\<close>, \<open>Most_Demo\<close> and the definitions named \<open>demo\<close>, \<open>relay\<close>, \<open>sync\<close> and \<open>alarm\<close> are the
  concrete inputs on which the witnesses evaluate the definitions.

  \<^bold>\<open>What is not modelled.\<close> Below the interface \<open>network_api\<close>: opening sockets, key derivation, and
  the gas escalator, nonce manager and signer middleware of the crate \<open>ethers\<close> that the sources
  configure; logging and command line parsing; the text of error messages. On Ethereum the bridge reaches
  tokens, WETH and the pool through \<open>evm\<close>; OpenZeppelin's contracts are parameters, the liquidity and administration of
  the pool and its LP token, the test tokens \<open>USDT.sol\<close> and \<open>Token.sol\<close> and \<open>MockOracle.sol\<close> are left out, and so is a
  contract that calls the bridge back during a call of the bridge. The end-to-end and
  drink tests and the deployment scripts are tests and tools. Requests that the relayer
  makes concurrently (\<open>join_all\<close>) are made in order in the model. A task that has returned is
  \<open>Stopped\<close> in the two machines, whether it returned an event or an error.
\<close>

section \<open>From an event to its execution\<close>

text \<open>Guardians vote one after the other, with the data that their relayers prepared.\<close>

fun guardians_vote ::
  "'w chain \<Rightarrow> vote_data \<Rightarrow> call_env list \<Rightarrow> 'w most_ctx \<Rightarrow> MostError fault + unit \<times> 'w most_ctx" where
  "guardians_vote ch v [] s = Inr ((), s)"
| "guardians_vote ch v (env # envs) s =
     (case receive_request ch env (vd_request_hash v) (vd_committee_id v) (vd_dest_token_address v) (vd_amount v)
        (vd_dest_receiver_address v) (vd_request_nonce v) s of
        Inl e \<Rightarrow> Inl e
      | Inr (_, s1) \<Rightarrow> guardians_vote ch v envs s1)"

text \<open>Votes for an executed request only add events.\<close>

lemma guardians_vote_executed:
  "guardians_vote ch v envs s = Inr ((), s') \<Longrightarrow> vd_request_hash v \<in> m_processed_requests (storage s) \<Longrightarrow>
     vd_request_hash v \<in> m_processed_requests (storage s') \<and> set (events s) \<subseteq> set (events s')"
proof (induction envs arbitrary: s)
  case (Cons env envs)
  from Cons.prems(1) obtain u s1 where
    run: "receive_request ch env (vd_request_hash v) (vd_committee_id v) (vd_dest_token_address v) (vd_amount v)
      (vd_dest_receiver_address v) (vd_request_nonce v) s = Inr (u, s1)"
    and rest: "guardians_vote ch v envs s1 = Inr ((), s')" by (auto split: sum.splits)
  from run Cons.prems(2) have "s1 = s\<lparr>events := events s @ [SignedProcessedRequest (vd_request_hash v) (caller env)]\<rparr>"
    by (cases rule: receive_request_cases) auto
  with Cons.IH [OF rest] Cons.prems(2) show ?case by simp
qed simp

lemma guardians_vote_quorum:
  assumes "guardians_vote ch v envs s = Inr ((), s')" "vd_request_hash v \<notin> m_processed_requests (storage s)"
    "distinct (map caller envs)" "\<forall>env \<in> set envs. (vd_request_hash v, caller env) \<notin> m_signatures (storage s)"
    "m_signature_thresholds (storage s) (vd_committee_id v) = Some thr"
    "unat thr \<le> counted_of (storage s) (vd_request_hash v) + length envs" "envs \<noteq> []"
  shows "vd_request_hash v \<in> m_processed_requests (storage s') \<and>
    RequestProcessed (vd_request_hash v) (vd_dest_token_address v) \<in> set (events s')"
  using assms
proof (induction envs arbitrary: s)
  case (Cons env envs)
  let ?h = "vd_request_hash v"
  from Cons.prems(1) obtain u s1 where
    run: "receive_request ch env ?h (vd_committee_id v) (vd_dest_token_address v) (vd_amount v)
      (vd_dest_receiver_address v) (vd_request_nonce v) s = Inr (u, s1)"
    and rest: "guardians_vote ch v envs s1 = Inr ((), s')" by (auto split: sum.splits)
  from run show ?case
  proof (cases rule: receive_request_cases)
    case (recorded k thr')
    have k: "unat k = Suc (counted_of (storage s) ?h)"
      using conjunct1 [OF checked_add_SomeD [OF recorded(4)]] by (simp add: counted_of_def)
    with recorded(5,6) Cons.prems(5,6) have "envs \<noteq> []" by (auto simp: word_le_nat_alt)
    moreover have "\<forall>e \<in> set envs. (?h, caller e) \<notin> m_signatures (storage s1)"
      using Cons.prems(3,4) by (auto simp: recorded(7) image_iff)
    moreover have "counted_of (storage s1) ?h = unat k"
      by (simp add: recorded(7) counted_of_def pending_or_default_def)
    ultimately show ?thesis
      using k Cons.prems(2,3,5,6) by (intro Cons.IH [OF rest]) (simp_all add: recorded(7))
  next
    case (executed k thr' s2)
    then have "?h \<in> m_processed_requests (storage s1)" "RequestProcessed ?h (vd_dest_token_address v) \<in> set (events s1)"
      by simp_all
    with guardians_vote_executed [OF rest] show ?thesis by blast
  qed (use Cons.prems in auto)
qed simp

text \<open>
  C7 (a request that enough guardians relay is executed). Take a request event of Ethereum and the
  vote that the relayer prepares for it. When guardians, at least as many as are missing to the
  quorum of the request's committee, each of whom has not voted yet, have their votes accepted by the bridge contract, the
  contract reports the request as processed, and unless it was processed before, the votes have
  executed it with the token of the event.
\<close>

theorem relayed_request_executed:
  assumes "eth_prepare (chain_keccak256 ch) acc nd account cfg (CrosschainTransferRequestFilter c t a r n) w =
      Inr (Some v, w')"
    and "guardians_vote ch v envs s = Inr ((), s')"
    and "distinct (map caller envs)"
    and "\<forall>env \<in> set envs. (vd_request_hash v, caller env) \<notin> m_signatures (storage s)"
    and "m_signature_thresholds (storage s) (vd_committee_id v) = Some thr"
    and "unat thr \<le> counted_of (storage s) (vd_request_hash v) + length envs" "envs \<noteq> []"
  shows "request_status (vd_request_hash v) (storage s') = Processed \<and>
    (vd_request_hash v \<in> m_processed_requests (storage s) \<or> RequestProcessed (vd_request_hash v) t \<in> set (events s'))"
proof -
  from assms(1) have "vd_dest_token_address v = t"
    by (cases rule: eth_prepare_Inr) (auto split: if_splits)
  with guardians_vote_quorum [OF assms(2) _ assms(3-7)] guardians_vote_executed [OF assms(2)]
  show ?thesis by (auto simp: request_status_def)
qed

theorem relayed_request_executed_witness:
  "guardians_vote demo_chain relay_vote [demo_env 1 0, demo_env 2 0] demo_open = Inr ((), demo_done) \<and>
   request_status 77 (storage demo_done) = Processed"
proof -
  have votes: "guardians_vote demo_chain relay_vote [demo_env 1 0, demo_env 2 0] demo_open = Inr ((), demo_done)"
    by (simp add: relay_vote_def demo_step_voted demo_step_done)
  have k: "chain_keccak256 demo_chain = demo_keccak" by (simp add: demo_chain_def)
  note prep = relay_prepare [of "\<lparr>net_world = (False, 0), net_nonce = 4\<rparr>", folded k, unfolded relay_event_def]
  have "request_status (vd_request_hash relay_vote) (storage demo_done) = Processed"
    by (rule conjunct1 [OF relayed_request_executed [where thr = 2, OF prep votes]])
      (simp_all add: relay_vote_def demo_env_def demo_open_def demo_start_def demo_most_def counted_of_def
        pending_or_default_def)
  with votes show ?thesis by (simp add: relay_vote_def)
qed

end
